(* ===== verification/Prelude.thy ===== *)
theory Prelude
  imports Main "HOL-Library.Word" "HOL-Library.Sublist"
begin

text \<open>
  Vocabulary shared by every component of the development.

  \<^item> Machine integers are words of their width (\<open>u8\<close> \<dots> \<open>u64\<close>); Rust's \<open>usize\<close>
    values (lengths and indices that never leave the host) are \<^typ>\<open>nat\<close>.
  \<^item> A Rust \<open>Result<T, E>\<close> is the sum \<open>'e + 'a\<close> with the error on the left; \<open>bind_res\<close> is
    the \<open>?\<close> operator, \<open>ensure\<close> an early \<open>return Err(..)\<close>, \<open>ok_or\<close> and \<open>map_err\<close> the
    methods of the same name.  The collection \<open>ok_simps\<close> turns a hypothesis
    \<open>operation args = Inr result\<close> into the conjunction of the checks that let it succeed.
  \<^item> \<open>panic\<close> is the value of an \<open>expect\<close>, an \<open>assert!\<close> or an index that fails.
  \<^item> Little-endian integer encodings (\<open>to_le_bytes\<close> / \<open>from_le_bytes\<close>) and the generic list
    facts the components share.
\<close>

section \<open>Machine types\<close>

type_synonym u8 = "8 word"
type_synonym u16 = "16 word"
type_synonym u32 = "32 word"
type_synonym u64 = "64 word"
type_synonym bytes = "u8 list"

section \<open>Fallible results\<close>

named_theorems ok_simps \<open>inversion of successful fallible computations\<close>

datatype panic = Panic string

definition bind_res :: "'e + 'a \<Rightarrow> ('a \<Rightarrow> 'e + 'b) \<Rightarrow> 'e + 'b" where
  "bind_res r f = (case r of Inl e \<Rightarrow> Inl e | Inr x \<Rightarrow> f x)"

definition ensure :: "bool \<Rightarrow> 'e \<Rightarrow> 'e + unit" where
  "ensure c e = (if c then Inr () else Inl e)"

definition ok_or :: "'a option \<Rightarrow> 'e \<Rightarrow> 'e + 'a" where
  "ok_or v e = (case v of None \<Rightarrow> Inl e | Some x \<Rightarrow> Inr x)"

definition map_err :: "('e \<Rightarrow> 'f) \<Rightarrow> 'e + 'a \<Rightarrow> 'f + 'a" where
  "map_err f r = (case r of Inl e \<Rightarrow> Inl (f e) | Inr x \<Rightarrow> Inr x)"

definition is_ok :: "'e + 'a \<Rightarrow> bool" where
  "is_ok r = (case r of Inl _ \<Rightarrow> False | Inr _ \<Rightarrow> True)"

text \<open>An iterator's \<open>try_for_each\<close> and a \<open>for\<close> loop whose body may return an error.\<close>

primrec check_all :: "('a \<Rightarrow> 'e + unit) \<Rightarrow> 'a list \<Rightarrow> 'e + unit" where
  "check_all f [] = Inr ()"
| "check_all f (x # xs) = bind_res (f x) (\<lambda>_. check_all f xs)"

text \<open>Collecting an iterator of results into a result of a vector.\<close>

primrec collect_res :: "('a \<Rightarrow> 'e + 'b) \<Rightarrow> 'a list \<Rightarrow> 'e + 'b list" where
  "collect_res f [] = Inr []"
| "collect_res f (x # xs) =
     bind_res (f x) (\<lambda>y. bind_res (collect_res f xs) (\<lambda>ys. Inr (y # ys)))"

lemma bind_res_simps [simp]:
  "bind_res (Inl e) f = Inl e"
  "bind_res (Inr x) f = f x"
  by (simp_all add: bind_res_def)

lemma bind_res_ok [ok_simps]: "bind_res r f = Inr y \<longleftrightarrow> (\<exists>x. r = Inr x \<and> f x = Inr y)"
  by (cases r) auto

lemma bind_res_cong [fundef_cong]:
  "\<lbrakk>r = r'; \<And>x. r' = Inr x \<Longrightarrow> f x = f' x\<rbrakk> \<Longrightarrow> bind_res r f = bind_res r' f'"
  by (cases r') auto

lemma ensure_ok [ok_simps]: "ensure c e = Inr u \<longleftrightarrow> c"
  by (simp add: ensure_def)

lemma ensure_simps [simp]: "ensure True e = Inr ()" "ensure False e = Inl e"
  by (simp_all add: ensure_def)

lemma ensure_err: "ensure c e = Inl e' \<longleftrightarrow> \<not> c \<and> e' = e"
  by (auto simp: ensure_def)

lemma ok_or_simps [simp]: "ok_or None e = Inl e" "ok_or (Some x) e = Inr x"
  by (simp_all add: ok_or_def)

lemma ok_or_ok [ok_simps]: "ok_or v e = Inr x \<longleftrightarrow> v = Some x"
  by (cases v) auto

lemma map_err_simps [simp]: "map_err f (Inl e) = Inl (f e)" "map_err f (Inr x) = Inr x"
  by (simp_all add: map_err_def)

lemma map_err_ok [ok_simps]: "map_err f r = Inr x \<longleftrightarrow> r = Inr x"
  by (cases r) auto

lemma is_ok_simps [simp]: "is_ok (Inl e) = False" "is_ok (Inr x) = True"
  by (simp_all add: is_ok_def)

lemma is_ok_iff: "is_ok r \<longleftrightarrow> (\<exists>x. r = Inr x)"
  by (cases r) auto

lemma if_Inl_ok [ok_simps]: "(if c then Inl e else r) = Inr y \<longleftrightarrow> \<not> c \<and> r = Inr y"
  by auto

lemma if_Inr_ok [ok_simps]: "(if c then r else Inl e) = Inr y \<longleftrightarrow> c \<and> r = Inr y"
  by auto

lemma ex_unit [ok_simps]: "(\<exists>x :: unit. Q x) \<longleftrightarrow> Q ()"
  by (metis old.unit.exhaust)

lemma ex_ok_True [ok_simps]: "(\<exists>x. r = Inr x \<and> x) \<longleftrightarrow> r = Inr True"
  by auto

lemma check_all_ok [ok_simps]: "check_all f xs = Inr u \<longleftrightarrow> (\<forall>x \<in> set xs. f x = Inr ())"
  by (induction xs) (auto simp: bind_res_ok)

lemma collect_res_ok:
  "collect_res f xs = Inr ys \<longleftrightarrow> list_all2 (\<lambda>x y. f x = Inr y) xs ys"
proof (induction xs arbitrary: ys)
  case Nil
  then show ?case by auto
next
  case (Cons x xs)
  then show ?case by (cases ys) (auto simp: bind_res_ok)
qed

lemma collect_res_length: "collect_res f xs = Inr ys \<Longrightarrow> length ys = length xs"
  by (simp add: collect_res_ok list_all2_lengthD)

lemma collect_res_nth:
  "collect_res f xs = Inr ys \<Longrightarrow> i < length xs \<Longrightarrow> f (xs ! i) = Inr (ys ! i)"
  unfolding collect_res_ok by (rule list_all2_nthD)

section \<open>Checked and saturating arithmetic\<close>

definition checked_add :: "'w::len word \<Rightarrow> 'w word \<Rightarrow> 'w word option" where
  "checked_add a b = (if unat a + unat b < 2 ^ LENGTH('w) then Some (a + b) else None)"

lemma checked_add_unat:
  assumes "checked_add a b = Some c"
  shows "unat c = unat a + unat b"
  using assms unfolding checked_add_def
  by (auto split: if_splits simp: unat_word_ariths)

lemma checked_add_None:
  "checked_add (a :: 'w::len word) b = None \<longleftrightarrow> 2 ^ LENGTH('w) \<le> unat a + unat b"
  by (auto simp: checked_add_def)

lemma checked_add_Some: "checked_add a b = Some c \<longleftrightarrow> unat c = unat a + unat b"
proof
  assume c: "unat c = unat a + unat b"
  then have "unat a + unat b < 2 ^ LENGTH('a)" using unsigned_less [of c] by metis
  moreover from this c have "a + b = c" by (simp add: word_unat_eq_iff unat_word_ariths)
  ultimately show "checked_add a b = Some c" by (simp add: checked_add_def)
qed (rule checked_add_unat)

lemma checked_add_one_less: "checked_add a 1 = Some c \<Longrightarrow> a < c"
  by (drule checked_add_unat) (simp add: word_less_nat_alt)

section \<open>Little-endian integers\<close>

primrec le_bytes :: "nat \<Rightarrow> nat \<Rightarrow> bytes" where
  "le_bytes 0 x = []"
| "le_bytes (Suc n) x = word_of_nat (x mod 256) # le_bytes n (x div 256)"

primrec le_nat :: "bytes \<Rightarrow> nat" where
  "le_nat [] = 0"
| "le_nat (b # bs) = unat b + 256 * le_nat bs"

lemma length_le_bytes [simp]: "length (le_bytes n x) = n"
  by (induction n arbitrary: x) auto

lemma le_bytes_zero: "le_bytes n 0 = replicate n 0"
  by (induction n) simp_all

lemma unat_byte_of_mod [simp]: "unat (word_of_nat (x mod 256) :: u8) = x mod 256"
  by (simp add: unat_of_nat)

lemma le_nat_le_bytes: "le_nat (le_bytes n x) = x mod 256 ^ n"
proof (induction n arbitrary: x)
  case 0
  then show ?case by simp
next
  case (Suc n)
  then show ?case by (simp add: mod_mult2_eq)
qed

lemma le_nat_bound: "le_nat bs < 256 ^ length bs"
proof (induction bs)
  case Nil
  then show ?case by simp
next
  case (Cons b bs)
  have "unat b < 256" using unsigned_less [of b] by simp
  with Cons show ?case by simp
qed

lemma le_bytes_le_nat: "le_bytes (length bs) (le_nat bs) = bs"
proof (induction bs)
  case Nil
  then show ?case by simp
next
  case (Cons b bs)
  have b: "unat b < 256" using unsigned_less [of b] by simp
  then have "(unat b + 256 * le_nat bs) mod 256 = unat b"
    and "(unat b + 256 * le_nat bs) div 256 = le_nat bs" by simp_all
  with Cons show ?case by simp
qed

definition u32_to_le_bytes :: "u32 \<Rightarrow> bytes" where
  "u32_to_le_bytes w = le_bytes 4 (unat w)"

definition u32_from_le_bytes :: "bytes \<Rightarrow> u32" where
  "u32_from_le_bytes bs = word_of_nat (le_nat bs)"

lemma length_u32_to_le_bytes [simp]: "length (u32_to_le_bytes w) = 4"
  by (simp add: u32_to_le_bytes_def)

lemma u32_le_roundtrip [simp]: "u32_from_le_bytes (u32_to_le_bytes w) = w"
proof -
  have "unat w < 256 ^ 4" using unsigned_less [of w] by simp
  then show ?thesis by (simp add: u32_to_le_bytes_def u32_from_le_bytes_def le_nat_le_bytes)
qed

lemma u32_from_to_le_bytes: "length bs = 4 \<Longrightarrow> u32_to_le_bytes (u32_from_le_bytes bs) = bs"
  using le_nat_bound [of bs] le_bytes_le_nat [of bs]
  by (simp add: u32_to_le_bytes_def u32_from_le_bytes_def unat_of_nat)

section \<open>Lists\<close>

text \<open>\<open>iter().position(p)\<close>.\<close>

primrec position :: "('a \<Rightarrow> bool) \<Rightarrow> 'a list \<Rightarrow> nat option" where
  "position p [] = None"
| "position p (x # xs) = (if p x then Some 0 else map_option Suc (position p xs))"

text \<open>\<open>slice.get(i)\<close>.\<close>

definition get :: "'a list \<Rightarrow> nat \<Rightarrow> 'a option" where
  "get xs i = (if i < length xs then Some (xs ! i) else None)"

lemma position_Some:
  "position p xs = Some i \<longleftrightarrow> i < length xs \<and> p (xs ! i) \<and> (\<forall>j < i. \<not> p (xs ! j))"
proof (induction xs arbitrary: i)
  case Nil
  then show ?case by simp
next
  case (Cons x xs)
  show ?case
  proof (cases i)
    case 0
    then show ?thesis by auto
  next
    case (Suc k)
    then show ?thesis using Cons.IH [of k] by (auto simp: less_Suc_eq_0_disj)
  qed
qed

lemma position_None: "position p xs = None \<longleftrightarrow> (\<forall>x \<in> set xs. \<not> p x)"
  by (induction xs) auto

lemma position_distinct:
  assumes "distinct xs" "i < length xs"
  shows "position (\<lambda>y. y = xs ! i) xs = Some i"
  using assms by (auto simp: position_Some nth_eq_iff_index_eq)

lemma get_Some [ok_simps]: "get xs i = Some x \<longleftrightarrow> i < length xs \<and> xs ! i = x"
  by (auto simp: get_def)

lemma strict_sorted_unique:
  fixes xs :: "'a::linorder list"
  assumes "sorted_wrt (<) xs" "sorted_wrt (<) ys" "set xs = set ys"
  shows "xs = ys"
  using assms by (simp add: strict_sorted_iff sorted_distinct_set_unique)

lemma distinct_dedup_sorted: "sorted (xs :: 'a::linorder list) \<Longrightarrow> distinct (remdups_adj xs)"
  by (induction xs rule: remdups_adj.induct) (auto split: if_splits)

lemma strict_sorted_sort_dedup:
  "sorted_wrt (<) (remdups_adj (sort (xs :: 'a::linorder list)))"
  by (simp add: strict_sorted_iff distinct_dedup_sorted)

section \<open>Ordered maps\<close>

text \<open>A \<open>BTreeMap\<close> is its list of entries in ascending key order; \<^const>\<open>map_of\<close> is \<open>get\<close>.\<close>

primrec bmap_insert :: "'k::linorder \<Rightarrow> 'v \<Rightarrow> ('k \<times> 'v) list \<Rightarrow> ('k \<times> 'v) list" where
  "bmap_insert k v [] = [(k, v)]"
| "bmap_insert k v (e # es) =
     (if k < fst e then (k, v) # e # es
      else if k = fst e then (k, v) # es
      else e # bmap_insert k v es)"

definition bmap_ok :: "('k::linorder \<times> 'v) list \<Rightarrow> bool" where
  "bmap_ok m \<longleftrightarrow> sorted_wrt (<) (map fst m)"

text \<open>What the users of an ordered map rely on.\<close>

locale ordered_map =
  fixes lookup :: "'m \<Rightarrow> 'k::linorder \<Rightarrow> 'v option"
    and insert_at :: "'k \<Rightarrow> 'v \<Rightarrow> 'm \<Rightarrow> 'm"
    and entries :: "'m \<Rightarrow> ('k \<times> 'v) list"
    and invar :: "'m \<Rightarrow> bool"
  assumes lookup_insert: "invar m \<Longrightarrow> lookup (insert_at k v m) j = (if j = k then Some v else lookup m j)"
    and invar_insert: "invar m \<Longrightarrow> invar (insert_at k v m)"
    and entries_lookup: "invar m \<Longrightarrow> (k, v) \<in> set (entries m) \<longleftrightarrow> lookup m k = Some v"
    and entries_distinct: "invar m \<Longrightarrow> distinct (map fst (entries m))"
begin

lemma entries_insert:
  assumes "invar m"
  shows "e \<in> set (entries (insert_at k v m)) \<longleftrightarrow> e = (k, v) \<or> (fst e \<noteq> k \<and> e \<in> set (entries m))"
  using assms by (cases e) (auto simp: entries_lookup invar_insert lookup_insert)

lemma keys_bounded:
  assumes "invar m" "fst ` set (entries m) \<subseteq> K" "finite K"
  shows "length (entries m) \<le> card K"
proof -
  have "length (entries m) = card (fst ` set (entries m))"
    using entries_distinct [OF assms(1)] by (metis distinct_card length_map list.set_map)
  also have "\<dots> \<le> card K" using assms by (intro card_mono)
  finally show ?thesis .
qed

end

lemma bmap_insert_keys: "fst ` set (bmap_insert k v m) = insert k (fst ` set m)"
  by (induction m) auto

lemma bmap_insert_sorted: "bmap_ok m \<Longrightarrow> bmap_ok (bmap_insert k v m)"
proof (induction m)
  case (Cons e m)
  then have "bmap_ok m" "\<forall>x \<in> fst ` set m. fst e < x" by (auto simp: bmap_ok_def)
  with Cons.IH show ?case
    using Cons.prems bmap_insert_keys [of k v m] by (auto simp: bmap_ok_def)
qed (simp add: bmap_ok_def)

lemma bmap_lookup_insert:
  "bmap_ok m \<Longrightarrow> map_of (bmap_insert k v m) j = (if j = k then Some v else map_of m j)"
  by (induction m) (auto simp: bmap_ok_def)

interpretation bmap: ordered_map map_of bmap_insert "\<lambda>m. m" bmap_ok
proof
  fix m :: "('k::linorder \<times> 'v) list" and k j :: 'k and v :: 'v
  assume m: "bmap_ok m"
  show "map_of (bmap_insert k v m) j = (if j = k then Some v else map_of m j)"
    using m by (rule bmap_lookup_insert)
  show "bmap_ok (bmap_insert k v m)" using m by (rule bmap_insert_sorted)
  show d: "distinct (map fst m)" using m by (simp add: bmap_ok_def strict_sorted_iff)
  show "(k, v) \<in> set m \<longleftrightarrow> map_of m k = Some v" using d by (simp add: map_of_eq_Some_iff)
qed

end
