(* ===== verification/Crypto.thy ===== *)
theory Crypto
  imports Prelude
begin

text \<open>
  \<open>arena0-crypto\<close> and the third-party code below it.

  The libraries the sources only call are the fields of the parameter record \<open>prims\<close>, the first
  argument of every definition that depends on one: the BLAKE3 hash, the Borsh byte encoding,
  the blst pairing library (BLS12-381, MinSig), ed25519-dalek and serde\_json's validity check.
  A field \<open>*_error\<close> is the parse step of its library: \<open>None\<close> when the bytes are well formed,
  otherwise the text of the error.

  The shape of an encoded value, which is decided by the derives of the source types, is kept
  as a \<open>borsh_value\<close>.  A bounded field (\<open>bounded::write_bytes\<close>, \<open>write_string\<close>,
  \<open>write_vec\<close>) carries its bound, and \<open>borsh_fits\<close> says whether serialization succeeds:
  a value over a bound is an I/O error of \<open>borsh::to_vec\<close>.
\<close>

section \<open>Encoded values\<close>

datatype borsh_value =
    BU8 u8
  | BU16 u16
  | BU32 u32
  | BU64 u64
  | BDomain string
  | BArr32 "256 word"
  | BArr48 "384 word"
  | BArr64 "512 word"
  | BArr96 "768 word"
  | BBytes nat bytes
  | BString nat string
  | BVec nat "borsh_value list"
  | BStruct "borsh_value list"
  | BEnum u8 "borsh_value list"
  | BNone
  | BSome borsh_value

fun borsh_fits :: "borsh_value \<Rightarrow> bool" where
  "borsh_fits (BBytes bound bs) \<longleftrightarrow> length bs \<le> bound"
| "borsh_fits (BString bound s) \<longleftrightarrow> length s \<le> bound"
| "borsh_fits (BVec bound vs) \<longleftrightarrow> length vs \<le> bound \<and> (\<forall>v \<in> set vs. borsh_fits v)"
| "borsh_fits (BStruct vs) \<longleftrightarrow> (\<forall>v \<in> set vs. borsh_fits v)"
| "borsh_fits (BEnum tag vs) \<longleftrightarrow> (\<forall>v \<in> set vs. borsh_fits v)"
| "borsh_fits (BSome v) \<longleftrightarrow> borsh_fits v"
| "borsh_fits _ \<longleftrightarrow> True"

text \<open>The bound of a stock Borsh sequence: its length prefix is a \<open>u32\<close>.\<close>

definition U32_MAX :: nat where
  "U32_MAX = 4294967295"

section \<open>Keys and signatures\<close>

datatype bls_public_key = BlsPublicKey "768 word"

datatype bls_signature = BlsSignature "384 word"

datatype ed25519_signature = Ed25519Signature "512 word"

datatype sign_scheme = Ed25519 | Bls

datatype hash_algorithm = Blake3 | Sha256 | Keccak256

datatype crypto_error =
    UnsupportedAlgorithm string
  | InvalidKeyLength nat nat
  | SigningFailed string
  | VerificationFailed string
  | InvalidSignature
  | ZeroExecutionSalt

section \<open>Third-party primitives\<close>

record prims =
  blake3 :: "bytes \<Rightarrow> 256 word"
  sha256 :: "bytes \<Rightarrow> 256 word"
  keccak256 :: "bytes \<Rightarrow> 256 word"
  borsh :: "borsh_value \<Rightarrow> bytes"
  blst_pk_error :: "bls_public_key \<Rightarrow> string option"
  blst_sig_error :: "bls_signature \<Rightarrow> string option"
  blst_verify :: "string \<Rightarrow> bytes \<Rightarrow> bls_public_key \<Rightarrow> bls_signature \<Rightarrow> bool"
  blst_aggregate :: "bls_signature list \<Rightarrow> string + bls_signature"
  blst_fast_aggregate_verify :: "string \<Rightarrow> bytes \<Rightarrow> bls_public_key list \<Rightarrow> bls_signature \<Rightarrow> bool"
  ed25519_key_error :: "256 word \<Rightarrow> string option"
  ed25519_verify :: "256 word \<Rightarrow> bytes \<Rightarrow> ed25519_signature \<Rightarrow> bool"
  json_error :: "bytes \<Rightarrow> string option"

text \<open>\<open>borsh::to_vec\<close> and \<open>borsh::object_length\<close>.\<close>

definition to_vec :: "prims \<Rightarrow> borsh_value \<Rightarrow> string + bytes" where
  "to_vec P v = (if borsh_fits v then Inr (borsh P v) else Inl ''length exceeds bound'')"

text \<open>\<open>borsh::object_length\<close> counts with a checked \<open>usize\<close>.\<close>

definition object_length :: "prims \<Rightarrow> borsh_value \<Rightarrow> string + nat" where
  "object_length P v =
     (if \<not> borsh_fits v then Inl ''length exceeds bound''
      else if length (borsh P v) < 2 ^ 64 then Inr (length (borsh P v))
      else Inl ''calculated length overflows usize'')"

lemma to_vec_ok [ok_simps]: "to_vec P v = Inr bs \<longleftrightarrow> borsh_fits v \<and> bs = borsh P v"
  by (auto simp: to_vec_def)

lemma object_length_ok [ok_simps]:
  "object_length P v = Inr n \<longleftrightarrow> borsh_fits v \<and> n = length (borsh P v) \<and> n < 2 ^ 64"
  by (auto simp: object_length_def)

text \<open>\<open>hash\<close> of \<open>arena0-crypto/src/lib.rs\<close>.\<close>

fun hash_with :: "prims \<Rightarrow> hash_algorithm \<Rightarrow> bytes \<Rightarrow> 256 word" where
  "hash_with P Blake3 bs = blake3 P bs"
| "hash_with P Sha256 bs = sha256 P bs"
| "hash_with P Keccak256 bs = keccak256 P bs"

section \<open>BLS operations\<close>

definition DST_SIG :: string where
  "DST_SIG = ''BLS_SIG_BLS12381G1_XMD:SHA-256_SSWU_RO_POP_''"

definition DST_BIND :: string where
  "DST_BIND = ''BLS_BIND_BLS12381G1_XMD:SHA-256_SSWU_RO_NUL_''"

definition blst_err :: "string \<Rightarrow> crypto_error" where
  "blst_err e = VerificationFailed (''blst: '' @ e)"

definition parse_pk :: "prims \<Rightarrow> bls_public_key \<Rightarrow> crypto_error + bls_public_key" where
  "parse_pk P pk = (case blst_pk_error P pk of None \<Rightarrow> Inr pk | Some e \<Rightarrow> Inl (blst_err e))"

definition parse_sig :: "prims \<Rightarrow> bls_signature \<Rightarrow> crypto_error + bls_signature" where
  "parse_sig P s = (case blst_sig_error P s of None \<Rightarrow> Inr s | Some e \<Rightarrow> Inl (blst_err e))"

definition bls_verify :: "prims \<Rightarrow> bls_public_key \<Rightarrow> bytes \<Rightarrow> bls_signature \<Rightarrow> crypto_error + bool" where
  "bls_verify P key msg s =
     bind_res (parse_pk P key) (\<lambda>pk.
     bind_res (parse_sig P s) (\<lambda>s.
     Inr (blst_verify P DST_SIG msg pk s)))"

definition verify_binding :: "prims \<Rightarrow> bls_public_key \<Rightarrow> bytes \<Rightarrow> bls_signature \<Rightarrow> crypto_error + bool" where
  "verify_binding P key msg s =
     bind_res (parse_pk P key) (\<lambda>pk.
     bind_res (parse_sig P s) (\<lambda>s.
     Inr (blst_verify P DST_BIND msg pk s)))"

definition aggregate :: "prims \<Rightarrow> bls_signature list \<Rightarrow> crypto_error + bls_signature" where
  "aggregate P sigs =
     bind_res (collect_res (parse_sig P) sigs) (\<lambda>parsed.
     map_err blst_err (blst_aggregate P parsed))"

definition fast_aggregate_verify ::
  "prims \<Rightarrow> bls_signature \<Rightarrow> bytes \<Rightarrow> bls_public_key list \<Rightarrow> crypto_error + bool" where
  "fast_aggregate_verify P agg msg pubkeys =
     (if pubkeys = [] then Inr False
      else bind_res (collect_res (parse_pk P) pubkeys) (\<lambda>parsed.
           bind_res (parse_sig P agg) (\<lambda>s.
           Inr (blst_fast_aggregate_verify P DST_SIG msg parsed s))))"

section \<open>Key bindings and the scheme-generic verifier\<close>

text \<open>The bytes of a 32- or 96-byte array held as a big-endian word.\<close>

definition be_bytes :: "nat \<Rightarrow> 'w::len word \<Rightarrow> bytes" where
  "be_bytes n w = rev (le_bytes n (unat w))"

definition string_bytes :: "string \<Rightarrow> bytes" where
  "string_bytes s = map (\<lambda>c. word_of_nat (of_char c)) s"

definition BLS_BINDING_DOMAIN :: bytes where
  "BLS_BINDING_DOMAIN = string_bytes ''arena0/execution-key-binding/v2''"

definition key_binding_message :: "256 word \<Rightarrow> 256 word \<Rightarrow> bls_public_key \<Rightarrow> bytes" where
  "key_binding_message offer_hash signer execution_bls =
     BLS_BINDING_DOMAIN @ be_bytes 32 offer_hash @ be_bytes 32 signer
       @ (case execution_bls of BlsPublicKey k \<Rightarrow> be_bytes 96 k)"

definition verify_key_binding ::
  "prims \<Rightarrow> 256 word \<Rightarrow> 256 word \<Rightarrow> bls_public_key \<Rightarrow> bls_signature \<Rightarrow> crypto_error + bool" where
  "verify_key_binding P offer_hash signer execution_bls binding =
     verify_binding P execution_bls (key_binding_message offer_hash signer execution_bls) binding"

text \<open>\<open>key.try_into()\<close> and \<open>sig.try_into()\<close>: a slice of the right length as its fixed array.\<close>

definition be_word :: "bytes \<Rightarrow> 'w::len word" where
  "be_word bs = word_of_nat (le_nat (rev bs))"

definition verify :: "prims \<Rightarrow> sign_scheme \<Rightarrow> bytes \<Rightarrow> bytes \<Rightarrow> bytes \<Rightarrow> crypto_error + bool" where
  "verify P scheme key data s =
     (case scheme of
        Ed25519 \<Rightarrow>
          if length key \<noteq> 32 then Inl (InvalidKeyLength 32 (length key))
          else (case ed25519_key_error P (be_word key) of
                  Some e \<Rightarrow> Inl (VerificationFailed e)
                | None \<Rightarrow>
                    if length s \<noteq> 64 then Inl InvalidSignature
                    else Inr (ed25519_verify P (be_word key) data (Ed25519Signature (be_word s))))
      | Bls \<Rightarrow>
          if length key \<noteq> 96 then Inl (InvalidKeyLength 96 (length key))
          else if length s \<noteq> 48 then Inl InvalidSignature
          else bls_verify P (BlsPublicKey (be_word key)) data (BlsSignature (be_word s)))"

section \<open>Lemmas\<close>

lemma parse_ok [ok_simps]:
  "parse_pk P pk = Inr pk' \<longleftrightarrow> blst_pk_error P pk = None \<and> pk' = pk"
  "parse_sig P s = Inr s' \<longleftrightarrow> blst_sig_error P s = None \<and> s' = s"
  by (auto simp: parse_pk_def parse_sig_def split: option.splits)

lemma bls_verify_ok [ok_simps]:
  "bls_verify P key msg s = Inr v \<longleftrightarrow>
     blst_pk_error P key = None \<and> blst_sig_error P s = None \<and> v = blst_verify P DST_SIG msg key s"
  by (auto simp: bls_verify_def ok_simps)

lemma verify_binding_ok [ok_simps]:
  "verify_binding P key msg s = Inr v \<longleftrightarrow>
     blst_pk_error P key = None \<and> blst_sig_error P s = None \<and> v = blst_verify P DST_BIND msg key s"
  by (auto simp: verify_binding_def ok_simps)

lemma collect_parse_pk [ok_simps]:
  "collect_res (parse_pk P) ks = Inr ks' \<longleftrightarrow> ks' = ks \<and> (\<forall>k \<in> set ks. blst_pk_error P k = None)"
  by (induction ks arbitrary: ks') (auto simp: ok_simps)

lemma collect_parse_sig [ok_simps]:
  "collect_res (parse_sig P) ss = Inr ss' \<longleftrightarrow> ss' = ss \<and> (\<forall>s \<in> set ss. blst_sig_error P s = None)"
  by (induction ss arbitrary: ss') (auto simp: ok_simps)

lemma fast_aggregate_verify_true:
  "fast_aggregate_verify P agg msg ks = Inr True \<longleftrightarrow>
     ks \<noteq> [] \<and> (\<forall>k \<in> set ks. blst_pk_error P k = None) \<and> blst_sig_error P agg = None
     \<and> blst_fast_aggregate_verify P DST_SIG msg ks agg"
  by (auto simp: fast_aggregate_verify_def ok_simps)

lemma be_bytes_inj:
  fixes a b :: "'w::len word"
  assumes "be_bytes n a = be_bytes n b" "2 ^ LENGTH('w) \<le> (256::nat) ^ n"
  shows "a = b"
proof -
  have "le_nat (le_bytes n (unat a)) = le_nat (le_bytes n (unat b))"
    using assms(1) by (simp add: be_bytes_def)
  moreover have "unat a < 256 ^ n" "unat b < 256 ^ n"
    using assms(2) unsigned_less [of a] unsigned_less [of b] by (meson less_le_trans)+
  ultimately show ?thesis by (simp add: le_nat_le_bytes word_unat_eq_iff)
qed

lemma be_word_be_bytes [simp]:
  fixes w :: "'w::len word"
  assumes "LENGTH('w) \<le> 8 * n"
  shows "be_word (be_bytes n w) = w"
proof -
  have "(2::nat) ^ LENGTH('w) \<le> 2 ^ (8 * n)" using assms by (intro power_increasing) simp_all
  also have "\<dots> = 256 ^ n" by (simp add: power_mult)
  finally have "unat w < 256 ^ n" using unsigned_less [of w] by (rule less_le_trans [rotated])
  then show ?thesis by (simp add: be_word_def be_bytes_def le_nat_le_bytes)
qed

lemma length_be_bytes [simp]: "length (be_bytes n w) = n"
  by (simp add: be_bytes_def)

lemma verify_ed25519_ok [ok_simps]:
  "verify P Ed25519 (be_bytes 32 (key :: 256 word)) data (be_bytes 64 (s :: 512 word)) = Inr v \<longleftrightarrow>
     ed25519_key_error P key = None \<and> v = ed25519_verify P key data (Ed25519Signature s)"
  by (auto simp: verify_def split: option.splits)

text \<open>The key-binding message determines the offer, the signer and the key it binds.\<close>

lemma key_binding_message_inj:
  "key_binding_message o1 s1 k1 = key_binding_message o2 s2 k2 \<longleftrightarrow> o1 = o2 \<and> s1 = s2 \<and> k1 = k2"
proof
  assume eq: "key_binding_message o1 s1 k1 = key_binding_message o2 s2 k2"
  obtain w1 w2 where k: "k1 = BlsPublicKey w1" "k2 = BlsPublicKey w2"
    by (cases k1; cases k2) blast
  from eq k have "be_bytes 32 o1 = be_bytes 32 o2" "be_bytes 32 s1 = be_bytes 32 s2"
    "be_bytes 96 w1 = be_bytes 96 w2"
    by (simp_all add: key_binding_message_def)
  then show "o1 = o2 \<and> s1 = s2 \<and> k1 = k2"
    using k by (auto dest!: be_bytes_inj)
qed simp

end
