(* ===== verification/Session.thy ===== *)
theory Session
  imports Prelude
begin

text \<open>
  \<open>arena0-protocol/src/session.rs\<close>: participant indices and the session ensemble.  A peer
  identity is 32 bytes, compared lexicographically; as an unsigned 256-bit big-endian number
  that is the numeric order, which is the order instantiated here.
\<close>

section \<open>Identities\<close>

datatype peer_id = PeerId (peer_word: "256 word")

instantiation peer_id :: linorder
begin

definition less_eq_peer_id :: "peer_id \<Rightarrow> peer_id \<Rightarrow> bool" where
  "less_eq_peer_id a b \<longleftrightarrow> peer_word a \<le> peer_word b"

definition less_peer_id :: "peer_id \<Rightarrow> peer_id \<Rightarrow> bool" where
  "less_peer_id a b \<longleftrightarrow> peer_word a < peer_word b"

instance
  by standard (auto simp: less_eq_peer_id_def less_peer_id_def peer_id.expand)

end

lemma PeerId_less [simp]: "PeerId a < PeerId b \<longleftrightarrow> a < b" "PeerId a \<le> PeerId b \<longleftrightarrow> a \<le> b"
  by (simp_all add: less_peer_id_def less_eq_peer_id_def)

definition MAX_PARTICIPANTS :: nat where
  "MAX_PARTICIPANTS = 64"

section \<open>Participants\<close>

datatype participant = Participant (as_u8: u8)

definition participant_index :: "participant \<Rightarrow> nat" where
  "participant_index p = unat (as_u8 p)"

definition participant_other :: "participant \<Rightarrow> panic + participant" where
  "participant_other p =
     (if as_u8 p < 2 then Inr (Participant (1 - as_u8 p))
      else Inl (Panic ''other() is only valid for bilateral participants''))"

definition participant_between :: "peer_id \<Rightarrow> peer_id \<Rightarrow> participant" where
  "participant_between local remote = (if local < remote then Participant 0 else Participant 1)"

definition participant_try_from :: "nat \<Rightarrow> participant option" where
  "participant_try_from i = (if i < 256 then Some (Participant (word_of_nat i)) else None)"

section \<open>Ensembles\<close>

datatype ensemble_error = TooFewParticipants nat | TooManyParticipants nat

datatype open_ensemble = OpenEnsemble (open_peers: "peer_id list")

datatype ensemble = Ensemble (peers: "peer_id list")

definition ensemble_new :: "peer_id \<Rightarrow> open_ensemble" where
  "ensemble_new local = OpenEnsemble [local]"

definition ensemble_add :: "peer_id \<Rightarrow> open_ensemble \<Rightarrow> open_ensemble" where
  "ensemble_add peer e = OpenEnsemble (open_peers e @ [peer])"

definition from_peers :: "peer_id list \<Rightarrow> ensemble_error + ensemble" where
  "from_peers ps =
     (let ps = remdups_adj (sort ps); len = length ps in
      if len < 2 then Inl (TooFewParticipants len)
      else if len > MAX_PARTICIPANTS then Inl (TooManyParticipants len)
      else Inr (Ensemble ps))"

definition ensemble_commit :: "open_ensemble \<Rightarrow> ensemble_error + ensemble" where
  "ensemble_commit e = from_peers (open_peers e)"

definition ensemble_contains :: "ensemble \<Rightarrow> peer_id \<Rightarrow> bool" where
  "ensemble_contains e peer \<longleftrightarrow> peer \<in> set (peers e)"

definition participant_of :: "ensemble \<Rightarrow> peer_id \<Rightarrow> panic + participant option" where
  "participant_of e peer =
     (case position (\<lambda>p. p = peer) (peers e) of
        None \<Rightarrow> Inr None
      | Some index \<Rightarrow>
          (case participant_try_from index of
             None \<Rightarrow> Inl (Panic ''committed ensemble length fits in u8'')
           | Some p \<Rightarrow> Inr (Some p)))"

definition peer_at :: "ensemble \<Rightarrow> participant \<Rightarrow> peer_id option" where
  "peer_at e p = get (peers e) (participant_index p)"

definition ensemble_others :: "ensemble \<Rightarrow> peer_id \<Rightarrow> peer_id list" where
  "ensemble_others e local = filter (\<lambda>p. p \<noteq> local) (peers e)"

section \<open>Committed ensembles\<close>

text \<open>The invariant every committed ensemble has: the only constructor is \<^const>\<open>from_peers\<close>.\<close>

definition committed :: "ensemble \<Rightarrow> bool" where
  "committed e \<longleftrightarrow>
     sorted_wrt (<) (peers e) \<and> 2 \<le> length (peers e) \<and> length (peers e) \<le> MAX_PARTICIPANTS"

lemma from_peers_ok:
  "from_peers ps = Inr e \<longleftrightarrow> committed e \<and> set (peers e) = set ps"
proof
  assume "from_peers ps = Inr e"
  then show "committed e \<and> set (peers e) = set ps"
    using strict_sorted_sort_dedup [of ps]
    by (auto simp: from_peers_def committed_def Let_def split: if_splits)
next
  assume c: "committed e \<and> set (peers e) = set ps"
  then have "peers e = remdups_adj (sort ps)"
    by (intro strict_sorted_unique strict_sorted_sort_dedup) (auto simp: committed_def)
  with c show "from_peers ps = Inr e"
    by (cases e) (auto simp: from_peers_def committed_def Let_def)
qed

lemma ensemble_exists:
  assumes "distinct ps" "2 \<le> length ps" "length ps \<le> 64"
  obtains e where "from_peers ps = Inr e" "set (peers e) = set ps" "distinct (peers e)"
proof -
  let ?e = "Ensemble (remdups_adj (sort ps))"
  have s: "sorted_wrt (<) (peers ?e)" "set (peers ?e) = set ps"
    using strict_sorted_sort_dedup [of ps] by simp_all
  then have "length (peers ?e) = length ps"
    using assms(1) by (metis distinct_card strict_sorted_iff)
  with s assms have "from_peers ps = Inr ?e" by (simp add: from_peers_ok committed_def MAX_PARTICIPANTS_def)
  with s that show ?thesis by (auto simp: strict_sorted_iff)
qed

lemma canonical_order_unique:
  assumes "set ps = set qs"
  shows "remdups_adj (sort ps) = remdups_adj (sort (qs :: 'a::linorder list))"
  using assms by (intro strict_sorted_unique strict_sorted_sort_dedup) simp

lemma committed_distinct: "committed e \<Longrightarrow> distinct (peers e)"
  by (simp add: committed_def strict_sorted_iff)

lemma participant_try_from_ok:
  assumes "i < MAX_PARTICIPANTS"
  shows "\<exists>p. participant_try_from i = Some p \<and> participant_index p = i"
  using assms
  by (simp add: participant_try_from_def participant_index_def MAX_PARTICIPANTS_def unat_of_nat)

lemma participant_index_inj: "participant_index p = participant_index q \<longleftrightarrow> p = q"
  by (cases p; cases q) (simp add: participant_index_def word_unat_eq_iff)

lemma participant_of_position:
  assumes "committed e"
  shows "participant_of e peer =
    Inr (map_option (\<lambda>i. Participant (word_of_nat i)) (position (\<lambda>p. p = peer) (peers e)))"
proof (cases "position (\<lambda>p. p = peer) (peers e)")
  case None
  then show ?thesis by (simp add: participant_of_def)
next
  case (Some i)
  then have "i < 256" using assms by (auto simp: position_Some committed_def MAX_PARTICIPANTS_def)
  with Some show ?thesis by (simp add: participant_of_def participant_try_from_def)
qed

lemma peer_at_position:
  assumes "committed e"
  shows "peer_at e (Participant (word_of_nat i)) = Some peer \<and> i < 256 \<longleftrightarrow>
    position (\<lambda>p. p = peer) (peers e) = Some i"
proof -
  have "length (peers e) \<le> 64" using assms by (simp add: committed_def MAX_PARTICIPANTS_def)
  moreover note committed_distinct [OF assms]
  ultimately show ?thesis
    by (auto simp: peer_at_def get_Some participant_index_def unat_of_nat position_Some
        nth_eq_iff_index_eq)
qed

lemma participant_of_peer_at:
  assumes "committed e"
  shows "participant_of e peer = Inr (Some p) \<longleftrightarrow> peer_at e p = Some peer"
proof -
  let ?i = "unat (as_u8 p)"
  have "p = Participant (word_of_nat ?i)" "?i < 256" using unsigned_less [of "as_u8 p"] by simp_all
  then have at: "peer_at e p = Some peer \<longleftrightarrow> position (\<lambda>p. p = peer) (peers e) = Some ?i"
    using peer_at_position [OF assms, of ?i peer] by simp
  show ?thesis
  proof (cases "position (\<lambda>p. p = peer) (peers e)")
    case None
    then show ?thesis by (simp add: at participant_of_position [OF assms])
  next
    case (Some j)
    then have "j < 256" using peer_at_position [OF assms, of j peer] by simp
    then have "Participant (word_of_nat j) = p \<longleftrightarrow> j = ?i"
      by (cases p) (auto simp: word_unat_eq_iff unat_of_nat)
    then show ?thesis by (simp add: at participant_of_position [OF assms] Some)
  qed
qed

lemma participant_of_absent:
  assumes "committed e"
  shows "participant_of e peer = Inr None \<longleftrightarrow> \<not> ensemble_contains e peer"
  by (auto simp: participant_of_position [OF assms] position_None ensemble_contains_def)

section \<open>Properties\<close>

text \<open>C9: a committed ensemble is canonical.  \<^const>\<open>from_peers\<close> succeeds exactly with the strictly
  ascending list of the given peers, and exactly when there are between 2 and 64 of them.\<close>

theorem from_peers_canonical:
  "from_peers ps = Inr e \<longleftrightarrow>
     sorted_wrt (<) (peers e) \<and> set (peers e) = set ps
     \<and> 2 \<le> card (set ps) \<and> card (set ps) \<le> 64"
proof -
  have "sorted_wrt (<) (peers e) \<Longrightarrow> card (set (peers e)) = length (peers e)"
    by (simp add: strict_sorted_iff distinct_card)
  then show ?thesis
    by (auto simp: from_peers_ok committed_def MAX_PARTICIPANTS_def)
qed

text \<open>C10: every participant computes the same ensemble from the same set.  The result, errors
  included, depends only on the set of peers: not on the order in which an open ensemble
  collected them, nor on repetitions.\<close>

theorem ensemble_order_independent:
  assumes "set (open_peers a) = set (open_peers b)"
  shows "ensemble_commit a = ensemble_commit b"
  using canonical_order_unique [OF assms] by (simp add: ensemble_commit_def from_peers_def)

theorem ensemble_order_independent_witness:
  "ensemble_commit (ensemble_add (PeerId 1) (ensemble_add (PeerId 1) (ensemble_new (PeerId 7)))) =
   ensemble_commit (ensemble_add (PeerId 7) (ensemble_new (PeerId 1)))"
  by (rule ensemble_order_independent) (auto simp: ensemble_add_def ensemble_new_def)

text \<open>C11: on a committed ensemble \<^const>\<open>participant_of\<close> never panics, returns no index exactly for
  peers outside the ensemble, and is the inverse of \<^const>\<open>peer_at\<close>.\<close>

theorem participant_roundtrip:
  assumes "from_peers ps = Inr e"
  shows "participant_of e peer \<noteq> Inl pan
    \<and> (participant_of e peer = Inr None \<longleftrightarrow> peer \<notin> set ps)
    \<and> (participant_of e peer = Inr (Some p) \<longleftrightarrow> peer_at e p = Some peer)"
proof (intro conjI)
  from assms have c: "committed e" and s: "set (peers e) = set ps" by (simp_all add: from_peers_ok)
  show "participant_of e peer \<noteq> Inl pan" by (simp add: participant_of_position [OF c])
  show "participant_of e peer = Inr None \<longleftrightarrow> peer \<notin> set ps"
    using s by (simp add: participant_of_absent [OF c] ensemble_contains_def)
  show "participant_of e peer = Inr (Some p) \<longleftrightarrow> peer_at e p = Some peer"
    by (rule participant_of_peer_at [OF c])
qed

theorem participant_roundtrip_witness:
  "participant_of (Ensemble [PeerId 3, PeerId 9]) (PeerId 9) = Inr (Some (Participant 1))"
proof -
  have "from_peers [PeerId 9, PeerId 3] = Inr (Ensemble [PeerId 3, PeerId 9])"
    by (simp add: from_peers_def MAX_PARTICIPANTS_def)
  from participant_roundtrip [OF this, of "PeerId 9" undefined "Participant 1"]
  show ?thesis by (simp add: peer_at_def get_def participant_index_def)
qed

end
