(* ===== verification/Signer_Set.thy ===== *)
theory Signer_Set
  imports Session
begin

unbundle bit_operations_syntax

text \<open>
  The signer bitmap of \<open>arena0-protocol/src/trace/commitment.rs\<close>: \<open>ceil(N/8)\<close> bytes, bit
  \<open>i mod 8\<close> of byte \<open>i div 8\<close> for participant \<open>i\<close>.  The source's formatted error strings are
  the constructors of \<open>signer_set_error\<close>, with the formatted values as arguments.
\<close>

section \<open>The bitmap\<close>

datatype signer_set = SignerSet (bitmap: bytes)

datatype signer_set_error =
    CountExceedsMaximum nat
  | ExtraBytes nat nat
  | WrongByteLength nat nat
  | UnusedHighBits u8
  | IndexOutside nat nat

definition div_ceil8 :: "nat \<Rightarrow> nat" where
  "div_ceil8 n = (n + 7) div 8"

definition signers_empty :: signer_set where
  "signers_empty = SignerSet []"

definition with_capacity :: "nat \<Rightarrow> signer_set" where
  "with_capacity n = SignerSet (replicate (div_ceil8 n) 0)"

definition signers_validate :: "signer_set \<Rightarrow> nat \<Rightarrow> signer_set_error + unit" where
  "signers_validate s n =
     (if n > MAX_PARTICIPANTS then Inl (CountExceedsMaximum n)
      else let expected = div_ceil8 n; len = length (bitmap s) in
        if len > expected then Inl (ExtraBytes len expected)
        else if len < expected then Inl (WrongByteLength len expected)
        else let used_bits = n mod 8 in
          if used_bits \<noteq> 0 then
            (let unused_mask = NOT (push_bit used_bits 1 - 1);
                 final = bitmap s ! (expected - 1) in
             if final AND unused_mask \<noteq> 0 then Inl (UnusedHighBits final) else Inr ())
          else Inr ())"

text \<open>\<open>signers.0[index / 8] |= 1 << (index % 8)\<close>, the in-place update of an addressable bit.\<close>

definition set_bit_at :: "nat \<Rightarrow> signer_set \<Rightarrow> signer_set" where
  "set_bit_at i s =
     SignerSet ((bitmap s)[i div 8 := (bitmap s ! (i div 8)) OR push_bit (i mod 8) 1])"

primrec set_indices :: "nat \<Rightarrow> nat list \<Rightarrow> signer_set \<Rightarrow> signer_set_error + signer_set" where
  "set_indices n [] s = Inr s"
| "set_indices n (i # is) s =
     (if i \<ge> n then Inl (IndexOutside i n) else set_indices n is (set_bit_at i s))"

definition from_indices :: "nat \<Rightarrow> nat list \<Rightarrow> signer_set_error + signer_set" where
  "from_indices n is =
     (if n > MAX_PARTICIPANTS then Inl (CountExceedsMaximum n)
      else set_indices n is (with_capacity n))"

definition full :: "nat \<Rightarrow> signer_set_error + signer_set" where
  "full n =
     (if n > MAX_PARTICIPANTS then Inl (CountExceedsMaximum n)
      else let bs = replicate (div_ceil8 n) (255 :: u8); used_bits = n mod 8 in
        Inr (SignerSet
          (if bs \<noteq> [] \<and> used_bits \<noteq> 0
           then butlast bs @ [last bs AND (push_bit used_bits 1 - 1)] else bs)))"

definition signers_set :: "nat \<Rightarrow> signer_set \<Rightarrow> signer_set" where
  "signers_set i s =
     (let byte = i div 8;
          bs = (if byte \<ge> length (bitmap s)
                then bitmap s @ replicate (byte + 1 - length (bitmap s)) 0 else bitmap s) in
      SignerSet (bs[byte := (bs ! byte) OR push_bit (i mod 8) 1]))"

definition signers_contains :: "signer_set \<Rightarrow> nat \<Rightarrow> bool" where
  "signers_contains s i \<longleftrightarrow>
     (let byte = i div 8 in
      byte < length (bitmap s) \<and> (bitmap s ! byte) AND push_bit (i mod 8) 1 \<noteq> 0)"

definition count_ones :: "u8 \<Rightarrow> nat" where
  "count_ones b = length (filter (bit b) [0..<8])"

definition signers_count :: "signer_set \<Rightarrow> nat" where
  "signers_count s = sum_list (map count_ones (bitmap s))"

definition is_full :: "signer_set \<Rightarrow> nat \<Rightarrow> bool" where
  "is_full s n \<longleftrightarrow> (\<forall>i \<in> set [0..<n]. signers_contains s i)"

section \<open>A set of indices built by insertion\<close>

text \<open>What the callers of the bitmap rely on: an insertion at an addressable index adds exactly
  that index.\<close>

locale index_set =
  fixes ins :: "nat \<Rightarrow> 's \<Rightarrow> 's"
    and mem :: "'s \<Rightarrow> nat \<Rightarrow> bool"
    and addressable :: "'s \<Rightarrow> nat \<Rightarrow> bool"
  assumes mem_ins: "addressable s i \<Longrightarrow> mem (ins i s) j \<longleftrightarrow> j = i \<or> mem s j"
    and addressable_ins: "addressable s i \<Longrightarrow> addressable (ins i s) j \<longleftrightarrow> addressable s j"
begin

lemma mem_fold:
  "\<forall>i \<in> set is. addressable s i \<Longrightarrow> mem (fold ins is s) j \<longleftrightarrow> j \<in> set is \<or> mem s j"
proof (induction "is" arbitrary: s)
  case (Cons i "is")
  then have "\<forall>k \<in> set is. addressable (ins i s) k" by (simp add: addressable_ins)
  with Cons show ?case by (auto simp: mem_ins)
qed simp

end

lemma and_exp: "(b :: u8) AND 2 ^ k \<noteq> 0 \<longleftrightarrow> k < 8 \<and> bit b k"
  by (auto simp: and_exp_eq_0_iff_not_bit dest: bit_imp_le_length)

lemma contains_bit:
  "signers_contains s i \<longleftrightarrow> i div 8 < length (bitmap s) \<and> bit (bitmap s ! (i div 8)) (i mod 8)"
  by (simp add: signers_contains_def and_exp Let_def)

lemma bit_or_exp: "bit ((b :: u8) OR 2 ^ k) m \<longleftrightarrow> bit b m \<or> (m = k \<and> k < 8)"
  by (auto simp: bit_or_iff bit_exp_iff)

lemma div_mod_8_eq: "i div 8 = j div 8 \<and> i mod 8 = j mod (8::nat) \<longleftrightarrow> i = j"
proof
  assume h: "i div 8 = j div 8 \<and> i mod 8 = j mod 8"
  have "i = 8 * (i div 8) + i mod 8" by (rule mult_div_mod_eq [symmetric])
  also have "\<dots> = 8 * (j div 8) + j mod 8" by (simp only: h)
  also have "\<dots> = j" by (rule mult_div_mod_eq)
  finally show "i = j" .
qed simp

lemma contains_set_bit_at:
  assumes "i div 8 < length (bitmap s)"
  shows "signers_contains (set_bit_at i s) j \<longleftrightarrow> j = i \<or> signers_contains s j"
  using assms div_mod_8_eq [of i j]
  by (auto simp: contains_bit set_bit_at_def nth_list_update bit_or_exp)

interpretation in_place: index_set set_bit_at signers_contains "\<lambda>s i. i div 8 < length (bitmap s)"
proof
  fix s i j
  assume i: "i div 8 < length (bitmap s)"
  show "signers_contains (set_bit_at i s) j \<longleftrightarrow> j = i \<or> signers_contains s j"
    by (rule contains_set_bit_at [OF i])
  show "j div 8 < length (bitmap (set_bit_at i s)) \<longleftrightarrow> j div 8 < length (bitmap s)"
    by (simp add: set_bit_at_def)
qed

lemma contains_grow:
  "signers_contains (SignerSet (bs @ replicate k 0)) i \<longleftrightarrow> signers_contains (SignerSet bs) i"
  by (auto simp: contains_bit nth_append)

lemma signers_set_grow:
  "signers_set i s =
     set_bit_at i (SignerSet (bitmap s @ replicate (i div 8 + 1 - length (bitmap s)) 0))"
  by (simp add: signers_set_def set_bit_at_def Let_def)

interpretation growing: index_set signers_set signers_contains "\<lambda>s i. True"
proof
  fix s i j
  let ?t = "SignerSet (bitmap s @ replicate (i div 8 + 1 - length (bitmap s)) 0)"
  have "i div 8 < length (bitmap ?t)" by simp
  from contains_set_bit_at [OF this, of j] contains_grow [of "bitmap s" _ j]
  show "signers_contains (signers_set i s) j \<longleftrightarrow> j = i \<or> signers_contains s j"
    unfolding signers_set_grow by simp
qed simp

section \<open>Membership, validity and counting\<close>

lemma div_ceil8_index: "i < n \<Longrightarrow> i div 8 < div_ceil8 n"
  unfolding div_ceil8_def by linarith

lemma contains_with_capacity [simp]: "\<not> signers_contains (with_capacity n) i"
  by (auto simp: contains_bit with_capacity_def)

lemma set_indices_fold:
  "set_indices n is s =
     (case find (\<lambda>i. i \<ge> n) is of
        Some i \<Rightarrow> Inl (IndexOutside i n) | None \<Rightarrow> Inr (fold set_bit_at is s))"
  by (induction "is" arbitrary: s) (auto split: option.splits)

lemma from_indices_ok:
  "from_indices n is = Inr s \<longleftrightarrow>
     n \<le> MAX_PARTICIPANTS \<and> (\<forall>i \<in> set is. i < n) \<and> s = fold set_bit_at is (with_capacity n)"
  by (auto simp: from_indices_def set_indices_fold find_None_iff find_Some_iff not_le
      split: option.splits) (use nth_mem in force)

lemma length_set_indices [simp]: "length (bitmap (fold set_bit_at is s)) = length (bitmap s)"
  by (induction "is" arbitrary: s) (simp_all add: set_bit_at_def)

lemma from_indices_contains:
  assumes "from_indices n is = Inr s"
  shows "signers_contains s j \<longleftrightarrow> j \<in> set is"
proof -
  from assms have i: "\<forall>i \<in> set is. i < n" and s: "s = fold set_bit_at is (with_capacity n)"
    by (simp_all add: from_indices_ok)
  from i have "\<forall>i \<in> set is. i div 8 < length (bitmap (with_capacity n))"
    by (simp add: with_capacity_def div_ceil8_index)
  from in_place.mem_fold [OF this] show ?thesis by (simp add: s)
qed

lemma contains_Cons:
  "signers_contains (SignerSet (b # bs)) i \<longleftrightarrow>
     (if i < 8 then bit b i else signers_contains (SignerSet bs) (i - 8))"
proof (cases "i < 8")
  case False
  then obtain k where i: "i = 8 + k" by (metis le_add_diff_inverse not_less)
  have "(8 + k) div 8 = Suc (k div 8)" "(8 + k) mod 8 = k mod 8" by simp_all
  then show ?thesis by (simp only: i contains_bit) simp
next
  case True
  then have "i div 8 = 0" "i mod 8 = i" by simp_all
  with True show ?thesis by (simp only: contains_bit) simp
qed

lemma count_ones_card: "count_ones b = card {i. i < 8 \<and> bit b i}"
proof -
  have "{i. i < 8 \<and> bit b i} = set (filter (bit b) [0..<8])" by auto
  then show ?thesis by (simp add: count_ones_def distinct_card del: set_filter)
qed

lemma finite_contains: "finite {i. signers_contains s i}"
proof (rule finite_subset)
  show "{i. signers_contains s i} \<subseteq> {..<8 * length (bitmap s)}"
    by (auto simp: contains_bit)
qed simp

lemma count_card: "signers_count s = card {i. signers_contains s i}"
proof (cases s)
  case (SignerSet bs)
  have "sum_list (map count_ones bs) = card {i. signers_contains (SignerSet bs) i}"
  proof (induction bs)
    case Nil
    then show ?case by (simp add: contains_bit)
  next
    case (Cons b bs)
    let ?A = "{i. i < 8 \<and> bit b i}" and ?B = "{i. signers_contains (SignerSet bs) i}"
    have "{i. signers_contains (SignerSet (b # bs)) i} = ?A \<union> (+) 8 ` ?B"
    proof (rule set_eqI)
      fix i
      show "i \<in> {i. signers_contains (SignerSet (b # bs)) i} \<longleftrightarrow> i \<in> ?A \<union> (+) 8 ` ?B"
        by (cases "i < 8") (auto simp: contains_Cons image_iff intro!: exI [of _ "i - 8"])
    qed
    moreover have "?A \<inter> (+) 8 ` ?B = {}" by auto
    moreover have "card ((+) 8 ` ?B) = card ?B" by (simp add: card_image)
    ultimately show ?case
      using Cons finite_contains [of "SignerSet bs"] by (simp add: card_Un_disjoint count_ones_card)
  qed
  then show ?thesis by (simp add: signers_count_def SignerSet)
qed

lemma bit_u8_less: "bit (b :: u8) m \<Longrightarrow> m < 8"
  by (auto dest: bit_imp_le_length)

lemma unused_bits: "(b :: u8) AND NOT (2 ^ u - 1) = 0 \<longleftrightarrow> (\<forall>m. bit b m \<longrightarrow> m < u)"
proof -
  have "b AND NOT (mask u) = 0 \<longleftrightarrow> (\<forall>m. bit b m \<longrightarrow> m < u)"
    using bit_u8_less [of b] by (auto simp: bit_eq_iff bit_and_iff bit_not_iff bit_mask_iff)
  then show ?thesis by (simp add: mask_eq_exp_minus_1)
qed

lemma used_bits: "bit ((b :: u8) AND (2 ^ u - 1)) m \<longleftrightarrow> bit b m \<and> m < u"
proof -
  have "bit (b AND mask u) m \<longleftrightarrow> bit b m \<and> m < u"
    using bit_u8_less [of b m] by (auto simp: bit_and_iff bit_mask_iff)
  then show ?thesis by (simp add: mask_eq_exp_minus_1)
qed

lemma div_ceil8_eq: "div_ceil8 n = n div 8 + (if n mod 8 = 0 then 0 else 1)"
proof -
  obtain q r where q: "n div 8 = q" "n mod 8 = r" by simp
  with mult_div_mod_eq [of 8 n] have n: "n = 8 * q + r" "r < 8" by auto
  show ?thesis
  proof (cases r)
    case 0
    then have "(n + 7) div 8 = (8 * q + 7) div 8" by (simp add: n)
    also have "\<dots> = q + 7 div 8" by (rule div_mult_self4) simp
    finally show ?thesis using 0 q by (simp add: div_ceil8_def)
  next
    case (Suc k)
    then have "(n + 7) div 8 = (8 * (q + 1) + k) div 8" by (simp add: n)
    also have "\<dots> = q + 1 + k div 8" by (rule div_mult_self4) simp
    finally show ?thesis using Suc q n(2) by (simp add: div_ceil8_def)
  qed
qed

lemma last_byte_index:
  assumes "n mod 8 \<noteq> 0" "i div 8 < div_ceil8 n"
  shows "i < n \<longleftrightarrow> (i div 8 = div_ceil8 n - 1 \<longrightarrow> i mod 8 < n mod 8)"
proof -
  have n: "n = 8 * (n div 8) + n mod 8" "n mod 8 < 8"
    and i: "i = 8 * (i div 8) + i mod 8" "i mod 8 < 8" by simp_all
  show ?thesis
  proof (cases "i div 8 = n div 8")
    case True
    then have "i < n \<longleftrightarrow> i mod 8 < n mod 8" using n i by linarith
    then show ?thesis using assms True by (simp add: div_ceil8_eq)
  next
    case False
    then have "i div 8 < n div 8" using assms by (simp add: div_ceil8_eq)
    then have "i < n" using n i by linarith
    then show ?thesis using assms False by (simp add: div_ceil8_eq)
  qed
qed

lemma aligned_index:
  assumes "n mod 8 = 0"
  shows "i < n \<longleftrightarrow> i div 8 < div_ceil8 n"
proof -
  have "n = 8 * (n div 8)" using assms mult_div_mod_eq [of 8 n] by linarith
  moreover have "i = 8 * (i div 8) + i mod 8" "i mod 8 < 8" by simp_all
  ultimately show ?thesis using assms unfolding div_ceil8_eq by simp linarith
qed

lemma validate_ok [ok_simps]:
  "signers_validate s n = Inr u \<longleftrightarrow>
     n \<le> MAX_PARTICIPANTS \<and> length (bitmap s) = div_ceil8 n \<and> (\<forall>i. signers_contains s i \<longrightarrow> i < n)"
proof (cases "length (bitmap s) = div_ceil8 n")
  case len: True
  show ?thesis
  proof (cases "n mod 8 = 0")
    case True
    then have "\<forall>i. signers_contains s i \<longrightarrow> i < n"
      using len aligned_index [OF True] by (simp add: contains_bit)
    then show ?thesis using len True by (auto simp: signers_validate_def)
  next
    case False
    let ?b = "bitmap s ! (div_ceil8 n - 1)"
    have pos: "div_ceil8 n > 0" using False unfolding div_ceil8_def by presburger
    have "(\<forall>i. signers_contains s i \<longrightarrow> i < n) \<longleftrightarrow> (\<forall>m. bit ?b m \<longrightarrow> m < n mod 8)" (is "?L \<longleftrightarrow> ?R")
    proof
      assume L: ?L
      show ?R
      proof (intro allI impI)
        fix m assume b: "bit ?b m"
        then have m: "m < 8" by (auto dest: bit_imp_le_length)
        let ?i = "8 * (div_ceil8 n - 1) + m"
        have i: "?i div 8 = div_ceil8 n - 1" "?i mod 8 = m" using m by simp_all
        then have c: "signers_contains s ?i" using b len pos unfolding contains_bit by simp
        then have "?i div 8 < div_ceil8 n" using i pos by simp
        from last_byte_index [OF False this] L c i show "m < n mod 8" by simp
      qed
    next
      assume ?R
      then show ?L using len last_byte_index [OF False] by (auto simp: contains_bit)
    qed
    then show ?thesis
      using len False unused_bits [of ?b "n mod 8"] by (auto simp: signers_validate_def Let_def not_less)
  qed
qed (auto simp: signers_validate_def Let_def)

lemma bit_u8_max: "bit (255 :: u8) m \<longleftrightarrow> m < 8"
proof -
  have "(255 :: u8) = - 1" by simp
  then show ?thesis by (simp only: bit_minus_1_iff possible_bit_word len_of_numeral_defs) simp
qed

lemma byte_bit:
  assumes "k < length (bitmap s)" "m < 8"
  shows "bit (bitmap s ! k) m \<longleftrightarrow> signers_contains s (8 * k + m)"
proof -
  have "(8 * k + m) div 8 = k" "(8 * k + m) mod 8 = m" using assms(2) by simp_all
  then show ?thesis using assms(1) by (simp only: contains_bit) simp
qed

lemma signer_set_eqI:
  assumes len: "length (bitmap s) = length (bitmap t)"
    and eq: "\<And>i. signers_contains s i \<longleftrightarrow> signers_contains t i"
  shows "s = t"
proof -
  have "bitmap s = bitmap t"
  proof (rule nth_equalityI)
    fix k assume k: "k < length (bitmap s)"
    show "bitmap s ! k = bitmap t ! k"
      by (rule bit_word_eqI) (use k len eq in \<open>simp add: byte_bit\<close>)
  qed (rule len)
  then show ?thesis by (rule signer_set.expand)
qed

definition full_bitmap :: "nat \<Rightarrow> bytes" where
  "full_bitmap n =
     (let bs = replicate (div_ceil8 n) (255 :: u8) in
      if bs \<noteq> [] \<and> n mod 8 \<noteq> 0 then butlast bs @ [last bs AND (2 ^ (n mod 8) - 1)] else bs)"

lemma full_bitmap: "full n = (if n > MAX_PARTICIPANTS then Inl (CountExceedsMaximum n)
                              else Inr (SignerSet (full_bitmap n)))"
  by (simp add: full_def full_bitmap_def Let_def)

lemma length_full_bitmap [simp]: "length (full_bitmap n) = div_ceil8 n"
  by (simp add: full_bitmap_def Let_def)

lemma nth_full_bitmap:
  assumes "k < div_ceil8 n"
  shows "full_bitmap n ! k =
    (if k = div_ceil8 n - 1 \<and> n mod 8 \<noteq> 0 then 255 AND (2 ^ (n mod 8) - 1) else 255)"
proof -
  obtain d where d: "div_ceil8 n = Suc d" using assms by (cases "div_ceil8 n") auto
  then have "butlast (replicate (div_ceil8 n) (255 :: u8)) = replicate d 255"
    by (simp add: butlast_conv_take min_def del: replicate_Suc)
  then show ?thesis
    using assms d by (auto simp: full_bitmap_def Let_def nth_append simp del: replicate_Suc)
qed

lemma contains_full_bitmap: "signers_contains (SignerSet (full_bitmap n)) i \<longleftrightarrow> i < n"
proof (cases "i div 8 < div_ceil8 n")
  case True
  have m: "bit (255 :: u8) (i mod 8)" unfolding bit_u8_max by simp
  show ?thesis
  proof (cases "n mod 8 = 0")
    case aligned: True
    then show ?thesis
      using True m aligned_index [OF aligned, of i]
      by (simp add: contains_bit nth_full_bitmap)
  next
    case False
    then show ?thesis
      using True m last_byte_index [OF False True]
      by (auto simp: contains_bit nth_full_bitmap used_bits)
  qed
next
  case False
  then show ?thesis using div_ceil8_index [of i n] by (auto simp: contains_bit)
qed

lemma full_ok [ok_simps]:
  "full n = Inr s \<longleftrightarrow>
     n \<le> MAX_PARTICIPANTS \<and> length (bitmap s) = div_ceil8 n \<and> (\<forall>i. signers_contains s i \<longleftrightarrow> i < n)"
  using signer_set_eqI [of s "SignerSet (full_bitmap n)"]
  by (auto simp: full_bitmap contains_full_bitmap)

lemma full_unique:
  assumes "signers_validate s n = Inr ()" "is_full s n"
  shows "full n = Inr s"
  using assms by (auto simp: ok_simps is_full_def)

section \<open>Properties\<close>

text \<open>C12: the full bitmap.  For at most 64 participants \<^const>\<open>full\<close> succeeds with a bitmap that
  validates for that count, contains exactly the indices below it, counts exactly that many
  signers, and is the only valid bitmap for which \<^const>\<open>is_full\<close> holds.\<close>

theorem full_signer_set:
  assumes "n \<le> MAX_PARTICIPANTS"
  shows "\<exists>s. full n = Inr s \<and> signers_validate s n = Inr () \<and> is_full s n \<and> signers_count s = n
     \<and> (\<forall>t. signers_validate t n = Inr () \<and> is_full t n \<longrightarrow> t = s)"
proof -
  obtain s where s: "full n = Inr s" using assms by (simp add: full_bitmap)
  then have "signers_validate s n = Inr ()" "is_full s n" "signers_count s = n"
    by (auto simp: ok_simps is_full_def count_card)
  moreover have "t = s" if "signers_validate t n = Inr ()" "is_full t n" for t
    using full_unique [OF that] s by simp
  ultimately show ?thesis using s by blast
qed

theorem full_signer_set_witness:
  "\<exists>s. full 10 = Inr s \<and> signers_count s = 10"
  using full_signer_set [of 10] by (auto simp: MAX_PARTICIPANTS_def)

text \<open>C13: \<^const>\<open>from_indices\<close> succeeds exactly for at most 64 participants and indices below the
  count, with the valid bitmap that contains exactly the listed indices.\<close>

theorem from_indices_correct:
  "from_indices n is = Inr s \<longleftrightarrow>
     set is \<subseteq> {..<n} \<and> signers_validate s n = Inr () \<and> {j. signers_contains s j} = set is"
    (is "?L \<longleftrightarrow> ?R")
proof
  assume L: ?L
  then have "n \<le> MAX_PARTICIPANTS" "set is \<subseteq> {..<n}" "length (bitmap s) = div_ceil8 n"
    by (auto simp: from_indices_ok with_capacity_def)
  with from_indices_contains [OF L] show ?R by (auto simp: ok_simps)
next
  assume R: ?R
  let ?t = "fold set_bit_at is (with_capacity n)"
  from R have t: "from_indices n is = Inr ?t" by (auto simp: from_indices_ok ok_simps)
  have "s = ?t"
    using R from_indices_contains [OF t] by (intro signer_set_eqI) (auto simp: ok_simps with_capacity_def)
  with t show ?L by simp
qed

end
