(* ===== verification/State_Frame.thy ===== *)
theory State_Frame
  imports Prelude
begin

text \<open>
  \<open>arena0-program/src/state.rs\<close>: the canonical state memory \<open>length || payload || zero tail\<close>,
  its reader, its in-place writer and its reconstruction from a payload, and the bounded state
  newtypes, whose private field makes the bound part of the type.
\<close>

section \<open>Frames\<close>

definition MAX_SHARED_STATE_BYTES :: nat where
  "MAX_SHARED_STATE_BYTES = 4 * 1024 * 1024"

definition MAX_LOCAL_STATE_BYTES :: nat where
  "MAX_LOCAL_STATE_BYTES = 4 * 1024 * 1024"

definition CANONICAL_STATE_PREFIX_BYTES :: nat where
  "CANONICAL_STATE_PREFIX_BYTES = 4"

definition CANONICAL_STATE_MEMORY_BYTES :: nat where
  "CANONICAL_STATE_MEMORY_BYTES = 65 * 65536"

datatype state_bytes_error =
    SharedTooLarge nat nat
  | LocalTooLarge nat nat
  | CanonicalTooLarge nat nat

datatype state_frame_error =
    MissingPrefix
  | WrongSize nat nat
  | FrameTooLarge nat nat
  | ExceedsMemory nat nat
  | NonZeroTail

definition state_frame_len :: "bytes \<Rightarrow> nat \<Rightarrow> state_frame_error + nat" where
  "state_frame_len frame max_payload =
     (if length frame < CANONICAL_STATE_PREFIX_BYTES then Inl MissingPrefix
      else let len = unat (u32_from_le_bytes (take CANONICAL_STATE_PREFIX_BYTES frame)) in
        if len > max_payload then Inl (FrameTooLarge len max_payload)
        else if len > length frame - CANONICAL_STATE_PREFIX_BYTES
        then Inl (ExceedsMemory len (length frame))
        else Inr len)"

definition canonical_state_payload :: "bytes \<Rightarrow> nat \<Rightarrow> state_frame_error + bytes" where
  "canonical_state_payload frame max_payload =
     (if length frame \<noteq> CANONICAL_STATE_MEMORY_BYTES
      then Inl (WrongSize (length frame) CANONICAL_STATE_MEMORY_BYTES)
      else bind_res (state_frame_len frame max_payload) (\<lambda>len.
        let fin = CANONICAL_STATE_PREFIX_BYTES + len in
        if \<exists>b \<in> set (drop fin frame). b \<noteq> 0 then Inl NonZeroTail
        else Inr (take len (drop CANONICAL_STATE_PREFIX_BYTES frame))))"

text \<open>\<open>frame[i..i + src.len()].copy_from_slice(src)\<close>.\<close>

definition copy_at :: "nat \<Rightarrow> bytes \<Rightarrow> bytes \<Rightarrow> bytes" where
  "copy_at i src xs = take i xs @ src @ drop (i + length src) xs"

definition write_state_frame :: "bytes \<Rightarrow> nat \<Rightarrow> bytes \<Rightarrow> state_frame_error + bytes" where
  "write_state_frame frame old_len payload =
     (if length frame < CANONICAL_STATE_PREFIX_BYTES then Inl MissingPrefix
      else let capacity = length frame - CANONICAL_STATE_PREFIX_BYTES in
        if max (length payload) old_len > capacity
        then Inl (ExceedsMemory (max (length payload) old_len) (length frame))
        else if length payload \<ge> 2 ^ 32 then Inl (ExceedsMemory (length payload) (length frame))
        else let fin = CANONICAL_STATE_PREFIX_BYTES + length payload;
                 zeroed = (if old_len > length payload
                           then copy_at fin (replicate (old_len - length payload) 0) frame
                           else frame);
                 prefixed = copy_at 0 (u32_to_le_bytes (word_of_nat (length payload))) zeroed in
             Inr (copy_at CANONICAL_STATE_PREFIX_BYTES payload prefixed))"

definition canonical_state_image :: "bytes \<Rightarrow> (panic + state_bytes_error) + bytes" where
  "canonical_state_image payload =
     (let max_payload = CANONICAL_STATE_MEMORY_BYTES - CANONICAL_STATE_PREFIX_BYTES in
      if length payload > max_payload then Inl (Inr (CanonicalTooLarge (length payload) max_payload))
      else (case write_state_frame (replicate CANONICAL_STATE_MEMORY_BYTES 0) 0 payload of
              Inl _ \<Rightarrow> Inl (Inl (Panic ''payload fits the canonical frame''))
            | Inr img \<Rightarrow> Inr img))"

section \<open>Bounded state values\<close>

typedef shared_state_bytes = "{bs :: bytes. length bs \<le> MAX_SHARED_STATE_BYTES}"
  morphisms shared_as_bytes SharedStateBytes
  by (rule exI [of _ "[]"]) simp

typedef local_state_bytes = "{bs :: bytes. length bs \<le> MAX_LOCAL_STATE_BYTES}"
  morphisms local_as_bytes LocalStateBytes
  by (rule exI [of _ "[]"]) simp

definition shared_try_new :: "bytes \<Rightarrow> state_bytes_error + shared_state_bytes" where
  "shared_try_new bs =
     (if length bs > MAX_SHARED_STATE_BYTES then Inl (SharedTooLarge (length bs) MAX_SHARED_STATE_BYTES)
      else Inr (SharedStateBytes bs))"

definition local_try_new :: "bytes \<Rightarrow> state_bytes_error + local_state_bytes" where
  "local_try_new bs =
     (if length bs > MAX_LOCAL_STATE_BYTES then Inl (LocalTooLarge (length bs) MAX_LOCAL_STATE_BYTES)
      else Inr (LocalStateBytes bs))"

section \<open>Lemmas\<close>

text \<open>The image of a payload, in closed form.\<close>

definition state_image :: "bytes \<Rightarrow> bytes" where
  "state_image p =
     u32_to_le_bytes (word_of_nat (length p)) @ p
       @ replicate (CANONICAL_STATE_MEMORY_BYTES - (CANONICAL_STATE_PREFIX_BYTES + length p)) 0"

abbreviation max_image_payload :: nat where
  "max_image_payload \<equiv> CANONICAL_STATE_MEMORY_BYTES - CANONICAL_STATE_PREFIX_BYTES"

lemma prefix_le_memory: "CANONICAL_STATE_PREFIX_BYTES \<le> CANONICAL_STATE_MEMORY_BYTES"
  "CANONICAL_STATE_MEMORY_BYTES < 2 ^ 32"
  by (simp_all add: CANONICAL_STATE_PREFIX_BYTES_def CANONICAL_STATE_MEMORY_BYTES_def)

lemma length_state_image:
  "length p \<le> max_image_payload \<Longrightarrow> length (state_image p) = CANONICAL_STATE_MEMORY_BYTES"
  using prefix_le_memory by (simp add: state_image_def CANONICAL_STATE_PREFIX_BYTES_def)

lemma unat_length_u32:
  "n \<le> max_image_payload \<Longrightarrow> unat (word_of_nat n :: u32) = n"
  using prefix_le_memory by (simp add: unat_of_nat)

lemma copy_at_append:
  "copy_at (length xs) src (xs @ ys) = xs @ src @ drop (length src) ys"
  by (simp add: copy_at_def)

text \<open>Overwriting the frame of one payload by another gives the frame of the other.\<close>

lemma write_state_frame_image:
  assumes "length old \<le> max_image_payload" "length new \<le> max_image_payload"
  shows "write_state_frame (state_image old) (length old) new = Inr (state_image new)"
proof -
  let ?M = CANONICAL_STATE_MEMORY_BYTES
  let ?h = "\<lambda>p :: bytes. u32_to_le_bytes (word_of_nat (length p))"
  have M: "4 \<le> ?M" and cap: "length old \<le> ?M - 4" "length new \<le> ?M - 4"
    using prefix_le_memory assms by (simp_all add: CANONICAL_STATE_PREFIX_BYTES_def)
  have zeroed: "(if length old > length new
      then copy_at (4 + length new) (replicate (length old - length new) 0) (state_image old)
      else state_image old) =
      ?h old @ take (length new) (old @ replicate (?M - (4 + length old)) 0)
        @ replicate (?M - (4 + length new)) 0"
    (is "?Z = _")
  proof (cases "length old > length new")
    case True
    then have "?Z = ?h old @ take (length new) old @ replicate (length old - length new) 0
        @ replicate (?M - (4 + length old)) 0"
      by (simp add: copy_at_def state_image_def CANONICAL_STATE_PREFIX_BYTES_def)
    also have "replicate (length old - length new) 0 @ replicate (?M - (4 + length old)) 0 =
        replicate (?M - (4 + length new)) (0 :: u8)"
      using True cap M by (simp add: replicate_add [symmetric])
    finally show ?thesis using True by simp
  next
    case False
    then have "replicate (?M - (4 + length old)) (0 :: u8) =
        replicate (length new - length old) 0 @ replicate (?M - (4 + length new)) 0"
      using cap M by (simp add: replicate_add [symmetric])
    then show ?thesis
      using False by (simp add: state_image_def CANONICAL_STATE_PREFIX_BYTES_def)
  qed
  have len: "length (take (length new) (old @ replicate (?M - (4 + length old)) 0)) = length new"
    using cap M by simp
  have "copy_at 4 new (copy_at 0 (?h new) ?Z) = state_image new"
    unfolding zeroed using len
    by (simp add: copy_at_def state_image_def CANONICAL_STATE_PREFIX_BYTES_def)
  moreover have "length new < 2 ^ 32" using assms prefix_le_memory by simp
  ultimately show ?thesis
    using assms cap M length_state_image [OF assms(1)]
    by (simp add: write_state_frame_def CANONICAL_STATE_PREFIX_BYTES_def Let_def)
qed

lemma zero_memory_image: "replicate CANONICAL_STATE_MEMORY_BYTES 0 = state_image []"
proof -
  have "u32_to_le_bytes 0 = replicate 4 0" by (simp add: u32_to_le_bytes_def le_bytes_zero)
  moreover have "replicate 4 (0 :: u8) @ replicate (CANONICAL_STATE_MEMORY_BYTES - 4) 0 =
      replicate CANONICAL_STATE_MEMORY_BYTES 0"
    unfolding replicate_add [symmetric] using prefix_le_memory
    by (simp add: CANONICAL_STATE_PREFIX_BYTES_def)
  ultimately show ?thesis by (simp add: state_image_def CANONICAL_STATE_PREFIX_BYTES_def)
qed

lemma canonical_state_image_eq:
  "canonical_state_image p =
     (if length p > max_image_payload then Inl (Inr (CanonicalTooLarge (length p) max_image_payload))
      else Inr (state_image p))"
  using write_state_frame_image [of "[]" p]
  by (simp add: canonical_state_image_def zero_memory_image Let_def)

lemma shared_fits_image: "length (shared_as_bytes s) \<le> max_image_payload"
proof -
  have "length (shared_as_bytes s) \<le> MAX_SHARED_STATE_BYTES" using shared_as_bytes [of s] by simp
  then show ?thesis
    by (simp add: MAX_SHARED_STATE_BYTES_def CANONICAL_STATE_MEMORY_BYTES_def CANONICAL_STATE_PREFIX_BYTES_def)
qed

lemma state_frame_len_image:
  assumes "length p \<le> max_image_payload"
  shows "state_frame_len (state_image p) m =
    (if length p > m then Inl (FrameTooLarge (length p) m) else Inr (length p))"
proof -
  have "take 4 (state_image p) = u32_to_le_bytes (word_of_nat (length p))"
    by (simp add: state_image_def)
  with assms length_state_image [OF assms] unat_length_u32 [OF assms] prefix_le_memory
  show ?thesis by (simp add: state_frame_len_def Let_def CANONICAL_STATE_PREFIX_BYTES_def)
qed

lemma canonical_state_payload_image:
  assumes "length p \<le> max_image_payload"
  shows "canonical_state_payload (state_image p) m =
    (if length p > m then Inl (FrameTooLarge (length p) m) else Inr p)"
proof -
  have "drop 4 (state_image p) =
      p @ replicate (CANONICAL_STATE_MEMORY_BYTES - (4 + length p)) 0"
    by (simp add: state_image_def CANONICAL_STATE_PREFIX_BYTES_def)
  moreover from this have "drop (4 + length p) (state_image p) =
      replicate (CANONICAL_STATE_MEMORY_BYTES - (4 + length p)) 0"
    by (simp add: drop_drop [symmetric] add.commute [of 4] del: drop_drop)
  ultimately show ?thesis
    using length_state_image [OF assms] state_frame_len_image [OF assms, of m]
    by (simp add: canonical_state_payload_def Let_def CANONICAL_STATE_PREFIX_BYTES_def)
qed

lemma all_zero_replicate: "(\<forall>b \<in> set xs. b = (0 :: u8)) \<longleftrightarrow> xs = replicate (length xs) 0"
  by (metis in_set_replicate replicate_length_same)

lemma split_three: "xs = take i xs @ take n (drop i xs) @ drop (i + n) xs"
proof -
  have "drop (i + n) xs = drop n (drop i xs)" by (simp add: add.commute)
  then show ?thesis by (simp only: append_take_drop_id)
qed

lemma canonical_state_payload_ok:
  "canonical_state_payload frame m = Inr p \<longleftrightarrow>
     length frame = CANONICAL_STATE_MEMORY_BYTES
     \<and> (\<exists>len. state_frame_len frame m = Inr len
          \<and> (\<forall>b \<in> set (drop (CANONICAL_STATE_PREFIX_BYTES + len) frame). b = 0)
          \<and> p = take len (drop CANONICAL_STATE_PREFIX_BYTES frame))"
  unfolding canonical_state_payload_def Let_def if_Inl_ok bind_res_ok by blast

lemma state_frame_len_ok:
  "state_frame_len frame m = Inr len \<longleftrightarrow>
     CANONICAL_STATE_PREFIX_BYTES \<le> length frame
     \<and> len = unat (u32_from_le_bytes (take CANONICAL_STATE_PREFIX_BYTES frame))
     \<and> len \<le> m \<and> len \<le> length frame - CANONICAL_STATE_PREFIX_BYTES"
  unfolding state_frame_len_def Let_def if_Inl_ok not_less by blast

lemma canonical_state_payload_inv:
  assumes "canonical_state_payload frame m = Inr p"
  shows "frame = state_image p" "length p \<le> m" "length p \<le> max_image_payload"
proof -
  let ?len = "unat (u32_from_le_bytes (take 4 frame))"
  from assms have L: "length frame = CANONICAL_STATE_MEMORY_BYTES" and le: "?len \<le> m"
    "?len \<le> length frame - 4" and z: "\<forall>b \<in> set (drop (4 + ?len) frame). b = 0"
    and p: "p = take ?len (drop 4 frame)" and four: "4 \<le> length frame"
    unfolding canonical_state_payload_ok state_frame_len_ok CANONICAL_STATE_PREFIX_BYTES_def
    by blast+
  have len: "length p = ?len" using le by (simp add: p)
  have "length (take 4 frame) = 4" using four by simp
  from u32_from_to_le_bytes [OF this]
  have pre: "take 4 frame = u32_to_le_bytes (word_of_nat (length p))" by (simp add: len)
  have tail: "drop (4 + ?len) frame = replicate (CANONICAL_STATE_MEMORY_BYTES - (4 + length p)) 0"
    using z unfolding all_zero_replicate by (simp only: L len length_drop)
  have "frame = take 4 frame @ take ?len (drop 4 frame) @ drop (4 + ?len) frame"
    by (rule split_three)
  also have "\<dots> = u32_to_le_bytes (word_of_nat (length p)) @ p
      @ replicate (CANONICAL_STATE_MEMORY_BYTES - (4 + length p)) 0"
    by (simp only: tail p [symmetric]) (simp only: pre [symmetric])
  finally show "frame = state_image p"
    by (simp only: state_image_def CANONICAL_STATE_PREFIX_BYTES_def)
  show "length p \<le> m" "length p \<le> max_image_payload"
    using len le L by (simp_all add: CANONICAL_STATE_PREFIX_BYTES_def)
qed

section \<open>Properties\<close>

text \<open>C14: reading and building a canonical state memory are inverse.  A memory is accepted with a
  payload exactly when it is the image of that payload and the payload is within the caller's
  bound; so every payload has one accepted memory and a memory has one payload.\<close>

theorem state_memory_canonical:
  "canonical_state_payload frame m = Inr p \<longleftrightarrow> canonical_state_image p = Inr frame \<and> length p \<le> m"
  using canonical_state_payload_inv [of frame m p] canonical_state_payload_image [of p m]
  by (auto simp: canonical_state_image_eq not_less split: if_splits)

text \<open>C15: rewriting a canonical memory in place is the same as building a fresh one: no byte of the
  replaced payload survives, so equal payloads always have equal memories.\<close>

theorem state_memory_rewrite:
  assumes "canonical_state_image old = Inr frame" "canonical_state_image new = Inr frame'"
  shows "write_state_frame frame (length old) new = Inr frame'"
  using assms write_state_frame_image [of old new]
  by (auto simp: canonical_state_image_eq not_less split: if_splits)

theorem state_memory_rewrite_witness:
  "\<exists>f f'. canonical_state_image [1, 2, 3] = Inr f \<and> canonical_state_image [9] = Inr f'
     \<and> write_state_frame f 3 [9] = Inr f'"
proof -
  have "length [1 :: u8, 2, 3] \<le> max_image_payload" "length [9 :: u8] \<le> max_image_payload"
    by (simp_all add: CANONICAL_STATE_MEMORY_BYTES_def CANONICAL_STATE_PREFIX_BYTES_def)
  then have "canonical_state_image [1, 2, 3] = Inr (state_image [1, 2, 3])"
    "canonical_state_image [9] = Inr (state_image [9])"
    by (simp_all add: canonical_state_image_eq)
  with state_memory_rewrite [OF this] show ?thesis by (simp add: numeral_3_eq_3)
qed

end
