(* ===== verification/Trace.thy ===== *)
theory Trace
  imports Crypto Signer_Set State_Frame
begin

text \<open>
  Guest-visible values and the portable trace: \<open>arena0-protocol/src\<close> \<open>effect.rs\<close>, \<open>event.rs\<close>,
  \<open>timer.rs\<close>, \<open>blob.rs\<close> (the range a direct message names), \<open>message.rs\<close>, \<open>state.rs\<close> (the shared
  state commitment), \<open>trace/entry.rs\<close> and \<open>trace/commitment.rs\<close>.

  Each \<open>*_value\<close> function is the Borsh shape of its type: the derive's field and variant order,
  with the bound of every bounded field.
\<close>

section \<open>Identities and limits\<close>

datatype session_hash = SessionHash "256 word"
datatype state_hash = StateHash "256 word"
datatype exec_id = ExecId "256 word"
datatype program_hash = ProgramHash "256 word"
datatype blob_hash = BlobHash "256 word"
datatype message_id = MessageId "256 word"

definition MAX_EFFECT_PAYLOAD_BYTES :: nat where
  "MAX_EFFECT_PAYLOAD_BYTES = 64 * 1024"

definition MAX_TIMER_PAYLOAD_BYTES :: nat where
  "MAX_TIMER_PAYLOAD_BYTES = 64 * 1024"

definition MAX_TERMINAL_REASON_BYTES :: nat where
  "MAX_TERMINAL_REASON_BYTES = 4 * 1024"

definition MAX_TERMINAL_OUTCOME_BYTES :: nat where
  "MAX_TERMINAL_OUTCOME_BYTES = 64 * 1024"

definition MAX_DIRECT_CONTROL_BYTES :: nat where
  "MAX_DIRECT_CONTROL_BYTES = 2 * 1024"

definition MAX_DIRECT_RANGE_BYTES :: u64 where
  "MAX_DIRECT_RANGE_BYTES = 32 * 1024"

definition TRACE_FORMAT_VERSION :: u32 where
  "TRACE_FORMAT_VERSION = 3"

section \<open>Effects and events\<close>

record timer_payload =
  type_name :: string
  timer_data :: bytes

record range_attachment =
  range_hash :: blob_hash
  range_start :: u64
  range_end :: u64

datatype attachment = Attachment u32

datatype effect =
    SessionEnd bytes
  | SessionAbort string
  | Broadcast bytes
  | SetTimer u64 timer_payload
  | Fail string
  | SendDirect peer_id bytes "range_attachment option"

fun is_lifecycle :: "effect \<Rightarrow> bool" where
  "is_lifecycle (SessionEnd _) = True"
| "is_lifecycle (SessionAbort _) = True"
| "is_lifecycle (Fail _) = True"
| "is_lifecycle _ = False"

datatype event =
    SessionStarted ensemble
  | MessageReceived peer_id bytes
  | InputReceived u32 bytes
  | TimerFired timer_payload
  | DirectReceived peer_id bytes "attachment option"

definition peer_value :: "peer_id \<Rightarrow> borsh_value" where
  "peer_value p = BArr32 (peer_word p)"

definition timer_value :: "timer_payload \<Rightarrow> borsh_value" where
  "timer_value t = BStruct [BString MAX_TERMINAL_REASON_BYTES (type_name t),
                            BBytes MAX_TIMER_PAYLOAD_BYTES (timer_data t)]"

definition range_value :: "range_attachment \<Rightarrow> borsh_value" where
  "range_value r = BStruct [case range_hash r of BlobHash h \<Rightarrow> BArr32 h,
                            BU64 (range_start r), BU64 (range_end r)]"

fun option_value :: "('a \<Rightarrow> borsh_value) \<Rightarrow> 'a option \<Rightarrow> borsh_value" where
  "option_value f None = BNone"
| "option_value f (Some x) = BSome (f x)"

fun effect_value :: "effect \<Rightarrow> borsh_value" where
  "effect_value (SessionEnd out) = BEnum 0 [BBytes MAX_TERMINAL_OUTCOME_BYTES out]"
| "effect_value (SessionAbort reason) = BEnum 1 [BString MAX_TERMINAL_REASON_BYTES reason]"
| "effect_value (Broadcast msg) = BEnum 2 [BBytes MAX_EFFECT_PAYLOAD_BYTES msg]"
| "effect_value (SetTimer delay t) = BEnum 3 [BU64 delay, timer_value t]"
| "effect_value (Fail reason) = BEnum 4 [BString MAX_TERMINAL_REASON_BYTES reason]"
| "effect_value (SendDirect peer msg rng) =
     BEnum 5 [peer_value peer, BBytes MAX_DIRECT_CONTROL_BYTES msg, option_value range_value rng]"

section \<open>Shared-state commitment and message identity\<close>

text \<open>\<open>StateHash::of_shared\<close>.  The source's \<open>expect\<close> is the first branch; a bounded shared state
  always fits the canonical memory (lemma \<open>of_shared_image\<close>), so it is never taken.\<close>

definition of_shared :: "prims \<Rightarrow> shared_state_bytes \<Rightarrow> state_hash" where
  "of_shared P snapshot =
     (case canonical_state_image (shared_as_bytes snapshot) of
        Inl _ \<Rightarrow> StateHash 0
      | Inr img \<Rightarrow> StateHash (blake3 P img))"

definition MESSAGE_ID_DOMAIN :: string where
  "MESSAGE_ID_DOMAIN = ''arena0/message/v2'' @ replicate 7 (CHR 0x00)"

fun state_hash_value :: "state_hash \<Rightarrow> borsh_value" where
  "state_hash_value (StateHash h) = BArr32 h"

fun session_hash_value :: "session_hash \<Rightarrow> borsh_value" where
  "session_hash_value (SessionHash h) = BArr32 h"

definition message_id_derive ::
  "prims \<Rightarrow> session_hash \<Rightarrow> peer_id \<Rightarrow> u64 \<Rightarrow> state_hash \<Rightarrow> state_hash \<Rightarrow> bytes \<Rightarrow> panic + message_id" where
  "message_id_derive P session sender pos pre post msg =
     (case to_vec P (BStruct [BDomain MESSAGE_ID_DOMAIN, session_hash_value session, peer_value sender,
                              BU64 pos, state_hash_value pre, state_hash_value post,
                              BBytes U32_MAX msg]) of
        Inl _ \<Rightarrow> Inl (Panic ''message-id preimage is serializable'')
      | Inr bs \<Rightarrow> Inr (MessageId (blake3 P bs)))"

section \<open>Aggregate attestations\<close>

record aggregate_attestation =
  att_aggregate :: bls_signature
  att_signers :: signer_set

datatype attestation_error =
    InvalidSignerSet u64 signer_set_error
  | NoSigners u64
  | BadAggregate u64
  | AttestationCrypto crypto_error

definition attestation_empty :: aggregate_attestation where
  "attestation_empty = \<lparr>att_aggregate = BlsSignature 0, att_signers = signers_empty\<rparr>"

definition attestation_from_signatures ::
  "prims \<Rightarrow> signer_set \<Rightarrow> bls_signature list \<Rightarrow> crypto_error + aggregate_attestation" where
  "attestation_from_signatures P signers sigs =
     (if sigs = [] then Inr attestation_empty
      else bind_res (aggregate P sigs) (\<lambda>agg. Inr \<lparr>att_aggregate = agg, att_signers = signers\<rparr>))"

definition selected_participants ::
  "aggregate_attestation \<Rightarrow> bls_public_key list \<Rightarrow> bls_public_key list" where
  "selected_participants a participants =
     map snd (filter (\<lambda>(i, _). signers_contains (att_signers a) i) (enumerate 0 participants))"

definition verify_signatures ::
  "prims \<Rightarrow> aggregate_attestation \<Rightarrow> u64 \<Rightarrow> bytes \<Rightarrow> bls_public_key list \<Rightarrow> attestation_error + unit" where
  "verify_signatures P a step message participants =
     bind_res (map_err (InvalidSignerSet step)
                 (signers_validate (att_signers a) (length participants))) (\<lambda>_.
     let signers = selected_participants a participants in
     if signers = [] then Inl (NoSigners step)
     else bind_res (map_err AttestationCrypto
                      (fast_aggregate_verify P (att_aggregate a) message signers)) (\<lambda>ok.
          if \<not> ok then Inl (BadAggregate step) else Inr ()))"

section \<open>Trace entries\<close>

datatype step_event = StepSessionStarted ensemble | StepMessage peer_id bytes

datatype step_terminal = TerminalEnd bytes | TerminalAbort string | TerminalFail string

fun dispatch_event :: "step_event \<Rightarrow> event" where
  "dispatch_event (StepSessionStarted e) = SessionStarted e"
| "dispatch_event (StepMessage sender msg) = MessageReceived sender msg"

fun terminal_from_effect :: "effect \<Rightarrow> step_terminal option" where
  "terminal_from_effect (SessionEnd out) = Some (TerminalEnd out)"
| "terminal_from_effect (SessionAbort reason) = Some (TerminalAbort reason)"
| "terminal_from_effect (Fail reason) = Some (TerminalFail reason)"
| "terminal_from_effect _ = None"

fun completed_outcome :: "step_terminal \<Rightarrow> bytes option" where
  "completed_outcome (TerminalEnd out) = Some out"
| "completed_outcome _ = None"

fun abort_reason :: "step_terminal \<Rightarrow> string option" where
  "abort_reason (TerminalAbort reason) = Some reason"
| "abort_reason (TerminalFail reason) = Some reason"
| "abort_reason (TerminalEnd _) = None"

record trace_entry =
  te_version :: u32
  te_step :: u64
  te_event :: step_event
  te_pre_state :: state_hash
  te_post_state :: state_hash
  te_terminal :: "step_terminal option"
  te_agreement :: aggregate_attestation

definition ensemble_value :: "ensemble \<Rightarrow> borsh_value" where
  "ensemble_value e = BVec MAX_PARTICIPANTS (map peer_value (peers e))"

fun step_event_value :: "step_event \<Rightarrow> borsh_value" where
  "step_event_value (StepSessionStarted e) = BEnum 0 [ensemble_value e]"
| "step_event_value (StepMessage sender msg) =
     BEnum 1 [peer_value sender, BBytes MAX_EFFECT_PAYLOAD_BYTES msg]"

fun step_terminal_value :: "step_terminal \<Rightarrow> borsh_value" where
  "step_terminal_value (TerminalEnd out) = BEnum 0 [BBytes MAX_TERMINAL_OUTCOME_BYTES out]"
| "step_terminal_value (TerminalAbort reason) = BEnum 1 [BString MAX_TERMINAL_REASON_BYTES reason]"
| "step_terminal_value (TerminalFail reason) = BEnum 2 [BString MAX_TERMINAL_REASON_BYTES reason]"

fun bls_signature_value :: "bls_signature \<Rightarrow> borsh_value" where
  "bls_signature_value (BlsSignature s) = BArr48 s"

definition attestation_value :: "aggregate_attestation \<Rightarrow> borsh_value" where
  "attestation_value a = BStruct [bls_signature_value (att_aggregate a),
                                  BBytes U32_MAX (bitmap (att_signers a))]"

definition entry_value :: "trace_entry \<Rightarrow> borsh_value" where
  "entry_value e = BStruct [BU32 (te_version e), BU64 (te_step e), step_event_value (te_event e),
     state_hash_value (te_pre_state e), state_hash_value (te_post_state e),
     option_value step_terminal_value (te_terminal e), attestation_value (te_agreement e)]"

definition validate_version :: "u32 \<Rightarrow> u32 + unit" where
  "validate_version v = (if v \<noteq> TRACE_FORMAT_VERSION then Inl v else Inr ())"

definition entry_message_id :: "prims \<Rightarrow> trace_entry \<Rightarrow> session_hash \<Rightarrow> panic + message_id option" where
  "entry_message_id P e session =
     (case te_event e of
        StepSessionStarted _ \<Rightarrow> Inr None
      | StepMessage sender msg \<Rightarrow>
          bind_res (message_id_derive P session sender (te_step e) (te_pre_state e) (te_post_state e) msg)
            (\<lambda>i. Inr (Some i)))"

definition is_terminal_entry :: "trace_entry \<Rightarrow> bool" where
  "is_terminal_entry e \<longleftrightarrow> te_terminal e \<noteq> None"

definition entry_hash :: "prims \<Rightarrow> trace_entry \<Rightarrow> panic + 256 word" where
  "entry_hash P e =
     (case to_vec P (entry_value (e\<lparr>te_agreement := attestation_empty\<rparr>)) of
        Inl _ \<Rightarrow> Inl (Panic ''TraceEntry is always serializable'')
      | Inr bs \<Rightarrow> Inr (blake3 P bs))"

section \<open>Step commitments\<close>

definition STEP_COMMIT_DOMAIN :: string where
  "STEP_COMMIT_DOMAIN = ''arena0/step-commit/v4'' @ replicate 3 (CHR 0x00)"

definition CHAIN_START :: "256 word" where
  "CHAIN_START = 0"

record step_commitment =
  sc_domain :: string
  sc_session_id :: session_hash
  sc_step :: u64
  sc_entry_hash :: "256 word"
  sc_pre_state :: state_hash
  sc_post_state :: state_hash
  sc_link :: "256 word"

record step_sig =
  sig_step :: u64
  sig_sig :: bls_signature

definition has_step_domain :: "step_commitment \<Rightarrow> bool" where
  "has_step_domain c \<longleftrightarrow> sc_domain c = STEP_COMMIT_DOMAIN"

definition is_bound_to :: "step_commitment \<Rightarrow> session_hash \<Rightarrow> bool" where
  "is_bound_to c session \<longleftrightarrow> has_step_domain c \<and> sc_session_id c = session"

definition for_entry :: "prims \<Rightarrow> session_hash \<Rightarrow> trace_entry \<Rightarrow> 256 word \<Rightarrow> panic + step_commitment" where
  "for_entry P session e link =
     bind_res (entry_hash P e) (\<lambda>h. Inr
       \<lparr>sc_domain = STEP_COMMIT_DOMAIN, sc_session_id = session, sc_step = te_step e,
        sc_entry_hash = h, sc_pre_state = te_pre_state e, sc_post_state = te_post_state e,
        sc_link = link\<rparr>)"

definition commitment_value :: "step_commitment \<Rightarrow> borsh_value" where
  "commitment_value c = BStruct [BDomain (sc_domain c), session_hash_value (sc_session_id c),
     BU64 (sc_step c), BArr32 (sc_entry_hash c), state_hash_value (sc_pre_state c),
     state_hash_value (sc_post_state c), BArr32 (sc_link c)]"

text \<open>A commitment has no bounded field, so \<open>borsh::to_vec\<close> cannot fail on it
  (lemma \<open>commitment_fits\<close>) and the source's \<open>expect\<close> is unreachable.\<close>

definition signing_bytes :: "prims \<Rightarrow> step_commitment \<Rightarrow> bytes" where
  "signing_bytes P c = borsh P (commitment_value c)"

definition link_hash :: "prims \<Rightarrow> step_commitment \<Rightarrow> 256 word" where
  "link_hash P c = blake3 P (signing_bytes P c)"

section \<open>Lemmas\<close>

lemma of_shared_image: "of_shared P s = StateHash (blake3 P (state_image (shared_as_bytes s)))"
  using shared_fits_image [of s] by (simp add: of_shared_def canonical_state_image_eq)

lemma borsh_fits_option [simp]:
  "borsh_fits (option_value f x) \<longleftrightarrow> (\<forall>y. x = Some y \<longrightarrow> borsh_fits (f y))"
  by (cases x) auto

lemma commitment_fits: "borsh_fits (commitment_value c)"
  by (cases "sc_session_id c"; cases "sc_pre_state c"; cases "sc_post_state c")
    (simp add: commitment_value_def)

lemma commitment_value_inj: "commitment_value a = commitment_value b \<longleftrightarrow> a = b"
proof
  assume "commitment_value a = commitment_value b"
  then show "a = b"
    by (cases "sc_session_id a"; cases "sc_pre_state a"; cases "sc_post_state a";
        cases "sc_session_id b"; cases "sc_pre_state b"; cases "sc_post_state b")
      (simp add: commitment_value_def)
qed simp

lemma peer_value_inj: "peer_value a = peer_value b \<longleftrightarrow> a = b"
  by (auto simp: peer_value_def peer_id.expand)

lemma ensemble_value_inj: "ensemble_value a = ensemble_value b \<longleftrightarrow> a = b"
proof -
  have "inj peer_value" by (simp add: inj_def peer_value_inj)
  then show ?thesis
    by (cases a; cases b) (auto simp: ensemble_value_def dest: map_injective)
qed

lemma step_event_value_inj: "step_event_value a = step_event_value b \<longleftrightarrow> a = b"
  by (cases a; cases b) (auto simp: ensemble_value_inj peer_value_inj)

lemma step_terminal_value_inj: "step_terminal_value a = step_terminal_value b \<longleftrightarrow> a = b"
  by (cases a; cases b) auto

lemma state_hash_value_inj: "state_hash_value a = state_hash_value b \<longleftrightarrow> a = b"
  by (cases a; cases b) auto

lemma option_value_inj:
  assumes "\<And>a b. f a = f b \<longleftrightarrow> a = b"
  shows "option_value f x = option_value f y \<longleftrightarrow> x = y"
  using assms by (cases x; cases y) auto

lemma attestation_value_inj: "attestation_value a = attestation_value b \<longleftrightarrow> a = b"
  by (cases "att_aggregate a"; cases "att_aggregate b")
    (auto simp: attestation_value_def signer_set.expand)

text \<open>The encoded shape of an entry determines the entry.\<close>

lemma entry_value_inj: "entry_value a = entry_value b \<longleftrightarrow> a = b"
  by (auto simp: entry_value_def step_event_value_inj state_hash_value_inj attestation_value_inj
      option_value_inj [OF step_terminal_value_inj])

lemma entry_hash_ok [ok_simps]:
  "entry_hash P e = Inr h \<longleftrightarrow>
     borsh_fits (entry_value (e\<lparr>te_agreement := attestation_empty\<rparr>))
     \<and> h = blake3 P (borsh P (entry_value (e\<lparr>te_agreement := attestation_empty\<rparr>)))"
  by (auto simp: entry_hash_def to_vec_def)

text \<open>Whether an entry serializes does not depend on a small agreement.\<close>

definition entry_fits :: "trace_entry \<Rightarrow> bool" where
  "entry_fits e \<longleftrightarrow> borsh_fits (step_event_value (te_event e))
     \<and> (\<forall>t. te_terminal e = Some t \<longrightarrow> borsh_fits (step_terminal_value t))"

lemma borsh_fits_hash [simp]: "borsh_fits (state_hash_value h)" "borsh_fits (peer_value p)"
  by (cases h, simp) (simp add: peer_value_def)

lemma attestation_fits:
  "borsh_fits (attestation_value a) \<longleftrightarrow> length (bitmap (att_signers a)) \<le> U32_MAX"
  by (cases "att_aggregate a") (simp add: attestation_value_def)

lemma entry_value_fits:
  "borsh_fits (entry_value e) \<longleftrightarrow> entry_fits e \<and> length (bitmap (att_signers (te_agreement e))) \<le> U32_MAX"
  by (auto simp: entry_value_def entry_fits_def attestation_fits)

lemma entry_hash_fits:
  "entry_hash P e = (if entry_fits e
     then Inr (blake3 P (borsh P (entry_value (e\<lparr>te_agreement := attestation_empty\<rparr>))))
     else Inl (Panic ''TraceEntry is always serializable''))"
  by (simp add: entry_hash_def to_vec_def entry_value_fits attestation_empty_def signers_empty_def
      entry_fits_def)

lemma selected_full:
  assumes "\<And>i. i < length ks \<Longrightarrow> signers_contains (att_signers a) i"
  shows "selected_participants a ks = ks"
proof -
  have "filter (\<lambda>(i, _). signers_contains (att_signers a) i) (enumerate 0 ks) = enumerate 0 ks"
    using assms by (auto simp: filter_id_conv in_set_enumerate_eq)
  then show ?thesis by (simp add: selected_participants_def)
qed

lemma verify_signatures_ok [ok_simps]:
  "verify_signatures P a step msg ks = Inr u \<longleftrightarrow>
     signers_validate (att_signers a) (length ks) = Inr ()
     \<and> fast_aggregate_verify P (att_aggregate a) msg (selected_participants a ks) = Inr True"
  by (cases "selected_participants a ks = []")
    (auto simp: verify_signatures_def Let_def ok_simps fast_aggregate_verify_def)

lemma for_entry_ok [ok_simps]:
  "for_entry P session e link = Inr c \<longleftrightarrow>
     entry_fits e \<and> sc_domain c = STEP_COMMIT_DOMAIN \<and> sc_session_id c = session
     \<and> sc_step c = te_step e \<and> Inr (sc_entry_hash c) = entry_hash P e
     \<and> sc_pre_state c = te_pre_state e \<and> sc_post_state c = te_post_state e \<and> sc_link c = link"
  by (cases c) (auto simp: for_entry_def entry_hash_fits)

lemma for_entry_agreement [simp]:
  "for_entry P session (e\<lparr>te_agreement := a\<rparr>) link = for_entry P session e link"
  by (simp add: for_entry_def entry_hash_def)

end
