(* ===== verification/Sample_Prims.thy ===== *)
theory Sample_Prims
  imports Crypto
begin

text \<open>
  One concrete instance of the third-party parameters, used where a statement about them is
  shown to be satisfiable: the Borsh byte layout, a checksum in the place of the hash, and a
  linear scheme in the place of BLS (a signature is the key's low 384 bits, an aggregate is a
  sum).  Nothing in the development depends on this choice.
\<close>

fun sample_borsh :: "borsh_value \<Rightarrow> bytes" where
  "sample_borsh (BU8 w) = [w]"
| "sample_borsh (BU16 w) = le_bytes 2 (unat w)"
| "sample_borsh (BU32 w) = le_bytes 4 (unat w)"
| "sample_borsh (BU64 w) = le_bytes 8 (unat w)"
| "sample_borsh (BDomain s) = string_bytes s"
| "sample_borsh (BArr32 w) = be_bytes 32 w"
| "sample_borsh (BArr48 w) = be_bytes 48 w"
| "sample_borsh (BArr64 w) = be_bytes 64 w"
| "sample_borsh (BArr96 w) = be_bytes 96 w"
| "sample_borsh (BBytes _ bs) = le_bytes 4 (length bs) @ bs"
| "sample_borsh (BString _ s) = le_bytes 4 (length s) @ string_bytes s"
| "sample_borsh (BVec _ vs) = le_bytes 4 (length vs) @ concat (map sample_borsh vs)"
| "sample_borsh (BStruct vs) = concat (map sample_borsh vs)"
| "sample_borsh (BEnum tag vs) = tag # concat (map sample_borsh vs)"
| "sample_borsh BNone = [0]"
| "sample_borsh (BSome v) = 1 # sample_borsh v"

definition sample_hash :: "bytes \<Rightarrow> 256 word" where
  "sample_hash bs = word_of_nat (1 + sum_list (map unat bs))"

fun bls_key_word :: "bls_public_key \<Rightarrow> 384 word" where
  "bls_key_word (BlsPublicKey k) = ucast k"

fun bls_sig_word :: "bls_signature \<Rightarrow> 384 word" where
  "bls_sig_word (BlsSignature s) = s"

definition sample_prims :: prims where
  "sample_prims = \<lparr>
     blake3 = sample_hash, sha256 = sample_hash, keccak256 = sample_hash,
     borsh = sample_borsh,
     blst_pk_error = (\<lambda>_. None), blst_sig_error = (\<lambda>_. None),
     blst_verify = (\<lambda>_ _ pk s. bls_sig_word s = bls_key_word pk),
     blst_aggregate = (\<lambda>ss. Inr (BlsSignature (sum_list (map bls_sig_word ss)))),
     blst_fast_aggregate_verify = (\<lambda>_ _ pks s. bls_sig_word s = sum_list (map bls_key_word pks)),
     ed25519_key_error = (\<lambda>_. None),
     ed25519_verify = (\<lambda>_ _ _. True),
     json_error = (\<lambda>_. None)\<rparr>"

lemma sample_parse [simp]: "parse_pk sample_prims k = Inr k" "parse_sig sample_prims s = Inr s"
  by (simp_all add: parse_ok sample_prims_def)

lemma sample_collect [simp]:
  "collect_res (parse_pk sample_prims) ks = Inr ks" "collect_res (parse_sig sample_prims) ss = Inr ss"
  by (simp_all add: collect_parse_pk collect_parse_sig sample_prims_def)

lemma sample_bls_verify [simp]:
  "bls_verify sample_prims k msg s = Inr (bls_sig_word s = bls_key_word k)"
  "fast_aggregate_verify sample_prims agg msg ks = Inr (ks \<noteq> [] \<and> bls_sig_word agg = sum_list (map bls_key_word ks))"
  "aggregate sample_prims ss = Inr (BlsSignature (sum_list (map bls_sig_word ss)))"
  by (simp_all add: bls_verify_def fast_aggregate_verify_def aggregate_def map_err_def)
    (simp_all add: sample_prims_def)

lemma sample_ed25519_verify:
  "length key = 32 \<Longrightarrow> length s = 64 \<Longrightarrow> verify sample_prims Ed25519 key msg s = Inr True"
  by (simp add: verify_def sample_prims_def)

lemma sample_hash_nonzero:
  assumes "length bs < 2 ^ 64"
  shows "sample_hash bs \<noteq> 0"
proof -
  have "sum_list (map unat bs) \<le> 255 * length bs"
  proof (induction bs)
    case (Cons b bs)
    have "unat b < 256" using unsigned_less [of b] by simp
    with Cons show ?case by simp
  qed simp
  with assms have "1 + sum_list (map unat bs) < 2 ^ 256" by simp
  then have "unat (sample_hash bs) = 1 + sum_list (map unat bs)"
    unfolding sample_hash_def unat_of_nat by (intro mod_less) simp
  then show ?thesis by (metis add_is_0 one_neq_zero unat_0)
qed

end
