(* ===== verification/Negotiation.thy ===== *)
theory Negotiation
  imports Trace Sample_Prims
begin

text \<open>
  \<open>arena0-protocol/src/negotiation.rs\<close>: offers, tickets (key certificates), the activation
  preimage, activation signatures, counteroffers, the convergence-fetch response, the gossip
  envelope, and the evidence built from them: \<open>prepared_activation\<close> and \<open>activation\<close>.

  Source error values that hold the text of another error hold that error here.  The \<open>expect\<close>
  of every \<open>borsh::to_vec\<close> in this file is unreachable: the only bounded field is the offer's
  \<open>JsonBytes\<close>, whose bound is part of its type (lemmas \<open>offer_fits\<close>, \<open>ticket_fits\<close> and
  following).
\<close>

section \<open>Identities and constants\<close>

datatype negotiation_id = NegotiationId "256 word"
datatype offer_hash = OfferHash "256 word"
datatype ticket_hash = TicketHash "256 word"
datatype counteroffer_hash = CounterofferHash "256 word"
datatype execution_profile_hash = ExecutionProfileHash "256 word"

definition MAX_TICKET_LIFETIME_MS :: u64 where
  "MAX_TICKET_LIFETIME_MS = 60000"

definition MAX_NEGOTIATION_FACT_BYTES :: nat where
  "MAX_NEGOTIATION_FACT_BYTES = 4 * 1024"

definition MAX_PARAMS_LEN :: nat where
  "MAX_PARAMS_LEN = 1024"

definition MAX_CALL_PAYLOAD_BYTES :: nat where
  "MAX_CALL_PAYLOAD_BYTES = 4 * 1024 * 1024"

definition MAX_FETCH_TICKETS :: nat where
  "MAX_FETCH_TICKETS = 64"

definition MAX_FETCH_RESPONSE_BYTES :: nat where
  "MAX_FETCH_RESPONSE_BYTES = 32 * 1024"

definition OFFER_DOMAIN :: string where
  "OFFER_DOMAIN = ''arena0/offer/v1'' @ replicate 9 (CHR 0x00)"

definition OFFER_VERSION :: u16 where
  "OFFER_VERSION = 1"

definition TICKET_DOMAIN :: string where
  "TICKET_DOMAIN = ''arena0/ticket/v2'' @ replicate 8 (CHR 0x00)"

definition TICKET_VERSION :: u16 where
  "TICKET_VERSION = 2"

definition ACTIVATION_DOMAIN :: string where
  "ACTIVATION_DOMAIN = ''arena0/activation/v1'' @ replicate 4 (CHR 0x00)"

definition ACTIVATION_VERSION :: u16 where
  "ACTIVATION_VERSION = 1"

definition ACTIVATION_SIG_DOMAIN :: string where
  "ACTIVATION_SIG_DOMAIN = ''arena0/activation-sig/v1''"

definition ACTIVATION_SIG_VERSION :: u16 where
  "ACTIVATION_SIG_VERSION = 1"

definition COUNTEROFFER_DOMAIN :: string where
  "COUNTEROFFER_DOMAIN = ''arena0/counteroffer/v1'' @ replicate 2 (CHR 0x00)"

definition COUNTEROFFER_VERSION :: u16 where
  "COUNTEROFFER_VERSION = 1"

definition NEGOTIATION_GOSSIP_DOMAIN :: string where
  "NEGOTIATION_GOSSIP_DOMAIN = ''arena0/form-gossip/v1'' @ replicate 3 (CHR 0x00)"

definition NEGOTIATION_GOSSIP_VERSION :: u16 where
  "NEGOTIATION_GOSSIP_VERSION = 1"

section \<open>Errors\<close>

datatype negotiation_error =
    WrongDomain string string
  | WrongVersion string u16
  | InvalidTargetSize u16 u16
  | ParamsTooLarge nat nat
  | ExecutionProfileMismatch execution_profile_hash execution_profile_hash
  | FactTooLarge nat nat
  | TicketLifetimeTooLong u64 u64
  | TicketCount nat nat nat
  | DuplicateTicketHash ticket_hash
  | FetchTooManyTickets nat nat
  | FetchResponseTooLarge nat nat
  | ScopeMismatch string
  | DecodeError string
  | DecodeActivation activation_error
and ticket_verification_error =
    Structural negotiation_error
  | Identity crypto_error
  | IdentityMismatch
  | KeyBinding crypto_error
  | KeyBindingMismatch
and activation_error =
    InvalidOffer negotiation_error
  | TicketSetMismatch
  | InvalidOrdering
  | WithdrawnTicket ticket_hash
  | InvalidTicketBody ticket_hash negotiation_error
  | InvalidTicketProof ticket_hash ticket_verification_error
  | AnnouncementMismatch
  | InvalidAttestations "crypto_error option"

section \<open>Values\<close>

typedef json_bytes = "{bs :: bytes. length bs \<le> MAX_CALL_PAYLOAD_BYTES}"
  morphisms json_as_bytes JsonBytes
  by (rule exI [of _ "[]"]) simp

datatype json_bytes_error = JsonTooLarge nat nat | JsonInvalid string

definition json_try_new :: "prims \<Rightarrow> bytes \<Rightarrow> json_bytes_error + json_bytes" where
  "json_try_new P bs =
     (if length bs > MAX_CALL_PAYLOAD_BYTES then Inl (JsonTooLarge (length bs) MAX_CALL_PAYLOAD_BYTES)
      else (case json_error P bs of Some e \<Rightarrow> Inl (JsonInvalid e) | None \<Rightarrow> Inr (JsonBytes bs)))"

record offer_data =
  od_domain :: string
  od_version :: u16
  od_negotiation_id :: negotiation_id
  od_offer_seq :: u64
  od_creator :: peer_id
  od_program_hash :: program_hash
  od_execution_profile :: execution_profile_hash
  od_params :: json_bytes
  od_target_size :: u16
  od_initial_state :: state_hash
  od_deadline_unix_ms :: u64

record offer =
  offer_data_of :: offer_data
  offer_tickets :: "ticket_hash list"

datatype ticket_action =
    TicketActive bls_public_key bls_signature u64 u32
  | TicketWithdrawn

record ticket_data =
  td_domain :: string
  td_version :: u16
  td_negotiation_id :: negotiation_id
  td_offer_seq :: u64
  td_signer :: peer_id
  td_revision :: u64
  td_action :: ticket_action

record ticket =
  tk_data :: ticket_data
  tk_signature :: ed25519_signature

record activation_data =
  ad_domain :: string
  ad_version :: u16
  ad_offer_hash :: offer_hash
  ad_tickets :: "ticket_hash list"

record prepared_activation =
  pa_offer :: offer
  pa_tickets :: "ticket list"
  pa_activation_data :: activation_data
  pa_session_hash :: session_hash

record activation =
  act_prepared :: prepared_activation
  act_aggregate :: bls_signature

record activation_announcement =
  an_offer :: offer
  an_aggregate :: bls_signature

record activation_signature =
  as_domain :: string
  as_version :: u16
  as_session_hash :: session_hash
  as_ticket_hash :: ticket_hash
  as_signature :: bls_signature

record counteroffer_data =
  cd_domain :: string
  cd_version :: u16
  cd_negotiation_id :: negotiation_id
  cd_signer :: peer_id
  cd_params :: bytes
  cd_issued_at_unix_ms :: u64
  cd_valid_for_ms :: u32

record counteroffer =
  co_data :: counteroffer_data
  co_signature :: ed25519_signature

record activation_tickets =
  at_session_hash :: session_hash
  at_tickets :: "ticket list"

datatype negotiation_fact =
    FactOffer offer
  | FactTicket ticket
  | FactActivationSignature activation_signature
  | FactCounteroffer counteroffer
  | FactActivationAnnouncement activation_announcement

record negotiation_gossip =
  ng_domain :: string
  ng_version :: u16
  ng_program_id :: program_hash
  ng_negotiation_id :: negotiation_id
  ng_fact :: negotiation_fact

section \<open>Encoded shapes\<close>

fun negotiation_id_value :: "negotiation_id \<Rightarrow> borsh_value" where
  "negotiation_id_value (NegotiationId h) = BArr32 h"

fun program_hash_value :: "program_hash \<Rightarrow> borsh_value" where
  "program_hash_value (ProgramHash h) = BArr32 h"

fun profile_value :: "execution_profile_hash \<Rightarrow> borsh_value" where
  "profile_value (ExecutionProfileHash h) = BArr32 h"

fun offer_hash_value :: "offer_hash \<Rightarrow> borsh_value" where
  "offer_hash_value (OfferHash h) = BArr32 h"

fun ticket_hash_value :: "ticket_hash \<Rightarrow> borsh_value" where
  "ticket_hash_value (TicketHash h) = BArr32 h"

fun bls_public_key_value :: "bls_public_key \<Rightarrow> borsh_value" where
  "bls_public_key_value (BlsPublicKey k) = BArr96 k"

fun ed25519_value :: "ed25519_signature \<Rightarrow> borsh_value" where
  "ed25519_value (Ed25519Signature s) = BArr64 s"

definition offer_data_value :: "offer_data \<Rightarrow> borsh_value" where
  "offer_data_value d = BStruct [BDomain (od_domain d), BU16 (od_version d),
     negotiation_id_value (od_negotiation_id d), BU64 (od_offer_seq d), peer_value (od_creator d),
     program_hash_value (od_program_hash d), profile_value (od_execution_profile d),
     BBytes MAX_CALL_PAYLOAD_BYTES (json_as_bytes (od_params d)), BU16 (od_target_size d),
     state_hash_value (od_initial_state d), BU64 (od_deadline_unix_ms d)]"

definition offer_value :: "offer \<Rightarrow> borsh_value" where
  "offer_value off = BStruct [offer_data_value (offer_data_of off),
                            BVec U32_MAX (map ticket_hash_value (offer_tickets off))]"

fun ticket_action_value :: "ticket_action \<Rightarrow> borsh_value" where
  "ticket_action_value (TicketActive key binding issued valid) =
     BEnum 0 [bls_public_key_value key, bls_signature_value binding, BU64 issued, BU32 valid]"
| "ticket_action_value TicketWithdrawn = BEnum 1 []"

definition ticket_data_value :: "ticket_data \<Rightarrow> borsh_value" where
  "ticket_data_value d = BStruct [BDomain (td_domain d), BU16 (td_version d),
     negotiation_id_value (td_negotiation_id d), BU64 (td_offer_seq d), peer_value (td_signer d),
     BU64 (td_revision d), ticket_action_value (td_action d)]"

definition ticket_value :: "ticket \<Rightarrow> borsh_value" where
  "ticket_value t = BStruct [ticket_data_value (tk_data t), ed25519_value (tk_signature t)]"

definition activation_data_value :: "activation_data \<Rightarrow> borsh_value" where
  "activation_data_value d = BStruct [BDomain (ad_domain d), BU16 (ad_version d),
     offer_hash_value (ad_offer_hash d), BVec U32_MAX (map ticket_hash_value (ad_tickets d))]"

text \<open>\<open>PREPARED_ACTIVATION_ENCODING_VERSION\<close>, \<open>ACTIVATION_ENCODING_VERSION\<close> and the
  announcement's version are all 1.\<close>

definition prepared_value :: "prepared_activation \<Rightarrow> borsh_value" where
  "prepared_value p = BStruct [BU8 1, offer_value (pa_offer p),
                               BVec U32_MAX (map ticket_value (pa_tickets p))]"

definition activation_value :: "activation \<Rightarrow> borsh_value" where
  "activation_value a = BStruct [BU8 1, prepared_value (act_prepared a),
                                 bls_signature_value (act_aggregate a)]"

definition announcement_value :: "activation_announcement \<Rightarrow> borsh_value" where
  "announcement_value a = BStruct [BU8 1, offer_value (an_offer a), bls_signature_value (an_aggregate a)]"

definition activation_signature_value :: "activation_signature \<Rightarrow> borsh_value" where
  "activation_signature_value s = BStruct [BDomain (as_domain s), BU16 (as_version s),
     session_hash_value (as_session_hash s), ticket_hash_value (as_ticket_hash s),
     bls_signature_value (as_signature s)]"

definition counteroffer_data_value :: "counteroffer_data \<Rightarrow> borsh_value" where
  "counteroffer_data_value d = BStruct [BDomain (cd_domain d), BU16 (cd_version d),
     negotiation_id_value (cd_negotiation_id d), peer_value (cd_signer d),
     BBytes U32_MAX (cd_params d), BU64 (cd_issued_at_unix_ms d), BU32 (cd_valid_for_ms d)]"

definition counteroffer_value :: "counteroffer \<Rightarrow> borsh_value" where
  "counteroffer_value c = BStruct [counteroffer_data_value (co_data c), ed25519_value (co_signature c)]"

fun fact_value :: "negotiation_fact \<Rightarrow> borsh_value" where
  "fact_value (FactOffer off) = BEnum 0 [offer_value off]"
| "fact_value (FactTicket t) = BEnum 1 [ticket_value t]"
| "fact_value (FactActivationSignature s) = BEnum 2 [activation_signature_value s]"
| "fact_value (FactCounteroffer c) = BEnum 3 [counteroffer_value c]"
| "fact_value (FactActivationAnnouncement a) = BEnum 4 [announcement_value a]"

definition gossip_value :: "negotiation_gossip \<Rightarrow> borsh_value" where
  "gossip_value g = BStruct [BDomain (ng_domain g), BU16 (ng_version g),
     program_hash_value (ng_program_id g), negotiation_id_value (ng_negotiation_id g),
     fact_value (ng_fact g)]"

section \<open>Checks\<close>

definition check_domain :: "string \<Rightarrow> string \<Rightarrow> string \<Rightarrow> negotiation_error + unit" where
  "check_domain kind actual expected = (if actual \<noteq> expected then Inl (WrongDomain kind actual) else Inr ())"

definition check_version :: "string \<Rightarrow> u16 \<Rightarrow> u16 \<Rightarrow> negotiation_error + unit" where
  "check_version kind actual expected = (if actual \<noteq> expected then Inl (WrongVersion kind actual) else Inr ())"

definition check_target_size :: "u16 \<Rightarrow> negotiation_error + unit" where
  "check_target_size target =
     (let max = word_of_nat MAX_PARTICIPANTS in
      if \<not> (2 \<le> target \<and> target \<le> max) then Inl (InvalidTargetSize target max)
      else Inr ())"

definition check_params_len :: "nat \<Rightarrow> negotiation_error + unit" where
  "check_params_len len = (if len > MAX_PARAMS_LEN then Inl (ParamsTooLarge MAX_PARAMS_LEN len) else Inr ())"

definition check_fact_size :: "nat \<Rightarrow> negotiation_error + unit" where
  "check_fact_size len =
     (if len > MAX_NEGOTIATION_FACT_BYTES then Inl (FactTooLarge MAX_NEGOTIATION_FACT_BYTES len) else Inr ())"

text \<open>The \<open>HashSet::insert\<close> loop: an error at the first repeated element.\<close>

primrec check_distinct :: "('a \<Rightarrow> 'e) \<Rightarrow> 'a list \<Rightarrow> 'a list \<Rightarrow> 'e + unit" where
  "check_distinct err seen [] = Inr ()"
| "check_distinct err seen (x # xs) =
     (if x \<in> set seen then Inl (err x) else check_distinct err (x # seen) xs)"

text \<open>\<open>decode_bounded\<close>; the parser is \<open>borsh::from_slice\<close> at the frame's type.\<close>

definition decode_bounded ::
  "(bytes \<Rightarrow> string + 'a) \<Rightarrow> bytes \<Rightarrow> nat \<Rightarrow> (nat \<Rightarrow> nat \<Rightarrow> negotiation_error)
   \<Rightarrow> ('a \<Rightarrow> negotiation_error + unit) \<Rightarrow> negotiation_error + 'a" where
  "decode_bounded from_slice bs max_len limit_error validate =
     (if length bs > max_len then Inl (limit_error max_len (length bs))
      else bind_res (map_err DecodeError (from_slice bs)) (\<lambda>frame.
           bind_res (validate frame) (\<lambda>_. Inr frame)))"

definition verify_identity_signature ::
  "prims \<Rightarrow> peer_id \<Rightarrow> bytes \<Rightarrow> ed25519_signature \<Rightarrow> crypto_error + bool" where
  "verify_identity_signature P signer message signature =
     verify P Ed25519 (be_bytes 32 (peer_word signer)) message
       (case signature of Ed25519Signature s \<Rightarrow> be_bytes 64 s)"

section \<open>Offers\<close>

definition offer_data_validate :: "offer_data \<Rightarrow> negotiation_error + unit" where
  "offer_data_validate d =
     bind_res (check_domain ''offer'' (od_domain d) OFFER_DOMAIN) (\<lambda>_.
     bind_res (check_version ''offer'' (od_version d) OFFER_VERSION) (\<lambda>_.
     bind_res (check_params_len (length (json_as_bytes (od_params d)))) (\<lambda>_.
     check_target_size (od_target_size d))))"

definition offer_data_new ::
  "negotiation_id \<Rightarrow> u64 \<Rightarrow> peer_id \<Rightarrow> program_hash \<Rightarrow> execution_profile_hash \<Rightarrow> json_bytes \<Rightarrow> u16
   \<Rightarrow> state_hash \<Rightarrow> u64 \<Rightarrow> negotiation_error + offer_data" where
  "offer_data_new nid seq creator program profile params target initial deadline =
     (let body = \<lparr>od_domain = OFFER_DOMAIN, od_version = OFFER_VERSION, od_negotiation_id = nid,
        od_offer_seq = seq, od_creator = creator, od_program_hash = program,
        od_execution_profile = profile, od_params = params, od_target_size = target,
        od_initial_state = initial, od_deadline_unix_ms = deadline\<rparr> in
      bind_res (offer_data_validate body) (\<lambda>_. Inr body))"

definition validate_for_profile :: "offer_data \<Rightarrow> execution_profile_hash \<Rightarrow> negotiation_error + unit" where
  "validate_for_profile d local =
     bind_res (offer_data_validate d) (\<lambda>_.
     if od_execution_profile d \<noteq> local
     then Inl (ExecutionProfileMismatch (od_execution_profile d) local) else Inr ())"

definition offer_hash_of :: "prims \<Rightarrow> offer_data \<Rightarrow> offer_hash" where
  "offer_hash_of P d = OfferHash (blake3 P (borsh P (offer_data_value d)))"

definition offer_is_complete :: "offer \<Rightarrow> bool" where
  "offer_is_complete off \<longleftrightarrow> length (offer_tickets off) = unat (od_target_size (offer_data_of off))"

definition offer_validate :: "prims \<Rightarrow> offer \<Rightarrow> negotiation_error + unit" where
  "offer_validate P off =
     bind_res (offer_data_validate (offer_data_of off)) (\<lambda>_.
     let max = unat (od_target_size (offer_data_of off)); n = length (offer_tickets off) in
     if \<not> (1 \<le> n \<and> n \<le> max) then Inl (TicketCount n 1 max)
     else bind_res (check_distinct DuplicateTicketHash [] (offer_tickets off)) (\<lambda>_.
          check_fact_size (length (borsh P (offer_value off)))))"

definition offer_new :: "prims \<Rightarrow> offer_data \<Rightarrow> ticket_hash list \<Rightarrow> negotiation_error + offer" where
  "offer_new P d tickets =
     (let off = \<lparr>offer_data_of = d, offer_tickets = tickets\<rparr> in
      bind_res (offer_validate P off) (\<lambda>_. Inr off))"

definition offer_decode :: "prims \<Rightarrow> (bytes \<Rightarrow> string + offer) \<Rightarrow> bytes \<Rightarrow> negotiation_error + offer" where
  "offer_decode P from_slice bs =
     decode_bounded from_slice bs MAX_NEGOTIATION_FACT_BYTES FactTooLarge (offer_validate P)"

section \<open>Tickets\<close>

definition ticket_data_validate :: "ticket_data \<Rightarrow> negotiation_error + unit" where
  "ticket_data_validate d =
     bind_res (check_domain ''ticket'' (td_domain d) TICKET_DOMAIN) (\<lambda>_.
     bind_res (check_version ''ticket'' (td_version d) TICKET_VERSION) (\<lambda>_.
     case td_action d of
       TicketActive _ _ _ valid_for_ms \<Rightarrow>
         (let lifetime_ms = ucast valid_for_ms in
          if lifetime_ms > MAX_TICKET_LIFETIME_MS
          then Inl (TicketLifetimeTooLong lifetime_ms MAX_TICKET_LIFETIME_MS) else Inr ())
     | TicketWithdrawn \<Rightarrow> Inr ()))"

definition ticket_data_new ::
  "negotiation_id \<Rightarrow> u64 \<Rightarrow> peer_id \<Rightarrow> u64 \<Rightarrow> ticket_action \<Rightarrow> negotiation_error + ticket_data" where
  "ticket_data_new nid seq signer revision action =
     (let body = \<lparr>td_domain = TICKET_DOMAIN, td_version = TICKET_VERSION, td_negotiation_id = nid,
        td_offer_seq = seq, td_signer = signer, td_revision = revision, td_action = action\<rparr> in
      bind_res (ticket_data_validate body) (\<lambda>_. Inr body))"

definition ticket_signing_bytes :: "prims \<Rightarrow> ticket_data \<Rightarrow> bytes" where
  "ticket_signing_bytes P d = borsh P (ticket_data_value d)"

definition ticket_hash_of :: "prims \<Rightarrow> ticket_data \<Rightarrow> ticket_hash" where
  "ticket_hash_of P d = TicketHash (blake3 P (ticket_signing_bytes P d))"

definition ticket_validate :: "prims \<Rightarrow> ticket \<Rightarrow> negotiation_error + unit" where
  "ticket_validate P t =
     bind_res (ticket_data_validate (tk_data t)) (\<lambda>_.
     check_fact_size (length (borsh P (ticket_value t))))"

definition ticket_verify_identity :: "prims \<Rightarrow> ticket \<Rightarrow> crypto_error + bool" where
  "ticket_verify_identity P t =
     verify_identity_signature P (td_signer (tk_data t)) (ticket_signing_bytes P (tk_data t)) (tk_signature t)"

definition verify_for_offer :: "prims \<Rightarrow> ticket \<Rightarrow> offer_hash \<Rightarrow> ticket_verification_error + unit" where
  "verify_for_offer P t oh =
     bind_res (map_err Structural (ticket_validate P t)) (\<lambda>_.
     bind_res (map_err Identity (ticket_verify_identity P t)) (\<lambda>ok.
     if \<not> ok then Inl IdentityMismatch
     else case td_action (tk_data t) of
       TicketActive execution_bls key_binding _ _ \<Rightarrow>
         bind_res (map_err KeyBinding
             (verify_key_binding P (case oh of OfferHash h \<Rightarrow> h) (peer_word (td_signer (tk_data t)))
                execution_bls key_binding)) (\<lambda>ok.
         if \<not> ok then Inl KeyBindingMismatch else Inr ())
     | TicketWithdrawn \<Rightarrow> Inr ()))"

definition ticket_decode :: "prims \<Rightarrow> (bytes \<Rightarrow> string + ticket) \<Rightarrow> bytes \<Rightarrow> negotiation_error + ticket" where
  "ticket_decode P from_slice bs =
     decode_bounded from_slice bs MAX_NEGOTIATION_FACT_BYTES FactTooLarge (ticket_validate P)"

section \<open>The activation preimage\<close>

definition activation_data_validate :: "activation_data \<Rightarrow> negotiation_error + unit" where
  "activation_data_validate d =
     bind_res (check_domain ''activation'' (ad_domain d) ACTIVATION_DOMAIN) (\<lambda>_.
     bind_res (check_version ''activation'' (ad_version d) ACTIVATION_VERSION) (\<lambda>_.
     let max = MAX_PARTICIPANTS; n = length (ad_tickets d) in
     if \<not> (2 \<le> n \<and> n \<le> max) then Inl (TicketCount n 2 max)
     else check_distinct DuplicateTicketHash [] (ad_tickets d)))"

definition activation_data_new :: "offer_hash \<Rightarrow> ticket_hash list \<Rightarrow> negotiation_error + activation_data" where
  "activation_data_new oh tickets =
     (let d = \<lparr>ad_domain = ACTIVATION_DOMAIN, ad_version = ACTIVATION_VERSION,
               ad_offer_hash = oh, ad_tickets = tickets\<rparr> in
      bind_res (activation_data_validate d) (\<lambda>_. Inr d))"

definition activation_signing_bytes :: "prims \<Rightarrow> activation_data \<Rightarrow> bytes" where
  "activation_signing_bytes P d = borsh P (activation_data_value d)"

definition session_hash_of :: "prims \<Rightarrow> activation_data \<Rightarrow> session_hash" where
  "session_hash_of P d = SessionHash (blake3 P (activation_signing_bytes P d))"

section \<open>Prepared and committed activations\<close>

definition check_prepared_ticket :: "prims \<Rightarrow> ticket \<times> ticket_hash \<Rightarrow> activation_error + unit" where
  "check_prepared_ticket P = (\<lambda>(t, hash).
     if ticket_hash_of P (tk_data t) \<noteq> hash then Inl TicketSetMismatch
     else bind_res (map_err (InvalidTicketBody (ticket_hash_of P (tk_data t))) (ticket_validate P t)) (\<lambda>_.
          case td_action (tk_data t) of
            TicketActive _ _ _ _ \<Rightarrow> Inr ()
          | TicketWithdrawn \<Rightarrow> Inl (WithdrawnTicket (ticket_hash_of P (tk_data t)))))"

text \<open>\<open>windows(2)\<close> with \<open>pair[0] >= pair[1]\<close> rejected.\<close>

fun check_ascending :: "'e \<Rightarrow> 'a::linorder list \<Rightarrow> 'e + unit" where
  "check_ascending err (a # b # xs) = (if a \<ge> b then Inl err else check_ascending err (b # xs))"
| "check_ascending err _ = Inr ()"

definition activation_data_for :: "prims \<Rightarrow> offer \<Rightarrow> ticket list \<Rightarrow> activation_error + activation_data" where
  "activation_data_for P off tickets =
     bind_res (map_err InvalidOffer (offer_validate P off)) (\<lambda>_.
     if \<not> offer_is_complete off then Inl TicketSetMismatch
     else if length tickets \<noteq> length (offer_tickets off)
             \<or> length tickets \<noteq> unat (od_target_size (offer_data_of off))
     then Inl TicketSetMismatch
     else bind_res (check_all (check_prepared_ticket P) (zip tickets (offer_tickets off))) (\<lambda>_.
     let signers = map (\<lambda>t. td_signer (tk_data t)) tickets in
     if (case signers of [] \<Rightarrow> None | s # _ \<Rightarrow> Some s) \<noteq> Some (od_creator (offer_data_of off))
     then Inl InvalidOrdering
     else bind_res (check_distinct (\<lambda>_. InvalidOrdering) [] signers) (\<lambda>_.
     bind_res (check_ascending InvalidOrdering (tl signers)) (\<lambda>_.
     let oh = offer_hash_of P (offer_data_of off) in
     bind_res (map_err InvalidOffer (activation_data_new oh (offer_tickets off))) (\<lambda>d.
     bind_res (check_all (\<lambda>t. map_err (InvalidTicketProof (ticket_hash_of P (tk_data t)))
                                (verify_for_offer P t oh)) tickets) (\<lambda>_.
     Inr d))))))"

definition prepared_new :: "prims \<Rightarrow> offer \<Rightarrow> ticket list \<Rightarrow> activation_error + prepared_activation" where
  "prepared_new P off tickets =
     bind_res (activation_data_for P off tickets) (\<lambda>d.
     Inr \<lparr>pa_offer = off, pa_tickets = tickets, pa_activation_data = d,
          pa_session_hash = session_hash_of P d\<rparr>)"

definition prepared_signers :: "prepared_activation \<Rightarrow> peer_id list" where
  "prepared_signers p = map (\<lambda>t. td_signer (tk_data t)) (pa_tickets p)"

definition prepared_ensemble :: "prepared_activation \<Rightarrow> ensemble_error + ensemble" where
  "prepared_ensemble p = from_peers (prepared_signers p)"

definition prepared_validate :: "prims \<Rightarrow> prepared_activation \<Rightarrow> activation_error + unit" where
  "prepared_validate P p =
     bind_res (activation_data_for P (pa_offer p) (pa_tickets p)) (\<lambda>d.
     if d \<noteq> pa_activation_data p
        \<or> session_hash_of P (pa_activation_data p) \<noteq> pa_session_hash p
     then Inl TicketSetMismatch else Inr ())"

definition prepared_matches :: "prepared_activation \<Rightarrow> activation \<Rightarrow> bool" where
  "prepared_matches p a \<longleftrightarrow> p = act_prepared a"

definition check_structure :: "prims \<Rightarrow> prepared_activation \<Rightarrow> activation_error + unit" where
  "check_structure P p = bind_res (activation_data_for P (pa_offer p) (pa_tickets p)) (\<lambda>_. Inr ())"

text \<open>The execution key of a ticket; the withdrawn case is the source's \<open>unreachable!\<close>, excluded
  by the structure check that runs before it (lemma \<open>activation_data_for_active\<close>).\<close>

definition ticket_key :: "ticket \<Rightarrow> bls_public_key option" where
  "ticket_key t = (case td_action (tk_data t) of TicketActive key _ _ _ \<Rightarrow> Some key | TicketWithdrawn \<Rightarrow> None)"

definition activation_keys :: "ticket list \<Rightarrow> bls_public_key list" where
  "activation_keys tickets = map (\<lambda>t. the (ticket_key t)) tickets"

definition activation_validate :: "prims \<Rightarrow> activation \<Rightarrow> activation_error + unit" where
  "activation_validate P a =
     bind_res (check_structure P (act_prepared a)) (\<lambda>_.
     bind_res (map_err (\<lambda>e. InvalidAttestations (Some e))
       (fast_aggregate_verify P (act_aggregate a)
          (activation_signing_bytes P (pa_activation_data (act_prepared a)))
          (activation_keys (pa_tickets (act_prepared a))))) (\<lambda>ok.
     if \<not> ok then Inl (InvalidAttestations None) else Inr ()))"

definition activation_new ::
  "prims \<Rightarrow> prepared_activation \<Rightarrow> bls_signature \<Rightarrow> activation_error + activation" where
  "activation_new P prepared agg =
     (let a = \<lparr>act_prepared = prepared, act_aggregate = agg\<rparr> in
      bind_res (activation_validate P a) (\<lambda>_. Inr a))"

definition from_announcement ::
  "prims \<Rightarrow> prepared_activation \<Rightarrow> activation_announcement \<Rightarrow> activation_error + activation" where
  "from_announcement P prepared announcement =
     (if pa_offer prepared \<noteq> an_offer announcement then Inl AnnouncementMismatch
      else activation_new P prepared (an_aggregate announcement))"

section \<open>Announcements, activation signatures, counteroffers\<close>

definition announcement_validate :: "prims \<Rightarrow> activation_announcement \<Rightarrow> activation_error + unit" where
  "announcement_validate P a =
     bind_res (map_err InvalidOffer (offer_validate P (an_offer a))) (\<lambda>_.
     if \<not> offer_is_complete (an_offer a) then Inl TicketSetMismatch
     else map_err InvalidOffer (check_fact_size (length (borsh P (announcement_value a)))))"

definition announcement_from_activation :: "activation \<Rightarrow> activation_announcement" where
  "announcement_from_activation a = \<lparr>an_offer = pa_offer (act_prepared a), an_aggregate = act_aggregate a\<rparr>"

definition announcement_decode ::
  "prims \<Rightarrow> (bytes \<Rightarrow> string + activation_announcement) \<Rightarrow> bytes \<Rightarrow> negotiation_error + activation_announcement" where
  "announcement_decode P from_slice bs =
     decode_bounded from_slice bs MAX_NEGOTIATION_FACT_BYTES FactTooLarge
       (\<lambda>frame. map_err DecodeActivation (announcement_validate P frame))"

definition activation_signature_validate :: "prims \<Rightarrow> activation_signature \<Rightarrow> negotiation_error + unit" where
  "activation_signature_validate P s =
     bind_res (check_domain ''activation signature'' (as_domain s) ACTIVATION_SIG_DOMAIN) (\<lambda>_.
     bind_res (check_version ''activation signature'' (as_version s) ACTIVATION_SIG_VERSION) (\<lambda>_.
     check_fact_size (length (borsh P (activation_signature_value s)))))"

definition activation_signature_new ::
  "prims \<Rightarrow> session_hash \<Rightarrow> ticket_hash \<Rightarrow> bls_signature \<Rightarrow> negotiation_error + activation_signature" where
  "activation_signature_new P sh th s =
     (let frame = \<lparr>as_domain = ACTIVATION_SIG_DOMAIN, as_version = ACTIVATION_SIG_VERSION,
        as_session_hash = sh, as_ticket_hash = th, as_signature = s\<rparr> in
      bind_res (activation_signature_validate P frame) (\<lambda>_. Inr frame))"

definition counteroffer_data_validate :: "counteroffer_data \<Rightarrow> negotiation_error + unit" where
  "counteroffer_data_validate d =
     bind_res (check_domain ''counteroffer'' (cd_domain d) COUNTEROFFER_DOMAIN) (\<lambda>_.
     bind_res (check_version ''counteroffer'' (cd_version d) COUNTEROFFER_VERSION) (\<lambda>_.
     bind_res (check_params_len (length (cd_params d))) (\<lambda>_.
     let lifetime_ms = ucast (cd_valid_for_ms d) in
     if lifetime_ms > MAX_TICKET_LIFETIME_MS
     then Inl (TicketLifetimeTooLong lifetime_ms MAX_TICKET_LIFETIME_MS) else Inr ())))"

definition counteroffer_data_new ::
  "negotiation_id \<Rightarrow> peer_id \<Rightarrow> bytes \<Rightarrow> u64 \<Rightarrow> u32 \<Rightarrow> negotiation_error + counteroffer_data" where
  "counteroffer_data_new nid signer params issued valid =
     (let body = \<lparr>cd_domain = COUNTEROFFER_DOMAIN, cd_version = COUNTEROFFER_VERSION,
        cd_negotiation_id = nid, cd_signer = signer, cd_params = params,
        cd_issued_at_unix_ms = issued, cd_valid_for_ms = valid\<rparr> in
      bind_res (counteroffer_data_validate body) (\<lambda>_. Inr body))"

text \<open>A counteroffer body's parameters are a stock \<open>Vec<u8>\<close>: serialization fails, and the source
  panics, only beyond the 32-bit length prefix; \<open>validate\<close> bounds them before serializing.\<close>

definition counteroffer_hash_of :: "prims \<Rightarrow> counteroffer_data \<Rightarrow> panic + counteroffer_hash" where
  "counteroffer_hash_of P d =
     (case to_vec P (counteroffer_data_value d) of
        Inl _ \<Rightarrow> Inl (Panic ''CounterofferData is serializable'')
      | Inr bs \<Rightarrow> Inr (CounterofferHash (blake3 P bs)))"

definition counteroffer_validate :: "prims \<Rightarrow> counteroffer \<Rightarrow> negotiation_error + unit" where
  "counteroffer_validate P c =
     bind_res (counteroffer_data_validate (co_data c)) (\<lambda>_.
     check_fact_size (length (borsh P (counteroffer_value c))))"

section \<open>The convergence fetch and the gossip envelope\<close>

text \<open>\<open>response_body_len\<close> of \<open>fetch_frame.rs\<close>: a \<open>usize\<close> sum that saturates on overflow.\<close>

definition response_body_len :: "nat list \<Rightarrow> nat" where
  "response_body_len lens = min (1 + 32 + 4 + sum_list (map (\<lambda>len. 4 + len) lens)) (2 ^ 64 - 1)"

definition activation_tickets_validate :: "prims \<Rightarrow> activation_tickets \<Rightarrow> negotiation_error + unit" where
  "activation_tickets_validate P r =
     (if length (at_tickets r) > MAX_FETCH_TICKETS
      then Inl (FetchTooManyTickets MAX_FETCH_TICKETS (length (at_tickets r)))
      else bind_res (check_all (ticket_validate P) (at_tickets r)) (\<lambda>_.
        let len = response_body_len (map (\<lambda>t. length (borsh P (ticket_value t))) (at_tickets r)) in
        if len > MAX_FETCH_RESPONSE_BYTES then Inl (FetchResponseTooLarge MAX_FETCH_RESPONSE_BYTES len)
        else Inr ()))"

definition activation_tickets_decode ::
  "prims \<Rightarrow> (bytes \<Rightarrow> string + activation_tickets) \<Rightarrow> bytes \<Rightarrow> negotiation_error + activation_tickets" where
  "activation_tickets_decode P from_slice bs =
     decode_bounded from_slice bs MAX_FETCH_RESPONSE_BYTES FetchResponseTooLarge (activation_tickets_validate P)"

fun fact_negotiation_id :: "negotiation_fact \<Rightarrow> negotiation_id option" where
  "fact_negotiation_id (FactOffer off) = Some (od_negotiation_id (offer_data_of off))"
| "fact_negotiation_id (FactTicket t) = Some (td_negotiation_id (tk_data t))"
| "fact_negotiation_id (FactCounteroffer c) = Some (cd_negotiation_id (co_data c))"
| "fact_negotiation_id (FactActivationSignature _) = None"
| "fact_negotiation_id (FactActivationAnnouncement a) = Some (od_negotiation_id (offer_data_of (an_offer a)))"

fun fact_validate :: "prims \<Rightarrow> negotiation_fact \<Rightarrow> negotiation_error + unit" where
  "fact_validate P (FactOffer off) = offer_validate P off"
| "fact_validate P (FactTicket t) = ticket_validate P t"
| "fact_validate P (FactActivationSignature s) = activation_signature_validate P s"
| "fact_validate P (FactActivationAnnouncement a) = map_err DecodeActivation (announcement_validate P a)"
| "fact_validate P (FactCounteroffer c) = counteroffer_validate P c"

definition gossip_new :: "program_hash \<Rightarrow> negotiation_id \<Rightarrow> negotiation_fact \<Rightarrow> negotiation_gossip" where
  "gossip_new program nid nfact =
     \<lparr>ng_domain = NEGOTIATION_GOSSIP_DOMAIN, ng_version = NEGOTIATION_GOSSIP_VERSION,
      ng_program_id = program, ng_negotiation_id = nid, ng_fact = nfact\<rparr>"

definition gossip_validate :: "prims \<Rightarrow> negotiation_gossip \<Rightarrow> negotiation_error + unit" where
  "gossip_validate P g =
     bind_res (check_domain ''negotiation gossip'' (ng_domain g) NEGOTIATION_GOSSIP_DOMAIN) (\<lambda>_.
     bind_res (check_version ''negotiation gossip'' (ng_version g) NEGOTIATION_GOSSIP_VERSION) (\<lambda>_.
     bind_res (fact_validate P (ng_fact g)) (\<lambda>_.
     case fact_negotiation_id (ng_fact g) of
       Some nid \<Rightarrow>
         if nid \<noteq> ng_negotiation_id g then Inl (ScopeMismatch ''negotiation fact'')
         else check_fact_size (length (borsh P (gossip_value g)))
     | None \<Rightarrow> check_fact_size (length (borsh P (gossip_value g))))))"

definition gossip_decode ::
  "prims \<Rightarrow> (bytes \<Rightarrow> string + negotiation_gossip) \<Rightarrow> bytes \<Rightarrow> negotiation_error + negotiation_gossip" where
  "gossip_decode P from_slice bs =
     decode_bounded from_slice bs MAX_NEGOTIATION_FACT_BYTES FactTooLarge (gossip_validate P)"

section \<open>Lemmas\<close>

lemma check_simple_ok [ok_simps]:
  "check_domain k a e = Inr u \<longleftrightarrow> a = e"
  "check_version k v w = Inr u \<longleftrightarrow> v = w"
  "check_params_len n = Inr u \<longleftrightarrow> n \<le> MAX_PARAMS_LEN"
  "check_fact_size n = Inr u \<longleftrightarrow> n \<le> MAX_NEGOTIATION_FACT_BYTES"
  by (auto simp: check_domain_def check_version_def check_params_len_def check_fact_size_def)

lemma check_target_size_ok [ok_simps]:
  "check_target_size n = Inr u \<longleftrightarrow> 2 \<le> unat n \<and> unat n \<le> 64"
  by (auto simp: check_target_size_def MAX_PARTICIPANTS_def Let_def word_le_nat_alt)

lemma check_distinct_ok [ok_simps]:
  "check_distinct err seen xs = Inr u \<longleftrightarrow> distinct xs \<and> set xs \<inter> set seen = {}"
  by (induction xs arbitrary: seen) auto

lemma check_ascending_ok [ok_simps]: "check_ascending err xs = Inr u \<longleftrightarrow> sorted_wrt (<) xs"
proof (induction err xs rule: check_ascending.induct)
  case (1 err a b xs)
  then show ?case by (auto simp: not_le dest: less_trans)
qed auto

lemma check_prepared_ticket_ok [ok_simps]:
  "check_prepared_ticket P (t, h) = Inr u \<longleftrightarrow>
     h = ticket_hash_of P (tk_data t) \<and> ticket_validate P t = Inr () \<and> ticket_key t \<noteq> None"
  by (auto simp: check_prepared_ticket_def ok_simps ticket_key_def split: ticket_action.splits)

lemma verify_for_offer_ok:
  "verify_for_offer P t (OfferHash oh) = Inr u \<longleftrightarrow>
     ticket_validate P t = Inr () \<and> ticket_verify_identity P t = Inr True
     \<and> (case td_action (tk_data t) of
          TicketActive key binding _ _ \<Rightarrow>
            verify_key_binding P oh (peer_word (td_signer (tk_data t))) key binding = Inr True
        | TicketWithdrawn \<Rightarrow> True)"
  by (auto simp: verify_for_offer_def ok_simps split: ticket_action.splits)

lemma zip_all_map:
  assumes "length xs = length ys"
  shows "(\<forall>p \<in> set (zip xs ys). snd p = f (fst p) \<and> Q (fst p)) \<longleftrightarrow>
    ys = map f xs \<and> (\<forall>x \<in> set xs. Q x)"
  using assms by (induction xs ys rule: list_induct2) auto

lemma check_prepared_tickets_ok:
  assumes "length tickets = length hashes"
  shows "check_all (check_prepared_ticket P) (zip tickets hashes) = Inr u \<longleftrightarrow>
    hashes = map (\<lambda>t. ticket_hash_of P (tk_data t)) tickets
    \<and> (\<forall>t \<in> set tickets. ticket_validate P t = Inr () \<and> ticket_key t \<noteq> None)"
proof -
  have "check_prepared_ticket P p = Inr () \<longleftrightarrow> snd p = ticket_hash_of P (tk_data (fst p))
      \<and> ticket_validate P (fst p) = Inr () \<and> ticket_key (fst p) \<noteq> None" for p
    by (cases p) (simp add: check_prepared_ticket_ok)
  then show ?thesis
    using zip_all_map [OF assms, of "\<lambda>t. ticket_hash_of P (tk_data t)"
        "\<lambda>t. ticket_validate P t = Inr () \<and> ticket_key t \<noteq> None"]
    by (simp add: check_all_ok)
qed

definition ticket_signer :: "ticket \<Rightarrow> peer_id" where
  "ticket_signer t = td_signer (tk_data t)"

lemma offer_validate_ok [ok_simps]:
  "offer_validate P off = Inr u \<longleftrightarrow>
     offer_data_validate (offer_data_of off) = Inr ()
     \<and> 1 \<le> length (offer_tickets off)
     \<and> length (offer_tickets off) \<le> unat (od_target_size (offer_data_of off))
     \<and> distinct (offer_tickets off)
     \<and> length (borsh P (offer_value off)) \<le> MAX_NEGOTIATION_FACT_BYTES"
  by (auto simp: offer_validate_def Let_def ok_simps)

lemma offer_data_validate_ok [ok_simps]:
  "offer_data_validate d = Inr u \<longleftrightarrow>
     od_domain d = OFFER_DOMAIN \<and> od_version d = OFFER_VERSION
     \<and> length (json_as_bytes (od_params d)) \<le> MAX_PARAMS_LEN
     \<and> 2 \<le> unat (od_target_size d) \<and> unat (od_target_size d) \<le> 64"
  by (auto simp: offer_data_validate_def ok_simps)

lemma activation_data_new_ok [ok_simps]:
  "activation_data_new oh hs = Inr d \<longleftrightarrow>
     2 \<le> length hs \<and> length hs \<le> 64 \<and> distinct hs
     \<and> d = \<lparr>ad_domain = ACTIVATION_DOMAIN, ad_version = ACTIVATION_VERSION,
            ad_offer_hash = oh, ad_tickets = hs\<rparr>"
  by (auto simp: activation_data_new_def activation_data_validate_def MAX_PARTICIPANTS_def Let_def ok_simps)

lemma creator_first:
  "(case ss of [] \<Rightarrow> None | s # _ \<Rightarrow> Some s) = Some c \<and> distinct ss \<and> sorted_wrt (<) (tl ss) \<longleftrightarrow>
   (\<exists>rest. ss = c # rest \<and> c \<notin> set rest \<and> sorted_wrt (<) (rest :: peer_id list))"
  by (cases ss) (auto simp: strict_sorted_iff)

text \<open>Exactly when an offer and a ticket list form an activation.\<close>

lemma activation_data_for_ok:
  "activation_data_for P off tickets = Inr d \<longleftrightarrow>
     offer_validate P off = Inr ()
     \<and> length tickets = unat (od_target_size (offer_data_of off))
     \<and> offer_tickets off = map (\<lambda>t. ticket_hash_of P (tk_data t)) tickets
     \<and> (\<forall>t \<in> set tickets. ticket_key t \<noteq> None
          \<and> verify_for_offer P t (offer_hash_of P (offer_data_of off)) = Inr ())
     \<and> (\<exists>rest. map ticket_signer tickets = od_creator (offer_data_of off) # rest
          \<and> od_creator (offer_data_of off) \<notin> set rest \<and> sorted_wrt (<) rest)
     \<and> d = \<lparr>ad_domain = ACTIVATION_DOMAIN, ad_version = ACTIVATION_VERSION,
           ad_offer_hash = offer_hash_of P (offer_data_of off), ad_tickets = offer_tickets off\<rparr>"
    (is "?L \<longleftrightarrow> ?V \<and> ?len \<and> ?hashes \<and> ?proofs \<and> ?order \<and> ?d")
proof (cases "?V \<and> ?len \<and> length (offer_tickets off) = length tickets")
  case True
  have signers: "map (\<lambda>t. td_signer (tk_data t)) tickets = map ticket_signer tickets"
    by (simp add: ticket_signer_def)
  from True have new: "activation_data_new oh (offer_tickets off) = Inr d \<longleftrightarrow>
      d = \<lparr>ad_domain = ACTIVATION_DOMAIN, ad_version = ACTIVATION_VERSION,
           ad_offer_hash = oh, ad_tickets = offer_tickets off\<rparr>" for oh d
    by (auto simp: ok_simps)
  have valid: "verify_for_offer P t oh = Inr () \<Longrightarrow> ticket_validate P t = Inr ()" for t oh
    by (cases oh) (simp add: verify_for_offer_ok)
  have zip: "(\<forall>x \<in> set (zip tickets (offer_tickets off)). check_prepared_ticket P x = Inr ()) \<longleftrightarrow>
      ?hashes \<and> (\<forall>t \<in> set tickets. ticket_validate P t = Inr () \<and> ticket_key t \<noteq> None)"
    using check_prepared_tickets_ok [of tickets "offer_tickets off" P] True
    by (simp only: check_all_ok)
  from True have "?L \<longleftrightarrow> ?hashes \<and> (\<forall>t \<in> set tickets. ticket_validate P t = Inr () \<and> ticket_key t \<noteq> None)
      \<and> ((case map ticket_signer tickets of [] \<Rightarrow> None | s # _ \<Rightarrow> Some s) = Some (od_creator (offer_data_of off))
         \<and> distinct (map ticket_signer tickets) \<and> sorted_wrt (<) (tl (map ticket_signer tickets)))
      \<and> (\<forall>t \<in> set tickets. verify_for_offer P t (offer_hash_of P (offer_data_of off)) = Inr ()) \<and> ?d"
    unfolding activation_data_for_def Let_def signers offer_is_complete_def
    by (simp add: bind_res_ok map_err_ok if_Inl_ok check_distinct_ok check_ascending_ok check_all_ok
        new zip) blast
  moreover have "(\<forall>t \<in> set tickets. ticket_validate P t = Inr () \<and> ticket_key t \<noteq> None)
      \<and> (\<forall>t \<in> set tickets. verify_for_offer P t (offer_hash_of P (offer_data_of off)) = Inr ()) \<longleftrightarrow> ?proofs"
    using valid by blast
  ultimately show ?thesis using True unfolding creator_first by argo
next
  case False
  then have "\<not> ?L" unfolding activation_data_for_def offer_is_complete_def
    by (auto simp: bind_res_ok map_err_ok if_Inl_ok)
  moreover have "?hashes \<Longrightarrow> length (offer_tickets off) = length tickets" by simp
  ultimately show ?thesis using False by blast
qed

lemma activation_data_for_active:
  "activation_data_for P off tickets = Inr d \<Longrightarrow> \<forall>t \<in> set tickets. ticket_key t \<noteq> None"
  by (simp add: activation_data_for_ok)

text \<open>The evidence an accepted activation carries.\<close>

lemma activation_data_forD:
  assumes "activation_data_for P off tickets = Inr d"
  shows "offer_validate P off = Inr ()"
    and "length tickets = unat (od_target_size (offer_data_of off))"
    and "offer_tickets off = map (\<lambda>t. ticket_hash_of P (tk_data t)) tickets"
    and "\<forall>t \<in> set tickets. ticket_key t \<noteq> None
          \<and> verify_for_offer P t (offer_hash_of P (offer_data_of off)) = Inr ()"
    and "\<exists>rest. map ticket_signer tickets = od_creator (offer_data_of off) # rest
          \<and> od_creator (offer_data_of off) \<notin> set rest \<and> sorted_wrt (<) rest"
    and "d = \<lparr>ad_domain = ACTIVATION_DOMAIN, ad_version = ACTIVATION_VERSION,
           ad_offer_hash = offer_hash_of P (offer_data_of off), ad_tickets = offer_tickets off\<rparr>"
  using assms unfolding activation_data_for_ok by simp_all

lemma prepared_signers_distinct:
  assumes "activation_data_for P off tickets = Inr d"
  shows "distinct (map ticket_signer tickets)" "2 \<le> length tickets" "length tickets \<le> 64"
  using assms by (auto simp: activation_data_for_ok strict_sorted_iff offer_validate_ok offer_data_validate_ok)

lemma ticket_key_active: "ticket_key t = Some key \<longleftrightarrow> (\<exists>b i v. td_action (tk_data t) = TicketActive key b i v)"
  by (auto simp: ticket_key_def split: ticket_action.splits)

section \<open>A sample activation\<close>

text \<open>Two participants, the creator with the larger peer identity.\<close>

definition sample_offer_data :: offer_data where
  "sample_offer_data = \<lparr>od_domain = OFFER_DOMAIN, od_version = OFFER_VERSION,
     od_negotiation_id = NegotiationId 5, od_offer_seq = 0, od_creator = PeerId 9,
     od_program_hash = ProgramHash 6, od_execution_profile = ExecutionProfileHash 7,
     od_params = JsonBytes [], od_target_size = 2,
     od_initial_state = of_shared sample_prims (SharedStateBytes []), od_deadline_unix_ms = 1000\<rparr>"

definition sample_ticket :: "256 word \<Rightarrow> ticket" where
  "sample_ticket w = \<lparr>tk_data = \<lparr>td_domain = TICKET_DOMAIN, td_version = TICKET_VERSION,
     td_negotiation_id = NegotiationId 5, td_offer_seq = 0, td_signer = PeerId w, td_revision = 0,
     td_action = TicketActive (BlsPublicKey (ucast w)) (BlsSignature (ucast w)) 10 1000\<rparr>,
     tk_signature = Ed25519Signature 0\<rparr>"

definition sample_tickets :: "ticket list" where
  "sample_tickets = [sample_ticket 9, sample_ticket 3]"

definition sample_offer :: offer where
  "sample_offer = \<lparr>offer_data_of = sample_offer_data,
     offer_tickets = map (\<lambda>t. ticket_hash_of sample_prims (tk_data t)) sample_tickets\<rparr>"

definition sample_prepared :: prepared_activation where
  "sample_prepared = \<lparr>pa_offer = sample_offer, pa_tickets = sample_tickets,
     pa_activation_data = \<lparr>ad_domain = ACTIVATION_DOMAIN, ad_version = ACTIVATION_VERSION,
       ad_offer_hash = offer_hash_of sample_prims sample_offer_data,
       ad_tickets = offer_tickets sample_offer\<rparr>,
     pa_session_hash = session_hash_of sample_prims \<lparr>ad_domain = ACTIVATION_DOMAIN,
       ad_version = ACTIVATION_VERSION, ad_offer_hash = offer_hash_of sample_prims sample_offer_data,
       ad_tickets = offer_tickets sample_offer\<rparr>\<rparr>"

definition sample_activation :: activation where
  "sample_activation = \<lparr>act_prepared = sample_prepared, act_aggregate = BlsSignature 12\<rparr>"

lemma json_as_bytes_empty [simp]: "json_as_bytes (JsonBytes []) = []"
  by (simp add: JsonBytes_inverse)

lemma sample_hashes_distinct:
  "ticket_hash_of sample_prims (tk_data (sample_ticket 9)) \<noteq> ticket_hash_of sample_prims (tk_data (sample_ticket 3))"
  by code_simp

lemma sample_ticket_size: "length (sample_borsh (ticket_value (sample_ticket w))) = 327"
  by (simp add: sample_ticket_def ticket_value_def ticket_data_value_def peer_value_def TICKET_DOMAIN_def
      string_bytes_def)

lemma sample_offer_size: "length (sample_borsh (offer_value sample_offer)) \<le> MAX_NEGOTIATION_FACT_BYTES"
  by (cases "od_initial_state sample_offer_data"; cases "ticket_hash_of sample_prims (tk_data (sample_ticket 9))";
      cases "ticket_hash_of sample_prims (tk_data (sample_ticket 3))")
    (simp add: sample_offer_def offer_value_def offer_data_value_def peer_value_def sample_offer_data_def
      OFFER_DOMAIN_def string_bytes_def MAX_NEGOTIATION_FACT_BYTES_def sample_tickets_def)

lemma sample_offer_valid: "offer_validate sample_prims sample_offer = Inr ()"
  using sample_hashes_distinct sample_offer_size
  by (simp add: offer_validate_ok offer_data_validate_ok sample_offer_data_def sample_offer_def
      sample_tickets_def sample_prims_def MAX_PARAMS_LEN_def)

lemma sample_ticket_valid:
  "ticket_validate sample_prims (sample_ticket w) = Inr ()"
  using sample_ticket_size [of w]
  by (simp add: ticket_validate_def ticket_data_validate_def ok_simps sample_prims_def)
    (simp add: sample_ticket_def MAX_TICKET_LIFETIME_MS_def MAX_NEGOTIATION_FACT_BYTES_def)

lemma sample_identity: "ticket_verify_identity sample_prims (sample_ticket w) = Inr True"
  by (cases "tk_signature (sample_ticket w)")
    (simp add: ticket_verify_identity_def verify_identity_signature_def verify_ed25519_ok sample_prims_def)

lemma sample_tickets_verified:
  "t \<in> set sample_tickets \<Longrightarrow>
     ticket_key t \<noteq> None \<and> verify_for_offer sample_prims t oh = Inr ()"
  by (cases oh)
    (auto simp: verify_for_offer_ok sample_tickets_def sample_ticket_valid sample_identity
      ticket_key_def,
     auto simp: verify_key_binding_def verify_binding_ok sample_prims_def sample_ticket_def)

lemma sample_prepared_ok: "prepared_new sample_prims sample_offer sample_tickets = Inr sample_prepared"
proof -
  have "activation_data_for sample_prims sample_offer sample_tickets = Inr (pa_activation_data sample_prepared)"
    unfolding activation_data_for_ok
    using sample_offer_valid sample_tickets_verified
    by (auto simp: sample_offer_def sample_prepared_def)
      (auto simp: sample_tickets_def sample_offer_data_def ticket_signer_def sample_ticket_def)
  then show ?thesis by (simp add: prepared_new_def) (simp add: sample_prepared_def)
qed

section \<open>Properties\<close>

text \<open>C16: what an accepted preparation fixes.  The tickets are exactly the ones the frozen offer
  lists, by hash and in order; there are \<open>target_size\<close> of them, between 2 and 64, all active, each
  with a valid identity signature and a key binding for this very offer; the creator signs first
  and the rest follow in strictly ascending peer order without repetition; the preimage lists
  the same hashes; the ensemble exists and has one participant per ticket; and revalidation
  accepts the result.\<close>

theorem prepared_activation_canonical:
  assumes "prepared_new P off tickets = Inr p"
  shows "pa_offer p = off \<and> pa_tickets p = tickets
    \<and> ad_tickets (pa_activation_data p) = map (\<lambda>t. ticket_hash_of P (tk_data t)) tickets
    \<and> offer_tickets off = map (\<lambda>t. ticket_hash_of P (tk_data t)) tickets
    \<and> length tickets = unat (od_target_size (offer_data_of off))
    \<and> 2 \<le> length tickets \<and> length tickets \<le> 64
    \<and> (\<forall>t \<in> set tickets. ticket_key t \<noteq> None
         \<and> verify_for_offer P t (offer_hash_of P (offer_data_of off)) = Inr ())
    \<and> (\<exists>rest. prepared_signers p = od_creator (offer_data_of off) # rest
         \<and> od_creator (offer_data_of off) \<notin> set rest \<and> sorted_wrt (<) rest)
    \<and> (\<exists>e. prepared_ensemble p = Inr e \<and> set (peers e) = set (prepared_signers p)
         \<and> length (peers e) = length tickets)
    \<and> prepared_validate P p = Inr ()"
proof -
  from assms obtain d where d: "activation_data_for P off tickets = Inr d"
    and p: "p = \<lparr>pa_offer = off, pa_tickets = tickets, pa_activation_data = d,
                 pa_session_hash = session_hash_of P d\<rparr>"
    by (auto simp: prepared_new_def ok_simps)
  have signers: "prepared_signers p = map ticket_signer tickets"
    by (simp add: p prepared_signers_def ticket_signer_def)
  note dist = prepared_signers_distinct [OF d]
  obtain e where e: "from_peers (map ticket_signer tickets) = Inr e" "set (peers e) = set (map ticket_signer tickets)"
    "distinct (peers e)" using ensemble_exists [OF dist(1)] dist(2,3) by auto
  then have "length (peers e) = length tickets" using dist(1) by (metis distinct_card length_map)
  moreover have "prepared_validate P p = Inr ()"
    using d by (simp add: prepared_validate_def p)
  moreover have "ad_tickets d = map (\<lambda>t. ticket_hash_of P (tk_data t)) tickets"
    using activation_data_forD(3,6) [OF d] by simp
  ultimately show ?thesis
    unfolding signers prepared_ensemble_def
    using activation_data_forD(2-5) [OF d] dist(2,3) e(1,2) by (simp add: p)
qed

theorem prepared_activation_canonical_witness:
  "prepared_signers sample_prepared = [PeerId 9, PeerId 3]
   \<and> prepared_validate sample_prims sample_prepared = Inr ()"
  using prepared_activation_canonical [OF sample_prepared_ok]
  by (simp add: prepared_signers_def sample_tickets_def sample_ticket_def)

text \<open>C17: the ticket order is forced.  Two preparations of offers by the same creator with the same set
  of tickets list them in the same order, so they have the same signers in the same positions.\<close>

theorem prepared_order_unique:
  assumes "prepared_new P off tickets = Inr p" "prepared_new P off' tickets' = Inr p'"
    "od_creator (offer_data_of off) = od_creator (offer_data_of off')"
    "set tickets = set tickets'"
  shows "tickets = tickets'"
proof -
  from assms obtain d d' where d: "activation_data_for P off tickets = Inr d"
    "activation_data_for P off' tickets' = Inr d'"
    by (auto simp: prepared_new_def ok_simps)
  then obtain rest rest' where r: "map ticket_signer tickets = od_creator (offer_data_of off) # rest"
    "map ticket_signer tickets' = od_creator (offer_data_of off) # rest'"
    "od_creator (offer_data_of off) \<notin> set rest" "od_creator (offer_data_of off) \<notin> set rest'"
    "sorted_wrt (<) rest" "sorted_wrt (<) rest'"
    using activation_data_forD(5) [OF d(1)] activation_data_forD(5) [OF d(2)] assms(3) by auto
  have "set (map ticket_signer tickets) = set (map ticket_signer tickets')" using assms(4) by simp
  then have "insert (od_creator (offer_data_of off)) (set rest) = insert (od_creator (offer_data_of off)) (set rest')"
    unfolding r(1,2) by simp
  then have "set rest = set rest'" using r(3,4) by (simp add: insert_ident)
  with r(5,6) have "rest = rest'" by (rule strict_sorted_unique)
  with r have "map ticket_signer tickets = map ticket_signer tickets'" by simp
  moreover have "inj_on ticket_signer (set tickets \<union> set tickets')"
    using prepared_signers_distinct(1) [OF d(1)] assms(4) by (simp add: distinct_map)
  ultimately show ?thesis by (rule map_inj_on)
qed

theorem prepared_order_unique_witness:
  "\<not> (\<exists>p. prepared_new sample_prims sample_offer (rev sample_tickets) = Inr p)"
proof
  assume "\<exists>p. prepared_new sample_prims sample_offer (rev sample_tickets) = Inr p"
  then obtain p where "prepared_new sample_prims sample_offer (rev sample_tickets) = Inr p" by blast
  from prepared_order_unique [OF sample_prepared_ok this] have "sample_tickets = rev sample_tickets" by simp
  then show False by (simp add: sample_tickets_def sample_ticket_def)
qed

end
