(* ===== verification/Exec_Types.thy ===== *)
theory Exec_Types
  imports Negotiation
begin

text \<open>
  The values of \<open>arena0-protocol/src/execution\<close>: errors, the agreed cursor, the binding to an
  activation, abort occurrences, terminal outcomes, execution status, callouts, direct lanes,
  the end phase, certificates and frames, with the operations on each of them.

  \<open>protocol_error\<close> has the source's variants; a variant that stores the text of another error
  stores that error (\<open>reason\<close>).  \<open>Panicked\<close> is not an error of the source: it is the outcome of
  a failing \<open>expect\<close>, kept as a value so that no operation of the model hides one.
\<close>

section \<open>Limits\<close>

definition MAX_EFFECTS :: nat where
  "MAX_EFFECTS = 128"

definition MAX_OUTGOING_MESSAGES :: nat where
  "MAX_OUTGOING_MESSAGES = 16"

definition MAX_DIRECT_QUEUE :: nat where
  "MAX_DIRECT_QUEUE = 8"

definition MAX_PROOF_SIGNATURES :: nat where
  "MAX_PROOF_SIGNATURES = MAX_PARTICIPANTS"

definition MAX_RECEIPT_BYTES :: nat where
  "MAX_RECEIPT_BYTES = 8 * 1024 * 1024"

definition MAX_TRACE_ENTRY_BYTES :: nat where
  "MAX_TRACE_ENTRY_BYTES = 256 * 1024"

definition MAX_RECEIPT_TRACE_ENTRIES :: nat where
  "MAX_RECEIPT_TRACE_ENTRIES = 65536"

definition MAX_EFFECT_BYTES :: nat where
  "MAX_EFFECT_BYTES = 4 * 1024 * 1024"

definition MAX_CALLOUT_CONTEXT_BYTES :: nat where
  "MAX_CALLOUT_CONTEXT_BYTES = 64 * 1024"

section \<open>Errors\<close>

datatype exec_lifecycle =
  LcNegotiating | LcActivating | LcWaiting | LcActive | LcCompleted | LcAborted | LcFailed

definition lifecycle_is_terminal :: "exec_lifecycle \<Rightarrow> bool" where
  "lifecycle_is_terminal l \<longleftrightarrow> l \<in> {LcCompleted, LcAborted, LcFailed}"

datatype reason =
    Reason string
  | ReasonCrypto crypto_error
  | ReasonAttestation attestation_error
  | ReasonSigners signer_set_error
  | ReasonEnsemble ensemble_error

datatype protocol_error =
    DirectQueueFull peer_id
  | DirectOutOfOrder peer_id u64
  | DirectFromAgreedEvent
  | IllegalLifecycle exec_lifecycle string
  | InvalidActivation activation_error
  | BindingMismatch
  | UnknownParticipant peer_id
  | VersionExhausted
  | AgreedStepExhausted
  | StepCoordinateMismatch u64 u64
  | AgreedPreStateMismatch state_hash state_hash
  | AgreedChainMismatch
  | StateHashMismatch
  | SharedProposalExists
  | SharedProposalSigned
  | SharedProposalMissing
  | TraceVersionMismatch u32 u32
  | MissingSessionStart
  | SessionStartPosition
  | SessionStartMismatch
  | TraceEntryTooLarge nat nat
  | CollectionTooLarge string nat nat
  | InvalidStepSignature peer_id u64
  | DuplicateStepSignature peer_id
  | ConflictingStepSignature peer_id
  | IncompleteProof nat nat
  | ReceiptBudgetExhausted u64
  | InvalidCertificate reason
  | ReceiptBodyMismatch
  | InvalidGuestSignData
  | InvalidAbortOccurrence
  | InvalidAbortSignature crypto_error
  | InvalidAbortCoordinate
  | UnauthenticatedAbort
  | TerminalTraceMismatch
  | InvalidOutcomeProjection json_bytes_error
  | TerminalOutcomeRequired
  | TerminalOutcomeMismatch
  | OutcomeProjectionMismatch
  | CalloutMismatch
  | InvalidCalloutState
  | TerminalAlreadyPublished
  | InvalidTerminalStatus
  | MultipleTerminalEffects
  | AlreadyTerminal
  | LocalSharedChange
  | OutgoingQueueFull nat nat
  | NotQueuedMessage
  | PayloadTooLarge string nat nat
  | EncodedTooLarge string nat nat
  | Serialization string
  | Deserialization string
  | Panicked panic

definition ensure_encoded :: "string \<Rightarrow> nat \<Rightarrow> nat \<Rightarrow> protocol_error + unit" where
  "ensure_encoded kind actual lim = (if actual > lim then Inl (EncodedTooLarge kind actual lim) else Inr ())"

definition ensure_payload :: "string \<Rightarrow> nat \<Rightarrow> nat \<Rightarrow> protocol_error + unit" where
  "ensure_payload kind actual lim = (if actual > lim then Inl (PayloadTooLarge kind actual lim) else Inr ())"

lemma ensure_size_ok [ok_simps]:
  "ensure_encoded k n m = Inr u \<longleftrightarrow> n \<le> m"
  "ensure_payload k n m = Inr u \<longleftrightarrow> n \<le> m"
  by (auto simp: ensure_encoded_def ensure_payload_def)

section \<open>Versions and the agreed cursor\<close>

datatype execution_version = ExecutionVersion (version_get: u64)

definition version_next :: "execution_version \<Rightarrow> execution_version option" where
  "version_next v = map_option ExecutionVersion (checked_add (version_get v) 1)"

record step_cursor =
  next_step :: u64
  cursor_state_hash :: state_hash
  chain_hash :: "256 word"

definition genesis :: "prims \<Rightarrow> shared_state_bytes \<Rightarrow> step_cursor" where
  "genesis P shared = \<lparr>next_step = 0, cursor_state_hash = of_shared P shared, chain_hash = CHAIN_START\<rparr>"

definition advance :: "prims \<Rightarrow> step_cursor \<Rightarrow> step_commitment \<Rightarrow> protocol_error + step_cursor" where
  "advance P cur c =
     bind_res (ok_or (checked_add (next_step cur) 1) AgreedStepExhausted) (\<lambda>next.
     if sc_step c \<noteq> next_step cur then Inl (StepCoordinateMismatch (next_step cur) (sc_step c))
     else if sc_pre_state c \<noteq> cursor_state_hash cur
     then Inl (AgreedPreStateMismatch (cursor_state_hash cur) (sc_pre_state c))
     else if sc_link c \<noteq> chain_hash cur then Inl AgreedChainMismatch
     else Inr \<lparr>next_step = next, cursor_state_hash = sc_post_state c, chain_hash = link_hash P c\<rparr>)"

section \<open>The binding to an activation\<close>

record execution_binding =
  bind_activation :: activation

definition binding_new :: "prims \<Rightarrow> activation \<Rightarrow> protocol_error + execution_binding" where
  "binding_new P a =
     bind_res (map_err InvalidActivation (activation_validate P a)) (\<lambda>_. Inr \<lparr>bind_activation = a\<rparr>)"

definition binding_tickets :: "execution_binding \<Rightarrow> ticket list" where
  "binding_tickets b = pa_tickets (act_prepared (bind_activation b))"

definition binding_offer :: "execution_binding \<Rightarrow> offer_data" where
  "binding_offer b = offer_data_of (pa_offer (act_prepared (bind_activation b)))"

definition binding_session_id :: "execution_binding \<Rightarrow> session_hash" where
  "binding_session_id b = pa_session_hash (act_prepared (bind_activation b))"

definition binding_program_hash :: "execution_binding \<Rightarrow> program_hash" where
  "binding_program_hash b = od_program_hash (binding_offer b)"

definition binding_execution_profile :: "execution_binding \<Rightarrow> execution_profile_hash" where
  "binding_execution_profile b = od_execution_profile (binding_offer b)"

definition participant_keys :: "execution_binding \<Rightarrow> protocol_error + (peer_id \<times> bls_public_key) list" where
  "participant_keys b =
     (let keys = sort_key fst
        (List.map_filter (\<lambda>t. map_option (\<lambda>k. (td_signer (tk_data t), k)) (ticket_key t)) (binding_tickets b)) in
      if length keys \<noteq> length (binding_tickets b) then Inl BindingMismatch else Inr keys)"

definition participant_bls_keys :: "execution_binding \<Rightarrow> protocol_error + bls_public_key list" where
  "participant_bls_keys b = bind_res (participant_keys b) (\<lambda>ks. Inr (map snd ks))"

definition participant_key :: "execution_binding \<Rightarrow> peer_id \<Rightarrow> protocol_error + bls_public_key" where
  "participant_key b p =
     bind_res (ok_or (find (\<lambda>t. td_signer (tk_data t) = p) (binding_tickets b)) (UnknownParticipant p)) (\<lambda>t.
     ok_or (ticket_key t) BindingMismatch)"

definition participants :: "execution_binding \<Rightarrow> peer_id list" where
  "participants b = prepared_signers (act_prepared (bind_activation b))"

definition is_participant :: "execution_binding \<Rightarrow> peer_id \<Rightarrow> bool" where
  "is_participant b p \<longleftrightarrow> p \<in> set (participants b)"

definition binding_ensemble :: "execution_binding \<Rightarrow> ensemble_error + ensemble" where
  "binding_ensemble b = from_peers (participants b)"

section \<open>Abort occurrences\<close>

definition ABORT_OCCURRENCE_DOMAIN :: string where
  "ABORT_OCCURRENCE_DOMAIN = ''arena0/abort-occurrence'' @ [CHR 0x00]"

definition ABORT_OCCURRENCE_VERSION :: u16 where
  "ABORT_OCCURRENCE_VERSION = 1"

datatype abort_kind = KindAbort | KindFail

fun abort_kind_tag :: "abort_kind \<Rightarrow> u8" where
  "abort_kind_tag KindAbort = 0"
| "abort_kind_tag KindFail = 1"

definition abort_kind_from_tag :: "u8 \<Rightarrow> u8 + abort_kind" where
  "abort_kind_from_tag tag =
     (if tag = abort_kind_tag KindAbort then Inr KindAbort
      else if tag = abort_kind_tag KindFail then Inr KindFail
      else Inl tag)"

record abort_occurrence =
  ao_domain :: string
  ao_version :: u16
  ao_session_id :: session_hash
  ao_sender :: peer_id
  ao_kind :: abort_kind
  ao_code :: u32
  ao_reason :: string
  ao_coordinate :: step_cursor
  ao_signature :: ed25519_signature

definition cursor_value :: "step_cursor \<Rightarrow> borsh_value" where
  "cursor_value c = BStruct [BU64 (next_step c), state_hash_value (cursor_state_hash c), BArr32 (chain_hash c)]"

text \<open>\<open>AbortSigningPayload\<close>: the reason is a stock string there.\<close>

definition abort_payload_value :: "abort_occurrence \<Rightarrow> borsh_value" where
  "abort_payload_value a = BStruct [BDomain (ao_domain a), BU16 (ao_version a),
     session_hash_value (ao_session_id a), peer_value (ao_sender a), BU8 (abort_kind_tag (ao_kind a)),
     BU32 (ao_code a), BString U32_MAX (ao_reason a), cursor_value (ao_coordinate a)]"

definition abort_occurrence_value :: "abort_occurrence \<Rightarrow> borsh_value" where
  "abort_occurrence_value a = BStruct [BDomain (ao_domain a), BU16 (ao_version a),
     session_hash_value (ao_session_id a), peer_value (ao_sender a), BU8 (abort_kind_tag (ao_kind a)),
     BU32 (ao_code a), BString MAX_TERMINAL_REASON_BYTES (ao_reason a), cursor_value (ao_coordinate a),
     ed25519_value (ao_signature a)]"

definition abort_signing_bytes :: "prims \<Rightarrow> abort_occurrence \<Rightarrow> protocol_error + bytes" where
  "abort_signing_bytes P a = map_err Serialization (to_vec P (abort_payload_value a))"

definition abort_verify_signature :: "prims \<Rightarrow> abort_occurrence \<Rightarrow> protocol_error + bool" where
  "abort_verify_signature P a =
     bind_res (abort_signing_bytes P a) (\<lambda>bs.
     map_err InvalidAbortSignature
       (verify P Ed25519 (be_bytes 32 (peer_word (ao_sender a))) bs
          (case ao_signature a of Ed25519Signature s \<Rightarrow> be_bytes 64 s)))"

definition abort_validate_shape :: "abort_occurrence \<Rightarrow> protocol_error + unit" where
  "abort_validate_shape a =
     (if ao_domain a \<noteq> ABORT_OCCURRENCE_DOMAIN \<or> ao_version a \<noteq> ABORT_OCCURRENCE_VERSION
         \<or> ao_session_id a = SessionHash 0 \<or> ao_sender a = PeerId 0
      then Inl InvalidAbortOccurrence
      else if next_step (ao_coordinate a) = 0 \<and> chain_hash (ao_coordinate a) \<noteq> CHAIN_START
      then Inl InvalidAbortCoordinate
      else ensure_payload ''terminal reason'' (length (ao_reason a)) MAX_TERMINAL_REASON_BYTES)"

definition abort_validate_for_session :: "abort_occurrence \<Rightarrow> session_hash \<Rightarrow> protocol_error + unit" where
  "abort_validate_for_session a session =
     bind_res (abort_validate_shape a) (\<lambda>_.
     if ao_session_id a \<noteq> session then Inl InvalidAbortCoordinate
     else if next_step (ao_coordinate a) = 0 \<and> chain_hash (ao_coordinate a) \<noteq> CHAIN_START
     then Inl InvalidAbortCoordinate
     else Inr ())"

definition abort_new ::
  "session_hash \<Rightarrow> peer_id \<Rightarrow> abort_kind \<Rightarrow> u32 \<Rightarrow> string \<Rightarrow> step_cursor \<Rightarrow> ed25519_signature
   \<Rightarrow> protocol_error + abort_occurrence" where
  "abort_new session sender kind code reason coordinate signature =
     (let a = \<lparr>ao_domain = ABORT_OCCURRENCE_DOMAIN, ao_version = ABORT_OCCURRENCE_VERSION,
        ao_session_id = session, ao_sender = sender, ao_kind = kind, ao_code = code,
        ao_reason = reason, ao_coordinate = coordinate, ao_signature = signature\<rparr> in
      bind_res (abort_validate_shape a) (\<lambda>_. Inr a))"

definition abort_unsigned ::
  "session_hash \<Rightarrow> peer_id \<Rightarrow> abort_kind \<Rightarrow> u32 \<Rightarrow> string \<Rightarrow> step_cursor \<Rightarrow> protocol_error + abort_occurrence" where
  "abort_unsigned session sender kind code reason coordinate =
     abort_new session sender kind code reason coordinate (Ed25519Signature 0)"

definition abort_with_signature ::
  "abort_occurrence \<Rightarrow> ed25519_signature \<Rightarrow> protocol_error + abort_occurrence" where
  "abort_with_signature a s =
     (let a = a\<lparr>ao_signature := s\<rparr> in bind_res (abort_validate_shape a) (\<lambda>_. Inr a))"

section \<open>Terminal outcomes\<close>

record terminal_outcome =
  outcome_borsh :: bytes
  outcome_json :: bytes

definition validate_borsh :: "bytes \<Rightarrow> protocol_error + unit" where
  "validate_borsh bs =
     (if length bs > MAX_TERMINAL_OUTCOME_BYTES \<or> length bs > MAX_CALL_PAYLOAD_BYTES
      then Inl (PayloadTooLarge ''Borsh outcome'' (length bs)
                  (min MAX_TERMINAL_OUTCOME_BYTES MAX_CALL_PAYLOAD_BYTES))
      else Inr ())"

definition validate_json :: "prims \<Rightarrow> bytes \<Rightarrow> protocol_error + unit" where
  "validate_json P bs =
     (if length bs > MAX_TERMINAL_OUTCOME_BYTES \<or> length bs > MAX_CALL_PAYLOAD_BYTES
      then Inl (PayloadTooLarge ''JSON outcome'' (length bs)
                  (min MAX_TERMINAL_OUTCOME_BYTES MAX_CALL_PAYLOAD_BYTES))
      else bind_res (map_err InvalidOutcomeProjection (json_try_new P bs)) (\<lambda>_. Inr ()))"

definition outcome_validate :: "prims \<Rightarrow> terminal_outcome \<Rightarrow> protocol_error + unit" where
  "outcome_validate P out =
     bind_res (validate_borsh (outcome_borsh out)) (\<lambda>_. validate_json P (outcome_json out))"

definition outcome_new :: "prims \<Rightarrow> bytes \<Rightarrow> bytes \<Rightarrow> protocol_error + terminal_outcome" where
  "outcome_new P bs json =
     bind_res (validate_borsh bs) (\<lambda>_.
     bind_res (validate_json P json) (\<lambda>_. Inr \<lparr>outcome_borsh = bs, outcome_json = json\<rparr>))"

section \<open>Execution status\<close>

datatype receipt_id = ReceiptId "256 word"

datatype stop_cause =
    Authenticated abort_occurrence
  | SharedStop abort_kind step_commitment string

datatype execution_status =
    Activating
  | Active
  | Certified terminal_outcome
  | Completed terminal_outcome receipt_id
  | Stopped stop_cause
  | StoppedPublished stop_cause receipt_id

datatype receipt_work = NotTerminal | Assemble | Published

fun cause_reason :: "stop_cause \<Rightarrow> string" where
  "cause_reason (Authenticated a) = ao_reason a"
| "cause_reason (SharedStop _ _ reason) = reason"

fun cause_step :: "stop_cause \<Rightarrow> u64" where
  "cause_step (Authenticated a) = next_step (ao_coordinate a)"
| "cause_step (SharedStop _ c _) = sc_step c"

fun cause_kind :: "stop_cause \<Rightarrow> abort_kind" where
  "cause_kind (Authenticated a) = ao_kind a"
| "cause_kind (SharedStop kind _ _) = kind"

definition ensure_reason :: "string \<Rightarrow> protocol_error + unit" where
  "ensure_reason r = ensure_payload ''terminal reason'' (length r) MAX_TERMINAL_REASON_BYTES"

fun cause_validate :: "stop_cause \<Rightarrow> protocol_error + unit" where
  "cause_validate (Authenticated a) = abort_validate_shape a"
| "cause_validate (SharedStop _ c reason) =
     (if \<not> has_step_domain c then Inl InvalidTerminalStatus else ensure_reason reason)"

fun cause_validate_binding ::
  "prims \<Rightarrow> stop_cause \<Rightarrow> execution_binding \<Rightarrow> step_cursor \<Rightarrow> protocol_error + unit" where
  "cause_validate_binding P (Authenticated a) b agreed =
     (if ao_session_id a \<noteq> binding_session_id b \<or> ao_coordinate a \<noteq> agreed
         \<or> \<not> is_participant b (ao_sender a)
      then Inl InvalidTerminalStatus
      else bind_res (map_err (\<lambda>_. InvalidTerminalStatus) (abort_verify_signature P a)) (\<lambda>ok.
           if \<not> ok then Inl InvalidTerminalStatus else Inr ()))"
| "cause_validate_binding P (SharedStop _ c _) b agreed =
     (if \<not> is_bound_to c (binding_session_id b)
         \<or> checked_add (sc_step c) 1 \<noteq> Some (next_step agreed)
         \<or> sc_post_state c \<noteq> cursor_state_hash agreed
         \<or> link_hash P c \<noteq> chain_hash agreed
      then Inl InvalidTerminalStatus else Inr ())"

fun status_receipt_work :: "execution_status \<Rightarrow> receipt_work" where
  "status_receipt_work Activating = NotTerminal"
| "status_receipt_work Active = NotTerminal"
| "status_receipt_work (Certified _) = Assemble"
| "status_receipt_work (Stopped _) = Assemble"
| "status_receipt_work (Completed _ _) = Published"
| "status_receipt_work (StoppedPublished _ _) = Published"

fun status_lifecycle :: "execution_status \<Rightarrow> exec_lifecycle" where
  "status_lifecycle Activating = LcActivating"
| "status_lifecycle Active = LcActive"
| "status_lifecycle (Certified _) = LcActive"
| "status_lifecycle (Completed _ _) = LcCompleted"
| "status_lifecycle (Stopped cause) = (case cause_kind cause of KindFail \<Rightarrow> LcFailed | KindAbort \<Rightarrow> LcAborted)"
| "status_lifecycle (StoppedPublished cause _) =
     (case cause_kind cause of KindFail \<Rightarrow> LcFailed | KindAbort \<Rightarrow> LcAborted)"

definition status_is_runnable :: "execution_status \<Rightarrow> bool" where
  "status_is_runnable s \<longleftrightarrow> s = Active"

definition is_terminal :: "execution_status \<Rightarrow> bool" where
  "is_terminal s \<longleftrightarrow> s \<noteq> Activating \<and> s \<noteq> Active"

fun terminal_cause :: "execution_status \<Rightarrow> stop_cause option" where
  "terminal_cause (Stopped cause) = Some cause"
| "terminal_cause (StoppedPublished cause _) = Some cause"
| "terminal_cause _ = None"

definition status_stopped :: "abort_occurrence \<Rightarrow> protocol_error + execution_status" where
  "status_stopped a = bind_res (abort_validate_shape a) (\<lambda>_. Inr (Stopped (Authenticated a)))"

definition from_shared_entry ::
  "trace_entry \<Rightarrow> step_commitment \<Rightarrow> protocol_error + execution_status option" where
  "from_shared_entry e c =
     (case te_terminal e of
        None \<Rightarrow> Inr None
      | Some t \<Rightarrow>
          (case abort_reason t of
             None \<Rightarrow> Inr None
           | Some reason \<Rightarrow>
               bind_res (ensure_reason reason) (\<lambda>_.
               case t of
                 TerminalAbort _ \<Rightarrow> Inr (Some (Stopped (SharedStop KindAbort c reason)))
               | TerminalFail _ \<Rightarrow> Inr (Some (Stopped (SharedStop KindFail c reason)))
               | TerminalEnd _ \<Rightarrow> Inr None)))"

fun status_validate_binding ::
  "prims \<Rightarrow> execution_status \<Rightarrow> execution_binding \<Rightarrow> step_cursor \<Rightarrow> protocol_error + unit" where
  "status_validate_binding P Activating b agreed = Inr ()"
| "status_validate_binding P Active b agreed = Inr ()"
| "status_validate_binding P (Certified out) b agreed =
     bind_res (outcome_validate P out) (\<lambda>_.
     if next_step agreed = 0 then Inl InvalidTerminalStatus else Inr ())"
| "status_validate_binding P (Completed out rid) b agreed =
     bind_res (outcome_validate P out) (\<lambda>_.
     if next_step agreed = 0 then Inl InvalidTerminalStatus
     else if rid = ReceiptId 0 then Inl InvalidTerminalStatus else Inr ())"
| "status_validate_binding P (Stopped cause) b agreed =
     bind_res (cause_validate cause) (\<lambda>_. cause_validate_binding P cause b agreed)"
| "status_validate_binding P (StoppedPublished cause rid) b agreed =
     bind_res (cause_validate cause) (\<lambda>_.
     bind_res (cause_validate_binding P cause b agreed) (\<lambda>_.
     if rid = ReceiptId 0 then Inl InvalidTerminalStatus else Inr ()))"

definition from_proposal_entry ::
  "trace_entry \<Rightarrow> step_commitment \<Rightarrow> terminal_outcome option \<Rightarrow> protocol_error + execution_status" where
  "from_proposal_entry e c out =
     (case te_terminal e of
        Some (TerminalEnd effect_outcome) \<Rightarrow>
          bind_res (ok_or out TerminalOutcomeRequired) (\<lambda>out.
          if outcome_borsh out \<noteq> effect_outcome then Inl OutcomeProjectionMismatch
          else Inr (Certified out))
      | Some _ \<Rightarrow>
          if out \<noteq> None then Inl TerminalOutcomeMismatch
          else bind_res (from_shared_entry e c) (\<lambda>s. ok_or s InvalidTerminalStatus)
      | None \<Rightarrow> if out \<noteq> None then Inl TerminalOutcomeMismatch else Inr Active)"

section \<open>Callouts\<close>

datatype callout_id = CalloutId u64

record open_callout =
  oc_id :: callout_id
  oc_index :: u32
  oc_context :: bytes

record callout_request =
  cr_index :: u32
  cr_context :: bytes

text \<open>\<open>u64::from_le_bytes\<close> of the first eight digest bytes.\<close>

definition derive_callout_id :: "prims \<Rightarrow> exec_id \<Rightarrow> u64 \<Rightarrow> callout_id" where
  "derive_callout_id P eid pos =
     (let bs = borsh P (BStruct [BDomain ''arena0/pending/v3'', case eid of ExecId h \<Rightarrow> BArr32 h, BU64 pos]) in
      CalloutId (word_of_nat (le_nat (take 8 (be_bytes 32 (blake3 P bs))))))"

datatype callout_id_parse_error = InvalidDecimal | Overflow

definition is_ascii_digit :: "char \<Rightarrow> bool" where
  "is_ascii_digit c \<longleftrightarrow> 48 \<le> (of_char c :: nat) \<and> (of_char c :: nat) \<le> 57"

text \<open>\<open>str::parse::<u64>\<close> on a non-empty digit string.\<close>

definition decimal_value :: "string \<Rightarrow> nat" where
  "decimal_value s = foldl (\<lambda>n c. 10 * n + (of_char c - 48)) 0 s"

definition callout_id_from_str :: "string \<Rightarrow> callout_id_parse_error + callout_id" where
  "callout_id_from_str s =
     (if s = [] \<or> \<not> (\<forall>c \<in> set s. is_ascii_digit c) then Inl InvalidDecimal
      else if decimal_value s < 2 ^ 64 then Inr (CalloutId (word_of_nat (decimal_value s)))
      else Inl Overflow)"

section \<open>Direct lanes and the end phase\<close>

record direct_entry =
  de_seq :: u64
  de_msg :: bytes
  de_range :: "range_attachment option"

record direct_lane =
  last_queued :: u64
  lane_queue :: "direct_entry list"
  last_applied :: u64

definition default_lane :: direct_lane where
  "default_lane = \<lparr>last_queued = 0, lane_queue = [], last_applied = 0\<rparr>"

datatype direct_arrival = Duplicate | NextSeq | Gap

datatype end_phase = Open | Ending "peer_id list" | Ended "peer_id list"

fun phase_unconfirmed :: "end_phase \<Rightarrow> peer_id list option" where
  "phase_unconfirmed Open = None"
| "phase_unconfirmed (Ending ps) = Some ps"
| "phase_unconfirmed (Ended ps) = Some ps"

datatype end_match = SameConclusion | DifferentConclusion | NotTerminalEvidence

section \<open>Signatures, certificates, proposals and frames\<close>

record participant_step_signature =
  pss_participant :: peer_id
  pss_signature :: step_sig

record step_certificate =
  cert_commitment :: step_commitment
  cert_agreement :: aggregate_attestation

record shared_proposal =
  sp_entry :: trace_entry
  sp_shared_state :: shared_state_bytes
  sp_local_state :: local_state_bytes
  sp_outgoing :: "bytes list"
  sp_effects :: "(u32 \<times> effect) list"
  sp_event_position :: u64
  sp_status :: execution_status
  sp_callout :: "open_callout option"
  sp_signatures :: "participant_step_signature list"

datatype exec_frame =
    FrameMessage step_commitment bytes
  | FrameStepSignature step_commitment bls_signature
  | FrameStepCertificate step_certificate
  | FrameDirect u64 bytes "bytes option"
  | FrameAbort abort_occurrence

section \<open>Lemmas: the cursor\<close>

lemma advance_ok [ok_simps]:
  "advance P cur c = Inr nc \<longleftrightarrow>
     checked_add (next_step cur) 1 = Some (next_step nc)
     \<and> sc_step c = next_step cur \<and> sc_pre_state c = cursor_state_hash cur \<and> sc_link c = chain_hash cur
     \<and> cursor_state_hash nc = sc_post_state c \<and> chain_hash nc = link_hash P c"
  by (cases nc) (auto simp: advance_def ok_simps)

section \<open>Lemmas: the binding\<close>

text \<open>\<open>ExecutionBinding::new\<close> is the only constructor, so every binding has a valid activation.\<close>

definition binding_ok :: "prims \<Rightarrow> execution_binding \<Rightarrow> bool" where
  "binding_ok P b \<longleftrightarrow> activation_validate P (bind_activation b) = Inr ()"

lemma binding_new_ok [ok_simps]:
  "binding_new P a = Inr b \<longleftrightarrow> bind_activation b = a \<and> binding_ok P b"
  by (cases b) (auto simp: binding_new_def binding_ok_def ok_simps)

lemma binding_okD:
  assumes "binding_ok P b"
  shows "\<exists>d. activation_data_for P (pa_offer (act_prepared (bind_activation b))) (binding_tickets b) = Inr d"
  using assms unfolding binding_ok_def activation_validate_def check_structure_def binding_tickets_def
  by (auto simp: bind_res_ok)

lemma binding_tickets_facts:
  assumes "binding_ok P b"
  shows "distinct (map ticket_signer (binding_tickets b))" "2 \<le> length (binding_tickets b)"
    "length (binding_tickets b) \<le> 64" "\<forall>t \<in> set (binding_tickets b). ticket_key t \<noteq> None"
  using binding_okD [OF assms] prepared_signers_distinct activation_data_for_active by blast+

lemma participants_signers: "participants b = map ticket_signer (binding_tickets b)"
  by (simp add: participants_def prepared_signers_def binding_tickets_def ticket_signer_def)

definition ticket_entry :: "ticket \<Rightarrow> peer_id \<times> bls_public_key" where
  "ticket_entry t = (ticket_signer t, the (ticket_key t))"

lemma map_filter_keys:
  assumes "\<forall>t \<in> set ts. ticket_key t \<noteq> None"
  shows "List.map_filter (\<lambda>t. map_option (\<lambda>k. (td_signer (tk_data t), k)) (ticket_key t)) ts
    = map ticket_entry ts"
  using assms by (induction ts) (auto simp: ticket_entry_def ticket_signer_def)

text \<open>The participant table of a valid binding: one key per ticket, in strictly ascending order.\<close>

lemma participant_keys_ok:
  assumes "binding_ok P b"
  shows "participant_keys b = Inr (sort_key fst (map ticket_entry (binding_tickets b)))"
  using binding_tickets_facts(4) [OF assms]
  by (simp add: participant_keys_def map_filter_keys)

lemma participant_table:
  assumes "binding_ok P b" "participant_keys b = Inr ks"
  shows "set ks = ticket_entry ` set (binding_tickets b)" "length ks = length (binding_tickets b)"
    "sorted_wrt (<) (map fst ks)" "2 \<le> length ks" "length ks \<le> 64" "set (map fst ks) = set (participants b)"
proof -
  have ks: "ks = sort_key fst (map ticket_entry (binding_tickets b))"
    using assms participant_keys_ok by fastforce
  show set: "set ks = ticket_entry ` set (binding_tickets b)" by (simp add: ks)
  show len: "length ks = length (binding_tickets b)" by (simp add: ks)
  with binding_tickets_facts [OF assms(1)] show "2 \<le> length ks" "length ks \<le> 64" by simp_all
  have keys: "set (map fst ks) = set (map ticket_signer (binding_tickets b))"
    by (simp add: set image_image ticket_entry_def)
  then have "card (set (map fst ks)) = length (map fst ks)"
    using len distinct_card [OF binding_tickets_facts(1) [OF assms(1)]] by simp
  then have "distinct (map fst ks)" by (rule card_distinct)
  moreover have "sorted (map fst ks)" by (simp add: ks)
  ultimately show "sorted_wrt (<) (map fst ks)" by (simp add: strict_sorted_iff)
  show "set (map fst ks) = set (participants b)"
    using keys by (simp add: participants_signers)
qed

lemma find_ticket:
  assumes "distinct (map ticket_signer ts)" "t \<in> set ts"
  shows "find (\<lambda>u. td_signer (tk_data u) = ticket_signer t) ts = Some t"
  using assms by (induction ts) (auto simp: ticket_signer_def image_iff)

text \<open>The two lookups of a participant's execution key agree.\<close>

lemma participant_key_table:
  assumes b: "binding_ok P b" and ks: "participant_keys b = Inr ks"
  shows "participant_key b p = Inr k \<longleftrightarrow> map_of ks p = Some k"
proof -
  have d: "distinct (map ticket_signer (binding_tickets b))" using binding_tickets_facts [OF b] by simp
  have "distinct (map fst ks)" using participant_table(3) [OF b ks] by (simp add: strict_sorted_iff)
  then have "map_of ks p = Some k \<longleftrightarrow> (\<exists>t \<in> set (binding_tickets b). ticket_signer t = p \<and> the (ticket_key t) = k)"
    by (auto simp: map_of_eq_Some_iff participant_table(1) [OF b ks] ticket_entry_def)
  also have "\<dots> \<longleftrightarrow> participant_key b p = Inr k"
  proof
    assume "\<exists>t \<in> set (binding_tickets b). ticket_signer t = p \<and> the (ticket_key t) = k"
    then obtain t where t: "t \<in> set (binding_tickets b)" "ticket_signer t = p" "the (ticket_key t) = k" by blast
    then show "participant_key b p = Inr k"
      using find_ticket [OF d t(1)] binding_tickets_facts(4) [OF b]
      by (auto simp: participant_key_def)
  next
    assume "participant_key b p = Inr k"
    then obtain t where t: "find (\<lambda>u. td_signer (tk_data u) = p) (binding_tickets b) = Some t" "ticket_key t = Some k"
      by (auto simp: participant_key_def ok_simps)
    then have "t \<in> set (binding_tickets b)" "td_signer (tk_data t) = p"
      by (auto simp: find_Some_iff)
    with t(2) show "\<exists>t \<in> set (binding_tickets b). ticket_signer t = p \<and> the (ticket_key t) = k"
      by (force simp: ticket_signer_def)
  qed
  finally show ?thesis by simp
qed

lemma binding_ensemble_exists:
  assumes "binding_ok P b"
  shows "\<exists>e. binding_ensemble b = Inr e \<and> set (peers e) = set (participants b) \<and> distinct (peers e)"
proof -
  obtain e where "from_peers (participants b) = Inr e" "set (peers e) = set (participants b)" "distinct (peers e)"
    using ensemble_exists [of "participants b"] binding_tickets_facts [OF assms]
    by (auto simp: participants_signers)
  then show ?thesis by (auto simp: binding_ensemble_def)
qed

end
