(* ===== verification/Validation.thy ===== *)
theory Validation
  imports Exec_Types
begin

text \<open>
  \<open>execution/validation.rs\<close>, the step certificates of \<open>execution/certificate.rs\<close> and
  \<open>SharedProposal\<close> of \<open>execution/state.rs\<close>: the checks on entries, effects, signatures and
  proposals, and \<open>validate_agreed_trace\<close>, the verifier of a certified trace prefix.
\<close>

section \<open>Step signatures and full agreements\<close>

definition verify_step_signature ::
  "prims \<Rightarrow> bls_public_key \<Rightarrow> step_commitment \<Rightarrow> participant_step_signature \<Rightarrow> protocol_error + unit" where
  "verify_step_signature P key c s =
     (let invalid = InvalidStepSignature (pss_participant s) (sc_step c) in
      if sig_step (pss_signature s) \<noteq> sc_step c then Inl invalid
      else bind_res (map_err (\<lambda>e. InvalidCertificate (ReasonCrypto e))
             (bls_verify P key (signing_bytes P c) (sig_sig (pss_signature s)))) (\<lambda>valid.
           if \<not> valid then Inl invalid else Inr ()))"

definition verify_full_agreement ::
  "prims \<Rightarrow> aggregate_attestation \<Rightarrow> step_commitment \<Rightarrow> bls_public_key list \<Rightarrow> protocol_error + unit" where
  "verify_full_agreement P a c keys =
     (if signers_count (att_signers a) \<noteq> length keys \<or> \<not> is_full (att_signers a) (length keys)
      then Inl (IncompleteProof (signers_count (att_signers a)) (length keys))
      else map_err (\<lambda>e. InvalidCertificate (ReasonAttestation e))
             (verify_signatures P a (sc_step c) (signing_bytes P c) keys))"

definition certificate_verify :: "prims \<Rightarrow> step_certificate \<Rightarrow> execution_binding \<Rightarrow> protocol_error + unit" where
  "certificate_verify P cert b =
     (if \<not> is_bound_to (cert_commitment cert) (binding_session_id b)
      then Inl (InvalidCertificate (Reason ''step certificate binding mismatch''))
      else bind_res (participant_bls_keys b) (\<lambda>keys.
           verify_full_agreement P (cert_agreement cert) (cert_commitment cert) keys))"

text \<open>The loop of \<open>StepCertificate::from_signatures\<close> over the enumerated participants.\<close>

primrec collect_signatures ::
  "prims \<Rightarrow> step_commitment \<Rightarrow> participant_step_signature list \<Rightarrow> nat
   \<Rightarrow> (nat \<times> peer_id \<times> bls_public_key) list \<Rightarrow> signer_set \<Rightarrow> bls_signature list
   \<Rightarrow> protocol_error + (signer_set \<times> bls_signature list)" where
  "collect_signatures P c sigs n [] signers acc = Inr (signers, acc)"
| "collect_signatures P c sigs n (p # ps) signers acc =
     (case find (\<lambda>s. pss_participant s = fst (snd p)) sigs of
        None \<Rightarrow> Inl (IncompleteProof (length sigs) n)
      | Some s \<Rightarrow>
          bind_res (verify_step_signature P (snd (snd p)) c s) (\<lambda>_.
          collect_signatures P c sigs n ps (signers_set (fst p) signers)
            (acc @ [sig_sig (pss_signature s)])))"

definition certificate_from_signatures ::
  "prims \<Rightarrow> execution_binding \<Rightarrow> step_commitment \<Rightarrow> shared_proposal \<Rightarrow> protocol_error + step_certificate" where
  "certificate_from_signatures P b c p =
     bind_res (participant_keys b) (\<lambda>ps.
     if length (sp_signatures p) \<noteq> length ps
     then Inl (IncompleteProof (length (sp_signatures p)) (length ps))
     else bind_res (collect_signatures P c (sp_signatures p) (length ps) (enumerate 0 ps)
                      (with_capacity (length ps)) []) (\<lambda>(signers, sigs).
     bind_res (map_err (\<lambda>e. InvalidCertificate (ReasonCrypto e))
                 (attestation_from_signatures P signers sigs)) (\<lambda>a.
     bind_res (verify_full_agreement P a c (map snd ps)) (\<lambda>_.
     Inr \<lparr>cert_commitment = c, cert_agreement = a\<rparr>))))"

definition add_signature ::
  "prims \<Rightarrow> execution_binding \<Rightarrow> step_commitment \<Rightarrow> participant_step_signature \<Rightarrow> shared_proposal
   \<Rightarrow> protocol_error + shared_proposal" where
  "add_signature P b c s p =
     (let who = pss_participant s in
      case find (\<lambda>e. pss_participant e = who) (sp_signatures p) of
        Some existing \<Rightarrow>
          if pss_signature existing = pss_signature s then Inl (DuplicateStepSignature who)
          else Inl (ConflictingStepSignature who)
      | None \<Rightarrow>
          bind_res (participant_key b who) (\<lambda>key.
          bind_res (verify_step_signature P key c s) (\<lambda>_.
          if length (sp_signatures p) \<ge> MAX_PROOF_SIGNATURES
          then Inl (CollectionTooLarge ''step signatures'' (length (sp_signatures p) + 1) MAX_PROOF_SIGNATURES)
          else Inr (p\<lparr>sp_signatures := sort_key pss_participant (sp_signatures p @ [s])\<rparr>))))"

section \<open>Effects\<close>

fun validate_effect_payload :: "effect \<Rightarrow> protocol_error + unit" where
  "validate_effect_payload (SessionEnd out) =
     ensure_payload ''terminal outcome'' (length out) MAX_TERMINAL_OUTCOME_BYTES"
| "validate_effect_payload (SessionAbort reason) =
     ensure_payload ''terminal reason'' (length reason) MAX_TERMINAL_REASON_BYTES"
| "validate_effect_payload (Fail reason) =
     ensure_payload ''terminal reason'' (length reason) MAX_TERMINAL_REASON_BYTES"
| "validate_effect_payload (Broadcast msg) =
     ensure_payload ''broadcast payload'' (length msg) MAX_EFFECT_PAYLOAD_BYTES"
| "validate_effect_payload (SetTimer _ t) =
     bind_res (ensure_payload ''timer type name'' (length (type_name t)) MAX_TERMINAL_REASON_BYTES) (\<lambda>_.
     ensure_payload ''timer data'' (length (timer_data t)) MAX_TIMER_PAYLOAD_BYTES)"
| "validate_effect_payload (SendDirect _ msg rng) =
     bind_res (ensure_payload ''direct message'' (length msg) MAX_DIRECT_CONTROL_BYTES) (\<lambda>_.
     case rng of
       Some r \<Rightarrow>
         if range_start r \<ge> range_end r \<or> range_end r - range_start r > MAX_DIRECT_RANGE_BYTES
         then Inl (InvalidCertificate (Reason ''direct range is empty or over its bound''))
         else Inr ()
     | None \<Rightarrow> Inr ())"

definition add_effect_len :: "prims \<Rightarrow> nat \<Rightarrow> effect \<Rightarrow> protocol_error + nat" where
  "add_effect_len P acc e =
     bind_res (map_err Serialization (object_length P (effect_value e))) (\<lambda>len.
     if acc + len < 2 ^ 64 then Inr (acc + len)
     else Inl (EncodedTooLarge ''effects'' (2 ^ 64 - 1) MAX_EFFECT_BYTES))"

primrec effect_budget_loop :: "prims \<Rightarrow> nat \<Rightarrow> nat \<Rightarrow> effect list \<Rightarrow> protocol_error + nat" where
  "effect_budget_loop P count acc [] = Inr acc"
| "effect_budget_loop P count acc (e # es) =
     (if count + 1 > MAX_EFFECTS then Inl (CollectionTooLarge ''effects'' (count + 1) MAX_EFFECTS)
      else bind_res (validate_effect_payload e) (\<lambda>_.
           bind_res (add_effect_len P acc e) (\<lambda>acc.
           effect_budget_loop P (count + 1) acc es)))"

definition check_effect_budget :: "prims \<Rightarrow> effect list \<Rightarrow> protocol_error + unit" where
  "check_effect_budget P es =
     bind_res (effect_budget_loop P 0 4 es) (\<lambda>len. ensure_encoded ''effects'' len MAX_EFFECT_BYTES)"

definition validate_effects :: "prims \<Rightarrow> (u32 \<times> effect) list \<Rightarrow> protocol_error + unit" where
  "validate_effects P es =
     bind_res (check_all (\<lambda>(ordinal, _).
        if unat ordinal \<ge> MAX_EFFECTS
        then Inl (InvalidCertificate (Reason ''effect ordinal is outside the dispatch range''))
        else Inr ()) es) (\<lambda>_.
     bind_res (check_ascending (InvalidCertificate (Reason ''effect ordinals are not strictly increasing''))
                 (map fst es)) (\<lambda>_.
     check_effect_budget P (map snd es)))"

definition single_lifecycle_effect :: "effect list \<Rightarrow> protocol_error + effect option" where
  "single_lifecycle_effect es =
     (case filter is_lifecycle es of
        [] \<Rightarrow> Inr None
      | [e] \<Rightarrow> Inr (Some e)
      | _ \<Rightarrow> Inl MultipleTerminalEffects)"

section \<open>Trace entries\<close>

fun validate_terminal :: "step_terminal \<Rightarrow> protocol_error + unit" where
  "validate_terminal (TerminalEnd out) =
     ensure_payload ''terminal outcome'' (length out) MAX_TERMINAL_OUTCOME_BYTES"
| "validate_terminal (TerminalAbort reason) =
     ensure_payload ''terminal reason'' (length reason) MAX_TERMINAL_REASON_BYTES"
| "validate_terminal (TerminalFail reason) =
     ensure_payload ''terminal reason'' (length reason) MAX_TERMINAL_REASON_BYTES"

definition validate_trace_entry :: "prims \<Rightarrow> trace_entry \<Rightarrow> protocol_error + unit" where
  "validate_trace_entry P e =
     (if te_version e \<noteq> TRACE_FORMAT_VERSION
      then Inl (TraceVersionMismatch (te_version e) TRACE_FORMAT_VERSION)
      else bind_res (map_err Serialization (to_vec P (entry_value e))) (\<lambda>encoded.
        if length encoded > MAX_TRACE_ENTRY_BYTES
        then Inl (TraceEntryTooLarge (length encoded) MAX_TRACE_ENTRY_BYTES)
        else bind_res (case te_event e of
               StepSessionStarted _ \<Rightarrow> Inr ()
             | StepMessage _ msg \<Rightarrow> ensure_payload ''message payload'' (length msg) MAX_EFFECT_PAYLOAD_BYTES) (\<lambda>_.
        case te_terminal e of Some t \<Rightarrow> validate_terminal t | None \<Rightarrow> Inr ())))"

definition validate_shared_entry ::
  "prims \<Rightarrow> execution_binding \<Rightarrow> u64 \<Rightarrow> trace_entry \<Rightarrow> protocol_error + unit" where
  "validate_shared_entry P b expected e =
     bind_res (validate_trace_entry P e) (\<lambda>_.
     if te_step e \<noteq> expected then Inl (StepCoordinateMismatch expected (te_step e))
     else case te_event e of
       StepSessionStarted ens \<Rightarrow>
         if expected \<noteq> 0 then Inl SessionStartPosition
         else bind_res (map_err (\<lambda>x. InvalidCertificate (ReasonEnsemble x)) (binding_ensemble b)) (\<lambda>want.
              if ens \<noteq> want then Inl SessionStartMismatch else Inr ())
     | StepMessage sender _ \<Rightarrow>
         if expected = 0 then Inl MissingSessionStart
         else bind_res (participant_key b sender) (\<lambda>_. Inr ()))"

definition terminal_effect_count :: "trace_entry \<Rightarrow> nat" where
  "terminal_effect_count e = (if te_terminal e \<noteq> None then 1 else 0)"

text \<open>The commitment of an entry, with the panic of \<open>entry_hash\<close> as a protocol outcome.\<close>

definition commit_entry ::
  "prims \<Rightarrow> execution_binding \<Rightarrow> trace_entry \<Rightarrow> 256 word \<Rightarrow> protocol_error + step_commitment" where
  "commit_entry P b e link = map_err Panicked (for_entry P (binding_session_id b) e link)"

section \<open>Proposals\<close>

definition validate_proposal_status ::
  "prims \<Rightarrow> trace_entry \<Rightarrow> step_commitment \<Rightarrow> execution_status \<Rightarrow> protocol_error + unit" where
  "validate_proposal_status P e c status =
     (case te_terminal e of
        None \<Rightarrow> if status = Active then Inr () else Inl InvalidTerminalStatus
      | Some (TerminalAbort reason) \<Rightarrow>
          (case status of
             Stopped (SharedStop KindAbort c' reason') \<Rightarrow>
               if c' = c \<and> reason' = reason then Inr () else Inl InvalidTerminalStatus
           | _ \<Rightarrow> Inl InvalidTerminalStatus)
      | Some (TerminalFail reason) \<Rightarrow>
          (case status of
             Stopped (SharedStop KindFail c' reason') \<Rightarrow>
               if c' = c \<and> reason' = reason then Inr () else Inl InvalidTerminalStatus
           | _ \<Rightarrow> Inl InvalidTerminalStatus)
      | Some (TerminalEnd out) \<Rightarrow>
          (case status of
             Certified actual \<Rightarrow>
               bind_res (outcome_validate P actual) (\<lambda>_.
               if outcome_borsh actual = out then Inr () else Inl TerminalOutcomeMismatch)
           | _ \<Rightarrow> Inl TerminalOutcomeRequired))"

fun validate_step_signature_order :: "participant_step_signature list \<Rightarrow> protocol_error + unit" where
  "validate_step_signature_order (a # b # ss) =
     (if pss_participant a \<ge> pss_participant b then
        (if pss_participant a = pss_participant b then
           (if pss_signature a = pss_signature b then Inl (DuplicateStepSignature (pss_participant a))
            else Inl (ConflictingStepSignature (pss_participant a)))
         else Inl (InvalidCertificate (Reason ''pending step signatures are not canonical'')))
      else validate_step_signature_order (b # ss))"
| "validate_step_signature_order _ = Inr ()"

definition validate_proposal ::
  "prims \<Rightarrow> execution_binding \<Rightarrow> step_cursor \<Rightarrow> u64 \<Rightarrow> shared_proposal \<Rightarrow> protocol_error + unit" where
  "validate_proposal P b agreed pos p =
     bind_res (validate_shared_entry P b (next_step agreed) (sp_entry p)) (\<lambda>_.
     if sp_event_position p \<noteq> pos
     then Inl (InvalidCertificate (Reason ''pending proposal event position is not the expected event''))
     else if te_agreement (sp_entry p) \<noteq> attestation_empty
     then Inl (InvalidCertificate (Reason ''pending proposal carries an agreement''))
     else if te_pre_state (sp_entry p) \<noteq> cursor_state_hash agreed
     then Inl (InvalidCertificate (Reason ''pending proposal pre-state is not the agreed state''))
     else bind_res (commit_entry P b (sp_entry p) (chain_hash agreed)) (\<lambda>c.
     if sc_post_state c \<noteq> of_shared P (sp_shared_state p)
     then Inl (InvalidCertificate (Reason ''pending proposal commitment is inconsistent''))
     else bind_res (advance P agreed c) (\<lambda>advanced.
     bind_res (single_lifecycle_effect (map snd (sp_effects p))) (\<lambda>lifecycle.
     if Option.bind lifecycle terminal_from_effect \<noteq> te_terminal (sp_entry p)
     then Inl (InvalidCertificate (Reason ''proposal effects and trace terminal do not match''))
     else bind_res (status_validate_binding P (sp_status p) b advanced) (\<lambda>_.
     bind_res (validate_proposal_status P (sp_entry p) c (sp_status p)) (\<lambda>_.
     bind_res (participant_keys b) (\<lambda>ps.
     if length (sp_signatures p) > length ps
     then Inl (CollectionTooLarge ''step signatures'' (length (sp_signatures p)) (length ps))
     else bind_res (check_all (\<lambda>s.
            bind_res (ok_or (map_of ps (pss_participant s)) (UnknownParticipant (pss_participant s))) (\<lambda>key.
            verify_step_signature P key c s)) (sp_signatures p)) (\<lambda>_.
     validate_step_signature_order (sp_signatures p)))))))))"

definition validate_outgoing :: "bytes list \<Rightarrow> protocol_error + unit" where
  "validate_outgoing outgoing =
     (if length outgoing > MAX_OUTGOING_MESSAGES
      then Inl (OutgoingQueueFull (length outgoing) MAX_OUTGOING_MESSAGES)
      else check_all (\<lambda>m. ensure_payload ''outgoing message'' (length m) MAX_EFFECT_PAYLOAD_BYTES) outgoing)"

definition proposal_new ::
  "trace_entry \<Rightarrow> shared_state_bytes \<Rightarrow> local_state_bytes \<Rightarrow> bytes list \<Rightarrow> (u32 \<times> effect) list \<Rightarrow> u64
   \<Rightarrow> execution_status \<Rightarrow> open_callout option \<Rightarrow> participant_step_signature list
   \<Rightarrow> protocol_error + shared_proposal" where
  "proposal_new e shared local outgoing effects pos status callout signatures =
     (if length effects > MAX_EFFECTS
      then Inl (CollectionTooLarge ''effects'' (length effects) MAX_EFFECTS)
      else bind_res (validate_outgoing outgoing) (\<lambda>_.
        if status \<noteq> Active \<and> callout \<noteq> None then Inl InvalidCalloutState
        else Inr \<lparr>sp_entry = e, sp_shared_state = shared, sp_local_state = local,
                  sp_outgoing = outgoing, sp_effects = effects, sp_event_position = pos,
                  sp_status = status, sp_callout = callout, sp_signatures = signatures\<rparr>))"

section \<open>Certified trace prefixes\<close>

text \<open>The loop of \<open>validate_agreed_trace\<close> from a given cursor; \<open>index + 1 < trace.len()\<close> is
  \<open>rest \<noteq> []\<close>.\<close>

primrec validate_trace_from ::
  "prims \<Rightarrow> execution_binding \<Rightarrow> bls_public_key list \<Rightarrow> step_cursor \<Rightarrow> trace_entry list
   \<Rightarrow> protocol_error + step_cursor" where
  "validate_trace_from P b keys cur [] = Inr cur"
| "validate_trace_from P b keys cur (e # rest) =
     bind_res (validate_shared_entry P b (next_step cur) e) (\<lambda>_.
     bind_res (commit_entry P b e (chain_hash cur)) (\<lambda>c.
     bind_res (map_err (\<lambda>_. ReceiptBodyMismatch) (advance P cur c)) (\<lambda>next.
     bind_res (verify_full_agreement P (te_agreement e) c keys) (\<lambda>_.
     if rest \<noteq> [] \<and> terminal_effect_count e \<noteq> 0 then Inl TerminalTraceMismatch
     else validate_trace_from P b keys next rest))))"

definition start_cursor :: "execution_binding \<Rightarrow> step_cursor" where
  "start_cursor b = \<lparr>next_step = 0, cursor_state_hash = od_initial_state (binding_offer b),
                     chain_hash = CHAIN_START\<rparr>"

definition validate_agreed_trace ::
  "prims \<Rightarrow> execution_binding \<Rightarrow> trace_entry list \<Rightarrow> protocol_error + step_cursor" where
  "validate_agreed_trace P b trace =
     bind_res (participant_bls_keys b) (\<lambda>keys. validate_trace_from P b keys (start_cursor b) trace)"

section \<open>Lemmas: signatures and agreements\<close>


lemma verify_step_signature_ok [ok_simps]:
  "verify_step_signature P key c s = Inr u \<longleftrightarrow>
     sig_step (pss_signature s) = sc_step c
     \<and> bls_verify P key (signing_bytes P c) (sig_sig (pss_signature s)) = Inr True"
  by (auto simp: verify_step_signature_def Let_def bind_res_ok map_err_ok if_Inl_ok)

text \<open>An agreement is complete exactly when it carries the one full bitmap and its aggregate verifies
  under every key.\<close>

lemma full_signersD:
  assumes "full n = Inr s"
  shows "signers_validate s n = Inr ()" "is_full s n" "signers_count s = n"
    "\<And>i. i < n \<Longrightarrow> signers_contains s i"
  using assms by (auto simp: full_ok validate_ok is_full_def count_card)

lemma verify_full_agreement_ok [ok_simps]:
  "verify_full_agreement P a c keys = Inr u \<longleftrightarrow>
     full (length keys) = Inr (att_signers a)
     \<and> fast_aggregate_verify P (att_aggregate a) (signing_bytes P c) keys = Inr True"
proof
  assume ok: "verify_full_agreement P a c keys = Inr u"
  then have v: "signers_validate (att_signers a) (length keys) = Inr ()" "is_full (att_signers a) (length keys)"
    and agg: "fast_aggregate_verify P (att_aggregate a) (signing_bytes P c) (selected_participants a keys) = Inr True"
    by (auto simp: verify_full_agreement_def if_Inl_ok map_err_ok verify_signatures_ok)
  from v have f: "full (length keys) = Inr (att_signers a)" by (rule full_unique)
  with agg show "full (length keys) = Inr (att_signers a)
      \<and> fast_aggregate_verify P (att_aggregate a) (signing_bytes P c) keys = Inr True"
    by (simp add: selected_full full_signersD(4))
next
  assume r: "full (length keys) = Inr (att_signers a)
    \<and> fast_aggregate_verify P (att_aggregate a) (signing_bytes P c) keys = Inr True"
  then show "verify_full_agreement P a c keys = Inr u"
    using full_signersD [of "length keys" "att_signers a"]
    by (simp add: verify_full_agreement_def verify_signatures_ok map_err_ok selected_full)
qed

lemma commit_entry_ok [ok_simps]:
  "commit_entry P b e link = Inr c \<longleftrightarrow> for_entry P (binding_session_id b) e link = Inr c"
  by (simp add: commit_entry_def map_err_ok)

lemma commit_entry_agreement [simp]:
  "commit_entry P b (e\<lparr>te_agreement := a\<rparr>) link = commit_entry P b e link"
  by (simp add: commit_entry_def)

lemma certificate_verify_ok [ok_simps]:
  "certificate_verify P cert b = Inr u \<longleftrightarrow>
     is_bound_to (cert_commitment cert) (binding_session_id b)
     \<and> (\<exists>keys. participant_bls_keys b = Inr keys
        \<and> full (length keys) = Inr (att_signers (cert_agreement cert))
        \<and> fast_aggregate_verify P (att_aggregate (cert_agreement cert))
             (signing_bytes P (cert_commitment cert)) keys = Inr True)"
  by (simp add: certificate_verify_def if_Inl_ok bind_res_ok verify_full_agreement_ok)

section \<open>Lemmas: effects\<close>

definition effects_size :: "prims \<Rightarrow> effect list \<Rightarrow> nat" where
  "effects_size P es = sum_list (map (\<lambda>e. length (borsh P (effect_value e))) es)"

definition effect_ok :: "effect \<Rightarrow> bool" where
  "effect_ok e \<longleftrightarrow> validate_effect_payload e = Inr () \<and> borsh_fits (effect_value e)"

lemma add_effect_len_ok [ok_simps]:
  "add_effect_len P acc e = Inr n \<longleftrightarrow>
     borsh_fits (effect_value e) \<and> n = acc + length (borsh P (effect_value e)) \<and> n < 2 ^ 64"
  by (auto simp: add_effect_len_def bind_res_ok map_err_ok object_length_ok if_Inr_ok)

lemma effect_budget_loop_ok:
  "effect_budget_loop P count acc es = Inr n \<longleftrightarrow>
     (es = [] \<or> count + length es \<le> MAX_EFFECTS) \<and> (\<forall>e \<in> set es. effect_ok e)
     \<and> n = acc + effects_size P es \<and> (es = [] \<or> n < 2 ^ 64)"
proof (induction es arbitrary: count acc)
  case Nil
  then show ?case by (auto simp: effects_size_def)
next
  case (Cons e es)
  let ?n = "acc + length (borsh P (effect_value e))"
  have "effect_budget_loop P count acc (e # es) = Inr n \<longleftrightarrow>
      count + 1 \<le> MAX_EFFECTS \<and> effect_ok e \<and> ?n < 2 ^ 64 \<and> effect_budget_loop P (count + 1) ?n es = Inr n"
    by (simp only: effect_budget_loop.simps if_Inl_ok bind_res_ok add_effect_len_ok effect_ok_def ex_unit not_less)
      blast
  moreover have "effects_size P (e # es) = length (borsh P (effect_value e)) + effects_size P es"
    by (simp add: effects_size_def)
  moreover have "effects_size P [] = 0" by (simp add: effects_size_def)
  ultimately show ?case unfolding Cons.IH by (cases "es = []") (simp, argo, simp, linarith)
qed

lemma check_effect_budget_ok [ok_simps]:
  "check_effect_budget P es = Inr u \<longleftrightarrow>
     length es \<le> MAX_EFFECTS \<and> (\<forall>e \<in> set es. effect_ok e) \<and> 4 + effects_size P es \<le> MAX_EFFECT_BYTES"
  by (auto simp: check_effect_budget_def bind_res_ok effect_budget_loop_ok ensure_size_ok MAX_EFFECT_BYTES_def
      MAX_EFFECTS_def)

lemma effects_size_filter: "effects_size P (filter Q es) \<le> effects_size P es"
  by (induction es) (auto simp: effects_size_def)

lemma effects_size_member: "e \<in> set es \<Longrightarrow> effects_size P [e] \<le> effects_size P es"
  by (induction es) (auto simp: effects_size_def)

lemma effect_budget_filter:
  "check_effect_budget P es = Inr () \<Longrightarrow> check_effect_budget P (filter Q es) = Inr ()"
  using effects_size_filter [of P Q es] le_trans [OF length_filter_le [of Q es]]
  by (auto simp: check_effect_budget_ok)

lemma effect_budget_member:
  "check_effect_budget P es = Inr () \<Longrightarrow> e \<in> set es \<Longrightarrow> check_effect_budget P [e] = Inr ()"
  using effects_size_member [of e es P]
  by (auto simp: check_effect_budget_ok MAX_EFFECTS_def)

lemma validate_effects_ok [ok_simps]:
  "validate_effects P es = Inr u \<longleftrightarrow>
     (\<forall>x \<in> set es. unat (fst x) < MAX_EFFECTS) \<and> sorted_wrt (<) (map fst es)
     \<and> check_effect_budget P (map snd es) = Inr ()"
  by (auto simp: validate_effects_def bind_res_ok check_all_ok check_ascending_ok if_Inl_ok split: prod.splits)

lemma single_lifecycle_filter [simp]:
  "(\<And>e. is_lifecycle e \<Longrightarrow> Q e) \<Longrightarrow> single_lifecycle_effect (filter Q es) = single_lifecycle_effect es"
proof -
  assume "\<And>e. is_lifecycle e \<Longrightarrow> Q e"
  then have "filter is_lifecycle (filter Q es) = filter is_lifecycle es" by (induction es) auto
  then show ?thesis by (simp add: single_lifecycle_effect_def)
qed

section \<open>Lemmas: entries and proposals\<close>

lemma validate_trace_entry_ok:
  "validate_trace_entry P e = Inr u \<longleftrightarrow>
     te_version e = TRACE_FORMAT_VERSION \<and> borsh_fits (entry_value e)
     \<and> length (borsh P (entry_value e)) \<le> MAX_TRACE_ENTRY_BYTES
     \<and> (\<forall>sender msg. te_event e = StepMessage sender msg \<longrightarrow> length msg \<le> MAX_EFFECT_PAYLOAD_BYTES)
     \<and> (\<forall>t. te_terminal e = Some t \<longrightarrow> validate_terminal t = Inr ())"
  by (auto simp: validate_trace_entry_def bind_res_ok map_err_ok if_Inl_ok to_vec_ok ensure_size_ok
      split: step_event.splits option.splits)

lemma validate_shared_entry_ok:
  "validate_shared_entry P b n e = Inr u \<longleftrightarrow>
     validate_trace_entry P e = Inr () \<and> te_step e = n
     \<and> (case te_event e of
          StepSessionStarted ens \<Rightarrow> n = 0 \<and> binding_ensemble b = Inr ens
        | StepMessage sender _ \<Rightarrow> n \<noteq> 0 \<and> (\<exists>k. participant_key b sender = Inr k))"
  by (auto simp: validate_shared_entry_def bind_res_ok map_err_ok if_Inl_ok split: step_event.splits)

lemma validate_outgoing_ok [ok_simps]:
  "validate_outgoing out = Inr u \<longleftrightarrow>
     length out \<le> MAX_OUTGOING_MESSAGES \<and> (\<forall>m \<in> set out. length m \<le> MAX_EFFECT_PAYLOAD_BYTES)"
  by (auto simp: validate_outgoing_def if_Inl_ok check_all_ok ensure_size_ok)

lemma validate_step_signature_order_ok [ok_simps]:
  "validate_step_signature_order ss = Inr u \<longleftrightarrow> sorted_wrt (<) (map pss_participant ss)"
proof (induction ss rule: validate_step_signature_order.induct)
  case (1 a b ss)
  then show ?case by (auto simp: not_le dest: less_trans)
qed auto

text \<open>The statuses a proposal may install.\<close>

lemma validate_proposal_status_ok:
  "validate_proposal_status P e c status = Inr u \<longleftrightarrow>
     (case te_terminal e of
        None \<Rightarrow> status = Active
      | Some (TerminalAbort reason) \<Rightarrow> status = Stopped (SharedStop KindAbort c reason)
      | Some (TerminalFail reason) \<Rightarrow> status = Stopped (SharedStop KindFail c reason)
      | Some (TerminalEnd out) \<Rightarrow>
          \<exists>actual. status = Certified actual \<and> outcome_validate P actual = Inr () \<and> outcome_borsh actual = out)"
  by (auto simp: validate_proposal_status_def bind_res_ok if_Inr_ok
      split: option.splits step_terminal.splits execution_status.splits stop_cause.splits abort_kind.splits if_splits)

text \<open>Everything a valid pending proposal guarantees, at its commitment \<open>c\<close>.\<close>

definition proposal_at :: "prims \<Rightarrow> execution_binding \<Rightarrow> step_cursor \<Rightarrow> shared_proposal \<Rightarrow> step_commitment \<Rightarrow> bool" where
  "proposal_at P b agreed p c \<longleftrightarrow>
     validate_shared_entry P b (next_step agreed) (sp_entry p) = Inr ()
     \<and> te_agreement (sp_entry p) = attestation_empty
     \<and> te_pre_state (sp_entry p) = cursor_state_hash agreed
     \<and> commit_entry P b (sp_entry p) (chain_hash agreed) = Inr c
     \<and> sc_post_state c = of_shared P (sp_shared_state p)
     \<and> (\<exists>adv. advance P agreed c = Inr adv \<and> status_validate_binding P (sp_status p) b adv = Inr ())
     \<and> (\<exists>l. single_lifecycle_effect (map snd (sp_effects p)) = Inr l
          \<and> Option.bind l terminal_from_effect = te_terminal (sp_entry p))
     \<and> validate_proposal_status P (sp_entry p) c (sp_status p) = Inr ()"

definition signatures_at :: "prims \<Rightarrow> execution_binding \<Rightarrow> shared_proposal \<Rightarrow> step_commitment \<Rightarrow> bool" where
  "signatures_at P b p c \<longleftrightarrow>
     (\<exists>ps. participant_keys b = Inr ps \<and> length (sp_signatures p) \<le> length ps
        \<and> (\<forall>s \<in> set (sp_signatures p). \<exists>key. map_of ps (pss_participant s) = Some key
             \<and> verify_step_signature P key c s = Inr ()))
     \<and> sorted_wrt (<) (map pss_participant (sp_signatures p))"

lemma validate_proposal_ok:
  "validate_proposal P b agreed pos p = Inr u \<longleftrightarrow>
     sp_event_position p = pos \<and> (\<exists>c. proposal_at P b agreed p c \<and> signatures_at P b p c)"
proof -
  have sigs: "check_all (\<lambda>s. bind_res (ok_or (map_of ps (pss_participant s)) (UnknownParticipant (pss_participant s)))
        (\<lambda>key. verify_step_signature P key c s)) ss = Inr u \<longleftrightarrow>
      (\<forall>s \<in> set ss. \<exists>key. map_of ps (pss_participant s) = Some key \<and> verify_step_signature P key c s = Inr ())"
    for ps c ss and u :: unit
    by (simp add: check_all_ok bind_res_ok ok_or_ok)
  show ?thesis
    unfolding validate_proposal_def proposal_at_def signatures_at_def
    by (simp only: bind_res_ok if_Inl_ok sigs validate_step_signature_order_ok not_less ex_unit not_not) auto
qed

end
