(* ===== verification/Receipt.thy ===== *)
theory Receipt
  imports Validation
begin

text \<open>
  Receipts: \<open>trace/header.rs\<close>, the receipt part of \<open>execution/certificate.rs\<close> (\<open>ReceiptBody\<close>,
  \<open>ReceiptId::derive_body\<close>, \<open>ReceiptArtifact\<close>, \<open>ReceiptProvenance\<close>) and the receipt verifier of
  \<open>execution/validation.rs\<close>.
\<close>

section \<open>Headers and bodies\<close>

datatype receipt_termination = TermCompleted | TermStopped stop_cause

record session_header =
  sh_activation :: activation
  sh_terminal :: receipt_termination

definition header_program_hash :: "session_header \<Rightarrow> program_hash" where
  "header_program_hash h = od_program_hash (offer_data_of (pa_offer (act_prepared (sh_activation h))))"

definition header_session_hash :: "session_header \<Rightarrow> session_hash" where
  "header_session_hash h = pa_session_hash (act_prepared (sh_activation h))"

record receipt_body =
  rb_header :: session_header
  rb_outcome :: bytes
  rb_params :: bytes
  rb_trace :: "trace_entry list"

definition RECEIPT_BODY_VERSION :: u8 where
  "RECEIPT_BODY_VERSION = 5"

definition RECEIPT_VERSION :: u8 where
  "RECEIPT_VERSION = 5"

fun cause_value :: "stop_cause \<Rightarrow> borsh_value" where
  "cause_value (Authenticated a) = BEnum 0 [abort_occurrence_value a]"
| "cause_value (SharedStop kind c reason) =
     BEnum 1 [BU8 (abort_kind_tag kind), commitment_value c, BString MAX_TERMINAL_REASON_BYTES reason]"

fun termination_value :: "receipt_termination \<Rightarrow> borsh_value" where
  "termination_value TermCompleted = BEnum 0 []"
| "termination_value (TermStopped cause) = BEnum 1 [cause_value cause]"

definition header_value :: "session_header \<Rightarrow> borsh_value" where
  "header_value h = BStruct [activation_value (sh_activation h), termination_value (sh_terminal h)]"

definition body_value :: "receipt_body \<Rightarrow> borsh_value" where
  "body_value b = BStruct [BU8 RECEIPT_BODY_VERSION, header_value (rb_header b),
     BBytes MAX_TERMINAL_OUTCOME_BYTES (rb_outcome b), BBytes MAX_PARAMS_LEN (rb_params b),
     BVec MAX_RECEIPT_TRACE_ENTRIES (map entry_value (rb_trace b))]"

definition validate_receipt_body_shape :: "prims \<Rightarrow> receipt_body \<Rightarrow> protocol_error + unit" where
  "validate_receipt_body_shape P body =
     bind_res (map_err Serialization (to_vec P (body_value body))) (\<lambda>encoded.
     bind_res (ensure_encoded ''receipt body'' (length encoded) MAX_RECEIPT_BYTES) (\<lambda>_.
     if length (rb_trace body) > MAX_RECEIPT_TRACE_ENTRIES
     then Inl (CollectionTooLarge ''receipt trace entries'' (length (rb_trace body)) MAX_RECEIPT_TRACE_ENTRIES)
     else bind_res (check_all (validate_trace_entry P) (rb_trace body)) (\<lambda>_.
     case sh_terminal (rb_header body) of
       TermCompleted \<Rightarrow> Inr ()
     | TermStopped cause \<Rightarrow>
         bind_res (cause_validate cause) (\<lambda>_.
         if rb_outcome body \<noteq> [] then Inl OutcomeProjectionMismatch else Inr ()))))"

definition body_new ::
  "prims \<Rightarrow> session_header \<Rightarrow> bytes \<Rightarrow> bytes \<Rightarrow> trace_entry list \<Rightarrow> protocol_error + receipt_body" where
  "body_new P header out params trace =
     bind_res (ensure_payload ''receipt outcome'' (length out) MAX_TERMINAL_OUTCOME_BYTES) (\<lambda>_.
     bind_res (ensure_payload ''receipt params'' (length params) MAX_PARAMS_LEN) (\<lambda>_.
     if length trace > MAX_RECEIPT_TRACE_ENTRIES
     then Inl (CollectionTooLarge ''receipt trace entries'' (length trace) MAX_RECEIPT_TRACE_ENTRIES)
     else let body = \<lparr>rb_header = header, rb_outcome = out, rb_params = params, rb_trace = trace\<rparr> in
       bind_res (validate_receipt_body_shape P body) (\<lambda>_. Inr body)))"

section \<open>The receipt verifier\<close>

datatype receipt_trace_terminal =
    TraceCompleted bytes
  | TraceAuthenticated
  | TraceStopped abort_kind string

definition final_entry :: "trace_entry list \<Rightarrow> trace_entry option" where
  "final_entry trace = (if trace = [] then None else Some (last trace))"

fun stop_terminal_matches :: "abort_kind \<Rightarrow> string \<Rightarrow> step_terminal option \<Rightarrow> bool" where
  "stop_terminal_matches KindAbort reason (Some (TerminalAbort actual)) \<longleftrightarrow> actual = reason"
| "stop_terminal_matches KindFail reason (Some (TerminalFail actual)) \<longleftrightarrow> actual = reason"
| "stop_terminal_matches _ _ _ \<longleftrightarrow> False"

definition validate_receipt_trace ::
  "prims \<Rightarrow> execution_binding \<Rightarrow> trace_entry list \<Rightarrow> receipt_trace_terminal \<Rightarrow> protocol_error + step_cursor" where
  "validate_receipt_trace P b trace terminal =
     (if terminal \<noteq> TraceAuthenticated \<and> trace = [] then Inl ReceiptBodyMismatch
      else bind_res (validate_agreed_trace P b trace) (\<lambda>cursor.
      bind_res (case terminal of
         TraceCompleted out \<Rightarrow>
           (case final_entry trace of
              None \<Rightarrow> Inl ReceiptBodyMismatch
            | Some e \<Rightarrow>
                if (case te_terminal e of Some (TerminalEnd _) \<Rightarrow> False | _ \<Rightarrow> True)
                   \<or> Option.bind (te_terminal e) completed_outcome \<noteq> Some out
                then Inl TerminalTraceMismatch else Inr ())
       | TraceAuthenticated \<Rightarrow>
           (case final_entry trace of
              None \<Rightarrow> Inr ()
            | Some e \<Rightarrow> if terminal_effect_count e \<noteq> 0 then Inl TerminalTraceMismatch else Inr ())
       | TraceStopped kind reason \<Rightarrow>
           (case final_entry trace of
              None \<Rightarrow> Inl ReceiptBodyMismatch
            | Some e \<Rightarrow>
                if \<not> stop_terminal_matches kind reason (te_terminal e)
                then Inl TerminalTraceMismatch else Inr ())) (\<lambda>_.
      Inr cursor)))"

fun validate_stopped_receipt ::
  "prims \<Rightarrow> execution_binding \<Rightarrow> receipt_body \<Rightarrow> stop_cause \<Rightarrow> protocol_error + unit" where
  "validate_stopped_receipt P b body (Authenticated a) =
     bind_res (cause_validate (Authenticated a)) (\<lambda>_.
     bind_res (abort_validate_for_session a (binding_session_id b)) (\<lambda>_.
     if \<not> is_participant b (ao_sender a) then Inl UnauthenticatedAbort
     else bind_res (abort_verify_signature P a) (\<lambda>ok.
       if \<not> ok then Inl UnauthenticatedAbort
       else bind_res (validate_receipt_trace P b (rb_trace body) TraceAuthenticated) (\<lambda>cursor.
         if ao_coordinate a \<noteq> cursor then Inl InvalidAbortCoordinate else Inr ()))))"
| "validate_stopped_receipt P b body (SharedStop kind c reason) =
     bind_res (cause_validate (SharedStop kind c reason)) (\<lambda>_.
     case final_entry (rb_trace body) of
       None \<Rightarrow> Inl ReceiptBodyMismatch
     | Some e \<Rightarrow>
         if te_step e \<noteq> sc_step c then Inl ReceiptBodyMismatch
         else bind_res (map_err Panicked (entry_hash P e)) (\<lambda>h.
           if h \<noteq> sc_entry_hash c then Inl ReceiptBodyMismatch
           else bind_res (validate_receipt_trace P b (rb_trace body) (TraceStopped kind reason)) (\<lambda>cursor.
             cause_validate_binding P (SharedStop kind c reason) b cursor)))"

definition validate_receipt_body :: "prims \<Rightarrow> execution_binding \<Rightarrow> receipt_body \<Rightarrow> protocol_error + unit" where
  "validate_receipt_body P b body =
     bind_res (validate_receipt_body_shape P body) (\<lambda>_.
     bind_res (map_err InvalidActivation (activation_validate P (sh_activation (rb_header body)))) (\<lambda>_.
     if sh_activation (rb_header body) \<noteq> bind_activation b
        \<or> header_session_hash (rb_header body) \<noteq> binding_session_id b
        \<or> header_program_hash (rb_header body) \<noteq> binding_program_hash b
        \<or> rb_params body \<noteq> json_as_bytes (od_params (binding_offer b))
     then Inl ReceiptBodyMismatch
     else case sh_terminal (rb_header body) of
       TermCompleted \<Rightarrow>
         bind_res (validate_receipt_trace P b (rb_trace body) (TraceCompleted (rb_outcome body))) (\<lambda>_. Inr ())
     | TermStopped cause \<Rightarrow> validate_stopped_receipt P b body cause))"

section \<open>Artifacts\<close>

definition derive_body :: "prims \<Rightarrow> receipt_body \<Rightarrow> protocol_error + receipt_id" where
  "derive_body P body =
     bind_res (map_err Serialization (to_vec P (body_value body))) (\<lambda>bs.
     bind_res (ensure_payload ''receipt body'' (length bs) MAX_RECEIPT_BYTES) (\<lambda>_.
     Inr (ReceiptId (blake3 P (string_bytes ''arena0/receipt/v5'' @ [RECEIPT_VERSION] @ bs)))))"

record receipt =
  rc_body :: receipt_body
  rc_id :: receipt_id

record stop_report =
  sr_body :: receipt_body
  sr_id :: receipt_id

datatype receipt_artifact = ArtifactReceipt receipt | ArtifactStopReport stop_report

datatype receipt_kind = KindReceipt | KindStopReport

fun artifact_body :: "receipt_artifact \<Rightarrow> receipt_body" where
  "artifact_body (ArtifactReceipt r) = rc_body r"
| "artifact_body (ArtifactStopReport r) = sr_body r"

fun artifact_id :: "receipt_artifact \<Rightarrow> receipt_id" where
  "artifact_id (ArtifactReceipt r) = rc_id r"
| "artifact_id (ArtifactStopReport r) = sr_id r"

fun artifact_kind :: "receipt_artifact \<Rightarrow> receipt_kind" where
  "artifact_kind (ArtifactReceipt _) = KindReceipt"
| "artifact_kind (ArtifactStopReport _) = KindStopReport"

definition artifact_value :: "receipt_artifact \<Rightarrow> borsh_value" where
  "artifact_value a = BStruct [BU8 RECEIPT_VERSION, body_value (artifact_body a)]"

definition artifact_encode :: "prims \<Rightarrow> receipt_artifact \<Rightarrow> protocol_error + bytes" where
  "artifact_encode P a =
     bind_res (map_err Serialization (to_vec P (artifact_value a))) (\<lambda>bs.
     bind_res (ensure_payload ''receipt'' (length bs) MAX_RECEIPT_BYTES) (\<lambda>_. Inr bs))"

definition artifact_new :: "prims \<Rightarrow> receipt_body \<Rightarrow> protocol_error + receipt_artifact" where
  "artifact_new P body =
     bind_res (binding_new P (sh_activation (rb_header body))) (\<lambda>b.
     bind_res (validate_receipt_body P b body) (\<lambda>_.
     bind_res (derive_body P body) (\<lambda>rid.
     let artifact = (case sh_terminal (rb_header body) of
           TermStopped (Authenticated _) \<Rightarrow> ArtifactStopReport \<lparr>sr_body = body, sr_id = rid\<rparr>
         | _ \<Rightarrow> ArtifactReceipt \<lparr>rc_body = body, rc_id = rid\<rparr>) in
     bind_res (artifact_encode P artifact) (\<lambda>_. Inr artifact))))"

text \<open>\<open>ReceiptArtifact::decode\<close> with the Borsh reader of the body a parameter: the reader of the
  source checks both version bytes, the bounds and the shape, then authenticates.\<close>

definition artifact_decode ::
  "prims \<Rightarrow> (bytes \<Rightarrow> string + u8 \<times> u8 \<times> receipt_body) \<Rightarrow> bytes \<Rightarrow> protocol_error + receipt_artifact" where
  "artifact_decode P from_slice bs =
     bind_res (ensure_payload ''receipt'' (length bs) MAX_RECEIPT_BYTES) (\<lambda>_.
     bind_res (map_err Deserialization (from_slice bs)) (\<lambda>(version, body_version, body).
     if version \<noteq> RECEIPT_VERSION then Inl (Deserialization ''unsupported receipt version'')
     else if body_version \<noteq> RECEIPT_BODY_VERSION then Inl (Deserialization ''unknown receipt body version'')
     else bind_res (map_err (\<lambda>_. Deserialization ''receipt body shape'') (validate_receipt_body_shape P body)) (\<lambda>_.
       map_err (\<lambda>_. Deserialization ''receipt'') (artifact_new P body))))"

record receipt_summary =
  rs_receipt_id :: receipt_id
  rs_program_id :: program_hash
  rs_session_id :: session_hash
  rs_ensemble :: "peer_id list"
  rs_steps :: u64
  rs_terminal :: receipt_termination
  rs_outcome_borsh :: "bytes option"

definition artifact_summary :: "receipt_artifact \<Rightarrow> receipt_summary" where
  "artifact_summary a =
     (let body = artifact_body a; act = sh_activation (rb_header body); terminal = sh_terminal (rb_header body) in
      \<lparr>rs_receipt_id = artifact_id a,
       rs_program_id = od_program_hash (offer_data_of (pa_offer (act_prepared act))),
       rs_session_id = pa_session_hash (act_prepared act),
       rs_ensemble = sort (prepared_signers (act_prepared act)),
       rs_steps = word_of_nat (length (rb_trace body)),
       rs_terminal = terminal,
       rs_outcome_borsh = (if terminal = TermCompleted then Some (rb_outcome body) else None)\<rparr>)"

section \<open>The reserved overhead\<close>

definition overhead_body :: "execution_binding \<Rightarrow> receipt_termination \<Rightarrow> bytes \<Rightarrow> receipt_body" where
  "overhead_body b terminal out =
     \<lparr>rb_header = \<lparr>sh_activation = bind_activation b, sh_terminal = terminal\<rparr>, rb_outcome = out,
      rb_params = json_as_bytes (od_params (binding_offer b)), rb_trace = []\<rparr>"

definition overhead_shape :: "execution_binding \<Rightarrow> receipt_termination \<Rightarrow> bytes \<Rightarrow> receipt_artifact" where
  "overhead_shape b terminal out =
     ArtifactReceipt \<lparr>rc_body = overhead_body b terminal out, rc_id = ReceiptId 0\<rparr>"

definition overhead_size ::
  "prims \<Rightarrow> execution_binding \<Rightarrow> receipt_termination \<times> bytes \<Rightarrow> protocol_error + u64" where
  "overhead_size P b shape =
     bind_res (map_err Serialization (object_length P (artifact_value (overhead_shape b (fst shape) (snd shape)))))
       (\<lambda>size. Inr (word_of_nat size))"

definition reserved_overhead :: "prims \<Rightarrow> execution_binding \<Rightarrow> protocol_error + u64" where
  "reserved_overhead P b =
     (let initial = od_initial_state (binding_offer b);
          reason = replicate MAX_TERMINAL_REASON_BYTES (CHR ''x'') in
      case binding_tickets b of
        [] \<Rightarrow> Inl (Panicked (Panic ''index out of bounds''))
      | t # _ \<Rightarrow>
          bind_res (abort_unsigned (binding_session_id b) (td_signer (tk_data t)) KindFail 0 reason
                      \<lparr>next_step = 0, cursor_state_hash = initial, chain_hash = CHAIN_START\<rparr>) (\<lambda>occurrence.
          let shared = SharedStop KindFail
                \<lparr>sc_domain = STEP_COMMIT_DOMAIN, sc_session_id = binding_session_id b, sc_step = 0,
                 sc_entry_hash = 0, sc_pre_state = initial, sc_post_state = initial, sc_link = CHAIN_START\<rparr> reason in
          bind_res (collect_res (overhead_size P b)
            [(TermCompleted, replicate MAX_TERMINAL_OUTCOME_BYTES 0),
             (TermStopped (Authenticated occurrence), []),
             (TermStopped shared, [])]) (\<lambda>sizes.
          Inr (fold max sizes 0))))"

section \<open>Provenance\<close>

datatype receipt_provenance = ProvProduced | ProvImported | ProvBoth

fun from_facts :: "bool \<Rightarrow> bool \<Rightarrow> receipt_provenance option" where
  "from_facts False True = Some ProvProduced"
| "from_facts True False = Some ProvImported"
| "from_facts True True = Some ProvBoth"
| "from_facts False False = None"

definition is_imported :: "receipt_provenance \<Rightarrow> bool" where
  "is_imported p \<longleftrightarrow> p = ProvImported \<or> p = ProvBoth"

definition is_produced :: "receipt_provenance \<Rightarrow> bool" where
  "is_produced p \<longleftrightarrow> p = ProvProduced \<or> p = ProvBoth"

end
