(* ===== verification/Execution_State.thy ===== *)
theory Execution_State
  imports Receipt
begin

text \<open>
  \<open>ExecutionState\<close> of \<open>execution/state.rs\<close> and its end handshake (\<open>execution/end.rs\<close>): the durable
  aggregate of one participant's execution and every operation on it.  An operation that takes
  \<open>&mut self\<close> returns the new state with its result; the source builds the new state on a clone and
  assigns it last, so an error leaves the state unchanged.  The \<open>direct\<close> map is its entry list in
  ascending key order.
\<close>

section \<open>The aggregate\<close>

record execution_state =
  es_execution_id :: exec_id
  es_binding :: execution_binding
  es_producer :: peer_id
  es_status :: execution_status
  es_version :: execution_version
  es_event_position :: u64
  es_agreed_step :: u64
  es_trace_bytes :: u64
  es_receipt_overhead :: u64
  es_agreed_state :: state_hash
  es_agreed_link :: "256 word"
  es_last_certificate :: "step_certificate option"
  es_end_phase :: end_phase
  es_direct :: "(peer_id \<times> direct_lane) list"
  es_outgoing :: "bytes list"
  es_shared_state :: shared_state_bytes
  es_local_state :: local_state_bytes
  es_proposal :: "shared_proposal option"
  es_callout :: "open_callout option"

definition state_new ::
  "prims \<Rightarrow> exec_id \<Rightarrow> activation \<Rightarrow> peer_id \<Rightarrow> shared_state_bytes \<Rightarrow> local_state_bytes
   \<Rightarrow> protocol_error + execution_state" where
  "state_new P eid act producer shared local =
     bind_res (binding_new P act) (\<lambda>b.
     bind_res (reserved_overhead P b) (\<lambda>overhead.
     if overhead > word_of_nat MAX_RECEIPT_BYTES then Inl (ReceiptBudgetExhausted 0)
     else if \<not> is_participant b producer then Inl (UnknownParticipant producer)
     else if of_shared P shared \<noteq> od_initial_state (binding_offer b) then Inl StateHashMismatch
     else let cursor = genesis P shared in
       Inr \<lparr>es_execution_id = eid, es_binding = b, es_producer = producer, es_status = Activating,
            es_version = ExecutionVersion 0, es_event_position = 0, es_agreed_step = next_step cursor,
            es_trace_bytes = 0, es_receipt_overhead = overhead,
            es_agreed_state = cursor_state_hash cursor, es_agreed_link = chain_hash cursor,
            es_last_certificate = None, es_end_phase = Open, es_direct = [], es_outgoing = [],
            es_shared_state = shared, es_local_state = local, es_proposal = None, es_callout = None\<rparr>))"

definition next_version :: "execution_state \<Rightarrow> protocol_error + execution_version" where
  "next_version s = ok_or (version_next (es_version s)) VersionExhausted"

definition bump_version :: "execution_state \<Rightarrow> protocol_error + execution_state" where
  "bump_version s = bind_res (next_version s) (\<lambda>v. Inr (s\<lparr>es_version := v\<rparr>))"

definition state_lifecycle :: "execution_state \<Rightarrow> exec_lifecycle" where
  "state_lifecycle s =
     (if es_status s = Active \<and> es_callout s \<noteq> None then LcWaiting else status_lifecycle (es_status s))"

fun published_receipt_id :: "execution_status \<Rightarrow> receipt_id option" where
  "published_receipt_id (Completed _ rid) = Some rid"
| "published_receipt_id (StoppedPublished _ rid) = Some rid"
| "published_receipt_id _ = None"

fun status_terminal_outcome :: "execution_status \<Rightarrow> terminal_outcome option" where
  "status_terminal_outcome (Certified out) = Some out"
| "status_terminal_outcome (Completed out _) = Some out"
| "status_terminal_outcome _ = None"

definition cursor_of :: "execution_state \<Rightarrow> step_cursor" where
  "cursor_of s = \<lparr>next_step = es_agreed_step s, cursor_state_hash = es_agreed_state s,
                  chain_hash = es_agreed_link s\<rparr>"

definition commitment_for :: "prims \<Rightarrow> execution_state \<Rightarrow> shared_proposal \<Rightarrow> protocol_error + step_commitment" where
  "commitment_for P s p = commit_entry P (es_binding s) (sp_entry p) (es_agreed_link s)"

section \<open>Direct lanes\<close>

definition lane_of :: "execution_state \<Rightarrow> peer_id \<Rightarrow> direct_lane" where
  "lane_of s p = (case map_of (es_direct s) p of None \<Rightarrow> default_lane | Some lane \<Rightarrow> lane)"

definition direct_queue :: "execution_state \<Rightarrow> peer_id \<Rightarrow> direct_entry list" where
  "direct_queue s p = (case map_of (es_direct s) p of None \<Rightarrow> [] | Some lane \<Rightarrow> lane_queue lane)"

definition direct_queue_lens :: "execution_state \<Rightarrow> (peer_id \<times> nat) list" where
  "direct_queue_lens s =
     map (\<lambda>(p, lane). (p, length (lane_queue lane))) (filter (\<lambda>(_, lane). lane_queue lane \<noteq> []) (es_direct s))"

definition direct_arrival :: "execution_state \<Rightarrow> peer_id \<Rightarrow> u64 \<Rightarrow> direct_arrival" where
  "direct_arrival s from seq =
     (let lst = (case map_of (es_direct s) from of None \<Rightarrow> 0 | Some lane \<Rightarrow> last_applied lane) in
      if seq \<le> lst then Duplicate
      else if checked_add lst 1 = Some seq then NextSeq
      else Gap)"

definition record_direct :: "execution_state \<Rightarrow> peer_id \<Rightarrow> u64 \<Rightarrow> protocol_error + execution_state" where
  "record_direct s from seq =
     (if from = es_producer s \<or> \<not> is_participant (es_binding s) from then Inl (UnknownParticipant from)
      else if direct_arrival s from seq \<noteq> NextSeq then Inl (DirectOutOfOrder from seq)
      else bind_res (next_version s) (\<lambda>v.
        Inr (s\<lparr>es_direct := bmap_insert from ((lane_of s from)\<lparr>last_applied := seq\<rparr>) (es_direct s),
               es_version := v\<rparr>)))"

definition ack_direct :: "execution_state \<Rightarrow> peer_id \<Rightarrow> u64 \<Rightarrow> protocol_error + execution_state \<times> bool" where
  "ack_direct s to seq =
     (if to = es_producer s \<or> \<not> is_participant (es_binding s) to then Inl (UnknownParticipant to)
      else if \<not> (\<exists>e \<in> set (direct_queue s to). de_seq e \<le> seq) then Inr (s, False)
      else bind_res (next_version s) (\<lambda>v.
        case map_of (es_direct s) to of
          None \<Rightarrow> Inl (Panicked (Panic ''non-empty queue has a lane''))
        | Some lane \<Rightarrow>
            Inr (s\<lparr>es_direct := bmap_insert to
                     (lane\<lparr>lane_queue := filter (\<lambda>e. de_seq e > seq) (lane_queue lane)\<rparr>) (es_direct s),
                   es_version := v\<rparr>, True)))"

section \<open>The end handshake\<close>

definition begin_end :: "execution_state \<Rightarrow> execution_state" where
  "begin_end s =
     (if \<not> is_terminal (es_status s) \<or> es_end_phase s \<noteq> Open then s
      else s\<lparr>es_end_phase := Ending (remdups_adj (sort
               (filter (\<lambda>p. p \<noteq> es_producer s) (participants (es_binding s))))),
             es_direct := map (\<lambda>(p, lane). (p, lane\<lparr>lane_queue := []\<rparr>)) (es_direct s)\<rparr>)"

text \<open>Removing a confirmed peer; the phase becomes \<open>Ended\<close> with the last one.\<close>

fun confirm_phase :: "peer_id \<Rightarrow> end_phase \<Rightarrow> end_phase" where
  "confirm_phase p Open = Open"
| "confirm_phase p (Ending ps) = (let ps = filter (\<lambda>q. q \<noteq> p) ps in if ps = [] then Ended [] else Ending ps)"
| "confirm_phase p (Ended ps) = (let ps = filter (\<lambda>q. q \<noteq> p) ps in if ps = [] then Ended [] else Ended ps)"

definition confirm_end :: "execution_state \<Rightarrow> peer_id \<Rightarrow> protocol_error + execution_state \<times> bool" where
  "confirm_end s p =
     (if p = es_producer s \<or> \<not> is_participant (es_binding s) p then Inl InvalidTerminalStatus
      else case phase_unconfirmed (es_end_phase s) of
        None \<Rightarrow> Inl InvalidTerminalStatus
      | Some unconfirmed \<Rightarrow>
          if p \<notin> set unconfirmed then Inr (s, False)
          else bind_res (bump_version (s\<lparr>es_end_phase := confirm_phase p (es_end_phase s)\<rparr>)) (\<lambda>next.
               Inr (next, True)))"

definition expire_end :: "execution_state \<Rightarrow> protocol_error + execution_state" where
  "expire_end s =
     (case es_end_phase s of
        Ending unconfirmed \<Rightarrow> bump_version (s\<lparr>es_end_phase := Ended unconfirmed\<rparr>)
      | _ \<Rightarrow> Inl InvalidTerminalStatus)"

definition terminal_evidence :: "execution_state \<Rightarrow> exec_frame option" where
  "terminal_evidence s =
     (if \<not> is_terminal (es_status s) then None
      else case terminal_cause (es_status s) of
        Some (Authenticated a) \<Rightarrow> Some (FrameAbort a)
      | _ \<Rightarrow> map_option FrameStepCertificate (es_last_certificate s))"

definition end_conclusion_matches :: "execution_state \<Rightarrow> exec_frame \<Rightarrow> end_match" where
  "end_conclusion_matches s frame =
     (case terminal_evidence s of
        None \<Rightarrow> NotTerminalEvidence
      | Some ours \<Rightarrow>
          (case frame of
             FrameStepCertificate cert \<Rightarrow>
               let bound = (case ours of FrameStepCertificate c \<Rightarrow> sc_step (cert_commitment c) | _ \<Rightarrow> es_agreed_step s) in
               if (case ours of FrameStepCertificate c \<Rightarrow> cert_commitment c = cert_commitment cert | _ \<Rightarrow> False)
               then SameConclusion
               else if sc_step (cert_commitment cert) < bound then NotTerminalEvidence
               else DifferentConclusion
           | FrameAbort a \<Rightarrow>
               if (case ours of FrameAbort _ \<Rightarrow> True | _ \<Rightarrow> False) \<and> ao_coordinate a = cursor_of s
               then SameConclusion else DifferentConclusion
           | _ \<Rightarrow> NotTerminalEvidence))"

definition validate_end :: "execution_state \<Rightarrow> protocol_error + unit" where
  "validate_end s =
     (case es_end_phase s of
        Open \<Rightarrow> if \<not> is_terminal (es_status s) then Inr () else Inl InvalidTerminalStatus
      | Ending unconfirmed \<Rightarrow>
          if is_terminal (es_status s) then
            (if unconfirmed = [] then Inl InvalidTerminalStatus
             else if \<exists>p \<in> set unconfirmed. p = es_producer s \<or> \<not> is_participant (es_binding s) p
             then Inl InvalidTerminalStatus else Inr ())
          else Inl InvalidTerminalStatus
      | Ended unconfirmed \<Rightarrow>
          if is_terminal (es_status s) then
            (if \<exists>p \<in> set unconfirmed. p = es_producer s \<or> \<not> is_participant (es_binding s) p
             then Inl InvalidTerminalStatus else Inr ())
          else Inl InvalidTerminalStatus)"

section \<open>The receipt budget\<close>

text \<open>The entry with the full signer bitmap in place of its own.\<close>

definition certified_size :: "prims \<Rightarrow> execution_state \<Rightarrow> trace_entry \<Rightarrow> protocol_error + u64" where
  "certified_size P s e =
     bind_res (map_err (\<lambda>x. InvalidCertificate (ReasonSigners x)) (full (length (binding_tickets (es_binding s)))))
       (\<lambda>signers.
     bind_res (map_err Serialization (object_length P
         (entry_value (e\<lparr>te_agreement := (te_agreement e)\<lparr>att_signers := signers\<rparr>\<rparr>)))) (\<lambda>n.
     Inr (word_of_nat n)))"

primrec sum_certified :: "prims \<Rightarrow> execution_state \<Rightarrow> u64 \<Rightarrow> trace_entry list \<Rightarrow> protocol_error + u64" where
  "sum_certified P s acc [] = Inr acc"
| "sum_certified P s acc (e # es) =
     bind_res (certified_size P s e) (\<lambda>n.
     bind_res (ok_or (checked_add acc n) (ReceiptBudgetExhausted (es_agreed_step s))) (\<lambda>acc.
     sum_certified P s acc es))"

definition exceeds :: "u64 option \<Rightarrow> nat \<Rightarrow> bool" where
  "exceeds v lim = (case v of None \<Rightarrow> True | Some n \<Rightarrow> n > word_of_nat lim)"

definition check_receipt_entries :: "prims \<Rightarrow> execution_state \<Rightarrow> trace_entry list \<Rightarrow> protocol_error + u64" where
  "check_receipt_entries P s entries =
     bind_res (sum_certified P s (es_trace_bytes s) entries) (\<lambda>trace_bytes.
     if exceeds (checked_add (es_agreed_step s) (word_of_nat (length entries))) MAX_RECEIPT_TRACE_ENTRIES
        \<or> exceeds (checked_add trace_bytes (es_receipt_overhead s)) MAX_RECEIPT_BYTES
     then Inl (ReceiptBudgetExhausted (es_agreed_step s))
     else Inr trace_bytes)"

definition check_receipt_budget :: "prims \<Rightarrow> execution_state \<Rightarrow> trace_entry \<Rightarrow> protocol_error + u64" where
  "check_receipt_budget P s e = check_receipt_entries P s [e]"

definition check_proposal_receipt_budget ::
  "prims \<Rightarrow> execution_state \<Rightarrow> shared_proposal \<Rightarrow> protocol_error + unit" where
  "check_proposal_receipt_budget P s p = bind_res (check_receipt_budget P s (sp_entry p)) (\<lambda>_. Inr ())"

section \<open>Dispatch\<close>

definition activate :: "execution_state \<Rightarrow> protocol_error + execution_state" where
  "activate s =
     (if es_status s \<noteq> Activating then Inl (IllegalLifecycle (state_lifecycle s) ''activate'')
      else if es_proposal s \<noteq> None
      then Inl (InvalidCertificate (Reason ''activating execution cannot retain a proposal''))
      else bump_version (s\<lparr>es_status := Active\<rparr>))"

definition validate_callout_dispatch ::
  "execution_state \<Rightarrow> event \<Rightarrow> callout_id option \<Rightarrow> protocol_error + unit" where
  "validate_callout_dispatch s ev pending =
     (case ev of
        InputReceived idx _ \<Rightarrow>
          bind_res (ok_or pending CalloutMismatch) (\<lambda>answer.
          bind_res (ok_or (es_callout s) CalloutMismatch) (\<lambda>opn.
          if oc_id opn \<noteq> answer then Inl CalloutMismatch
          else if idx \<noteq> oc_index opn then Inl CalloutMismatch
          else Inr ()))
      | _ \<Rightarrow> if pending \<noteq> None then Inl CalloutMismatch else Inr ())"

definition is_input :: "event \<Rightarrow> bool" where
  "is_input ev = (case ev of InputReceived _ _ \<Rightarrow> True | _ \<Rightarrow> False)"

definition next_open_callout ::
  "prims \<Rightarrow> execution_state \<Rightarrow> event \<Rightarrow> u64 \<Rightarrow> execution_status \<Rightarrow> callout_request option \<Rightarrow> open_callout option" where
  "next_open_callout P s ev pos status callout =
     (if status \<noteq> Active then None
      else case callout of
        None \<Rightarrow> None
      | Some request \<Rightarrow>
          (let fresh = \<lparr>oc_id = derive_callout_id P (es_execution_id s) pos, oc_index = cr_index request,
                        oc_context = cr_context request\<rparr> in
           case es_callout s of
             Some current \<Rightarrow>
               if \<not> is_input ev \<and> oc_index current = cr_index request \<and> oc_context current = cr_context request
               then Some current else Some fresh
           | None \<Rightarrow> Some fresh))"

definition indexed_dispatch_effects :: "effect list \<Rightarrow> protocol_error + (u32 \<times> effect) list" where
  "indexed_dispatch_effects effects =
     collect_res (\<lambda>(i, e). if i < 2 ^ 32 then Inr (word_of_nat i, e)
                           else Inl (CollectionTooLarge ''effects'' (length effects) U32_MAX))
       (enumerate 0 effects)"

primrec append_broadcasts :: "bytes list \<Rightarrow> effect list \<Rightarrow> protocol_error + bytes list" where
  "append_broadcasts outgoing [] = Inr outgoing"
| "append_broadcasts outgoing (e # es) =
     (case e of
        Broadcast msg \<Rightarrow>
          if length outgoing \<ge> MAX_OUTGOING_MESSAGES
          then Inl (OutgoingQueueFull (length outgoing) MAX_OUTGOING_MESSAGES)
          else append_broadcasts (outgoing @ [msg]) es
      | _ \<Rightarrow> append_broadcasts outgoing es)"

text \<open>One iteration of the \<open>SendDirect\<close> loop of \<open>apply_dispatch\<close>.\<close>

definition queue_direct ::
  "execution_state \<Rightarrow> peer_id \<Rightarrow> bytes \<Rightarrow> range_attachment option \<Rightarrow> (peer_id \<times> direct_lane) list
   \<Rightarrow> protocol_error + (peer_id \<times> direct_lane) list" where
  "queue_direct s to msg rng direct =
     (if to = es_producer s \<or> \<not> is_participant (es_binding s) to then Inl (UnknownParticipant to)
      else let lane = (case map_of direct to of None \<Rightarrow> default_lane | Some lane \<Rightarrow> lane) in
        if length (lane_queue lane) = MAX_DIRECT_QUEUE then Inl (DirectQueueFull to)
        else bind_res (ok_or (checked_add (last_queued lane) 1) VersionExhausted) (\<lambda>seq.
          Inr (bmap_insert to (lane\<lparr>last_queued := seq,
                 lane_queue := lane_queue lane @ [\<lparr>de_seq = seq, de_msg = msg, de_range = rng\<rparr>]\<rparr>) direct)))"

primrec queue_directs ::
  "execution_state \<Rightarrow> (peer_id \<times> direct_lane) list \<Rightarrow> effect list
   \<Rightarrow> protocol_error + (peer_id \<times> direct_lane) list" where
  "queue_directs s direct [] = Inr direct"
| "queue_directs s direct (e # es) =
     (case e of
        SendDirect to msg rng \<Rightarrow>
          bind_res (queue_direct s to msg rng direct) (\<lambda>direct. queue_directs s direct es)
      | _ \<Rightarrow> queue_directs s direct es)"

definition install_dispatch ::
  "execution_state \<Rightarrow> u64 \<Rightarrow> shared_state_bytes \<Rightarrow> local_state_bytes \<Rightarrow> state_hash \<Rightarrow> bytes list
   \<Rightarrow> execution_status \<Rightarrow> open_callout option \<Rightarrow> protocol_error + execution_state" where
  "install_dispatch s pos shared local post outgoing status callout =
     (if es_proposal s \<noteq> None then Inl SharedProposalExists
      else if es_status s \<noteq> Active then Inl (IllegalLifecycle (state_lifecycle s) ''dispatch'')
      else if status \<noteq> Active then Inl InvalidTerminalStatus
      else if pos \<noteq> es_event_position s
      then Inl (InvalidCertificate (Reason ''dispatch event position is not the next event position''))
      else if post \<noteq> es_agreed_state s then Inl StateHashMismatch
      else bind_res (validate_outgoing outgoing) (\<lambda>_.
        bind_res (ok_or (checked_add pos 1) VersionExhausted) (\<lambda>next_pos.
        bump_version (s\<lparr>es_event_position := next_pos, es_shared_state := shared, es_local_state := local,
                        es_outgoing := outgoing, es_status := status, es_callout := callout\<rparr>))))"

definition stage_proposal :: "prims \<Rightarrow> execution_state \<Rightarrow> shared_proposal \<Rightarrow> protocol_error + execution_state" where
  "stage_proposal P s p =
     (if es_proposal s \<noteq> None then Inl SharedProposalExists
      else if es_status s \<noteq> Active then Inl (IllegalLifecycle (state_lifecycle s) ''shared proposal'')
      else if sp_event_position p \<noteq> es_event_position s
      then Inl (InvalidCertificate (Reason ''proposal event position is not the next event position''))
      else bind_res (ok_or (checked_add (es_event_position s) 1) VersionExhausted) (\<lambda>next_pos.
        bind_res (validate_proposal P (es_binding s) (cursor_of s) (es_event_position s) p) (\<lambda>_.
        bind_res (check_proposal_receipt_budget P s p) (\<lambda>_.
        bump_version (s\<lparr>es_event_position := next_pos, es_proposal := Some p\<rparr>)))))"

definition is_agreed_event :: "event \<Rightarrow> bool" where
  "is_agreed_event ev = (case ev of SessionStarted _ \<Rightarrow> True | MessageReceived _ _ \<Rightarrow> True | _ \<Rightarrow> False)"

definition is_own_message :: "execution_state \<Rightarrow> event \<Rightarrow> bool" where
  "is_own_message s ev = (case ev of MessageReceived sender _ \<Rightarrow> sender = es_producer s | _ \<Rightarrow> False)"

definition take_own_head :: "execution_state \<Rightarrow> event \<Rightarrow> protocol_error + bytes list" where
  "take_own_head s ev =
     (if is_own_message s ev then
        (case ev of
           MessageReceived _ msg \<Rightarrow>
             (case es_outgoing s of
                [] \<Rightarrow> Inl NotQueuedMessage
              | head # rest \<Rightarrow> if head \<noteq> msg then Inl NotQueuedMessage else Inr rest)
         | _ \<Rightarrow> Inl InvalidTerminalStatus)
      else Inr (es_outgoing s))"

definition portable_event :: "event \<Rightarrow> protocol_error + step_event" where
  "portable_event ev =
     (case ev of
        SessionStarted ens \<Rightarrow> Inr (StepSessionStarted ens)
      | MessageReceived sender msg \<Rightarrow> Inr (StepMessage sender msg)
      | _ \<Rightarrow> Inl (InvalidCertificate (Reason ''shared dispatch requires a portable event'')))"

definition is_broadcast :: "effect \<Rightarrow> bool" where
  "is_broadcast e = (case e of Broadcast _ \<Rightarrow> True | _ \<Rightarrow> False)"

definition is_set_timer :: "effect \<Rightarrow> bool" where
  "is_set_timer e = (case e of SetTimer _ _ \<Rightarrow> True | _ \<Rightarrow> False)"

definition is_send_direct :: "effect \<Rightarrow> bool" where
  "is_send_direct e = (case e of SendDirect _ _ _ \<Rightarrow> True | _ \<Rightarrow> False)"

text \<open>The branch of \<open>apply_dispatch\<close> for local events.\<close>

definition apply_local ::
  "prims \<Rightarrow> execution_state \<Rightarrow> event \<Rightarrow> shared_state_bytes \<Rightarrow> local_state_bytes \<Rightarrow> effect list
   \<Rightarrow> effect option \<Rightarrow> terminal_outcome option \<Rightarrow> callout_request option \<Rightarrow> protocol_error + execution_state" where
  "apply_local P s ev shared local effects lifecycle out callout =
     (let post = of_shared P shared; pos = es_event_position s in
      if lifecycle \<noteq> None then Inl InvalidTerminalStatus
      else if post \<noteq> es_agreed_state s then Inl LocalSharedChange
      else if out \<noteq> None then Inl TerminalOutcomeMismatch
      else bind_res (append_broadcasts (es_outgoing s) effects) (\<lambda>outgoing.
        bind_res (queue_directs s (es_direct s) effects) (\<lambda>direct.
        bind_res (install_dispatch s pos shared local post outgoing Active
                    (next_open_callout P s ev pos Active callout)) (\<lambda>s'.
        Inr (s'\<lparr>es_direct := direct\<rparr>)))))"

text \<open>The branch of \<open>apply_dispatch\<close> for agreed events; the result carries the establishing frame.\<close>

definition apply_agreed ::
  "prims \<Rightarrow> execution_state \<Rightarrow> event \<Rightarrow> shared_state_bytes \<Rightarrow> local_state_bytes \<Rightarrow> effect list
   \<Rightarrow> (u32 \<times> effect) list \<Rightarrow> effect option \<Rightarrow> terminal_outcome option \<Rightarrow> callout_request option
   \<Rightarrow> protocol_error + execution_state \<times> exec_frame option" where
  "apply_agreed P s ev shared local effects indexed lifecycle out callout =
     (let post = of_shared P shared; pos = es_event_position s in
      bind_res (take_own_head s ev) (\<lambda>outgoing.
      bind_res (portable_event ev) (\<lambda>trace_event.
      bind_res (append_broadcasts outgoing effects) (\<lambda>outgoing.
      let e = \<lparr>te_version = TRACE_FORMAT_VERSION, te_step = es_agreed_step s, te_event = trace_event,
               te_pre_state = es_agreed_state s, te_post_state = post,
               te_terminal = Option.bind lifecycle terminal_from_effect, te_agreement = attestation_empty\<rparr> in
      bind_res (commit_entry P (es_binding s) e (es_agreed_link s)) (\<lambda>c.
      let frame = (if is_own_message s ev
                   then (case ev of MessageReceived _ msg \<Rightarrow> Some (FrameMessage c msg) | _ \<Rightarrow> None) else None) in
      bind_res (from_proposal_entry e c out) (\<lambda>status.
      bind_res (proposal_new e shared local outgoing (filter (\<lambda>(_, x). \<not> is_broadcast x) indexed) pos status
                  (next_open_callout P s ev pos status callout) []) (\<lambda>p.
      bind_res (stage_proposal P s p) (\<lambda>s'.
      Inr (s', frame)))))))))"

definition apply_dispatch ::
  "prims \<Rightarrow> execution_state \<Rightarrow> event \<Rightarrow> shared_state_bytes \<Rightarrow> local_state_bytes \<Rightarrow> effect list
   \<Rightarrow> terminal_outcome option \<Rightarrow> callout_id option \<Rightarrow> callout_request option
   \<Rightarrow> protocol_error + execution_state \<times> exec_frame option" where
  "apply_dispatch P s ev shared local effects out pending callout =
     (if es_proposal s \<noteq> None then Inl SharedProposalExists
      else bind_res (indexed_dispatch_effects effects) (\<lambda>indexed.
      bind_res (single_lifecycle_effect effects) (\<lambda>lifecycle.
      if lifecycle \<noteq> None \<and> (\<exists>e \<in> set effects. is_set_timer e) then Inl InvalidTerminalStatus
      else bind_res (validate_callout_dispatch s ev pending) (\<lambda>_.
      bind_res (check_effect_budget P effects) (\<lambda>_.
      if is_agreed_event ev \<and> (\<exists>e \<in> set effects. is_send_direct e) then Inl DirectFromAgreedEvent
      else if \<not> is_agreed_event ev
      then bind_res (apply_local P s ev shared local effects lifecycle out callout) (\<lambda>s'. Inr (s', None))
      else apply_agreed P s ev shared local effects indexed lifecycle out callout)))))"

definition drop_outgoing_head :: "execution_state \<Rightarrow> protocol_error + execution_state" where
  "drop_outgoing_head s =
     (if es_proposal s \<noteq> None then Inl SharedProposalExists
      else if es_outgoing s = [] then Inl NotQueuedMessage
      else bump_version (s\<lparr>es_outgoing := tl (es_outgoing s)\<rparr>))"

section \<open>Agreement\<close>

definition install_certified ::
  "prims \<Rightarrow> execution_state \<Rightarrow> step_certificate \<Rightarrow> protocol_error + execution_state \<times> shared_proposal" where
  "install_certified P s cert =
     bind_res (ok_or (es_proposal s) SharedProposalMissing) (\<lambda>p.
     bind_res (validate_proposal P (es_binding s) (cursor_of s) (sp_event_position p) p) (\<lambda>_.
     bind_res (commitment_for P s p) (\<lambda>c.
     if cert_commitment cert \<noteq> c
     then Inl (InvalidCertificate (Reason ''step certificate does not match the staged proposal''))
     else bind_res (certificate_verify P cert (es_binding s)) (\<lambda>_.
     bind_res (advance P (cursor_of s) (cert_commitment cert)) (\<lambda>next.
     bind_res (check_receipt_budget P s (sp_entry p)) (\<lambda>trace_bytes.
     bind_res (check_proposal_receipt_budget P s p) (\<lambda>_.
     let committed = p\<lparr>sp_entry := (sp_entry p)\<lparr>te_agreement := cert_agreement cert\<rparr>\<rparr>;
         s1 = begin_end (s\<lparr>es_agreed_step := next_step next, es_trace_bytes := trace_bytes,
                 es_agreed_state := cursor_state_hash next, es_agreed_link := chain_hash next,
                 es_last_certificate := Some cert, es_shared_state := sp_shared_state committed,
                 es_local_state := sp_local_state committed, es_outgoing := sp_outgoing committed,
                 es_status := sp_status committed\<rparr>) in
     Inr (s1\<lparr>es_callout := sp_callout committed, es_proposal := None\<rparr>, committed))))))))"

definition certify_step ::
  "prims \<Rightarrow> execution_state \<Rightarrow> step_certificate \<Rightarrow> protocol_error + execution_state \<times> shared_proposal" where
  "certify_step P s cert =
     bind_res (install_certified P s cert) (\<lambda>(next, committed).
     bind_res (bump_version next) (\<lambda>next. Inr (next, committed)))"

definition add_step_signature ::
  "prims \<Rightarrow> execution_state \<Rightarrow> participant_step_signature
   \<Rightarrow> protocol_error + execution_state \<times> shared_proposal option" where
  "add_step_signature P s signature =
     bind_res (ok_or (es_proposal s) SharedProposalMissing) (\<lambda>p.
     bind_res (check_proposal_receipt_budget P s p) (\<lambda>_.
     bind_res (commitment_for P s p) (\<lambda>c.
     bind_res (add_signature P (es_binding s) c signature p) (\<lambda>p.
     let next = s\<lparr>es_proposal := Some p\<rparr> in
     if length (sp_signatures p) = length (binding_tickets (es_binding s))
     then bind_res (certificate_from_signatures P (es_binding s) c p) (\<lambda>cert.
       bind_res (install_certified P next cert) (\<lambda>(next, committed).
       bind_res (bump_version next) (\<lambda>next. Inr (next, Some committed))))
     else bind_res (bump_version next) (\<lambda>next. Inr (next, None))))))"

definition current_frames :: "prims \<Rightarrow> execution_state \<Rightarrow> peer_id \<Rightarrow> protocol_error + exec_frame list" where
  "current_frames P s me =
     bind_res (case es_proposal s of
       None \<Rightarrow> Inr []
     | Some p \<Rightarrow>
         bind_res (commitment_for P s p) (\<lambda>c.
         Inr ((case te_event (sp_entry p) of
                 StepMessage sender msg \<Rightarrow> if sender = me then [FrameMessage c msg] else []
               | _ \<Rightarrow> [])
              @ (case find (\<lambda>x. pss_participant x = me) (sp_signatures p) of
                   None \<Rightarrow> []
                 | Some x \<Rightarrow> [FrameStepSignature c (sig_sig (pss_signature x))])))) (\<lambda>proposal_frames.
     Inr ((case es_last_certificate s of None \<Rightarrow> [] | Some cert \<Rightarrow> [FrameStepCertificate cert])
          @ proposal_frames
          @ (case terminal_cause (es_status s) of Some (Authenticated a) \<Rightarrow> [FrameAbort a] | _ \<Rightarrow> [])))"

section \<open>Stopping and publication\<close>

definition stop :: "prims \<Rightarrow> execution_state \<Rightarrow> abort_occurrence \<Rightarrow> protocol_error + execution_state" where
  "stop P s a =
     bind_res (abort_validate_for_session a (binding_session_id (es_binding s))) (\<lambda>_.
     if \<not> is_participant (es_binding s) (ao_sender a) then Inl UnauthenticatedAbort
     else bind_res (abort_verify_signature P a) (\<lambda>ok.
     if \<not> ok then Inl UnauthenticatedAbort
     else if ao_coordinate a \<noteq> cursor_of s then Inl InvalidAbortCoordinate
     else if is_terminal (es_status s) then Inl AlreadyTerminal
     else if (case es_proposal s of
                None \<Rightarrow> False
              | Some p \<Rightarrow> \<exists>x \<in> set (sp_signatures p). pss_participant x = ao_sender a)
     then Inl SharedProposalSigned
     else bind_res (status_stopped a) (\<lambda>status.
       bump_version (begin_end (s\<lparr>es_proposal := None, es_callout := None, es_status := status\<rparr>)))))"

text \<open>The \<open>fold\<close> over the chain links of all entries but the last.\<close>

primrec chain_links :: "prims \<Rightarrow> execution_binding \<Rightarrow> 256 word \<Rightarrow> trace_entry list \<Rightarrow> protocol_error + 256 word" where
  "chain_links P b link [] = Inr link"
| "chain_links P b link (e # es) =
     bind_res (commit_entry P b e link) (\<lambda>c. chain_links P b (link_hash P c) es)"

definition published_status :: "prims \<Rightarrow> execution_state \<Rightarrow> receipt_artifact \<Rightarrow> protocol_error + execution_status" where
  "published_status P s artifact =
     (let body = artifact_body artifact in
      case (es_status s, sh_terminal (rb_header body)) of
        (Certified out, TermCompleted) \<Rightarrow>
          bind_res (ok_or (final_entry (rb_trace body)) ReceiptBodyMismatch) (\<lambda>lst.
          bind_res (chain_links P (es_binding s) CHAIN_START (butlast (rb_trace body))) (\<lambda>link.
          bind_res (commit_entry P (es_binding s) lst link) (\<lambda>c.
          if rb_outcome body \<noteq> outcome_borsh out
             \<or> checked_add (te_step lst) 1 \<noteq> Some (es_agreed_step s)
             \<or> te_post_state lst \<noteq> es_agreed_state s
             \<or> link_hash P c \<noteq> es_agreed_link s
          then Inl ReceiptBodyMismatch
          else Inr (Completed out (artifact_id artifact)))))
      | (Stopped cause, TermStopped body_cause) \<Rightarrow>
          if cause = body_cause then Inr (StoppedPublished cause (artifact_id artifact))
          else Inl ReceiptBodyMismatch
      | (Completed _ _, _) \<Rightarrow> Inl TerminalAlreadyPublished
      | (StoppedPublished _ _, _) \<Rightarrow> Inl TerminalAlreadyPublished
      | _ \<Rightarrow> Inl ReceiptBodyMismatch)"

definition publish_receipt :: "prims \<Rightarrow> execution_state \<Rightarrow> receipt_artifact \<Rightarrow> protocol_error + execution_state" where
  "publish_receipt P s artifact =
     bind_res (validate_receipt_body P (es_binding s) (artifact_body artifact)) (\<lambda>_.
     bind_res (published_status P s artifact) (\<lambda>status.
     bump_version (s\<lparr>es_status := status, es_callout := None\<rparr>)))"

section \<open>Lemmas: successful operations\<close>

lemma bump_version_ok [ok_simps]:
  "bump_version s = Inr s' \<longleftrightarrow>
     (\<exists>v. checked_add (version_get (es_version s)) 1 = Some v \<and> s' = s\<lparr>es_version := ExecutionVersion v\<rparr>)"
  by (auto simp: bump_version_def next_version_def version_next_def bind_res_ok ok_or_ok)

lemma next_version_ok [ok_simps]:
  "next_version s = Inr v \<longleftrightarrow>
     (\<exists>w. checked_add (version_get (es_version s)) 1 = Some w \<and> v = ExecutionVersion w)"
  by (auto simp: next_version_def version_next_def ok_or_ok)

lemma exceeds_checked_add:
  assumes "lim < 2 ^ 64"
  shows "exceeds (checked_add a b) lim \<longleftrightarrow> lim < unat a + unat b"
proof (cases "checked_add a b")
  case None
  then have "2 ^ 64 \<le> unat a + unat b" by (simp add: checked_add_None)
  with assms None show ?thesis by (simp add: exceeds_def)
next
  case (Some c)
  with checked_add_unat [OF Some] assms show ?thesis
    by (simp add: exceeds_def word_less_nat_alt unat_of_nat)
qed

definition certified_entry :: "signer_set \<Rightarrow> trace_entry \<Rightarrow> trace_entry" where
  "certified_entry signers e = e\<lparr>te_agreement := (te_agreement e)\<lparr>att_signers := signers\<rparr>\<rparr>"

lemma certified_size_ok:
  "certified_size P s e = Inr n \<longleftrightarrow>
     (\<exists>signers. full (length (binding_tickets (es_binding s))) = Inr signers
        \<and> borsh_fits (entry_value (certified_entry signers e))
        \<and> unat n = length (borsh P (entry_value (certified_entry signers e))))"
proof -
  have word: "(\<exists>k. k = m \<and> k < 2 ^ 64 \<and> Inr (word_of_nat k) = (Inr n :: protocol_error + u64)) \<longleftrightarrow> unat n = m" for m
    using unsigned_less [of n] by (auto simp: unat_of_nat)
  show ?thesis
    by (simp only: certified_size_def bind_res_ok map_err_ok object_length_ok certified_entry_def conj_assoc
        ex_simps word)
qed

lemma check_receipt_budget_ok:
  "check_receipt_budget P s e = Inr t \<longleftrightarrow>
     (\<exists>n. certified_size P s e = Inr n \<and> unat t = unat (es_trace_bytes s) + unat n
        \<and> unat (es_agreed_step s) + 1 \<le> MAX_RECEIPT_TRACE_ENTRIES
        \<and> unat t + unat (es_receipt_overhead s) \<le> MAX_RECEIPT_BYTES)"
proof -
  have limits: "MAX_RECEIPT_TRACE_ENTRIES < 2 ^ 64" "MAX_RECEIPT_BYTES < 2 ^ 64"
    by (simp_all add: MAX_RECEIPT_TRACE_ENTRIES_def MAX_RECEIPT_BYTES_def)
  have sum: "sum_certified P s acc [e] = Inr t \<longleftrightarrow>
      (\<exists>n. certified_size P s e = Inr n \<and> unat t = unat acc + unat n)" for acc t
    by (simp add: bind_res_ok ok_or_ok checked_add_Some)
  show ?thesis
    unfolding check_receipt_budget_def check_receipt_entries_def
    by (simp only: bind_res_ok sum if_Inl_ok exceeds_checked_add [OF limits(1)] exceeds_checked_add [OF limits(2)])
      (auto simp: not_less)
qed

lemma check_proposal_receipt_budget_ok [ok_simps]:
  "check_proposal_receipt_budget P s p = Inr u \<longleftrightarrow> (\<exists>t. check_receipt_budget P s (sp_entry p) = Inr t)"
  by (simp add: check_proposal_receipt_budget_def bind_res_ok)

lemma commitment_for_ok [ok_simps]:
  "commitment_for P s p = Inr c \<longleftrightarrow> commit_entry P (es_binding s) (sp_entry p) (es_agreed_link s) = Inr c"
  by (simp add: commitment_for_def)

text \<open>The state a certificate installs, before the end handshake starts.\<close>

definition installed ::
  "execution_state \<Rightarrow> step_certificate \<Rightarrow> shared_proposal \<Rightarrow> step_cursor \<Rightarrow> u64 \<Rightarrow> execution_state" where
  "installed s cert p cur t =
     s\<lparr>es_agreed_step := next_step cur, es_trace_bytes := t, es_agreed_state := cursor_state_hash cur,
       es_agreed_link := chain_hash cur, es_last_certificate := Some cert,
       es_shared_state := sp_shared_state p, es_local_state := sp_local_state p,
       es_outgoing := sp_outgoing p, es_status := sp_status p\<rparr>"

definition committed_proposal :: "step_certificate \<Rightarrow> shared_proposal \<Rightarrow> shared_proposal" where
  "committed_proposal cert p = p\<lparr>sp_entry := (sp_entry p)\<lparr>te_agreement := cert_agreement cert\<rparr>\<rparr>"

lemma install_certified_ok:
  "install_certified P s cert = Inr (s', q) \<longleftrightarrow>
     (\<exists>p cur t. es_proposal s = Some p
        \<and> validate_proposal P (es_binding s) (cursor_of s) (sp_event_position p) p = Inr ()
        \<and> commit_entry P (es_binding s) (sp_entry p) (es_agreed_link s) = Inr (cert_commitment cert)
        \<and> certificate_verify P cert (es_binding s) = Inr ()
        \<and> advance P (cursor_of s) (cert_commitment cert) = Inr cur
        \<and> check_receipt_budget P s (sp_entry p) = Inr t
        \<and> s' = (begin_end (installed s cert p cur t))\<lparr>es_callout := sp_callout p, es_proposal := None\<rparr>
        \<and> q = committed_proposal cert p)"
  by (auto simp: install_certified_def bind_res_ok ok_or_ok if_Inl_ok commitment_for_ok Let_def
      check_proposal_receipt_budget_ok installed_def committed_proposal_def ex_unit)

lemma certify_step_ok:
  "certify_step P s cert = Inr (s', q) \<longleftrightarrow>
     (\<exists>s1. install_certified P s cert = Inr (s1, q) \<and> bump_version s1 = Inr s')"
  by (auto simp: certify_step_def bind_res_ok)

lemma add_signature_ok:
  "add_signature P b c s p = Inr p' \<longleftrightarrow>
     (\<forall>x \<in> set (sp_signatures p). pss_participant x \<noteq> pss_participant s)
     \<and> (\<exists>key. participant_key b (pss_participant s) = Inr key \<and> verify_step_signature P key c s = Inr ())
     \<and> length (sp_signatures p) < MAX_PROOF_SIGNATURES
     \<and> p' = p\<lparr>sp_signatures := sort_key pss_participant (sp_signatures p @ [s])\<rparr>"
  by (auto simp: add_signature_def Let_def bind_res_ok if_Inl_ok find_None_iff find_Some_iff ex_unit
      split: option.splits)

lemma add_step_signature_ok:
  "add_step_signature P s sg = Inr (s', r) \<longleftrightarrow>
     (\<exists>p c p'. es_proposal s = Some p \<and> (\<exists>t. check_receipt_budget P s (sp_entry p) = Inr t)
        \<and> commit_entry P (es_binding s) (sp_entry p) (es_agreed_link s) = Inr c
        \<and> add_signature P (es_binding s) c sg p = Inr p'
        \<and> (if length (sp_signatures p') = length (binding_tickets (es_binding s))
           then \<exists>cert s1 q. certificate_from_signatures P (es_binding s) c p' = Inr cert
                  \<and> install_certified P (s\<lparr>es_proposal := Some p'\<rparr>) cert = Inr (s1, q)
                  \<and> bump_version s1 = Inr s' \<and> r = Some q
           else bump_version (s\<lparr>es_proposal := Some p'\<rparr>) = Inr s' \<and> r = None))"
proof -
  have commit: "bind_res (certificate_from_signatures P (es_binding s) c p') (\<lambda>cert.
        bind_res (install_certified P (s\<lparr>es_proposal := Some p'\<rparr>) cert) (\<lambda>(next, committed).
        bind_res (bump_version next) (\<lambda>next. Inr (next, Some committed)))) = Inr (s', r) \<longleftrightarrow>
      (\<exists>cert s1 q. certificate_from_signatures P (es_binding s) c p' = Inr cert
         \<and> install_certified P (s\<lparr>es_proposal := Some p'\<rparr>) cert = Inr (s1, q)
         \<and> bump_version s1 = Inr s' \<and> r = Some q)" for c p'
    by (auto simp: bind_res_ok)
  have retain: "bind_res (bump_version (s\<lparr>es_proposal := Some p'\<rparr>)) (\<lambda>next. Inr (next, None)) = Inr (s', r) \<longleftrightarrow>
      bump_version (s\<lparr>es_proposal := Some p'\<rparr>) = Inr s' \<and> r = None" for p'
    by (auto simp: bind_res_ok)
  have branch: "((if b then x else y) = z) \<longleftrightarrow> (if b then x = z else y = z)" for b and x y z :: "'x" by simp
  show ?thesis
    unfolding add_step_signature_def Let_def
    by (simp only: bind_res_ok ok_or_ok commitment_for_ok check_proposal_receipt_budget_ok ex_unit branch
        commit [unfolded bind_res_ok] retain [unfolded bind_res_ok]) blast
qed

end
