(* ===== verification/Recovery.thy ===== *)
theory Recovery
  imports Execution_State
begin

text \<open>
  Recovery of a persisted aggregate: \<open>ExecutionState::validate_recovered\<close>, \<open>encode\<close> and \<open>decode\<close> of
  \<open>execution/state.rs\<close>.  The Borsh shape of the aggregate is written out; its reader is a parameter.
\<close>

section \<open>Validation of a recovered aggregate\<close>

definition validate_lane_entry ::
  "prims \<Rightarrow> peer_id \<Rightarrow> direct_lane \<Rightarrow> nat \<Rightarrow> protocol_error + unit" where
  "validate_lane_entry P p lane i =
     (let q = lane_queue lane; e = q ! i in
      if de_seq e = 0 \<or> de_seq e > last_queued lane
         \<or> (i > 0 \<and> checked_add (de_seq (q ! (i - 1))) 1 \<noteq> Some (de_seq e))
         \<or> (i + 1 = length q \<and> de_seq e \<noteq> last_queued lane)
      then Inl (DirectOutOfOrder p (de_seq e))
      else check_effect_budget P [SendDirect p (de_msg e) (de_range e)])"

definition validate_lane :: "prims \<Rightarrow> execution_state \<Rightarrow> peer_id \<times> direct_lane \<Rightarrow> protocol_error + unit" where
  "validate_lane P s pl =
     (let p = fst pl; lane = snd pl in
      if p = es_producer s \<or> \<not> is_participant (es_binding s) p then Inl (UnknownParticipant p)
      else if length (lane_queue lane) > MAX_DIRECT_QUEUE then Inl (DirectQueueFull p)
      else if es_end_phase s \<noteq> Open \<and> lane_queue lane \<noteq> [] then Inl InvalidTerminalStatus
      else check_all (validate_lane_entry P p lane) [0..<length (lane_queue lane)])"

definition validate_last_certificate :: "prims \<Rightarrow> execution_state \<Rightarrow> protocol_error + unit" where
  "validate_last_certificate P s =
     (let mismatch = Inl (InvalidCertificate (Reason ''last certificate does not match the agreed cursor'')) in
      case es_last_certificate s of
        Some cert \<Rightarrow>
          if checked_add (sc_step (cert_commitment cert)) 1 = Some (es_agreed_step s)
             \<and> sc_post_state (cert_commitment cert) = es_agreed_state s
             \<and> link_hash P (cert_commitment cert) = es_agreed_link s
          then certificate_verify P cert (es_binding s)
          else mismatch
      | None \<Rightarrow> if es_agreed_step s = 0 then Inr () else mismatch)"

definition validate_recovered_proposal ::
  "prims \<Rightarrow> execution_state \<Rightarrow> shared_proposal \<Rightarrow> protocol_error + unit" where
  "validate_recovered_proposal P s p =
     bind_res (ok_or (checked_add (sp_event_position p) 1) VersionExhausted) (\<lambda>expected.
     if es_event_position s \<noteq> expected
     then Inl (InvalidCertificate (Reason ''pending proposal is not paired with the next event position''))
     else bind_res (validate_effects P (sp_effects p)) (\<lambda>_.
       bind_res (validate_proposal P (es_binding s) (cursor_of s) (sp_event_position p) p) (\<lambda>_.
       bind_res (validate_outgoing (sp_outgoing p)) (\<lambda>_.
       bind_res (check_proposal_receipt_budget P s p) (\<lambda>_.
       if sp_status p \<noteq> Active \<and> sp_callout p \<noteq> None then Inl InvalidCalloutState else Inr ())))))"

definition validate_recovered :: "prims \<Rightarrow> execution_state \<Rightarrow> protocol_error + unit" where
  "validate_recovered P s =
     (if \<not> is_participant (es_binding s) (es_producer s) then Inl (UnknownParticipant (es_producer s))
      else if of_shared P (es_shared_state s) \<noteq> es_agreed_state s then Inl StateHashMismatch
      else if es_agreed_step s = 0 \<and> es_agreed_state s \<noteq> od_initial_state (binding_offer (es_binding s))
      then Inl StateHashMismatch
      else if (es_agreed_step s = 0) \<noteq> (es_trace_bytes s = 0)
         \<or> es_agreed_step s > word_of_nat MAX_RECEIPT_TRACE_ENTRIES
         \<or> exceeds (checked_add (es_trace_bytes s) (es_receipt_overhead s)) MAX_RECEIPT_BYTES
      then Inl (ReceiptBudgetExhausted (es_agreed_step s))
      else bind_res (validate_outgoing (es_outgoing s)) (\<lambda>_.
      if length (es_direct s) > MAX_PARTICIPANTS
      then Inl (CollectionTooLarge ''direct lanes'' (length (es_direct s)) MAX_PARTICIPANTS)
      else bind_res (check_all (validate_lane P s) (es_direct s)) (\<lambda>_.
      bind_res (validate_end s) (\<lambda>_.
      bind_res (validate_last_certificate P s) (\<lambda>_.
      bind_res (status_validate_binding P (es_status s) (es_binding s) (cursor_of s)) (\<lambda>_.
      if es_status s \<noteq> Active \<and> es_callout s \<noteq> None then Inl InvalidCalloutState
      else if is_terminal (es_status s) \<and> es_proposal s \<noteq> None
      then Inl (InvalidCertificate (Reason ''terminal execution cannot retain a shared proposal''))
      else case es_proposal s of
        None \<Rightarrow> Inr ()
      | Some p \<Rightarrow> validate_recovered_proposal P s p))))))"

end
