(* ===== verification/Layout.thy ===== *)
theory Layout
  imports Recovery
begin

text \<open>
  Encoded sizes.  \<open>borsh_layout\<close> is the one assumption about the Borsh encoder the size arguments
  need, the lengths its specification prescribes: fixed-width integers and arrays, a four-byte
  count before a sequence or string, one tag byte before a variant or an optional value.  From it
  follow the size of a trace entry, the cost of the agreement a certificate adds, and the size of
  a receipt artifact against the overhead that \<open>ReceiptArtifact::reserved_overhead\<close> reserves.
\<close>

section \<open>The Borsh length specification\<close>

fun borsh_len :: "borsh_value \<Rightarrow> nat" where
  "borsh_len (BU8 _) = 1"
| "borsh_len (BU16 _) = 2"
| "borsh_len (BU32 _) = 4"
| "borsh_len (BU64 _) = 8"
| "borsh_len (BDomain s) = length s"
| "borsh_len (BArr32 _) = 32"
| "borsh_len (BArr48 _) = 48"
| "borsh_len (BArr64 _) = 64"
| "borsh_len (BArr96 _) = 96"
| "borsh_len (BBytes _ bs) = 4 + length bs"
| "borsh_len (BString _ s) = 4 + length s"
| "borsh_len (BVec _ vs) = 4 + sum_list (map borsh_len vs)"
| "borsh_len (BStruct vs) = sum_list (map borsh_len vs)"
| "borsh_len (BEnum _ vs) = 1 + sum_list (map borsh_len vs)"
| "borsh_len BNone = 1"
| "borsh_len (BSome v) = 1 + borsh_len v"

definition borsh_layout :: "prims \<Rightarrow> bool" where
  "borsh_layout P \<longleftrightarrow> (\<forall>v. length (borsh P v) = borsh_len v)"

lemma sample_borsh_len: "length (sample_borsh v) = borsh_len v"
proof (induction v rule: borsh_len.induct)
qed (simp_all add: length_concat string_bytes_def comp_def cong: map_cong)

lemma sample_layout: "borsh_layout sample_prims"
  by (simp add: borsh_layout_def sample_prims_def sample_borsh_len)

lemma layout_len: "borsh_layout P \<Longrightarrow> length (borsh P v) = borsh_len v"
  by (simp add: borsh_layout_def)

section \<open>Sizes of identities and hashes\<close>

lemma borsh_len_ids [simp]:
  "borsh_len (state_hash_value h) = 32" "borsh_len (session_hash_value sh) = 32"
  "borsh_len (peer_value p) = 32" "borsh_len (bls_signature_value s) = 48"
  "borsh_len (ed25519_value es) = 64"
  by (cases h, simp, cases sh, simp, simp add: peer_value_def, cases s, simp, cases es, simp)

lemma borsh_len_commitment [simp]: "borsh_len (commitment_value c) = length (sc_domain c) + 168"
  by (simp add: commitment_value_def)

section \<open>Trace entries\<close>

definition entry_base :: "trace_entry \<Rightarrow> nat" where
  "entry_base e = 128 + borsh_len (step_event_value (te_event e))
     + borsh_len (option_value step_terminal_value (te_terminal e))"

lemma borsh_len_entry: "borsh_len (entry_value e) = entry_base e + length (bitmap (att_signers (te_agreement e)))"
  by (simp add: entry_value_def entry_base_def attestation_value_def)

lemma entry_base_agreement [simp]: "entry_base (e\<lparr>te_agreement := a\<rparr>) = entry_base e"
  by (simp add: entry_base_def)

lemma entry_base_pos: "0 < entry_base e"
  by (simp add: entry_base_def)

lemma event_len_bound: "borsh_fits (step_event_value ev) \<Longrightarrow> borsh_len (step_event_value ev) \<le> 65573"
  by (cases ev) (auto simp: ensemble_value_def comp_def sum_list_triv MAX_PARTICIPANTS_def MAX_EFFECT_PAYLOAD_BYTES_def)

lemma terminal_len_bound: "borsh_fits (step_terminal_value t) \<Longrightarrow> borsh_len (step_terminal_value t) \<le> 65541"
  by (cases t) (auto simp: MAX_TERMINAL_OUTCOME_BYTES_def MAX_TERMINAL_REASON_BYTES_def)

lemma entry_base_bound: "entry_fits e \<Longrightarrow> entry_base e \<le> 131243"
  using event_len_bound [of "te_event e"] terminal_len_bound
  by (cases "te_terminal e") (force simp: entry_fits_def entry_base_def)+

lemma full_bitmap_length: "full n = Inr s \<Longrightarrow> length (bitmap s) \<le> 8"
  by (auto simp: full_bitmap MAX_PARTICIPANTS_def div_ceil8_def split: if_splits)

text \<open>A certified entry is as well formed as the proposed one: the bitmap costs at most eight bytes,
  far from the entry bound.\<close>

lemma certified_trace_entry:
  assumes "borsh_layout P" "validate_trace_entry P e = Inr ()" "full n = Inr (att_signers a)"
  shows "validate_trace_entry P (e\<lparr>te_agreement := a\<rparr>) = Inr ()"
proof -
  have fits: "entry_fits e" using assms(2) by (simp add: validate_trace_entry_ok entry_value_fits)
  then have "entry_fits (e\<lparr>te_agreement := a\<rparr>)" by (simp add: entry_fits_def)
  moreover have "length (bitmap (att_signers a)) \<le> 8" using assms(3) by (rule full_bitmap_length)
  moreover have "entry_base e \<le> 131243" using fits by (rule entry_base_bound)
  ultimately show ?thesis
    using assms(2)
    by (simp add: validate_trace_entry_ok entry_value_fits layout_len [OF assms(1)] borsh_len_entry
        MAX_TRACE_ENTRY_BYTES_def U32_MAX_def)
qed

lemma certified_shared_entry:
  assumes "borsh_layout P" "validate_shared_entry P b n e = Inr ()" "full k = Inr (att_signers a)"
  shows "validate_shared_entry P b n (e\<lparr>te_agreement := a\<rparr>) = Inr ()"
  using assms(2) certified_trace_entry [OF assms(1) _ assms(3)]
  by (simp add: validate_shared_entry_ok)

end
