(* ===== verification/State_Invariant.thy ===== *)
theory State_Invariant
  imports Layout
begin

text \<open>
  The invariant of \<open>ExecutionState\<close>.  \<open>state_ok\<close> collects what the source keeps true between the
  fields of the aggregate, in parts that follow the fields they constrain, so that an operation
  only has to re-establish the parts whose fields it writes.  Every operation preserves it, and it
  implies \<open>validate_recovered\<close>: a state the program wrote is a state it can read back.
\<close>

section \<open>The invariant\<close>

definition core_ok :: "prims \<Rightarrow> execution_state \<Rightarrow> bool" where
  "core_ok P s \<longleftrightarrow>
     binding_ok P (es_binding s) \<and> is_participant (es_binding s) (es_producer s)
     \<and> reserved_overhead P (es_binding s) = Inr (es_receipt_overhead s)
     \<and> of_shared P (es_shared_state s) = es_agreed_state s
     \<and> (es_agreed_step s = 0 \<longrightarrow> es_agreed_state s = od_initial_state (binding_offer (es_binding s))
                               \<and> es_agreed_link s = CHAIN_START)
     \<and> (es_agreed_step s = 0 \<longleftrightarrow> es_trace_bytes s = 0)
     \<and> unat (es_agreed_step s) \<le> MAX_RECEIPT_TRACE_ENTRIES
     \<and> unat (es_trace_bytes s) + unat (es_receipt_overhead s) \<le> MAX_RECEIPT_BYTES
     \<and> validate_last_certificate P s = Inr ()"

definition lane_ok :: "prims \<Rightarrow> execution_state \<Rightarrow> peer_id \<Rightarrow> direct_lane \<Rightarrow> bool" where
  "lane_ok P s p lane \<longleftrightarrow>
     p \<noteq> es_producer s \<and> is_participant (es_binding s) p
     \<and> length (lane_queue lane) \<le> MAX_DIRECT_QUEUE
     \<and> length (lane_queue lane) \<le> unat (last_queued lane)
     \<and> map (\<lambda>e. unat (de_seq e)) (lane_queue lane)
         = [unat (last_queued lane) + 1 - length (lane_queue lane) ..< unat (last_queued lane) + 1]
     \<and> (\<forall>e \<in> set (lane_queue lane). check_effect_budget P [SendDirect p (de_msg e) (de_range e)] = Inr ())
     \<and> (es_end_phase s \<noteq> Open \<longrightarrow> lane_queue lane = [])"

definition lanes_ok :: "prims \<Rightarrow> execution_state \<Rightarrow> (peer_id \<times> direct_lane) list \<Rightarrow> bool" where
  "lanes_ok P s direct \<longleftrightarrow> bmap_ok direct \<and> (\<forall>(p, lane) \<in> set direct. lane_ok P s p lane)"

definition status_ok :: "prims \<Rightarrow> execution_state \<Rightarrow> bool" where
  "status_ok P s \<longleftrightarrow>
     validate_end s = Inr ()
     \<and> (published_receipt_id (es_status s) \<noteq> Some (ReceiptId 0) \<longrightarrow>
          status_validate_binding P (es_status s) (es_binding s) (cursor_of s) = Inr ())
     \<and> (es_status s \<noteq> Active \<longrightarrow> es_callout s = None)
     \<and> (es_status s \<noteq> Active \<longrightarrow> es_proposal s = None)"

definition pending_ok :: "prims \<Rightarrow> execution_state \<Rightarrow> bool" where
  "pending_ok P s \<longleftrightarrow> (\<forall>p. es_proposal s = Some p \<longrightarrow> validate_recovered_proposal P s p = Inr ())"

definition state_ok :: "prims \<Rightarrow> execution_state \<Rightarrow> bool" where
  "state_ok P s \<longleftrightarrow> core_ok P s \<and> validate_outgoing (es_outgoing s) = Inr () \<and> lanes_ok P s (es_direct s)
     \<and> status_ok P s \<and> pending_ok P s"

lemma validate_end_ok:
  "validate_end s = Inr u \<longleftrightarrow>
     (is_terminal (es_status s) \<longleftrightarrow> es_end_phase s \<noteq> Open) \<and> es_end_phase s \<noteq> Ending []
     \<and> (\<forall>ps. phase_unconfirmed (es_end_phase s) = Some ps \<longrightarrow>
          (\<forall>p \<in> set ps. p \<noteq> es_producer s \<and> is_participant (es_binding s) p))"
  by (cases "es_end_phase s") (auto simp: validate_end_def)

section \<open>Frames: fields the parts do not read\<close>

lemma cursor_of_frame [simp]:
  "cursor_of (s\<lparr>es_version := v\<rparr>) = cursor_of s"
  "cursor_of (s\<lparr>es_status := st\<rparr>) = cursor_of s"
  "cursor_of (s\<lparr>es_event_position := n\<rparr>) = cursor_of s"
  "cursor_of (s\<lparr>es_direct := d\<rparr>) = cursor_of s"
  "cursor_of (s\<lparr>es_outgoing := out\<rparr>) = cursor_of s"
  "cursor_of (s\<lparr>es_shared_state := sh\<rparr>) = cursor_of s"
  "cursor_of (s\<lparr>es_local_state := lo\<rparr>) = cursor_of s"
  "cursor_of (s\<lparr>es_proposal := p\<rparr>) = cursor_of s"
  "cursor_of (s\<lparr>es_callout := c\<rparr>) = cursor_of s"
  "cursor_of (s\<lparr>es_end_phase := ph\<rparr>) = cursor_of s"
  by (simp_all add: cursor_of_def)

lemma core_ok_frame [simp]:
  "core_ok P (s\<lparr>es_version := v\<rparr>) = core_ok P s"
  "core_ok P (s\<lparr>es_status := st\<rparr>) = core_ok P s"
  "core_ok P (s\<lparr>es_event_position := n\<rparr>) = core_ok P s"
  "core_ok P (s\<lparr>es_direct := d\<rparr>) = core_ok P s"
  "core_ok P (s\<lparr>es_outgoing := out\<rparr>) = core_ok P s"
  "core_ok P (s\<lparr>es_local_state := lo\<rparr>) = core_ok P s"
  "core_ok P (s\<lparr>es_proposal := p\<rparr>) = core_ok P s"
  "core_ok P (s\<lparr>es_callout := c\<rparr>) = core_ok P s"
  "core_ok P (s\<lparr>es_end_phase := ph\<rparr>) = core_ok P s"
  by (simp_all add: core_ok_def validate_last_certificate_def Let_def cong: if_cong option.case_cong)

lemma lane_ok_frame [simp]:
  "lane_ok P (s\<lparr>es_version := v\<rparr>) = lane_ok P s"
  "lane_ok P (s\<lparr>es_status := st\<rparr>) = lane_ok P s"
  "lane_ok P (s\<lparr>es_event_position := n\<rparr>) = lane_ok P s"
  "lane_ok P (s\<lparr>es_direct := d\<rparr>) = lane_ok P s"
  "lane_ok P (s\<lparr>es_outgoing := out\<rparr>) = lane_ok P s"
  "lane_ok P (s\<lparr>es_shared_state := sh\<rparr>) = lane_ok P s"
  "lane_ok P (s\<lparr>es_local_state := lo\<rparr>) = lane_ok P s"
  "lane_ok P (s\<lparr>es_proposal := p\<rparr>) = lane_ok P s"
  "lane_ok P (s\<lparr>es_callout := c\<rparr>) = lane_ok P s"
  "lane_ok P (s\<lparr>es_agreed_step := st1\<rparr>) = lane_ok P s"
  "lane_ok P (s\<lparr>es_trace_bytes := tb\<rparr>) = lane_ok P s"
  "lane_ok P (s\<lparr>es_agreed_state := ast\<rparr>) = lane_ok P s"
  "lane_ok P (s\<lparr>es_agreed_link := al\<rparr>) = lane_ok P s"
  "lane_ok P (s\<lparr>es_last_certificate := lc\<rparr>) = lane_ok P s"
  by (simp_all add: lane_ok_def fun_eq_iff)

lemma lanes_ok_cong:
  assumes "es_producer s = es_producer s'" "es_binding s = es_binding s'" "es_end_phase s = es_end_phase s'"
  shows "lanes_ok P s d = lanes_ok P s' d"
  using assms by (simp add: lanes_ok_def lane_ok_def)

lemma last_certificate_cong:
  assumes "es_last_certificate s = es_last_certificate s'" "es_binding s = es_binding s'" "cursor_of s = cursor_of s'"
  shows "validate_last_certificate P s = validate_last_certificate P s'"
proof -
  have "es_agreed_step s = es_agreed_step s'" "es_agreed_state s = es_agreed_state s'" "es_agreed_link s = es_agreed_link s'"
    using assms(3) by (simp_all add: cursor_of_def)
  then show ?thesis by (simp only: validate_last_certificate_def assms(1,2))
qed

lemma pending_cong:
  assumes "es_binding s = es_binding s'" "cursor_of s = cursor_of s'" "es_event_position s = es_event_position s'"
    "es_trace_bytes s = es_trace_bytes s'" "es_receipt_overhead s = es_receipt_overhead s'"
  shows "validate_recovered_proposal P s p = validate_recovered_proposal P s' p"
proof -
  have step: "es_agreed_step s = es_agreed_step s'" using assms(2) by (simp add: cursor_of_def)
  have size: "certified_size P s = certified_size P s'" using assms(1) by (simp add: certified_size_def fun_eq_iff)
  then have "sum_certified P s acc es = sum_certified P s' acc es" for acc es
    by (induction es arbitrary: acc) (simp_all add: step)
  then have "check_proposal_receipt_budget P s p = check_proposal_receipt_budget P s' p"
    using assms step
    by (simp add: check_proposal_receipt_budget_def check_receipt_budget_def check_receipt_entries_def
        del: sum_certified.simps cong: if_cong)
  then show ?thesis by (simp only: validate_recovered_proposal_def assms(1-3))
qed

section \<open>The invariant implies recovery\<close>

lemma lane_entries_ok:
  assumes ok: "lane_ok P s p lane" and i: "i < length (lane_queue lane)"
  shows "validate_lane_entry P p lane i = Inr ()"
proof -
  let ?q = "lane_queue lane" and ?l = "unat (last_queued lane)"
  have len: "length ?q \<le> ?l" using ok by (simp add: lane_ok_def)
  have seq: "unat (de_seq (?q ! j)) = ?l + 1 - length ?q + j" if "j < length ?q" for j
  proof -
    have "unat (de_seq (?q ! j)) = map (\<lambda>e. unat (de_seq e)) ?q ! j" using that by simp
    also have "\<dots> = [?l + 1 - length ?q ..< ?l + 1] ! j" using ok by (simp add: lane_ok_def)
    also have "\<dots> = ?l + 1 - length ?q + j" using that len by (simp del: upt_Suc)
    finally show ?thesis .
  qed
  have "de_seq (?q ! i) \<noteq> 0" "de_seq (?q ! i) \<le> last_queued lane"
    using seq [OF i] i len by (auto simp: word_le_nat_alt unat_eq_zero dest: arg_cong [where f = unat])
  moreover have "i + 1 = length ?q \<Longrightarrow> de_seq (?q ! i) = last_queued lane"
    using seq [OF i] len by (simp add: word_unat_eq_iff)
  moreover have "0 < i \<Longrightarrow> checked_add (de_seq (?q ! (i - 1))) 1 = Some (de_seq (?q ! i))"
    using seq [OF i] seq [of "i - 1"] i by (simp add: checked_add_Some)
  moreover have "check_effect_budget P [SendDirect p (de_msg (?q ! i)) (de_range (?q ! i))] = Inr ()"
    using ok i by (simp add: lane_ok_def)
  ultimately show ?thesis by (auto simp: validate_lane_entry_def Let_def)
qed

lemma lane_ok_validate: "lane_ok P s p lane \<Longrightarrow> validate_lane P s (p, lane) = Inr ()"
  using lane_entries_ok [of P s p lane]
  by (auto simp: validate_lane_def Let_def if_Inl_ok check_all_ok lane_ok_def)

lemma lanes_bounded:
  assumes "binding_ok P (es_binding s)" "lanes_ok P s (es_direct s)"
  shows "length (es_direct s) \<le> MAX_PARTICIPANTS"
proof -
  let ?b = "es_binding s"
  have "fst ` set (es_direct s) \<subseteq> set (participants ?b)"
    using assms(2) by (auto simp: lanes_ok_def lane_ok_def is_participant_def)
  then have "length (es_direct s) \<le> card (set (participants ?b))"
    using assms(2) by (intro bmap.keys_bounded) (auto simp: lanes_ok_def)
  also have "\<dots> \<le> length (participants ?b)" by (rule card_length)
  also have "\<dots> \<le> 64" using binding_tickets_facts(3) [OF assms(1)] by (simp add: participants_signers)
  finally show ?thesis by (simp add: MAX_PARTICIPANTS_def)
qed

lemma state_ok_recovered:
  assumes "state_ok P s" "published_receipt_id (es_status s) \<noteq> Some (ReceiptId 0)"
  shows "validate_recovered P s = Inr ()"
proof -
  have limits: "\<not> es_agreed_step s > word_of_nat MAX_RECEIPT_TRACE_ENTRIES"
    "\<not> exceeds (checked_add (es_trace_bytes s) (es_receipt_overhead s)) MAX_RECEIPT_BYTES"
    using assms(1)
    by (simp_all add: state_ok_def core_ok_def exceeds_checked_add MAX_RECEIPT_TRACE_ENTRIES_def
        MAX_RECEIPT_BYTES_def word_less_nat_alt)
  have lanes: "length (es_direct s) \<le> MAX_PARTICIPANTS" "\<forall>pl \<in> set (es_direct s). validate_lane P s pl = Inr ()"
    using assms(1) lanes_bounded [of P s] lane_ok_validate
    by (auto simp: state_ok_def core_ok_def lanes_ok_def)
  show ?thesis
    unfolding validate_recovered_def
    using assms limits lanes
    by (auto simp: state_ok_def core_ok_def status_ok_def pending_ok_def if_Inl_ok bind_res_ok check_all_ok
        ex_unit is_terminal_def split: option.splits)
qed

end
