(* ===== verification/Invariant_Steps.thy ===== *)
theory Invariant_Steps
  imports State_Invariant
begin

text \<open>
  Preservation of \<open>state_ok\<close> by every operation of \<open>ExecutionState\<close>.
\<close>

section \<open>Direct lanes\<close>

lemma lane_ok_default:
  "p \<noteq> es_producer s \<Longrightarrow> is_participant (es_binding s) p \<Longrightarrow> lane_ok P s p default_lane"
  by (simp add: lane_ok_def default_lane_def)

lemma lane_ok_applied [simp]: "lane_ok P s p (lane\<lparr>last_applied := n\<rparr>) = lane_ok P s p lane"
  by (simp add: lane_ok_def)

lemma lane_lookup:
  assumes "lanes_ok P s d" "p \<noteq> es_producer s" "is_participant (es_binding s) p"
  shows "lane_ok P s p (case map_of d p of None \<Rightarrow> default_lane | Some lane \<Rightarrow> lane)"
  using assms lane_ok_default map_of_SomeD [of d p]
  by (fastforce simp: lanes_ok_def split: option.splits)

lemma lanes_ok_insert:
  "lanes_ok P s d \<Longrightarrow> lane_ok P s p lane \<Longrightarrow> lanes_ok P s (bmap_insert p lane d)"
  using bmap.entries_insert [of d _ p lane] by (auto simp: lanes_ok_def bmap.invar_insert)

lemma lane_ok_push:
  assumes ok: "lane_ok P s p lane" and phase: "es_end_phase s = Open"
    and room: "length (lane_queue lane) \<noteq> MAX_DIRECT_QUEUE"
    and seq: "checked_add (last_queued lane) 1 = Some seq"
    and budget: "check_effect_budget P [SendDirect p msg rng] = Inr ()"
  shows "lane_ok P s p (lane\<lparr>last_queued := seq,
           lane_queue := lane_queue lane @ [\<lparr>de_seq = seq, de_msg = msg, de_range = rng\<rparr>]\<rparr>)"
proof -
  have n: "unat seq = unat (last_queued lane) + 1" using seq by (simp add: checked_add_Some)
  have "[unat (last_queued lane) + 1 - length (lane_queue lane) ..< unat seq + 1]
      = [unat (last_queued lane) + 1 - length (lane_queue lane) ..< unat (last_queued lane) + 1] @ [unat seq]"
    unfolding n using ok by (simp add: lane_ok_def)
  then show ?thesis using ok phase room budget n by (simp add: lane_ok_def)
qed

lemma filter_upt: "filter (\<lambda>x. n < x) [a..<b] = [max a (Suc n)..<b]"
  by (induction b) auto

lemma lane_ok_ack:
  assumes ok: "lane_ok P s p lane"
  shows "lane_ok P s p (lane\<lparr>lane_queue := filter (\<lambda>e. de_seq e > seq) (lane_queue lane)\<rparr>)"
proof -
  let ?q = "lane_queue lane" and ?l = "unat (last_queued lane) + 1"
  let ?k = "filter (\<lambda>e. de_seq e > seq) ?q" and ?a = "max (?l - length ?q) (Suc (unat seq))"
  have "map (\<lambda>e. unat (de_seq e)) ?k = filter (\<lambda>x. unat seq < x) (map (\<lambda>e. unat (de_seq e)) ?q)"
    by (simp add: filter_map comp_def word_less_nat_alt)
  also have "\<dots> = [?a ..< ?l]"
    using ok unfolding lane_ok_def by (simp only: filter_upt)
  finally have m: "map (\<lambda>e. unat (de_seq e)) ?k = [?a ..< ?l]" .
  then have len: "length ?k = ?l - ?a" by (metis length_map length_upt)
  have "[?a ..< ?l] = [?l - length ?k ..< ?l]" unfolding len by (cases "?a \<le> ?l") (simp_all del: upt_Suc)
  moreover have "length ?k \<le> MAX_DIRECT_QUEUE" "length ?k \<le> unat (last_queued lane)"
    using ok le_trans [OF length_filter_le] by (auto simp: lane_ok_def)
  ultimately show ?thesis using ok m by (simp add: lane_ok_def del: upt_Suc)
qed

lemma queue_direct_ok:
  assumes "lanes_ok P s d" "es_end_phase s = Open" "queue_direct s to msg rng d = Inr d'"
    "check_effect_budget P [SendDirect to msg rng] = Inr ()"
  shows "lanes_ok P s d'"
proof -
  let ?lane = "case map_of d to of None \<Rightarrow> default_lane | Some lane \<Rightarrow> lane"
  from assms(3) obtain seq where q: "to \<noteq> es_producer s" "is_participant (es_binding s) to"
    "length (lane_queue ?lane) \<noteq> MAX_DIRECT_QUEUE" "checked_add (last_queued ?lane) 1 = Some seq"
    "d' = bmap_insert to (?lane\<lparr>last_queued := seq,
            lane_queue := lane_queue ?lane @ [\<lparr>de_seq = seq, de_msg = msg, de_range = rng\<rparr>]\<rparr>) d"
    by (auto simp: queue_direct_def Let_def if_Inl_ok bind_res_ok ok_or_ok)
  have "lane_ok P s to ?lane" using assms(1) q(1,2) by (rule lane_lookup)
  from lanes_ok_insert [OF assms(1) lane_ok_push [OF this assms(2) q(3,4) assms(4)]]
  show ?thesis unfolding q(5) .
qed

lemma queue_directs_ok:
  assumes "lanes_ok P s d" "es_end_phase s = Open" "queue_directs s d es = Inr d'"
    "\<forall>e \<in> set es. check_effect_budget P [e] = Inr ()"
  shows "lanes_ok P s d'"
  using assms
proof (induction es arbitrary: d)
  case (Cons e es)
  show ?case
  proof (cases e)
    case (SendDirect to msg rng)
    with Cons.prems(3) obtain d1 where d1: "queue_direct s to msg rng d = Inr d1" "queue_directs s d1 es = Inr d'"
      by (auto simp: bind_res_ok)
    have "lanes_ok P s d1"
      using queue_direct_ok [OF Cons.prems(1,2) d1(1)] Cons.prems(4) SendDirect by simp
    with Cons d1(2) show ?thesis by simp
  qed (use Cons in auto)
qed simp

section \<open>The end handshake\<close>

lemma begin_end_fields [simp]:
  "es_execution_id (begin_end s) = es_execution_id s" "es_binding (begin_end s) = es_binding s"
  "es_producer (begin_end s) = es_producer s" "es_status (begin_end s) = es_status s"
  "es_version (begin_end s) = es_version s" "es_event_position (begin_end s) = es_event_position s"
  "es_agreed_step (begin_end s) = es_agreed_step s" "es_trace_bytes (begin_end s) = es_trace_bytes s"
  "es_receipt_overhead (begin_end s) = es_receipt_overhead s" "es_agreed_state (begin_end s) = es_agreed_state s"
  "es_agreed_link (begin_end s) = es_agreed_link s" "es_last_certificate (begin_end s) = es_last_certificate s"
  "es_outgoing (begin_end s) = es_outgoing s" "es_shared_state (begin_end s) = es_shared_state s"
  "es_local_state (begin_end s) = es_local_state s" "es_proposal (begin_end s) = es_proposal s"
  "es_callout (begin_end s) = es_callout s" "cursor_of (begin_end s) = cursor_of s"
  "core_ok P (begin_end s) = core_ok P s"
  by (simp_all add: begin_end_def)

lemma begin_end_peers:
  assumes "binding_ok P b" "is_participant b me"
  shows "filter (\<lambda>p. p \<noteq> me) (participants b) \<noteq> []"
proof
  assume none: "filter (\<lambda>p. p \<noteq> me) (participants b) = []"
  have "distinct (participants b)" "2 \<le> length (participants b)"
    using binding_tickets_facts [OF assms(1)] by (simp_all add: participants_signers)
  moreover have "set (participants b) \<subseteq> {me}" using none by (auto simp: filter_empty_conv)
  then have "card (set (participants b)) \<le> 1" using card_mono [of "{me}" "set (participants b)"] by simp
  ultimately show False by (simp add: distinct_card)
qed

lemma begin_end_ok:
  assumes "binding_ok P (es_binding s)" "is_participant (es_binding s) (es_producer s)"
    and "es_end_phase s = Open" and lanes: "lanes_ok P s (es_direct s)"
  shows "validate_end (begin_end s) = Inr ()" "lanes_ok P (begin_end s) (es_direct (begin_end s))"
proof -
  have ne: "sort (filter (\<lambda>p. p \<noteq> es_producer s) (participants (es_binding s))) \<noteq> []"
    using begin_end_peers [OF assms(1,2)] by (metis length_0_conv length_sort)
  show "validate_end (begin_end s) = Inr ()"
    using assms(3) ne by (auto simp: validate_end_def begin_end_def is_participant_def)
  show "lanes_ok P (begin_end s) (es_direct (begin_end s))"
    using assms(3) lanes
    by (auto simp: begin_end_def lanes_ok_def lane_ok_def bmap_ok_def comp_def case_prod_beta)
qed

section \<open>Construction and simple transitions\<close>

lemma state_ok_intro:
  assumes "core_ok P s" "validate_outgoing (es_outgoing s) = Inr ()" "lanes_ok P s (es_direct s)"
    "status_ok P s" "pending_ok P s"
  shows "state_ok P s"
  using assms by (simp add: state_ok_def)

lemma state_okD:
  assumes "state_ok P s"
  shows "core_ok P s" "validate_outgoing (es_outgoing s) = Inr ()" "lanes_ok P s (es_direct s)"
    "status_ok P s" "pending_ok P s"
  using assms by (simp_all add: state_ok_def)

lemma core_okD:
  assumes "core_ok P s"
  shows "binding_ok P (es_binding s)" "is_participant (es_binding s) (es_producer s)"
    "reserved_overhead P (es_binding s) = Inr (es_receipt_overhead s)"
  using assms by (simp_all add: core_ok_def)

lemma open_phase:
  "status_ok P s \<Longrightarrow> \<not> is_terminal (es_status s) \<Longrightarrow> es_end_phase s = Open"
  by (auto simp: status_ok_def validate_end_ok)

lemma state_new_ok:
  assumes "state_new P eid act me shared local = Inr s"
  shows "state_ok P s"
proof -
  from assms obtain b ov where b: "binding_ok P b" "reserved_overhead P b = Inr ov"
    and ov: "ov \<le> word_of_nat MAX_RECEIPT_BYTES" and me: "is_participant b me"
    and init: "of_shared P shared = od_initial_state (binding_offer b)"
    and s: "s = \<lparr>es_execution_id = eid, es_binding = b, es_producer = me, es_status = Activating,
            es_version = ExecutionVersion 0, es_event_position = 0, es_agreed_step = 0,
            es_trace_bytes = 0, es_receipt_overhead = ov,
            es_agreed_state = of_shared P shared, es_agreed_link = CHAIN_START,
            es_last_certificate = None, es_end_phase = Open, es_direct = [], es_outgoing = [],
            es_shared_state = shared, es_local_state = local, es_proposal = None, es_callout = None\<rparr>"
    by (auto simp: state_new_def bind_res_ok if_Inl_ok binding_new_ok Let_def genesis_def not_less)
  have "unat ov \<le> MAX_RECEIPT_BYTES" using ov by (simp add: word_le_nat_alt MAX_RECEIPT_BYTES_def)
  with b me init show ?thesis
    by (simp add: s state_ok_def core_ok_def lanes_ok_def bmap_ok_def status_ok_def pending_ok_def
        validate_last_certificate_def validate_end_ok is_terminal_def validate_outgoing_ok)
qed

lemma state_ok_version [simp]: "state_ok P (s\<lparr>es_version := v\<rparr>) = state_ok P s"
proof -
  have "validate_recovered_proposal P (s\<lparr>es_version := v\<rparr>) p = validate_recovered_proposal P s p" for p
    by (rule pending_cong) simp_all
  then show ?thesis
    by (simp add: state_ok_def lanes_ok_def status_ok_def pending_ok_def validate_end_ok)
qed

lemma bump_ok: "bump_version s = Inr s' \<Longrightarrow> state_ok P s' = state_ok P s"
  by (auto simp: bump_version_ok)

lemma activate_ok:
  assumes "state_ok P s" "activate s = Inr s'"
  shows "state_ok P s'"
proof -
  let ?n = "s\<lparr>es_status := Active\<rparr>"
  from assms(2) have a: "es_status s = Activating" "es_proposal s = None" "bump_version ?n = Inr s'"
    by (auto simp: activate_def if_Inl_ok)
  note d = state_okD [OF assms(1)]
  have "es_end_phase s = Open" using d(4) a(1) by (intro open_phase) (auto simp: is_terminal_def)
  with d a(1,2) have "state_ok P ?n"
    by (simp add: state_ok_def lanes_ok_def status_ok_def pending_ok_def validate_end_ok is_terminal_def)
  with bump_ok [OF a(3)] show ?thesis by simp
qed

lemma drop_outgoing_head_ok:
  assumes "state_ok P s" "drop_outgoing_head s = Inr s'"
  shows "state_ok P s'"
proof -
  let ?n = "s\<lparr>es_outgoing := tl (es_outgoing s)\<rparr>"
  from assms(2) have a: "es_proposal s = None" "bump_version ?n = Inr s'"
    by (auto simp: drop_outgoing_head_def if_Inl_ok)
  note d = state_okD [OF assms(1)]
  have "validate_outgoing (tl (es_outgoing s)) = Inr ()"
    using d(2) by (cases "es_outgoing s") (auto simp: validate_outgoing_ok)
  with d a(1) have "state_ok P ?n"
    by (simp add: state_ok_def lanes_ok_def status_ok_def pending_ok_def validate_end_ok)
  with bump_ok [OF a(2)] show ?thesis by simp
qed

lemma status_ok_direct [simp]: "status_ok P (s\<lparr>es_direct := d\<rparr>) = status_ok P s"
  by (simp add: status_ok_def validate_end_ok)

lemma pending_ok_direct [simp]: "pending_ok P (s\<lparr>es_direct := d\<rparr>) = pending_ok P s"
  using pending_cong [of "s\<lparr>es_direct := d\<rparr>" s P] by (simp add: pending_ok_def)

lemma state_ok_direct: "state_ok P s \<Longrightarrow> lanes_ok P s d \<Longrightarrow> state_ok P (s\<lparr>es_direct := d\<rparr>)"
  by (simp add: state_ok_def lanes_ok_def)

lemma record_direct_ok:
  assumes "state_ok P s" "record_direct s from seq = Inr s'"
  shows "state_ok P s'"
proof -
  from assms(2) obtain v where r: "from \<noteq> es_producer s" "is_participant (es_binding s) from"
    "s' = (s\<lparr>es_direct := bmap_insert from ((lane_of s from)\<lparr>last_applied := seq\<rparr>) (es_direct s)\<rparr>)\<lparr>es_version := v\<rparr>"
    by (auto simp: record_direct_def if_Inl_ok bind_res_ok)
  note lanes = state_okD(3) [OF assms(1)]
  have "lane_ok P s from (lane_of s from)"
    unfolding lane_of_def using lanes r(1,2) by (rule lane_lookup)
  then have "lanes_ok P s (bmap_insert from ((lane_of s from)\<lparr>last_applied := seq\<rparr>) (es_direct s))"
    by (intro lanes_ok_insert [OF lanes]) simp
  with state_ok_direct [OF assms(1)] show ?thesis unfolding r(3) by simp
qed

lemma ack_direct_ok:
  assumes "state_ok P s" "ack_direct s to seq = Inr (s', r)"
  shows "state_ok P s'"
proof (cases r)
  case False
  with assms show ?thesis by (auto simp: ack_direct_def bind_res_ok split: if_splits option.splits)
next
  case True
  with assms(2) obtain lane v where a: "map_of (es_direct s) to = Some lane"
    "s' = (s\<lparr>es_direct := bmap_insert to
         (lane\<lparr>lane_queue := filter (\<lambda>e. de_seq e > seq) (lane_queue lane)\<rparr>) (es_direct s)\<rparr>)\<lparr>es_version := v\<rparr>"
    by (auto simp: ack_direct_def bind_res_ok split: if_splits option.splits)
  note lanes = state_okD(3) [OF assms(1)]
  have "lane_ok P s to lane" using lanes map_of_SomeD [OF a(1)] by (auto simp: lanes_ok_def)
  from lanes_ok_insert [OF lanes lane_ok_ack [OF this]] state_ok_direct [OF assms(1)]
  show ?thesis unfolding a(2) by simp
qed

lemma state_ok_phase:
  assumes "state_ok P s" "es_end_phase s \<noteq> Open" "phase \<noteq> Open"
    "validate_end (s\<lparr>es_end_phase := phase\<rparr>) = Inr ()"
  shows "state_ok P (s\<lparr>es_end_phase := phase\<rparr>)"
proof -
  have "validate_recovered_proposal P (s\<lparr>es_end_phase := phase\<rparr>) p = validate_recovered_proposal P s p" for p
    by (rule pending_cong) simp_all
  with assms show ?thesis
    by (simp add: state_ok_def lanes_ok_def lane_ok_def status_ok_def pending_ok_def)
qed

lemma confirm_end_ok:
  assumes "state_ok P s" "confirm_end s p = Inr (s', r)"
  shows "state_ok P s'"
proof (cases r)
  case False
  with assms show ?thesis by (auto simp: confirm_end_def bind_res_ok split: if_splits option.splits)
next
  case True
  let ?n = "s\<lparr>es_end_phase := confirm_phase p (es_end_phase s)\<rparr>"
  from True assms(2) have a: "es_end_phase s \<noteq> Open" "bump_version ?n = Inr s'"
    by (auto simp: confirm_end_def bind_res_ok split: if_splits option.splits)
  have "validate_end s = Inr ()" using state_okD(4) [OF assms(1)] by (simp add: status_ok_def)
  with a(1) have "validate_end ?n = Inr ()" "es_end_phase ?n \<noteq> Open"
    by (cases "es_end_phase s"; auto simp: validate_end_ok Let_def)+
  with state_ok_phase [OF assms(1) a(1)] have "state_ok P ?n" by simp
  with bump_ok [OF a(2)] show ?thesis by simp
qed

lemma expire_end_ok:
  assumes "state_ok P s" "expire_end s = Inr s'"
  shows "state_ok P s'"
proof -
  from assms(2) obtain ps where e: "es_end_phase s = Ending ps" "bump_version (s\<lparr>es_end_phase := Ended ps\<rparr>) = Inr s'"
    by (auto simp: expire_end_def split: end_phase.splits)
  have "validate_end s = Inr ()" using state_okD(4) [OF assms(1)] by (simp add: status_ok_def)
  with e(1) have "validate_end (s\<lparr>es_end_phase := Ended ps\<rparr>) = Inr ()" by (auto simp: validate_end_ok)
  with state_ok_phase [OF assms(1)] e(1) bump_ok [OF e(2)] show ?thesis by simp
qed

section \<open>Stopping and publication\<close>

lemma stop_ok:
  assumes "state_ok P s" "stop P s a = Inr s'"
  shows "state_ok P s'"
proof -
  let ?m = "s\<lparr>es_proposal := None, es_callout := None, es_status := Stopped (Authenticated a)\<rparr>"
  from assms(2) have a: "abort_validate_shape a = Inr ()" "ao_session_id a = binding_session_id (es_binding s)"
    "is_participant (es_binding s) (ao_sender a)" "abort_verify_signature P a = Inr True"
    "ao_coordinate a = cursor_of s" "\<not> is_terminal (es_status s)" "bump_version (begin_end ?m) = Inr s'"
    by (auto simp: stop_def bind_res_ok if_Inl_ok abort_validate_for_session_def status_stopped_def ex_unit)
  note d = state_okD [OF assms(1)]
  have phase: "es_end_phase s = Open" using d(4) a(6) by (rule open_phase)
  have lanes: "lanes_ok P ?m (es_direct ?m)"
    using d(3) lanes_ok_cong [of s ?m P] by simp
  note be = begin_end_ok [of P ?m, OF _ _ _ lanes]
  have "state_ok P (begin_end ?m)"
  proof (rule state_ok_intro)
    show "status_ok P (begin_end ?m)"
      using be(1) core_okD [OF d(1)] phase a(1-5) by (simp add: status_ok_def)
    show "lanes_ok P (begin_end ?m) (es_direct (begin_end ?m))"
      using be(2) core_okD [OF d(1)] phase by simp
  qed (use d in \<open>simp_all add: pending_ok_def\<close>)
  with bump_ok [OF a(7)] show ?thesis by simp
qed

lemma published_status_ok:
  assumes "published_status P s art = Inr st" "status_ok P s"
  shows "is_terminal (es_status s) \<and> is_terminal st"
    "published_receipt_id st \<noteq> Some (ReceiptId 0) \<longrightarrow>
       status_validate_binding P st (es_binding s) (cursor_of s) = Inr ()"
  using assms
  by (auto simp: published_status_def Let_def status_ok_def bind_res_ok if_Inl_ok is_terminal_def ex_unit
      split: execution_status.splits receipt_termination.splits if_splits)

lemma publish_receipt_ok:
  assumes "state_ok P s" "publish_receipt P s art = Inr s'"
  shows "state_ok P s'"
proof -
  from assms(2) obtain st where p: "published_status P s art = Inr st"
    "bump_version (s\<lparr>es_status := st, es_callout := None\<rparr>) = Inr s'"
    by (auto simp: publish_receipt_def bind_res_ok)
  let ?n = "s\<lparr>es_status := st, es_callout := None\<rparr>"
  note d = state_okD [OF assms(1)]
  note st = published_status_ok [OF p(1) d(4)]
  have "es_proposal s = None" using st(1) d(4) by (auto simp: status_ok_def is_terminal_def)
  moreover have "validate_end ?n = Inr ()" using d(4) st(1) by (simp add: status_ok_def validate_end_ok)
  ultimately have "state_ok P ?n"
    using d st by (simp add: state_ok_def lanes_ok_def status_ok_def pending_ok_def)
  with bump_ok [OF p(2)] show ?thesis by simp
qed

section \<open>Certification\<close>

lemma installed_core_ok:
  assumes layout: "borsh_layout P" and core: "core_ok P s"
    and at_c: "proposal_at P (es_binding s) (cursor_of s) p (cert_commitment cert)"
    and verify: "certificate_verify P cert (es_binding s) = Inr ()"
    and adv: "advance P (cursor_of s) (cert_commitment cert) = Inr cur"
    and budget: "check_receipt_budget P s (sp_entry p) = Inr t"
  shows "core_ok P (installed s cert p cur t)"
proof -
  from budget obtain n where n: "certified_size P s (sp_entry p) = Inr n" "unat t = unat (es_trace_bytes s) + unat n"
    "unat (es_agreed_step s) + 1 \<le> MAX_RECEIPT_TRACE_ENTRIES"
    "unat t + unat (es_receipt_overhead s) \<le> MAX_RECEIPT_BYTES"
    by (auto simp: check_receipt_budget_ok)
  from n(1) have "0 < unat n"
    using entry_base_pos by (auto simp: certified_size_ok layout_len [OF layout] borsh_len_entry)
  then have t: "t \<noteq> 0" using n(2) by auto
  from adv have step: "checked_add (es_agreed_step s) 1 = Some (next_step cur)"
    and c: "sc_step (cert_commitment cert) = es_agreed_step s"
      "cursor_state_hash cur = sc_post_state (cert_commitment cert)" "chain_hash cur = link_hash P (cert_commitment cert)"
    by (simp_all add: advance_ok cursor_of_def)
  have next0: "next_step cur \<noteq> 0" "unat (next_step cur) = unat (es_agreed_step s) + 1"
    using step by (auto simp: checked_add_Some)
  have "sc_post_state (cert_commitment cert) = of_shared P (sp_shared_state p)"
    using at_c by (simp add: proposal_at_def)
  moreover have "validate_last_certificate P (installed s cert p cur t) = Inr ()"
    using step c verify by (simp add: validate_last_certificate_def installed_def)
  ultimately show ?thesis
    using core t next0 n(3,4) c by (simp add: core_ok_def installed_def)
qed

lemma install_certified_state_ok:
  assumes layout: "borsh_layout P" and ok: "state_ok P s" and pr: "es_proposal s = Some p"
    and inst: "install_certified P (s\<lparr>es_proposal := Some p'\<rparr>) cert = Inr (s', q)"
    and same: "sp_outgoing p' = sp_outgoing p" "sp_status p' = sp_status p" "sp_callout p' = sp_callout p"
  shows "state_ok P s'"
proof -
  let ?s = "s\<lparr>es_proposal := Some p'\<rparr>"
  note d = state_okD [OF ok]
  from inst obtain cur t where i: "validate_proposal P (es_binding s) (cursor_of s) (sp_event_position p') p' = Inr ()"
    "commit_entry P (es_binding s) (sp_entry p') (es_agreed_link s) = Inr (cert_commitment cert)"
    "certificate_verify P cert (es_binding s) = Inr ()"
    "advance P (cursor_of s) (cert_commitment cert) = Inr cur"
    "check_receipt_budget P ?s (sp_entry p') = Inr t"
    "s' = (begin_end (installed ?s cert p' cur t))\<lparr>es_callout := sp_callout p', es_proposal := None\<rparr>"
    by (auto simp: install_certified_ok)
  have at_c: "proposal_at P (es_binding s) (cursor_of s) p' (cert_commitment cert)"
    using i(1,2) by (auto simp: validate_proposal_ok proposal_at_def cursor_of_def)
  have core: "core_ok P (installed ?s cert p' cur t)"
    using installed_core_ok [OF layout, of ?s p' cert cur t] d(1) at_c i(3-5) by simp
  have pend: "validate_outgoing (sp_outgoing p) = Inr ()" "sp_status p \<noteq> Active \<longrightarrow> sp_callout p = None"
    using d(5) pr by (auto simp: pending_ok_def validate_recovered_proposal_def bind_res_ok if_Inl_ok ex_unit)
  have active: "es_status s = Active" using d(4) pr by (auto simp: status_ok_def)
  then have phase: "es_end_phase s = Open" using d(4) by (intro open_phase) (auto simp: is_terminal_def)
  have lanes: "lanes_ok P (installed ?s cert p' cur t) (es_direct (installed ?s cert p' cur t))"
    using d(3) lanes_ok_cong [of s "installed ?s cert p' cur t" P] by (simp add: installed_def)
  have be: "validate_end (begin_end (installed ?s cert p' cur t)) = Inr ()"
    "lanes_ok P (begin_end (installed ?s cert p' cur t)) (es_direct (begin_end (installed ?s cert p' cur t)))"
    using begin_end_ok [of P "installed ?s cert p' cur t", OF _ _ _ lanes] core_okD [OF d(1)] phase
    by (simp_all add: installed_def)
  have cursor: "cursor_of (installed ?s cert p' cur t) = cur"
    by (cases cur) (simp add: installed_def cursor_of_def)
  have "status_validate_binding P (sp_status p') (es_binding s) cur = Inr ()"
    using at_c i(4) by (auto simp: proposal_at_def)
  then show ?thesis
    unfolding i(6) using core pend be same cursor
    by (simp add: state_ok_def lanes_ok_def status_ok_def pending_ok_def validate_end_ok)
      (simp add: installed_def)
qed

lemma certify_step_state_ok:
  assumes "borsh_layout P" "state_ok P s" "certify_step P s cert = Inr (s', q)"
  shows "state_ok P s'"
proof -
  from assms(3) obtain s1 where c: "install_certified P s cert = Inr (s1, q)" "bump_version s1 = Inr s'"
    by (auto simp: certify_step_ok)
  then obtain p where p: "es_proposal s = Some p" by (auto simp: install_certified_ok)
  then have same: "s\<lparr>es_proposal := Some p\<rparr> = s" by (simp flip: p)
  have "state_ok P s1"
    using install_certified_state_ok [OF assms(1,2) p, of p cert s1 q] c(1) unfolding same by simp
  with bump_ok [OF c(2)] show ?thesis by simp
qed

section \<open>Signature collection\<close>

lemma sorted_insert_key:
  fixes f :: "'a \<Rightarrow> 'k::linorder"
  assumes "sorted_wrt (<) (map f xs)" "f x \<notin> f ` set xs"
  shows "sorted_wrt (<) (map f (sort_key f (xs @ [x])))"
proof -
  have "distinct (map f (xs @ [x]))" using assms by (auto simp: strict_sorted_iff)
  then have "card (f ` set (xs @ [x])) = length (xs @ [x])" by (metis distinct_card length_map set_map)
  then have "card (set (map f (sort_key f (xs @ [x])))) = length (map f (sort_key f (xs @ [x])))" by simp
  then have "distinct (map f (sort_key f (xs @ [x])))" by (rule card_distinct)
  then show ?thesis by (simp add: strict_sorted_iff)
qed

lemma distinct_keys_bound:
  assumes "distinct (map f xs)" "\<forall>x \<in> set xs. map_of ps (f x) \<noteq> None"
  shows "length xs \<le> length ps"
proof -
  have "f ` set xs \<subseteq> fst ` set ps"
    using assms(2) by (force simp: map_of_eq_None_iff)
  then have "card (f ` set xs) \<le> card (fst ` set ps)" by (intro card_mono) auto
  also have "\<dots> \<le> length ps" by (metis card_length length_map set_map)
  finally show ?thesis using distinct_card [OF assms(1)] by simp
qed

text \<open>Adding a checked signature keeps the collected list sorted, verified and within the ensemble.\<close>

lemma add_signature_signatures:
  assumes b: "binding_ok P b" and old: "signatures_at P b p c" and add: "add_signature P b c sg p = Inr p'"
  shows "signatures_at P b p' c"
proof -
  from old obtain ps where ps: "participant_keys b = Inr ps"
    "\<forall>s \<in> set (sp_signatures p). \<exists>key. map_of ps (pss_participant s) = Some key \<and> verify_step_signature P key c s = Inr ()"
    "sorted_wrt (<) (map pss_participant (sp_signatures p))"
    by (auto simp: signatures_at_def)
  from add obtain key where a: "\<forall>x \<in> set (sp_signatures p). pss_participant x \<noteq> pss_participant sg"
    "participant_key b (pss_participant sg) = Inr key" "verify_step_signature P key c sg = Inr ()"
    "p' = p\<lparr>sp_signatures := sort_key pss_participant (sp_signatures p @ [sg])\<rparr>"
    by (auto simp: add_signature_ok)
  have key: "map_of ps (pss_participant sg) = Some key" using participant_key_table [OF b ps(1)] a(2) by simp
  have sorted: "sorted_wrt (<) (map pss_participant (sp_signatures p'))"
    using sorted_insert_key [OF ps(3), of sg] a(1) by (fastforce simp: a(4))
  have "\<forall>s \<in> set (sp_signatures p'). \<exists>key. map_of ps (pss_participant s) = Some key \<and> verify_step_signature P key c s = Inr ()"
    using ps(2) key a(3) by (auto simp: a(4))
  moreover from this have "length (sp_signatures p') \<le> length ps"
    using sorted by (intro distinct_keys_bound [where f = pss_participant]) (force simp: strict_sorted_iff)+
  ultimately show ?thesis using ps(1) sorted by (auto simp: signatures_at_def)
qed

lemma proposal_at_signatures [simp]:
  "proposal_at P b cur (p\<lparr>sp_signatures := ss\<rparr>) c = proposal_at P b cur p c"
  by (simp add: proposal_at_def)

lemma add_signature_fields:
  assumes "add_signature P b c sg p = Inr p'"
  shows "\<exists>ss. p' = p\<lparr>sp_signatures := ss\<rparr>"
  using assms by (auto simp: add_signature_ok)

lemma add_signature_valid:
  assumes "binding_ok P b" "validate_proposal P b cur pos p = Inr ()" "add_signature P b c sg p = Inr p'"
    "commit_entry P b (sp_entry p) (chain_hash cur) = Inr c"
  shows "validate_proposal P b cur pos p' = Inr ()"
proof -
  from assms(2,4) have p: "sp_event_position p = pos" "proposal_at P b cur p c" "signatures_at P b p c"
    by (auto simp: validate_proposal_ok proposal_at_def)
  obtain ss where ss: "p' = p\<lparr>sp_signatures := ss\<rparr>" using add_signature_fields [OF assms(3)] by blast
  have "signatures_at P b p' c" using assms(1) p(3) assms(3) by (rule add_signature_signatures)
  moreover have "proposal_at P b cur p' c" using p(2) by (simp add: ss)
  ultimately show ?thesis using p(1) by (auto simp: validate_proposal_ok ss)
qed

lemma budget_proposal [simp]: "check_receipt_budget P (s\<lparr>es_proposal := x\<rparr>) e = check_receipt_budget P s e"
  by (simp add: check_receipt_budget_def check_receipt_entries_def certified_size_def cong: if_cong)

lemma recovered_proposal_ok:
  "validate_recovered_proposal P s p = Inr u \<longleftrightarrow>
     checked_add (sp_event_position p) 1 = Some (es_event_position s)
     \<and> validate_effects P (sp_effects p) = Inr ()
     \<and> validate_proposal P (es_binding s) (cursor_of s) (sp_event_position p) p = Inr ()
     \<and> validate_outgoing (sp_outgoing p) = Inr () \<and> check_proposal_receipt_budget P s p = Inr ()
     \<and> (sp_status p \<noteq> Active \<longrightarrow> sp_callout p = None)"
  unfolding validate_recovered_proposal_def
  by (simp only: bind_res_ok ok_or_ok if_Inl_ok ex_unit) auto

lemma add_step_signature_state_ok:
  assumes layout: "borsh_layout P" and ok: "state_ok P s" and add: "add_step_signature P s sg = Inr (s', r)"
  shows "state_ok P s'"
proof -
  from add obtain p c p' where a: "es_proposal s = Some p"
    "commit_entry P (es_binding s) (sp_entry p) (es_agreed_link s) = Inr c"
    "add_signature P (es_binding s) c sg p = Inr p'"
    and br: "if length (sp_signatures p') = length (binding_tickets (es_binding s))
           then \<exists>cert s1 q. certificate_from_signatures P (es_binding s) c p' = Inr cert
                  \<and> install_certified P (s\<lparr>es_proposal := Some p'\<rparr>) cert = Inr (s1, q)
                  \<and> bump_version s1 = Inr s' \<and> r = Some q
           else bump_version (s\<lparr>es_proposal := Some p'\<rparr>) = Inr s' \<and> r = None"
    unfolding add_step_signature_ok by blast
  obtain ss where ss: "p' = p\<lparr>sp_signatures := ss\<rparr>" using add_signature_fields [OF a(3)] by blast
  note d = state_okD [OF ok]
  show ?thesis
  proof (cases "length (sp_signatures p') = length (binding_tickets (es_binding s))")
    case True
    with br obtain cert s1 q where c: "install_certified P (s\<lparr>es_proposal := Some p'\<rparr>) cert = Inr (s1, q)"
      "bump_version s1 = Inr s'" by auto
    have "state_ok P s1" using layout ok a(1) c(1) by (rule install_certified_state_ok) (simp_all add: ss)
    with bump_ok [OF c(2)] show ?thesis by simp
  next
    case False
    let ?n = "s\<lparr>es_proposal := Some p'\<rparr>"
    have pend: "validate_recovered_proposal P s p = Inr ()" using d(5) a(1) by (simp add: pending_ok_def)
    have "validate_proposal P (es_binding s) (cursor_of s) (sp_event_position p) p = Inr ()"
      using pend by (simp add: recovered_proposal_ok)
    from add_signature_valid [OF core_okD(1) [OF d(1)] this a(3)] a(2)
    have "validate_proposal P (es_binding s) (cursor_of s) (sp_event_position p) p' = Inr ()"
      by (simp add: cursor_of_def)
    with pend have "validate_recovered_proposal P ?n p' = Inr ()"
      by (simp add: recovered_proposal_ok ss check_proposal_receipt_budget_ok)
    moreover have "status_ok P ?n" using d(4) a(1) by (auto simp: status_ok_def validate_end_ok)
    ultimately have "state_ok P ?n" using d by (simp add: state_ok_def lanes_ok_def pending_ok_def)
    moreover have "bump_version ?n = Inr s'" using br False by simp
    ultimately show ?thesis using bump_ok by blast
  qed
qed

section \<open>Dispatch\<close>

lemma budget_position [simp]: "check_receipt_budget P (s\<lparr>es_event_position := x\<rparr>) e = check_receipt_budget P s e"
  by (simp add: check_receipt_budget_def check_receipt_entries_def certified_size_def cong: if_cong)

lemma stage_proposal_state_ok:
  assumes "state_ok P s" "stage_proposal P s p = Inr s'" "validate_effects P (sp_effects p) = Inr ()"
    "validate_outgoing (sp_outgoing p) = Inr ()" "sp_status p \<noteq> Active \<longrightarrow> sp_callout p = None"
  shows "state_ok P s'"
proof -
  from assms(2) obtain n t where st: "es_status s = Active" "sp_event_position p = es_event_position s"
    "checked_add (es_event_position s) 1 = Some n"
    "validate_proposal P (es_binding s) (cursor_of s) (es_event_position s) p = Inr ()"
    "check_receipt_budget P s (sp_entry p) = Inr t"
    "bump_version (s\<lparr>es_event_position := n, es_proposal := Some p\<rparr>) = Inr s'"
    by (auto simp: stage_proposal_def if_Inl_ok bind_res_ok ok_or_ok check_proposal_receipt_budget_ok ex_unit)
  let ?n = "s\<lparr>es_event_position := n, es_proposal := Some p\<rparr>"
  note d = state_okD [OF assms(1)]
  have "validate_recovered_proposal P ?n p = Inr ()"
    using st assms(3-5) by (simp add: recovered_proposal_ok check_proposal_receipt_budget_ok)
  moreover have "status_ok P ?n" using d(4) st(1) by (auto simp: status_ok_def validate_end_ok)
  ultimately have "state_ok P ?n" using d by (simp add: state_ok_def lanes_ok_def pending_ok_def)
  with bump_ok [OF st(6)] show ?thesis by simp
qed

lemma indexed_effects:
  assumes "indexed_dispatch_effects es = Inr ix"
  shows "ix = map (\<lambda>x. (word_of_nat (fst x), snd x)) (enumerate 0 es)"
proof -
  have "list_all2 (\<lambda>x y. y = (word_of_nat (fst x), snd x)) (enumerate 0 es) ix"
    using assms unfolding indexed_dispatch_effects_def collect_res_ok
    by (rule list_all2_mono) (auto simp: if_Inr_ok split: prod.splits if_splits)
  then show ?thesis by (auto simp: list_all2_conv_all_nth intro!: nth_equalityI)
qed

lemma indexed_effects_snd:
  "indexed_dispatch_effects es = Inr ix \<Longrightarrow> map snd (filter (\<lambda>(_, e). Q e) ix) = filter Q es"
proof -
  assume "indexed_dispatch_effects es = Inr ix"
  from indexed_effects [OF this] have "map snd ix = es" by (simp add: comp_def)
  moreover have "map snd (filter (\<lambda>(_, e). Q e) ix) = filter Q (map snd ix)"
    by (induction ix) auto
  ultimately show ?thesis by simp
qed

lemma indexed_effects_valid:
  assumes ix: "indexed_dispatch_effects es = Inr ix" and budget: "check_effect_budget P es = Inr ()"
  shows "validate_effects P (filter (\<lambda>(_, e). Q e) ix) = Inr ()"
proof -
  have n: "length es \<le> 128" using budget by (simp add: check_effect_budget_ok MAX_EFFECTS_def)
  have "map fst ix = map word_of_nat (map fst (enumerate 0 es))"
    by (simp only: indexed_effects [OF ix] map_map comp_def fst_conv)
  then have fst: "map fst ix = map word_of_nat [0..<length es]" by (simp only: map_fst_enumerate) simp
  have ord: "unat (word_of_nat i :: u32) = i" if "i < length es" for i using that n by (simp add: unat_of_nat)
  have "sorted_wrt (<) (map fst ix)"
    unfolding fst by (auto simp: sorted_wrt_map sorted_wrt_iff_nth_less word_less_nat_alt ord)
  then have "sorted_wrt (<) (map fst (filter (\<lambda>(_, e). Q e) ix))"
    by (simp add: sorted_wrt_map sorted_wrt_filter)
  moreover have "\<forall>x \<in> set ix. unat (fst x) < MAX_EFFECTS"
  proof
    fix x assume "x \<in> set ix"
    then have "fst x \<in> set (map fst ix)" by simp
    then obtain i where "i < length es" "fst x = word_of_nat i" unfolding fst by auto
    with ord n show "unat (fst x) < MAX_EFFECTS" by (simp add: MAX_EFFECTS_def)
  qed
  ultimately show ?thesis
    using effect_budget_filter [OF budget, of Q] indexed_effects_snd [OF ix, of Q]
    by (auto simp: validate_effects_ok)
qed

lemma apply_agreed_state_ok:
  assumes "state_ok P s" "apply_agreed P s ev shared local es ix lc out callout = Inr (s', f)"
    "indexed_dispatch_effects es = Inr ix" "check_effect_budget P es = Inr ()"
  shows "state_ok P s'"
proof -
  from assms(2) obtain p where p: "stage_proposal P s p = Inr s'"
    "sp_effects p = filter (\<lambda>(_, x). \<not> is_broadcast x) ix" "validate_outgoing (sp_outgoing p) = Inr ()"
    "sp_status p \<noteq> Active \<longrightarrow> sp_callout p = None"
    by (auto simp: apply_agreed_def Let_def bind_res_ok proposal_new_def if_Inl_ok ex_unit)
  from stage_proposal_state_ok [OF assms(1) p(1) _ p(3,4)] show ?thesis
    using indexed_effects_valid [OF assms(3,4), of "\<lambda>x. \<not> is_broadcast x"] by (simp add: p(2))
qed

lemma apply_local_state_ok:
  assumes "state_ok P s" "apply_local P s ev shared local es lc out callout = Inr s'"
    "check_effect_budget P es = Inr ()"
  shows "state_ok P s'"
proof -
  from assms(2) obtain outgoing direct n co v where
    l: "of_shared P shared = es_agreed_state s" "queue_directs s (es_direct s) es = Inr direct"
      "es_proposal s = None" "es_status s = Active" "validate_outgoing outgoing = Inr ()"
    and s': "s' = s\<lparr>es_event_position := n, es_shared_state := shared, es_local_state := local,
                    es_outgoing := outgoing, es_status := Active, es_callout := co, es_version := v,
                    es_direct := direct\<rparr>"
    by (auto simp: apply_local_def install_dispatch_def Let_def bind_res_ok if_Inl_ok ok_or_ok bump_version_ok ex_unit)
  note d = state_okD [OF assms(1)]
  have "es_end_phase s = Open" using d(4) l(4) by (intro open_phase) (auto simp: is_terminal_def)
  then have "lanes_ok P s direct"
    using queue_directs_ok [OF d(3) _ l(2)] effect_budget_member [OF assms(3)] by blast
  moreover have "status_ok P s'" using d(4) l(4) by (auto simp: s' status_ok_def validate_end_ok cursor_of_def)
  ultimately show ?thesis
    using d l(1,3,5) unfolding s'
    using last_certificate_cong [of "s\<lparr>es_event_position := n, es_shared_state := shared, es_local_state := local,
                    es_outgoing := outgoing, es_status := Active, es_callout := co, es_version := v,
                    es_direct := direct\<rparr>" s P]
    by (simp add: state_ok_def lanes_ok_def pending_ok_def core_ok_def)
qed

lemma apply_dispatch_state_ok:
  assumes "state_ok P s" "apply_dispatch P s ev shared local es out pending callout = Inr (s', f)"
  shows "state_ok P s'"
proof -
  from assms(2) obtain ix lc where "indexed_dispatch_effects es = Inr ix" "check_effect_budget P es = Inr ()"
    "apply_agreed P s ev shared local es ix lc out callout = Inr (s', f)
     \<or> apply_local P s ev shared local es lc out callout = Inr s'"
    by (auto simp: apply_dispatch_def bind_res_ok if_Inl_ok ex_unit split: if_splits)
  with apply_agreed_state_ok [OF assms(1)] apply_local_state_ok [OF assms(1)] show ?thesis by blast
qed

end
