(* ===== verification/Execution_Run.thy ===== *)
theory Execution_Run
  imports Invariant_Steps
begin

text \<open>
  Runs of one participant's execution.  \<open>exec_step\<close> has one rule per public operation of
  \<open>ExecutionState\<close> and is labelled with the trace entries the operation commits; \<open>run\<close> collects
  the labels, so that \<open>reachable P s tr\<close> relates a state to the certified trace the store holds
  for it.  The invariants are instances of the locale \<open>run_invariant\<close>.
\<close>

section \<open>Labelled runs\<close>

inductive run :: "('s \<Rightarrow> bool) \<Rightarrow> ('s \<Rightarrow> 'e list \<Rightarrow> 's \<Rightarrow> bool) \<Rightarrow> 's \<Rightarrow> 'e list \<Rightarrow> bool" for init step where
  run_init: "init s \<Longrightarrow> run init step s []"
| run_step: "run init step s tr \<Longrightarrow> step s es s' \<Longrightarrow> run init step s' (tr @ es)"

locale run_invariant =
  fixes init :: "'s \<Rightarrow> bool"
    and step :: "'s \<Rightarrow> 'e list \<Rightarrow> 's \<Rightarrow> bool"
    and inv :: "'s \<Rightarrow> 'e list \<Rightarrow> bool"
  assumes inv_init: "init s \<Longrightarrow> inv s []"
    and inv_step: "inv s tr \<Longrightarrow> step s es s' \<Longrightarrow> inv s' (tr @ es)"
begin

lemma holds: "run init step s tr \<Longrightarrow> inv s tr"
  by (induction rule: run.induct) (auto intro: inv_init inv_step)

end

section \<open>The steps of an execution\<close>

definition initial :: "prims \<Rightarrow> execution_state \<Rightarrow> bool" where
  "initial P s \<longleftrightarrow> (\<exists>eid act me shared local. state_new P eid act me shared local = Inr s)"

inductive exec_step :: "prims \<Rightarrow> execution_state \<Rightarrow> trace_entry list \<Rightarrow> execution_state \<Rightarrow> bool" for P where
  step_activate: "activate s = Inr s' \<Longrightarrow> exec_step P s [] s'"
| step_dispatch: "apply_dispatch P s ev shared local effects out pending callout = Inr (s', frame)
     \<Longrightarrow> exec_step P s [] s'"
| step_drop: "drop_outgoing_head s = Inr s' \<Longrightarrow> exec_step P s [] s'"
| step_sign: "add_step_signature P s sg = Inr (s', None) \<Longrightarrow> exec_step P s [] s'"
| step_complete: "add_step_signature P s sg = Inr (s', Some q) \<Longrightarrow> exec_step P s [sp_entry q] s'"
| step_certify: "certify_step P s cert = Inr (s', q) \<Longrightarrow> exec_step P s [sp_entry q] s'"
| step_stop: "stop P s a = Inr s' \<Longrightarrow> exec_step P s [] s'"
| step_publish: "artifact_new P body = Inr art \<Longrightarrow> publish_receipt P s art = Inr s' \<Longrightarrow> exec_step P s [] s'"
| step_record: "record_direct s peer seq = Inr s' \<Longrightarrow> exec_step P s [] s'"
| step_ack: "ack_direct s peer seq = Inr (s', r) \<Longrightarrow> exec_step P s [] s'"
| step_confirm: "confirm_end s peer = Inr (s', r) \<Longrightarrow> exec_step P s [] s'"
| step_expire: "expire_end s = Inr s' \<Longrightarrow> exec_step P s [] s'"

abbreviation reachable :: "prims \<Rightarrow> execution_state \<Rightarrow> trace_entry list \<Rightarrow> bool" where
  "reachable P \<equiv> run (initial P) (exec_step P)"

section \<open>The state invariant along runs\<close>

lemma initial_state_ok: "initial P s \<Longrightarrow> state_ok P s"
  by (auto simp: initial_def intro: state_new_ok)

lemma exec_step_state_ok:
  assumes "exec_step P s es s'" "borsh_layout P" "state_ok P s"
  shows "state_ok P s'"
  using assms
  by (induction rule: exec_step.induct)
    (auto intro: activate_ok apply_dispatch_state_ok drop_outgoing_head_ok add_step_signature_state_ok
      certify_step_state_ok stop_ok publish_receipt_ok record_direct_ok ack_direct_ok confirm_end_ok expire_end_ok)

interpretation state_run: run_invariant "initial P" "exec_step P" "\<lambda>s tr. borsh_layout P \<longrightarrow> state_ok P s" for P
  by unfold_locales (auto intro: initial_state_ok exec_step_state_ok)

section \<open>The lifecycle machine\<close>

text \<open>What an execution promises about its status, without its data.\<close>

inductive lifecycle_step :: "execution_status \<Rightarrow> execution_status \<Rightarrow> bool" where
  lc_activate: "lifecycle_step Activating Active"
| lc_certify: "lifecycle_step Active (Certified out)"
| lc_shared_stop: "lifecycle_step Active (Stopped (SharedStop kind c reason))"
| lc_stop: "st = Activating \<or> st = Active \<Longrightarrow> lifecycle_step st (Stopped (Authenticated a))"
| lc_complete: "lifecycle_step (Certified out) (Completed out rid)"
| lc_publish_stop: "lifecycle_step (Stopped cause) (StoppedPublished cause rid)"

inductive_cases lifecycle_from_published: "lifecycle_step (Completed out rid) st"
inductive_cases lifecycle_from_stop_published: "lifecycle_step (StoppedPublished cause rid) st"
inductive_cases lifecycle_from_certified: "lifecycle_step (Certified out) st"
inductive_cases lifecycle_from_stopped: "lifecycle_step (Stopped cause) st"

text \<open>An operation that commits nothing keeps the cursor and the trace; its status stays or moves by
  activation, an authenticated stop or publication.\<close>

definition quiet_step :: "execution_state \<Rightarrow> execution_state \<Rightarrow> bool" where
  "quiet_step s s' \<longleftrightarrow>
     es_binding s' = es_binding s \<and> es_producer s' = es_producer s \<and> es_execution_id s' = es_execution_id s
     \<and> es_receipt_overhead s' = es_receipt_overhead s \<and> cursor_of s' = cursor_of s
     \<and> es_trace_bytes s' = es_trace_bytes s \<and> es_last_certificate s' = es_last_certificate s
     \<and> (es_status s' = es_status s
        \<or> lifecycle_step (es_status s) (es_status s')
          \<and> (\<forall>out. es_status s' \<noteq> Certified out) \<and> (\<forall>k c r. es_status s' \<noteq> Stopped (SharedStop k c r)))"

text \<open>An operation that commits installs a staged proposal with a verified certificate.\<close>

definition commit_step ::
  "prims \<Rightarrow> execution_state \<Rightarrow> shared_proposal \<Rightarrow> step_certificate \<Rightarrow> execution_state \<Rightarrow> bool" where
  "commit_step P s p cert s' \<longleftrightarrow>
     (\<exists>cur t. proposal_at P (es_binding s) (cursor_of s) p (cert_commitment cert)
       \<and> (\<exists>p0. es_proposal s = Some p0 \<and> sp_entry p0 = sp_entry p)
       \<and> certificate_verify P cert (es_binding s) = Inr ()
       \<and> advance P (cursor_of s) (cert_commitment cert) = Inr cur
       \<and> check_receipt_budget P s (sp_entry p) = Inr t
       \<and> es_binding s' = es_binding s \<and> es_producer s' = es_producer s \<and> es_execution_id s' = es_execution_id s
       \<and> es_receipt_overhead s' = es_receipt_overhead s \<and> cursor_of s' = cur \<and> es_trace_bytes s' = t
       \<and> es_last_certificate s' = Some cert \<and> es_status s' = sp_status p
       \<and> es_shared_state s' = sp_shared_state p \<and> es_local_state s' = sp_local_state p
       \<and> es_outgoing s' = sp_outgoing p \<and> es_proposal s' = None \<and> es_callout s' = sp_callout p)"

lemma bump_quiet: "bump_version s = Inr s' \<Longrightarrow> quiet_step s0 s \<Longrightarrow> quiet_step s0 s'"
  by (auto simp: bump_version_ok quiet_step_def)

lemma install_commit:
  assumes "install_certified P s cert = Inr (s', q)"
  shows "\<exists>p. es_proposal s = Some p \<and> q = committed_proposal cert p \<and> commit_step P s p cert s'"
proof -
  from assms obtain p cur t where i: "es_proposal s = Some p"
    "validate_proposal P (es_binding s) (cursor_of s) (sp_event_position p) p = Inr ()"
    "commit_entry P (es_binding s) (sp_entry p) (es_agreed_link s) = Inr (cert_commitment cert)"
    "certificate_verify P cert (es_binding s) = Inr ()"
    "advance P (cursor_of s) (cert_commitment cert) = Inr cur"
    "check_receipt_budget P s (sp_entry p) = Inr t"
    "s' = (begin_end (installed s cert p cur t))\<lparr>es_callout := sp_callout p, es_proposal := None\<rparr>"
    "q = committed_proposal cert p"
    by (auto simp: install_certified_ok)
  have "proposal_at P (es_binding s) (cursor_of s) p (cert_commitment cert)"
    using i(2,3) by (auto simp: validate_proposal_ok proposal_at_def cursor_of_def)
  moreover have "cursor_of s' = cur" by (cases cur) (simp add: i(7) installed_def cursor_of_def)
  ultimately show ?thesis using i by (auto simp: commit_step_def installed_def)
qed

lemma install_commit_signed:
  assumes "install_certified P (s\<lparr>es_proposal := Some p\<rparr>) cert = Inr (s', q)"
    "es_proposal s = Some p0" "sp_entry p0 = sp_entry p"
  shows "q = committed_proposal cert p \<and> commit_step P s p cert s'"
proof -
  from install_commit [OF assms(1)]
  have "q = committed_proposal cert p" "commit_step P (s\<lparr>es_proposal := Some p\<rparr>) p cert s'" by auto
  moreover have "check_receipt_budget P (s\<lparr>es_proposal := x\<rparr>) e = check_receipt_budget P s e" for x e
    by (simp add: check_receipt_budget_def check_receipt_entries_def certified_size_def cong: if_cong)
  ultimately show ?thesis using assms(2,3) by (simp add: commit_step_def)
qed

lemma commit_bump: "bump_version s = Inr s' \<Longrightarrow> commit_step P s0 p cert s \<Longrightarrow> commit_step P s0 p cert s'"
  by (auto simp: bump_version_ok commit_step_def)

lemma quiet_refl [simp]: "quiet_step s s"
  by (simp add: quiet_step_def)

lemma status_moves [simp]:
  "lifecycle_step Activating Active"
  "lifecycle_step (Certified out) (Completed out rid)"
  "lifecycle_step (Stopped cause) (StoppedPublished cause rid)"
  "\<not> is_terminal st \<Longrightarrow> lifecycle_step st (Stopped (Authenticated a))"
  by (auto intro: lifecycle_step.intros lc_stop simp: is_terminal_def split: execution_status.splits)

lemma activate_quiet: "activate s = Inr s' \<Longrightarrow> quiet_step s s'"
  by (auto simp: activate_def bump_version_ok quiet_step_def cursor_of_def split: if_splits)

lemma drop_quiet: "drop_outgoing_head s = Inr s' \<Longrightarrow> quiet_step s s'"
  by (auto simp: drop_outgoing_head_def bump_version_ok quiet_step_def split: if_splits)

lemma begin_end_quiet: "quiet_step s0 s \<Longrightarrow> quiet_step s0 (begin_end s)"
  by (auto simp: begin_end_def quiet_step_def split: if_splits)

lemma stop_quiet: "stop P s a = Inr s' \<Longrightarrow> quiet_step s s'"
  by (auto simp: stop_def bind_res_ok if_Inl_ok status_stopped_def
      split: if_splits elim!: bump_quiet intro!: begin_end_quiet) (simp add: quiet_step_def)

lemma publish_quiet: "publish_receipt P s art = Inr s' \<Longrightarrow> quiet_step s s'"
  by (auto simp: publish_receipt_def published_status_def bind_res_ok bump_version_ok quiet_step_def Let_def
      split: execution_status.splits receipt_termination.splits if_splits)

lemma direct_quiet:
  "record_direct s peer seq = Inr s' \<Longrightarrow> quiet_step s s'"
  "ack_direct s peer seq = Inr (s', r) \<Longrightarrow> quiet_step s s'"
  by (auto simp: record_direct_def ack_direct_def bind_res_ok bump_version_ok quiet_step_def
      split: if_splits option.splits)

lemma end_quiet:
  "confirm_end s peer = Inr (s', r) \<Longrightarrow> quiet_step s s'"
  "expire_end s = Inr s' \<Longrightarrow> quiet_step s s'"
  by (auto simp: confirm_end_def expire_end_def bind_res_ok bump_version_ok quiet_step_def
      split: if_splits option.splits end_phase.splits)

lemma stage_quiet: "stage_proposal P s p = Inr s' \<Longrightarrow> quiet_step s s'"
  by (auto simp: stage_proposal_def bind_res_ok if_Inl_ok bump_version_ok quiet_step_def split: if_splits)

lemma dispatch_quiet:
  assumes "apply_dispatch P s ev shared local effects out pending callout = Inr (s', frame)"
  shows "quiet_step s s'"
proof -
  have local: "quiet_step s s'" if "apply_local P s ev shared local effects l out callout = Inr s'" for l s'
    using that by (auto simp: apply_local_def install_dispatch_def Let_def bind_res_ok if_Inl_ok bump_version_ok quiet_step_def
        split: if_splits)
  have agreed: "quiet_step s s'" if "apply_agreed P s ev shared local effects i l out callout = Inr (s', frame)" for i l
    using that by (auto simp: apply_agreed_def Let_def bind_res_ok intro: stage_quiet)
  show ?thesis
    using assms by (auto simp: apply_dispatch_def bind_res_ok if_Inl_ok ex_unit intro: agreed local split: if_splits)
qed

lemma sign_cases:
  assumes "add_step_signature P s sg = Inr (s', r)"
  shows "(r = None \<and> quiet_step s s')
    \<or> (\<exists>p cert. r = Some (committed_proposal cert p) \<and> commit_step P s p cert s')"
proof -
  from assms obtain p c p' where a: "es_proposal s = Some p"
    and add: "add_signature P (es_binding s) c sg p = Inr p'"
    and br: "if length (sp_signatures p') = length (binding_tickets (es_binding s))
           then \<exists>cert s1 q. certificate_from_signatures P (es_binding s) c p' = Inr cert
                  \<and> install_certified P (s\<lparr>es_proposal := Some p'\<rparr>) cert = Inr (s1, q)
                  \<and> bump_version s1 = Inr s' \<and> r = Some q
           else bump_version (s\<lparr>es_proposal := Some p'\<rparr>) = Inr s' \<and> r = None"
    unfolding add_step_signature_ok by blast
  show ?thesis
  proof (cases "length (sp_signatures p') = length (binding_tickets (es_binding s))")
    case True
    with br obtain cert s1 q where c: "install_certified P (s\<lparr>es_proposal := Some p'\<rparr>) cert = Inr (s1, q)"
      "bump_version s1 = Inr s'" "r = Some q" by auto
    have "sp_entry p = sp_entry p'" using add_signature_fields [OF add] by auto
    from install_commit_signed [OF c(1) a this] commit_bump [OF c(2)] c(3) show ?thesis by blast
  next
    case False
    with br show ?thesis by (auto simp: bump_version_ok quiet_step_def)
  qed
qed

text \<open>Every operation is quiet or commits exactly one certified entry.\<close>

lemma exec_step_effect:
  assumes "exec_step P s es s'"
  shows "(es = [] \<and> quiet_step s s')
    \<or> (\<exists>p cert. es = [sp_entry (committed_proposal cert p)] \<and> commit_step P s p cert s')"
  using assms
proof cases
  case (step_certify cert q)
  then obtain s1 where c: "install_certified P s cert = Inr (s1, q)" "bump_version s1 = Inr s'"
    by (auto simp: certify_step_ok)
  from install_commit [OF c(1)] commit_bump [OF c(2)] step_certify(1) show ?thesis by blast
next
  case (step_complete sg q)
  with sign_cases [of P s sg s' "Some q"] show ?thesis by blast
qed (auto dest: activate_quiet dispatch_quiet drop_quiet stop_quiet publish_quiet direct_quiet end_quiet sign_cases)

end
