(* ===== verification/Trace_Refinement.thy ===== *)
theory Trace_Refinement
  imports Execution_Run
begin

text \<open>
  The execution aggregate against the trace it certifies.  The aggregate keeps only a cursor, a
  byte count and a status; the store keeps the committed entries.  \<open>trace_ok\<close> is the relation
  between the two: the verifier \<open>validate_agreed_trace\<close> accepts the entries and ends exactly on
  the cursor, and the status is the one the last entry decides.
\<close>

section \<open>The relation\<close>

definition no_terminal :: "trace_entry list \<Rightarrow> bool" where
  "no_terminal tr \<longleftrightarrow> (\<forall>e \<in> set tr. te_terminal e = None)"

definition entry_size :: "prims \<Rightarrow> trace_entry \<Rightarrow> nat" where
  "entry_size P e = length (borsh P (entry_value e))"

fun cause_ends :: "prims \<Rightarrow> stop_cause \<Rightarrow> trace_entry list \<Rightarrow> bool" where
  "cause_ends P (Authenticated a) tr \<longleftrightarrow> no_terminal tr"
| "cause_ends P (SharedStop kind c reason) tr \<longleftrightarrow>
     tr \<noteq> [] \<and> stop_terminal_matches kind reason (te_terminal (last tr))
     \<and> te_step (last tr) = sc_step c \<and> entry_hash P (last tr) = Inr (sc_entry_hash c)"

fun status_ends :: "prims \<Rightarrow> execution_status \<Rightarrow> trace_entry list \<Rightarrow> bool" where
  "status_ends P Activating tr \<longleftrightarrow> no_terminal tr"
| "status_ends P Active tr \<longleftrightarrow> no_terminal tr"
| "status_ends P (Certified out) tr \<longleftrightarrow> tr \<noteq> [] \<and> te_terminal (last tr) = Some (TerminalEnd (outcome_borsh out))"
| "status_ends P (Completed out rid) tr \<longleftrightarrow>
     tr \<noteq> [] \<and> te_terminal (last tr) = Some (TerminalEnd (outcome_borsh out))"
| "status_ends P (Stopped cause) tr \<longleftrightarrow> cause_ends P cause tr"
| "status_ends P (StoppedPublished cause rid) tr \<longleftrightarrow> cause_ends P cause tr"

definition trace_ok :: "prims \<Rightarrow> execution_state \<Rightarrow> trace_entry list \<Rightarrow> bool" where
  "trace_ok P s tr \<longleftrightarrow>
     validate_agreed_trace P (es_binding s) tr = Inr (cursor_of s)
     \<and> length tr = unat (es_agreed_step s)
     \<and> unat (es_trace_bytes s) = sum_list (map (entry_size P) tr)
     \<and> no_terminal (butlast tr) \<and> status_ends P (es_status s) tr"

section \<open>Extending an accepted trace\<close>

lemma no_terminal_simps [simp]:
  "no_terminal []" "no_terminal (e # tr) \<longleftrightarrow> te_terminal e = None \<and> no_terminal tr"
  "no_terminal (tr @ tr') \<longleftrightarrow> no_terminal tr \<and> no_terminal tr'"
  by (auto simp: no_terminal_def)

lemma no_terminal_butlast: "no_terminal tr \<Longrightarrow> no_terminal (butlast tr)"
  by (auto simp: no_terminal_def dest: in_set_butlastD)

lemma validate_trace_snoc:
  assumes "no_terminal xs"
  shows "validate_trace_from P b keys cur (xs @ [e]) =
    bind_res (validate_trace_from P b keys cur xs) (\<lambda>mid. validate_trace_from P b keys mid [e])"
  using assms
proof (induction xs arbitrary: cur)
  case Nil
  show ?case by simp
next
  case (Cons x xs)
  then have "terminal_effect_count x = 0" by (simp add: terminal_effect_count_def)
  with Cons show ?case by (simp add: bind_res_def split: sum.split)
qed

lemma agreed_trace_snoc:
  assumes "no_terminal xs"
  shows "validate_agreed_trace P b (xs @ [e]) = Inr cur \<longleftrightarrow>
    (\<exists>mid keys. validate_agreed_trace P b xs = Inr mid \<and> participant_bls_keys b = Inr keys
       \<and> validate_trace_from P b keys mid [e] = Inr cur)"
  by (auto simp: validate_agreed_trace_def bind_res_ok validate_trace_snoc [OF assms])

lemma validate_trace_one:
  "validate_trace_from P b keys cur [e] = Inr nc \<longleftrightarrow>
     (\<exists>c. validate_shared_entry P b (next_step cur) e = Inr () \<and> commit_entry P b e (chain_hash cur) = Inr c
        \<and> advance P cur c = Inr nc \<and> verify_full_agreement P (te_agreement e) c keys = Inr ())"
  by (auto simp: bind_res_ok map_err_ok)

section \<open>Operations preserve the relation\<close>

lemma initial_trace_ok: "initial P s \<Longrightarrow> trace_ok P s []"
proof -
  assume "initial P s"
  then have s: "state_ok P s" "es_agreed_step s = 0" "es_trace_bytes s = 0" "es_status s = Activating"
    "cursor_of s = start_cursor (es_binding s)"
    by (auto simp: initial_state_ok)
      (auto simp: initial_def state_new_def bind_res_ok if_Inl_ok genesis_def start_cursor_def cursor_of_def
         CHAIN_START_def Let_def)
  then obtain ks where "participant_keys (es_binding s) = Inr ks"
    using participant_keys_ok by (fastforce simp: state_ok_def core_ok_def)
  with s show ?thesis by (simp add: trace_ok_def validate_agreed_trace_def participant_bls_keys_def)
qed

lemma quiet_trace_ok:
  assumes "quiet_step s s'" "trace_ok P s tr"
  shows "trace_ok P s' tr"
proof -
  have q: "cursor_of s' = cursor_of s" "es_binding s' = es_binding s" "es_trace_bytes s' = es_trace_bytes s"
    using assms(1) by (auto simp: quiet_step_def)
  have st: "status_ends P (es_status s) tr" using assms(2) by (simp add: trace_ok_def)
  have "status_ends P (es_status s') tr"
  proof (cases "es_status s' = es_status s")
    case False
    with assms(1) have move: "lifecycle_step (es_status s) (es_status s')"
      and "\<forall>out. es_status s' \<noteq> Certified out" "\<forall>k c r. es_status s' \<noteq> Stopped (SharedStop k c r)"
      by (auto simp: quiet_step_def)
    from this st show ?thesis by (cases rule: lifecycle_step.cases) auto
  qed (use st in simp)
  moreover have "es_agreed_step s' = es_agreed_step s" using q(1) by (simp add: cursor_of_def)
  ultimately show ?thesis using assms(2) q by (simp add: trace_ok_def)
qed

lemma committed_size:
  assumes layout: "borsh_layout P" and b: "binding_ok P (es_binding s)"
    and v: "certificate_verify P cert (es_binding s) = Inr ()"
    and budget: "check_receipt_budget P s (sp_entry p) = Inr t"
  shows "unat t = unat (es_trace_bytes s) + entry_size P (sp_entry (committed_proposal cert p))"
proof -
  from budget obtain n :: u64 and signers where n: "unat t = unat (es_trace_bytes s) + unat n"
    "full (length (binding_tickets (es_binding s))) = Inr signers"
    "unat n = length (borsh P (entry_value (certified_entry signers (sp_entry p))))"
    unfolding check_receipt_budget_ok certified_size_ok by blast
  from v obtain keys where k: "participant_bls_keys (es_binding s) = Inr keys"
    "full (length keys) = Inr (att_signers (cert_agreement cert))"
    by (auto simp: certificate_verify_ok)
  then have "length keys = length (binding_tickets (es_binding s))"
    using participant_table(2) [OF b] by (auto simp: participant_bls_keys_def bind_res_ok)
  with k n have "signers = att_signers (cert_agreement cert)" by simp
  with n show ?thesis
    by (simp add: entry_size_def committed_proposal_def certified_entry_def layout_len [OF layout] borsh_len_entry)
qed

lemma committed_ends:
  assumes "validate_proposal_status P e c st = Inr ()" "commit_entry P b e link = Inr c" "no_terminal tr"
  shows "status_ends P st (tr @ [e\<lparr>te_agreement := a\<rparr>])"
proof -
  have "entry_hash P (e\<lparr>te_agreement := a\<rparr>) = Inr (sc_entry_hash c)" "te_step e = sc_step c"
    using assms(2) by (simp_all add: commit_entry_ok for_entry_ok entry_hash_def)
  with assms(1,3) show ?thesis
    by (auto simp: validate_proposal_status_ok split: option.splits step_terminal.splits)
qed

lemma commit_trace_ok:
  assumes layout: "borsh_layout P" and ok: "state_ok P s" and tr: "trace_ok P s tr"
    and commit: "commit_step P s p cert s'"
  shows "trace_ok P s' (tr @ [sp_entry (committed_proposal cert p)])"
proof -
  let ?c = "cert_commitment cert" and ?e = "sp_entry (committed_proposal cert p)"
  from commit obtain cur t where c: "proposal_at P (es_binding s) (cursor_of s) p ?c" "es_proposal s \<noteq> None"
    "certificate_verify P cert (es_binding s) = Inr ()" "advance P (cursor_of s) ?c = Inr cur"
    "check_receipt_budget P s (sp_entry p) = Inr t"
    and s': "es_binding s' = es_binding s" "cursor_of s' = cur" "es_trace_bytes s' = t" "es_status s' = sp_status p"
    by (auto simp: commit_step_def)
  have active: "es_status s = Active" and b: "binding_ok P (es_binding s)"
    using ok c(2) by (auto simp: state_ok_def status_ok_def core_ok_def)
  with tr have non: "no_terminal tr" by (simp add: trace_ok_def)
  from c(3) obtain keys where k: "participant_bls_keys (es_binding s) = Inr keys"
    "full (length keys) = Inr (att_signers (cert_agreement cert))"
    "verify_full_agreement P (cert_agreement cert) ?c keys = Inr ()"
    by (auto simp: certificate_verify_ok verify_full_agreement_ok)
  have e: "?e = (sp_entry p)\<lparr>te_agreement := cert_agreement cert\<rparr>" by (simp add: committed_proposal_def)
  have "validate_shared_entry P (es_binding s) (next_step (cursor_of s)) ?e = Inr ()"
    using certified_shared_entry [OF layout _ k(2)] c(1) by (simp add: e proposal_at_def)
  then have "validate_trace_from P (es_binding s) keys (cursor_of s) [?e] = Inr cur"
    using c(1,4) k(3) by (simp add: validate_trace_one e proposal_at_def)
  with tr k(1) have "validate_agreed_trace P (es_binding s) (tr @ [?e]) = Inr cur"
    by (auto simp: agreed_trace_snoc [OF non] trace_ok_def)
  moreover have "unat (es_agreed_step s') = unat (es_agreed_step s) + 1"
    using c(4) s'(2) by (auto simp: advance_ok cursor_of_def checked_add_Some)
  moreover have "status_ends P (sp_status p) (tr @ [?e])"
    using c(1) non by (auto simp: e proposal_at_def intro: committed_ends)
  moreover note committed_size [OF layout b c(3,5)]
  ultimately show ?thesis using tr s' non by (simp add: trace_ok_def)
qed

interpretation trace_run: run_invariant "initial P" "exec_step P"
  "\<lambda>s tr. borsh_layout P \<longrightarrow> state_ok P s \<and> trace_ok P s tr" for P
proof
  show "initial P s \<Longrightarrow> borsh_layout P \<longrightarrow> state_ok P s \<and> trace_ok P s []" for s
    by (simp add: initial_state_ok initial_trace_ok)
next
  fix s tr es s'
  assume inv: "borsh_layout P \<longrightarrow> state_ok P s \<and> trace_ok P s tr" and step: "exec_step P s es s'"
  from exec_step_effect [OF step] inv exec_step_state_ok [OF step]
  show "borsh_layout P \<longrightarrow> state_ok P s' \<and> trace_ok P s' (tr @ es)"
    by (auto intro: quiet_trace_ok commit_trace_ok)
qed

end
