(* ===== verification/Receipt_Assembly.thy ===== *)
theory Receipt_Assembly
  imports Trace_Refinement
begin

text \<open>
  Receipt assembly (\<open>assemble_terminal_artifact\<close> of \<open>arena0-store/src/database/execution.rs\<close>) and
  its guarantee: an execution that has ended can always be sealed.  The budget that \<open>stage_proposal\<close>
  and \<open>install_certified\<close> enforce against \<open>ReceiptArtifact::reserved_overhead\<close> is enough for the
  encoded artifact, whichever way the session ends, and the certified trace passes the receipt
  verifier.  The activation and the trace rows are arguments, read from the store.
\<close>

section \<open>Assembly\<close>

definition status_termination :: "execution_status \<Rightarrow> protocol_error + receipt_termination" where
  "status_termination st =
     (case terminal_cause st of
        Some cause \<Rightarrow> Inr (TermStopped cause)
      | None \<Rightarrow>
          (case st of
             Certified _ \<Rightarrow> Inr TermCompleted
           | Completed _ _ \<Rightarrow> Inr TermCompleted
           | _ \<Rightarrow> Inl InvalidTerminalStatus))"

definition assemble_terminal_artifact ::
  "prims \<Rightarrow> activation \<Rightarrow> trace_entry list \<Rightarrow> execution_state \<Rightarrow> protocol_error + receipt_artifact" where
  "assemble_terminal_artifact P act trace s =
     bind_res (status_termination (es_status s)) (\<lambda>termination.
     let out = (case status_terminal_outcome (es_status s) of None \<Rightarrow> [] | Some out \<Rightarrow> outcome_borsh out) in
     bind_res (body_new P \<lparr>sh_activation = act, sh_terminal = termination\<rparr> out
                 (json_as_bytes (od_params (offer_data_of (pa_offer (act_prepared act))))) trace) (\<lambda>body.
     artifact_new P body))"

section \<open>Encoded size against the reserved overhead\<close>

lemma borsh_len_abort: "borsh_len (abort_occurrence_value a) = length (ao_domain a) + length (ao_reason a) + 211"
  by (simp add: abort_occurrence_value_def cursor_value_def)

lemma borsh_len_body:
  "borsh_len (body_value body) = 13 + borsh_len (activation_value (sh_activation (rb_header body)))
     + borsh_len (termination_value (sh_terminal (rb_header body))) + length (rb_outcome body)
     + length (rb_params body) + sum_list (map (borsh_len \<circ> entry_value) (rb_trace body))"
  by (simp add: body_value_def header_value_def)

lemma borsh_len_artifact: "borsh_len (artifact_value a) = 1 + borsh_len (body_value (artifact_body a))"
  by (simp add: artifact_value_def)

lemma fold_max_bound: "x \<in> set xs \<Longrightarrow> x \<le> fold max xs (a :: 'a :: linorder)"
  by (simp flip: Max.set_eq_fold)

text \<open>What a receipt may end with: a bounded outcome or a well-formed cause.\<close>

fun ending_ok :: "receipt_termination \<Rightarrow> bytes \<Rightarrow> bool" where
  "ending_ok TermCompleted out \<longleftrightarrow> length out \<le> MAX_TERMINAL_OUTCOME_BYTES"
| "ending_ok (TermStopped cause) out \<longleftrightarrow> cause_validate cause = Inr () \<and> out = []"

lemma overhead_sizeD:
  assumes "overhead_size P b sh = Inr n" "borsh_layout P"
  shows "borsh_fits (artifact_value (overhead_shape b (fst sh) (snd sh)))"
    "borsh_len (artifact_value (overhead_shape b (fst sh) (snd sh))) = unat n"
  using assms by (auto simp: overhead_size_def bind_res_ok map_err_ok object_length_ok layout_len unat_of_nat)

lemma ending_len:
  assumes "abort_unsigned session sender KindFail 0 (replicate MAX_TERMINAL_REASON_BYTES (CHR ''x'')) cur = Inr occurrence"
    and "sc_domain c = STEP_COMMIT_DOMAIN" "ending_ok t out"
  shows "\<exists>sh \<in> {(TermCompleted, replicate MAX_TERMINAL_OUTCOME_BYTES (0 :: u8)),
      (TermStopped (Authenticated occurrence), []),
      (TermStopped (SharedStop KindFail c (replicate MAX_TERMINAL_REASON_BYTES (CHR ''x''))), [])}.
    borsh_len (termination_value t) + length out \<le> borsh_len (termination_value (fst sh)) + length (snd sh)"
proof (cases t)
  case TermCompleted
  with assms(3) show ?thesis by simp
next
  case (TermStopped cause)
  have o: "ao_domain occurrence = ABORT_OCCURRENCE_DOMAIN" "length (ao_reason occurrence) = MAX_TERMINAL_REASON_BYTES"
    using assms(1) by (auto simp: abort_unsigned_def abort_new_def bind_res_ok abort_validate_shape_def Let_def
        split: if_splits)
  show ?thesis
  proof (cases cause)
    case (Authenticated a)
    then show ?thesis
      using assms(3) TermStopped o
      by (auto simp: borsh_len_abort abort_validate_shape_def if_Inl_ok ensure_size_ok split: if_splits)
  next
    case (SharedStop kind c' reason)
    then show ?thesis
      using assms(2,3) TermStopped by (auto simp: has_step_domain_def ensure_reason_def ensure_size_ok if_Inl_ok)
  qed
qed

definition sealed_body :: "execution_binding \<Rightarrow> receipt_termination \<Rightarrow> bytes \<Rightarrow> trace_entry list \<Rightarrow> receipt_body" where
  "sealed_body b t out tr = (overhead_body b t out)\<lparr>rb_trace := tr\<rparr>"

lemma sealed_body_fields [simp]:
  "rb_header (sealed_body b t out tr) = \<lparr>sh_activation = bind_activation b, sh_terminal = t\<rparr>"
  "rb_outcome (sealed_body b t out tr) = out" "rb_trace (sealed_body b t out tr) = tr"
  "rb_params (sealed_body b t out tr) = json_as_bytes (od_params (binding_offer b))"
  by (simp_all add: sealed_body_def overhead_body_def)

lemma ids_fit [simp]:
  "borsh_fits (state_hash_value h)" "borsh_fits (session_hash_value sh)" "borsh_fits (ed25519_value es)"
  by (cases h, simp, cases sh, simp, cases es, simp)

lemma ending_fits: "ending_ok t out \<Longrightarrow> borsh_fits (termination_value t)"
proof (cases t)
  case (TermStopped cause)
  moreover assume "ending_ok t out"
  ultimately show ?thesis
    by (cases cause) (auto simp: abort_occurrence_value_def cursor_value_def commitment_value_def peer_value_def
        abort_validate_shape_def if_Inl_ok ensure_size_ok ensure_reason_def split: if_splits)
qed simp

lemma reserved_overheadD:
  assumes "reserved_overhead P b = Inr n"
  shows "\<exists>ns occurrence c sender cur.
    collect_res (overhead_size P b) [(TermCompleted, replicate MAX_TERMINAL_OUTCOME_BYTES 0),
      (TermStopped (Authenticated occurrence), []),
      (TermStopped (SharedStop KindFail c (replicate MAX_TERMINAL_REASON_BYTES (CHR ''x''))), [])] = Inr ns
    \<and> abort_unsigned (binding_session_id b) sender KindFail 0 (replicate MAX_TERMINAL_REASON_BYTES (CHR ''x'')) cur
        = Inr occurrence
    \<and> n = fold max ns 0 \<and> sc_domain c = STEP_COMMIT_DOMAIN"
proof (cases "binding_tickets b")
  case Nil
  with assms show ?thesis by (simp add: reserved_overhead_def)
next
  case (Cons t ts)
  with assms show ?thesis
    unfolding reserved_overhead_def Let_def
    by (simp only: list.case bind_res_ok) (elim exE conjE, intro exI conjI, assumption, assumption, simp, simp)
qed

lemma collect_res_member: "collect_res f xs = Inr ys \<Longrightarrow> x \<in> set xs \<Longrightarrow> \<exists>y \<in> set ys. f x = Inr y"
  by (induction xs arbitrary: ys) (auto simp: bind_res_ok)

lemma overhead_covers:
  assumes layout: "borsh_layout P" and o: "reserved_overhead P b = Inr n"
    and ending: "ending_ok t out" and len: "length tr \<le> MAX_RECEIPT_TRACE_ENTRIES"
    and fits: "\<forall>e \<in> set tr. borsh_fits (entry_value e)"
  shows "borsh_fits (body_value (sealed_body b t out tr))"
    "borsh_len (body_value (sealed_body b t out tr)) + 1 \<le> unat n + sum_list (map (entry_size P) tr)"
proof -
  let ?reason = "replicate MAX_TERMINAL_REASON_BYTES (CHR ''x'')"
  from reserved_overheadD [OF o] obtain sender cur occurrence c ns where c: "sc_domain c = STEP_COMMIT_DOMAIN"
    "abort_unsigned (binding_session_id b) sender KindFail 0 ?reason cur = Inr occurrence"
    and ns: "collect_res (overhead_size P b) [(TermCompleted, replicate MAX_TERMINAL_OUTCOME_BYTES 0),
      (TermStopped (Authenticated occurrence), []), (TermStopped (SharedStop KindFail c ?reason), [])] = Inr ns"
    and n: "n = fold max ns 0"
    by (elim exE conjE) (rule that; assumption)
  from ending_len [OF c(2,1) ending] obtain sh where sh:
    "sh \<in> {(TermCompleted, replicate MAX_TERMINAL_OUTCOME_BYTES (0 :: u8)),
      (TermStopped (Authenticated occurrence), []), (TermStopped (SharedStop KindFail c ?reason), [])}"
    "borsh_len (termination_value t) + length out \<le> borsh_len (termination_value (fst sh)) + length (snd sh)" by blast
  from collect_res_member [OF ns, of sh] sh(1) obtain m where m: "overhead_size P b sh = Inr m" "m \<in> set ns"
    unfolding list.set by blast
  note size = overhead_sizeD [OF m(1) layout]
  have "m \<le> n" using fold_max_bound [OF m(2)] by (simp add: n)
  then have "unat m \<le> unat n" by (simp add: word_le_nat_alt)
  moreover have "sum_list (map (borsh_len \<circ> entry_value) tr) = sum_list (map (entry_size P) tr)"
    by (simp add: entry_size_def [abs_def] layout_len [OF layout] comp_def)
  ultimately show "borsh_len (body_value (sealed_body b t out tr)) + 1 \<le> unat n + sum_list (map (entry_size P) tr)"
    using size(2) sh(2)
    by (simp add: borsh_len_artifact borsh_len_body overhead_shape_def overhead_body_def)
  show "borsh_fits (body_value (sealed_body b t out tr))"
    using size(1) ending_fits [OF ending] ending len fits
    by (cases t) (auto simp: artifact_value_def overhead_shape_def overhead_body_def body_value_def header_value_def)
qed

section \<open>The certified trace as a receipt\<close>

lemma trace_entries_valid:
  "validate_trace_from P b keys cur tr = Inr cur' \<Longrightarrow> \<forall>e \<in> set tr. validate_trace_entry P e = Inr ()"
  by (induction tr arbitrary: cur) (auto simp: bind_res_ok validate_shared_entry_ok split: if_splits)

lemma sealed_shape:
  assumes layout: "borsh_layout P" and ok: "state_ok P s" and tr: "trace_ok P s tr" and ending: "ending_ok t out"
  shows "validate_receipt_body_shape P (sealed_body (es_binding s) t out tr) = Inr ()"
    "to_vec P (body_value (sealed_body (es_binding s) t out tr)) = Inr (borsh P (body_value (sealed_body (es_binding s) t out tr)))"
    "length (borsh P (body_value (sealed_body (es_binding s) t out tr))) < MAX_RECEIPT_BYTES"
proof -
  let ?b = "sealed_body (es_binding s) t out tr"
  have core: "reserved_overhead P (es_binding s) = Inr (es_receipt_overhead s)"
    "unat (es_agreed_step s) \<le> MAX_RECEIPT_TRACE_ENTRIES"
    "unat (es_trace_bytes s) + unat (es_receipt_overhead s) \<le> MAX_RECEIPT_BYTES"
    using ok by (simp_all add: state_ok_def core_ok_def)
  have valid: "\<forall>e \<in> set tr. validate_trace_entry P e = Inr ()"
    using tr trace_entries_valid by (fastforce simp: trace_ok_def validate_agreed_trace_def bind_res_ok)
  then have fits: "\<forall>e \<in> set tr. borsh_fits (entry_value e)" by (simp add: validate_trace_entry_ok)
  have len: "length tr \<le> MAX_RECEIPT_TRACE_ENTRIES" using tr core(2) by (simp add: trace_ok_def)
  note cover = overhead_covers [OF layout core(1) ending len fits]
  show v: "to_vec P (body_value ?b) = Inr (borsh P (body_value ?b))" using cover(1) by (simp add: to_vec_def)
  show n: "length (borsh P (body_value ?b)) < MAX_RECEIPT_BYTES"
    using cover(2) core(3) tr by (simp add: layout_len [OF layout] trace_ok_def)
  have "check_all (validate_trace_entry P) tr = Inr ()" using valid by (simp add: check_all_ok)
  then show "validate_receipt_body_shape P ?b = Inr ()"
    using v n len ending
    by (cases t) (simp_all add: validate_receipt_body_shape_def ensure_encoded_def)
qed

text \<open>The ending a status prescribes, and that the state invariant makes it admissible.\<close>

definition ending_of :: "execution_status \<Rightarrow> receipt_termination \<times> bytes" where
  "ending_of st = (case st of Certified out \<Rightarrow> (TermCompleted, outcome_borsh out) | Stopped cause \<Rightarrow> (TermStopped cause, [])
                   | _ \<Rightarrow> (TermCompleted, []))"

definition ended :: "execution_state \<Rightarrow> bool" where
  "ended s \<longleftrightarrow> status_receipt_work (es_status s) = Assemble"

lemma ended_cases:
  assumes "ended s"
  obtains (certified) out where "es_status s = Certified out" | (stopped) cause where "es_status s = Stopped cause"
  using assms by (cases "es_status s") (auto simp: ended_def)

lemma ended_status:
  assumes "ended s" "state_ok P s"
  shows "status_validate_binding P (es_status s) (es_binding s) (cursor_of s) = Inr ()"
  using assms by (auto simp: state_ok_def status_ok_def elim: ended_cases)

lemma ending_of_ok:
  assumes "ended s" "state_ok P s"
  shows "ending_ok (fst (ending_of (es_status s))) (snd (ending_of (es_status s)))"
  using assms(1)
proof (cases rule: ended_cases)
  case (certified out)
  then show ?thesis using ended_status [OF assms]
    by (auto simp: ending_of_def bind_res_ok outcome_validate_def validate_borsh_def if_Inl_ok split: if_splits)
next
  case (stopped cause)
  then show ?thesis using ended_status [OF assms] by (auto simp: ending_of_def bind_res_ok)
qed

lemma trace_ends:
  assumes "trace_ok P s tr"
  shows "es_status s = Certified out \<Longrightarrow>
      validate_receipt_trace P (es_binding s) tr (TraceCompleted (outcome_borsh out)) = Inr (cursor_of s)"
    and "es_status s = Stopped (Authenticated a) \<Longrightarrow>
      validate_receipt_trace P (es_binding s) tr TraceAuthenticated = Inr (cursor_of s)"
    and "es_status s = Stopped (SharedStop kind c reason) \<Longrightarrow>
      validate_receipt_trace P (es_binding s) tr (TraceStopped kind reason) = Inr (cursor_of s)"
  using assms
  by (auto simp: trace_ok_def validate_receipt_trace_def final_entry_def no_terminal_def terminal_effect_count_def)

lemma stopped_receipt:
  assumes "state_ok P s" "trace_ok P s tr" "es_status s = Stopped cause" "rb_trace body = tr"
  shows "validate_stopped_receipt P (es_binding s) body cause = Inr ()"
proof -
  have "status_validate_binding P (Stopped cause) (es_binding s) (cursor_of s) = Inr ()"
    using ended_status [of s P] assms by (simp add: ended_def)
  then have v: "cause_validate cause = Inr ()" "cause_validate_binding P cause (es_binding s) (cursor_of s) = Inr ()"
    by (auto simp: bind_res_ok)
  have "next_step (cursor_of s) = 0 \<Longrightarrow> chain_hash (cursor_of s) = CHAIN_START"
    using assms(1) by (simp add: state_ok_def core_ok_def cursor_of_def)
  note v = v this
  show ?thesis
  proof (cases cause)
    case (Authenticated a)
    with v assms trace_ends(2) [OF assms(2)] show ?thesis
      by (auto simp: bind_res_ok if_Inl_ok map_err_ok abort_validate_for_session_def split: if_splits)
  next
    case (SharedStop kind c reason)
    with assms(2,3) have "tr \<noteq> []" "te_step (last tr) = sc_step c" "entry_hash P (last tr) = Inr (sc_entry_hash c)"
      by (auto simp: trace_ok_def)
    with SharedStop v assms(3,4) trace_ends(3) [OF assms(2)] show ?thesis
      by (simp add: final_entry_def map_err_def)
  qed
qed

lemma sealed_valid:
  assumes "borsh_layout P" "state_ok P s" "trace_ok P s tr" "ended s"
  shows "validate_receipt_body P (es_binding s)
    (sealed_body (es_binding s) (fst (ending_of (es_status s))) (snd (ending_of (es_status s))) tr) = Inr ()"
proof -
  let ?t = "fst (ending_of (es_status s))" and ?out = "snd (ending_of (es_status s))"
  note shape = sealed_shape(1) [OF assms(1,2,3) ending_of_ok [OF assms(4,2)]]
  have act: "activation_validate P (bind_activation (es_binding s)) = Inr ()"
    using assms(2) by (simp add: state_ok_def core_ok_def binding_ok_def)
  from assms(4) show ?thesis
  proof (cases rule: ended_cases)
    case (certified out)
    then show ?thesis using shape act trace_ends(1) [OF assms(3) certified]
      by (simp add: validate_receipt_body_def ending_of_def map_err_def header_session_hash_def header_program_hash_def
          binding_session_id_def binding_program_hash_def binding_offer_def)
  next
    case (stopped cause)
    then show ?thesis using shape act stopped_receipt [OF assms(2,3) stopped]
      by (simp add: validate_receipt_body_def ending_of_def map_err_def header_session_hash_def header_program_hash_def
          binding_session_id_def binding_program_hash_def binding_offer_def)
  qed
qed

section \<open>Sealing an ended execution\<close>

lemma sealed_artifact:
  assumes "borsh_layout P" "state_ok P s" "trace_ok P s tr" "ended s"
  shows "\<exists>art. assemble_terminal_artifact P (bind_activation (es_binding s)) tr s = Inr art
    \<and> artifact_body art
      = sealed_body (es_binding s) (fst (ending_of (es_status s))) (snd (ending_of (es_status s))) tr"
proof -
  let ?b = "es_binding s" and ?t = "fst (ending_of (es_status s))" and ?out = "snd (ending_of (es_status s))"
  let ?body = "sealed_body ?b ?t ?out tr"
  note e = ending_of_ok [OF assms(4,2)]
  note shape = sealed_shape [OF assms(1,2,3) e]
  have params: "length (json_as_bytes (od_params (binding_offer ?b))) \<le> MAX_PARAMS_LEN"
    using overhead_covers(1) [OF assms(1) _ e, of "?b" _ "[]"] assms(2)
    by (auto simp: state_ok_def core_ok_def body_value_def)
  have len: "length tr \<le> MAX_RECEIPT_TRACE_ENTRIES"
    using assms(2,3) by (simp add: state_ok_def core_ok_def trace_ok_def)
  have out: "length ?out \<le> MAX_TERMINAL_OUTCOME_BYTES" using e by (cases ?t) auto
  have body: "body_new P (rb_header ?body) ?out (json_as_bytes (od_params (binding_offer ?b))) tr = Inr ?body"
    using params len out shape(1)
    by (simp add: body_new_def ensure_payload_def sealed_body_def overhead_body_def)
  have bind: "binding_new P (bind_activation ?b) = Inr ?b"
    using assms(2) by (simp add: binding_new_ok state_ok_def core_ok_def)
  obtain rid where rid: "derive_body P ?body = Inr rid"
    using shape(2,3) by (simp add: derive_body_def map_err_def ensure_payload_def)
  have encode: "\<exists>bs. artifact_encode P art = Inr bs" if "artifact_body art = ?body" for art
  proof -
    have "borsh_fits (body_value ?body)" using shape(2) by (simp add: to_vec_def split: if_splits)
    then show ?thesis using that shape(3)
      by (simp add: artifact_encode_def to_vec_def artifact_value_def map_err_def ensure_payload_def
          layout_len [OF assms(1)])
  qed
  obtain art where art: "artifact_new P ?body = Inr art" "artifact_body art = ?body"
    using sealed_valid [OF assms] bind rid encode
    by (fastforce simp: artifact_new_def Let_def bind_res_ok split: receipt_termination.splits stop_cause.splits)
  from assms(4) have "status_termination (es_status s) = Inr ?t"
    "(case status_terminal_outcome (es_status s) of None \<Rightarrow> [] | Some out \<Rightarrow> outcome_borsh out) = ?out"
    by (auto simp: status_termination_def ending_of_def elim: ended_cases)
  then show ?thesis using art body
    by (simp add: assemble_terminal_artifact_def binding_offer_def sealed_body_def overhead_body_def)
qed

lemma chain_links_trace:
  "validate_trace_from P b keys cur tr = Inr cur' \<Longrightarrow> chain_links P b (chain_hash cur) tr = Inr (chain_hash cur')"
proof (induction tr arbitrary: cur)
  case (Cons e tr)
  then obtain c mid where "commit_entry P b e (chain_hash cur) = Inr c" "chain_hash mid = link_hash P c"
    "validate_trace_from P b keys mid tr = Inr cur'"
    by (auto simp: bind_res_ok map_err_ok advance_ok split: if_splits)
  with Cons.IH [of mid] show ?case by simp
qed simp

text \<open>The status a sealed execution moves to.\<close>

fun published :: "execution_status \<Rightarrow> receipt_id \<Rightarrow> execution_status" where
  "published (Certified out) rid = Completed out rid"
| "published (Stopped cause) rid = StoppedPublished cause rid"
| "published st rid = st"

lemma published_status_sealed:
  assumes "trace_ok P s tr" "ended s"
    and body: "artifact_body art
      = sealed_body (es_binding s) (fst (ending_of (es_status s))) (snd (ending_of (es_status s))) tr"
  shows "published_status P s art = Inr (published (es_status s) (artifact_id art))"
  using assms(2)
proof (cases rule: ended_cases)
  case (stopped cause)
  then show ?thesis by (simp add: published_status_def body ending_of_def)
next
  case (certified out)
  have tr: "validate_agreed_trace P (es_binding s) tr = Inr (cursor_of s)" "tr \<noteq> []" "no_terminal (butlast tr)"
    using assms(1) certified by (auto simp: trace_ok_def)
  then have split: "tr = butlast tr @ [last tr]" by simp
  from tr(1) obtain mid keys where mid: "validate_agreed_trace P (es_binding s) (butlast tr) = Inr mid"
    "validate_trace_from P (es_binding s) keys mid [last tr] = Inr (cursor_of s)"
    unfolding agreed_trace_snoc [OF tr(3), of P "es_binding s" "last tr", folded split] by blast
  then obtain c where c: "commit_entry P (es_binding s) (last tr) (chain_hash mid) = Inr c"
    "advance P mid c = Inr (cursor_of s)"
    unfolding validate_trace_one by blast
  have "chain_links P (es_binding s) CHAIN_START (butlast tr) = Inr (chain_hash mid)"
    using mid(1) chain_links_trace [of P "es_binding s" _ "start_cursor (es_binding s)"]
    by (auto simp: validate_agreed_trace_def bind_res_ok start_cursor_def)
  moreover have "sc_step c = te_step (last tr)" "sc_post_state c = te_post_state (last tr)"
    using c(1) by (simp_all add: commit_entry_ok for_entry_ok)
  ultimately show ?thesis
    using c tr(2) certified
    by (simp add: published_status_def body ending_of_def final_entry_def ok_or_def advance_ok cursor_of_def)
qed

lemma sealed_publish:
  assumes "borsh_layout P" "state_ok P s" "trace_ok P s tr" "ended s"
    and version: "checked_add (version_get (es_version s)) 1 = Some v"
  shows "\<exists>art. assemble_terminal_artifact P (bind_activation (es_binding s)) tr s = Inr art
    \<and> artifact_body art
      = sealed_body (es_binding s) (fst (ending_of (es_status s))) (snd (ending_of (es_status s))) tr
    \<and> publish_receipt P s art
      = Inr (s\<lparr>es_status := published (es_status s) (artifact_id art), es_callout := None,
               es_version := ExecutionVersion v\<rparr>)"
proof -
  obtain art where art: "assemble_terminal_artifact P (bind_activation (es_binding s)) tr s = Inr art"
    "artifact_body art
      = sealed_body (es_binding s) (fst (ending_of (es_status s))) (snd (ending_of (es_status s))) tr"
    using sealed_artifact [OF assms(1-4)] by blast
  with sealed_valid [OF assms(1-4)] published_status_sealed [OF assms(3,4) art(2)] version show ?thesis
    by (auto simp: publish_receipt_def bump_version_ok)
qed

end
