(* ===== verification/Sample_Run.thy ===== *)
theory Sample_Run
  imports Receipt_Assembly
begin

text \<open>
  One concrete run over the sample primitives: a two-party session is created, activated, takes the
  session-start step with a terminal effect, collects both signatures and ends certified.  It shows
  that the hypotheses of the properties about runs can hold together.
\<close>

definition sample_binding :: execution_binding where
  "sample_binding = \<lparr>bind_activation = sample_activation\<rparr>"

lemma sample_activation_data:
  "activation_data_for sample_prims (pa_offer sample_prepared) (pa_tickets sample_prepared)
     = Inr (pa_activation_data sample_prepared)"
  using sample_prepared_ok by (auto simp: prepared_new_def ok_simps) (auto simp: sample_prepared_def)

lemma sample_tickets_of [simp]: "binding_tickets sample_binding = sample_tickets"
  by (simp add: binding_tickets_def sample_binding_def sample_activation_def sample_prepared_def)

lemma sample_tickets_length [simp]: "length sample_tickets = 2"
  by (simp add: sample_tickets_def)

lemma sample_offer_of [simp]: "binding_offer sample_binding = sample_offer_data"
  by (simp add: binding_offer_def sample_binding_def sample_activation_def sample_prepared_def sample_offer_def)

lemma sample_binding_ok: "binding_ok sample_prims sample_binding"
  using sample_activation_data
  by (simp add: binding_ok_def sample_binding_def sample_activation_def activation_validate_def check_structure_def
      map_err_def)
    (simp add: sample_prepared_def activation_keys_def ticket_key_def sample_tickets_def sample_ticket_def)

lemma hash_len [simp]: "borsh_len (offer_hash_value oh) = 32" "borsh_len (ticket_hash_value th) = 32"
  by (cases oh, simp, cases th, simp)

lemma sample_session: "binding_session_id sample_binding \<noteq> SessionHash 0"
proof -
  have "length (activation_signing_bytes sample_prims (pa_activation_data sample_prepared)) < 2 ^ 64"
    by (simp add: activation_signing_bytes_def layout_len [OF sample_layout] sample_prepared_def sample_offer_def
       sample_tickets_def activation_data_value_def ACTIVATION_DOMAIN_def)
  then show ?thesis
    by (simp add: binding_session_id_def sample_binding_def sample_activation_def sample_hash_nonzero)
      (simp add: sample_prepared_def session_hash_of_def sample_prims_def sample_hash_nonzero)
qed

lemma sample_activation_len: "borsh_len (activation_value sample_activation) \<le> 4804"
  using sample_offer_size
  by (simp add: sample_activation_def sample_prepared_def activation_value_def prepared_value_def sample_tickets_def
      sample_ticket_size [unfolded sample_borsh_len] sample_borsh_len MAX_NEGOTIATION_FACT_BYTES_def)

lemma sample_activation_fits: "borsh_fits (activation_value sample_activation)"
  by (cases "od_initial_state sample_offer_data"; cases "ticket_hash_of sample_prims (tk_data (sample_ticket 9))";
      cases "ticket_hash_of sample_prims (tk_data (sample_ticket 3))")
    (simp add: sample_activation_def sample_prepared_def activation_value_def prepared_value_def sample_tickets_def
      U32_MAX_def offer_value_def sample_offer_def offer_data_value_def peer_value_def sample_offer_data_def
      ticket_value_def ticket_data_value_def sample_ticket_def)

lemma ending_bound: "ending_ok t out \<Longrightarrow> borsh_len (termination_value t) + length out \<le> 70000"
proof (cases t)
  case (TermStopped cause)
  moreover assume "ending_ok t out"
  ultimately show ?thesis
    by (cases cause) (auto simp: borsh_len_abort abort_validate_shape_def if_Inl_ok ensure_size_ok ensure_reason_def
        has_step_domain_def ABORT_OCCURRENCE_DOMAIN_def STEP_COMMIT_DOMAIN_def MAX_TERMINAL_REASON_BYTES_def
        split: if_splits)
qed (simp add: MAX_TERMINAL_OUTCOME_BYTES_def)

lemma sample_overhead_size:
  assumes "ending_ok t out"
  shows "\<exists>n. overhead_size sample_prims sample_binding (t, out) = Inr n \<and> unat n \<le> 100000"
proof -
  let ?v = "artifact_value (overhead_shape sample_binding t out)"
  have "length out \<le> MAX_TERMINAL_OUTCOME_BYTES" using assms by (cases t) auto
  then have fits: "borsh_fits ?v"
    using ending_fits [OF assms] sample_activation_fits
    by (simp add: artifact_value_def overhead_shape_def overhead_body_def body_value_def header_value_def
        sample_offer_data_def) (simp add: sample_binding_def)
  have len: "borsh_len ?v \<le> 100000"
    using ending_bound [OF assms] sample_activation_len
    by (simp add: borsh_len_artifact borsh_len_body overhead_shape_def overhead_body_def sample_offer_data_def)
      (simp add: sample_binding_def)
  show ?thesis
    using fits len
    by (simp add: overhead_size_def object_length_def layout_len [OF sample_layout] map_err_def unat_of_nat)
qed

lemma sample_reserved:
  "\<exists>n. reserved_overhead sample_prims sample_binding = Inr n \<and> unat n \<le> 100000"
proof -
  let ?reason = "replicate MAX_TERMINAL_REASON_BYTES (CHR ''x'')"
  let ?cur = "\<lparr>next_step = 0, cursor_state_hash = od_initial_state sample_offer_data, chain_hash = CHAIN_START\<rparr>"
  obtain a where a: "abort_unsigned (binding_session_id sample_binding) (PeerId 9) KindFail 0 ?reason ?cur = Inr a"
    "abort_validate_shape a = Inr ()"
    using sample_session
    by (simp add: abort_unsigned_def abort_new_def abort_validate_shape_def ensure_payload_def)
  let ?c = "\<lparr>sc_domain = STEP_COMMIT_DOMAIN, sc_session_id = binding_session_id sample_binding, sc_step = 0,
    sc_entry_hash = 0, sc_pre_state = od_initial_state sample_offer_data,
    sc_post_state = od_initial_state sample_offer_data, sc_link = CHAIN_START\<rparr>"
  have "ending_ok (TermStopped (SharedStop KindFail ?c ?reason)) []"
    by (simp add: has_step_domain_def ensure_reason_def ensure_payload_def)
  then obtain k l m where sizes: "overhead_size sample_prims sample_binding (TermStopped (SharedStop KindFail ?c ?reason), []) = Inr k"
    "overhead_size sample_prims sample_binding (TermStopped (Authenticated a), []) = Inr l"
    "overhead_size sample_prims sample_binding (TermCompleted, replicate MAX_TERMINAL_OUTCOME_BYTES 0) = Inr m"
    "unat k \<le> 100000" "unat l \<le> 100000" "unat m \<le> 100000"
    using sample_overhead_size [of "TermStopped (Authenticated a)" "[]"] a(2)
      sample_overhead_size [of TermCompleted "replicate MAX_TERMINAL_OUTCOME_BYTES 0"]
      sample_overhead_size [of "TermStopped (SharedStop KindFail ?c ?reason)" "[]"] by auto
  then show ?thesis
    using a(1) by (simp add: reserved_overhead_def sample_tickets_def sample_ticket_def Let_def max_def)
qed

section \<open>The run\<close>

definition sample_shared :: shared_state_bytes where
  "sample_shared = SharedStateBytes []"

definition sample_local :: local_state_bytes where
  "sample_local = LocalStateBytes []"

text \<open>A state at the start of the sample session.\<close>

definition sample_fresh :: "peer_id \<Rightarrow> execution_state \<Rightarrow> bool" where
  "sample_fresh me s \<longleftrightarrow> es_binding s = sample_binding \<and> es_producer s = me
     \<and> es_agreed_state s = of_shared sample_prims sample_shared \<and> es_agreed_step s = 0 \<and> es_agreed_link s = CHAIN_START
     \<and> es_trace_bytes s = 0 \<and> unat (es_receipt_overhead s) \<le> 100000
     \<and> es_event_position s = 0 \<and> es_outgoing s = [] \<and> es_proposal s = None \<and> es_callout s = None"

lemma sample_new:
  assumes "me = PeerId 9 \<or> me = PeerId 3"
  shows "\<exists>s. state_new sample_prims (ExecId 1) sample_activation me sample_shared sample_local = Inr s
     \<and> sample_fresh me s \<and> es_status s = Activating \<and> es_version s = ExecutionVersion 0"
proof -
  obtain n where n: "reserved_overhead sample_prims sample_binding = Inr n" "unat n \<le> 100000"
    using sample_reserved by blast
  have "binding_new sample_prims sample_activation = Inr sample_binding"
    using sample_binding_ok by (simp add: binding_new_ok sample_binding_def)
  moreover have "\<not> word_of_nat MAX_RECEIPT_BYTES < n"
    using n(2) by (simp add: word_less_nat_alt MAX_RECEIPT_BYTES_def)
  moreover have "is_participant sample_binding me"
    using assms by (auto simp: is_participant_def participants_signers sample_tickets_def ticket_signer_def sample_ticket_def)
  ultimately show ?thesis
    using n by (simp add: state_new_def genesis_def sample_fresh_def sample_offer_data_def sample_shared_def
        CHAIN_START_def)
qed

lemma sample_checked [simp]: "checked_add 0 1 = Some (1 :: u64)" "checked_add 1 1 = Some (2 :: u64)" "checked_add 2 1 = Some (3 :: u64)"
  by (simp_all add: checked_add_Some)

lemma sample_activate:
  assumes "sample_fresh me s" "es_status s = Activating" "es_version s = ExecutionVersion 0"
  shows "\<exists>s'. activate s = Inr s' \<and> sample_fresh me s' \<and> es_status s' = Active \<and> es_version s' = ExecutionVersion 1"
  using assms by (auto simp: activate_def bump_version_ok sample_fresh_def)

definition sample_outcome :: terminal_outcome where
  "sample_outcome = \<lparr>outcome_borsh = [], outcome_json = []\<rparr>"

definition sample_entry :: "ensemble \<Rightarrow> trace_entry" where
  "sample_entry ens = \<lparr>te_version = TRACE_FORMAT_VERSION, te_step = 0, te_event = StepSessionStarted ens,
     te_pre_state = of_shared sample_prims sample_shared, te_post_state = of_shared sample_prims sample_shared,
     te_terminal = Some (TerminalEnd []), te_agreement = attestation_empty\<rparr>"

definition sample_proposal :: "ensemble \<Rightarrow> shared_proposal" where
  "sample_proposal ens = \<lparr>sp_entry = sample_entry ens, sp_shared_state = sample_shared, sp_local_state = sample_local,
     sp_outgoing = [], sp_effects = [(0, SessionEnd [])], sp_event_position = 0, sp_status = Certified sample_outcome,
     sp_callout = None, sp_signatures = []\<rparr>"

lemma sample_ensemble_size:
  "binding_ensemble sample_binding = Inr ens \<Longrightarrow> length (peers ens) = 2"
  using distinct_card [of "peers ens"]
  by (auto simp: binding_ensemble_def from_peers_ok participants_signers sample_tickets_def ticket_signer_def
      sample_ticket_def committed_def strict_sorted_iff)

lemma sample_entry_fits:
  assumes "binding_ensemble sample_binding = Inr ens"
  shows "entry_fits (sample_entry ens)"
  using sample_ensemble_size [OF assms]
  by (simp add: entry_fits_def sample_entry_def ensemble_value_def MAX_PARTICIPANTS_def peer_value_def)

lemma sample_entry_valid:
  assumes "binding_ensemble sample_binding = Inr ens"
  shows "validate_shared_entry sample_prims sample_binding 0 (sample_entry ens) = Inr ()"
proof -
  have "length (bitmap (att_signers (te_agreement (sample_entry ens)))) = 0"
    by (simp add: sample_entry_def attestation_empty_def signers_empty_def)
  with sample_entry_fits [OF assms] entry_base_bound [OF sample_entry_fits [OF assms]] assms show ?thesis
    by (simp add: validate_shared_entry_ok validate_trace_entry_ok entry_value_fits U32_MAX_def
      layout_len [OF sample_layout] borsh_len_entry MAX_TRACE_ENTRY_BYTES_def)
     (simp add: sample_entry_def ensure_payload_def)
qed

lemma sample_proposal_valid:
  assumes "binding_ensemble sample_binding = Inr ens" "sample_fresh me s"
  shows "\<exists>c. proposal_at sample_prims sample_binding (cursor_of s) (sample_proposal ens) c
     \<and> commit_entry sample_prims sample_binding (sample_entry ens) CHAIN_START = Inr c
     \<and> validate_proposal sample_prims sample_binding (cursor_of s) 0 (sample_proposal ens) = Inr ()"
proof -
  obtain c where c: "commit_entry sample_prims sample_binding (sample_entry ens) CHAIN_START = Inr c"
    using sample_entry_fits [OF assms(1)] by (simp add: commit_entry_def for_entry_def entry_hash_fits map_err_def)
  then have c': "sc_step c = 0" "sc_pre_state c = of_shared sample_prims sample_shared"
    "sc_post_state c = of_shared sample_prims sample_shared" "sc_link c = CHAIN_START"
    by (simp_all add: commit_entry_ok for_entry_ok sample_entry_def)
  have cur: "cursor_of s = \<lparr>next_step = 0, cursor_state_hash = of_shared sample_prims sample_shared, chain_hash = CHAIN_START\<rparr>"
    using assms(2) by (simp add: sample_fresh_def cursor_of_def)
  have out: "outcome_validate sample_prims sample_outcome = Inr ()"
    by (simp add: outcome_validate_def validate_borsh_def validate_json_def sample_outcome_def json_try_new_def
      sample_prims_def map_err_def)
  have at_c: "proposal_at sample_prims sample_binding (cursor_of s) (sample_proposal ens) c"
    using c c' out sample_entry_valid [OF assms(1)]
    apply (simp add: proposal_at_def sample_proposal_def cur advance_def ok_or_def single_lifecycle_effect_def)
    apply (simp add: sample_entry_def validate_proposal_status_def sample_outcome_def)
    done
  moreover obtain ks where "participant_keys sample_binding = Inr ks"
    using participant_keys_ok [OF sample_binding_ok] by blast
  ultimately have "validate_proposal sample_prims sample_binding (cursor_of s) 0 (sample_proposal ens) = Inr ()"
    by (auto simp: validate_proposal_ok sample_proposal_def signatures_at_def)
  with at_c c show ?thesis by blast
qed

lemma sample_budget:
  assumes "binding_ensemble sample_binding = Inr ens" "sample_fresh me s"
  shows "\<exists>t. check_receipt_budget sample_prims s (sample_entry ens) = Inr t"
proof -
  let ?e = "sample_entry ens"
  obtain signers where f: "full 2 = Inr signers" by (simp add: full_bitmap MAX_PARTICIPANTS_def)
  have len: "length (bitmap signers) \<le> 8" using f by (rule full_bitmap_length)
  let ?v = "entry_value (certified_entry signers ?e)"
  have base: "entry_base ?e \<le> 131243" using sample_entry_fits [OF assms(1)] by (rule entry_base_bound)
  have fits: "borsh_fits ?v"
    using sample_entry_fits [OF assms(1)] len by (simp add: entry_value_fits certified_entry_def entry_fits_def U32_MAX_def)
  have size: "length (borsh sample_prims ?v) \<le> 131251"
    using base len by (simp add: layout_len [OF sample_layout] borsh_len_entry certified_entry_def)
  then have n: "unat (word_of_nat (length (borsh sample_prims ?v)) :: u64) = length (borsh sample_prims ?v)"
    by (simp add: unat_of_nat)
  have "certified_size sample_prims s ?e = Inr (word_of_nat (length (borsh sample_prims ?v)))"
    unfolding certified_size_ok using f fits n assms(2) by (auto simp: sample_fresh_def)
  then have "check_receipt_budget sample_prims s ?e = Inr (word_of_nat (length (borsh sample_prims ?v)))"
    unfolding check_receipt_budget_ok using n size assms(2)
    by (intro exI [of _ "word_of_nat (length (borsh sample_prims ?v))"])
      (simp add: sample_fresh_def MAX_RECEIPT_TRACE_ENTRIES_def MAX_RECEIPT_BYTES_def)
  then show ?thesis by blast
qed

lemma sample_stage:
  assumes "sample_fresh me s" "es_status s = Active" "es_version s = ExecutionVersion 1"
    "binding_ensemble sample_binding = Inr ens"
  shows "stage_proposal sample_prims s (sample_proposal ens)
    = Inr (s\<lparr>es_event_position := 1, es_proposal := Some (sample_proposal ens), es_version := ExecutionVersion 2\<rparr>)"
  using assms sample_proposal_valid [OF assms(4,1)] sample_budget [OF assms(4,1)]
  by (auto simp: stage_proposal_def sample_fresh_def ok_or_def check_proposal_receipt_budget_def bump_version_ok sample_proposal_def)

lemma sample_dispatch:
  assumes "sample_fresh me s" "es_status s = Active" "es_version s = ExecutionVersion 1"
    "binding_ensemble sample_binding = Inr ens"
  shows "apply_dispatch sample_prims s (SessionStarted ens) sample_shared sample_local [SessionEnd []]
    (Some sample_outcome) None None
    = Inr (s\<lparr>es_event_position := 1, es_proposal := Some (sample_proposal ens), es_version := ExecutionVersion 2\<rparr>, None)"
proof -
  have budget: "check_effect_budget sample_prims [SessionEnd []] = Inr ()"
    by (simp add: check_effect_budget_ok effects_size_def effect_ok_def MAX_EFFECTS_def MAX_EFFECT_BYTES_def
      layout_len [OF sample_layout] ensure_payload_def)
  obtain c where "commit_entry sample_prims sample_binding (sample_entry ens) CHAIN_START = Inr c"
    using sample_proposal_valid [OF assms(4,1)] by blast
  with assms budget sample_stage [OF assms] show ?thesis
    apply (simp add: sample_fresh_def apply_dispatch_def indexed_dispatch_effects_def single_lifecycle_effect_def
        is_set_timer_def is_send_direct_def is_agreed_event_def validate_callout_dispatch_def apply_agreed_def
        take_own_head_def is_own_message_def portable_event_def is_broadcast_def sample_entry_def sample_proposal_def
        from_proposal_entry_def proposal_new_def validate_outgoing_def MAX_EFFECTS_def ok_or_def sample_outcome_def
        next_open_callout_def)
    done
qed

lemma sample_keys: "participant_bls_keys sample_binding = Inr [BlsPublicKey 3, BlsPublicKey 9]"
  by (simp add: participant_bls_keys_def participant_keys_ok [OF sample_binding_ok] sample_tickets_def ticket_entry_def
      sample_ticket_def ticket_key_def ticket_signer_def less_eq_peer_id_def sort_key_def)

lemma sample_certify:
  assumes "sample_fresh me s" "binding_ensemble sample_binding = Inr ens"
    and s': "s' = s\<lparr>es_event_position := 1, es_proposal := Some (sample_proposal ens), es_version := ExecutionVersion 2\<rparr>"
  shows "\<exists>cert s''. certify_step sample_prims s' cert = Inr (s'', committed_proposal cert (sample_proposal ens))
     \<and> es_status s'' = Certified sample_outcome \<and> es_version s'' = ExecutionVersion 3
     \<and> es_binding s'' = sample_binding \<and> es_producer s'' = me"
proof -
  obtain c where c: "proposal_at sample_prims sample_binding (cursor_of s) (sample_proposal ens) c"
    "commit_entry sample_prims sample_binding (sample_entry ens) CHAIN_START = Inr c"
    "validate_proposal sample_prims sample_binding (cursor_of s) 0 (sample_proposal ens) = Inr ()"
    using sample_proposal_valid [OF assms(2,1)] by blast
  obtain signers where f: "full 2 = Inr signers" by (simp add: full_bitmap MAX_PARTICIPANTS_def)
  let ?cert = "\<lparr>cert_commitment = c, cert_agreement = \<lparr>att_aggregate = BlsSignature 12, att_signers = signers\<rparr>\<rparr>"
  have v: "certificate_verify sample_prims ?cert sample_binding = Inr ()"
    using c(2) f by (simp add: certificate_verify_ok sample_keys is_bound_to_def has_step_domain_def commit_entry_ok for_entry_ok flip: numeral_2_eq_2)
  obtain cur where cur: "advance sample_prims (cursor_of s) c = Inr cur" using c(1) by (auto simp: proposal_at_def)
  obtain t where "check_receipt_budget sample_prims s (sample_entry ens) = Inr t"
    using sample_budget [OF assms(2,1)] by blast
  moreover have "check_receipt_budget sample_prims s' e = check_receipt_budget sample_prims s e" for e
    by (simp add: s' check_receipt_budget_def check_receipt_entries_def certified_size_def cong: if_cong)
  moreover have fields: "es_binding s' = sample_binding" "cursor_of s' = cursor_of s" "es_agreed_link s' = CHAIN_START"
    "es_proposal s' = Some (sample_proposal ens)" "sp_event_position (sample_proposal ens) = 0"
    "sp_entry (sample_proposal ens) = sample_entry ens"
    using assms(1) by (simp_all add: s' sample_fresh_def sample_proposal_def)
  ultimately have "install_certified sample_prims s' ?cert
      = Inr ((begin_end (installed s' ?cert (sample_proposal ens) cur t))\<lparr>es_callout := sp_callout (sample_proposal ens),
               es_proposal := None\<rparr>, committed_proposal ?cert (sample_proposal ens))"
    unfolding install_certified_ok using c(2,3) v cur
    by (intro exI [of _ "sample_proposal ens"] exI [of _ cur] exI [of _ t] conjI) simp_all
  then show ?thesis
    using assms(1)
    by (intro exI [of _ ?cert]) (simp add: certify_step_ok bump_version_ok installed_def s' sample_proposal_def sample_fresh_def)
qed

text \<open>The complete run: one certified entry, an ended execution.\<close>

lemma sample_staged:
  assumes "me = PeerId 9 \<or> me = PeerId 3"
  shows "\<exists>s s0 ens. reachable sample_prims s [] \<and> sample_fresh me s0 \<and> es_status s0 = Active
     \<and> binding_ensemble sample_binding = Inr ens
     \<and> s = s0\<lparr>es_event_position := 1, es_proposal := Some (sample_proposal ens), es_version := ExecutionVersion 2\<rparr>"
proof -
  obtain s0 where s0: "state_new sample_prims (ExecId 1) sample_activation me sample_shared sample_local = Inr s0"
    "sample_fresh me s0" "es_status s0 = Activating" "es_version s0 = ExecutionVersion 0" using sample_new [OF assms] by blast
  obtain s1 where s1: "activate s0 = Inr s1" "sample_fresh me s1" "es_status s1 = Active" "es_version s1 = ExecutionVersion 1"
    using sample_activate [OF s0(2,3,4)] by blast
  obtain ens where ens: "binding_ensemble sample_binding = Inr ens"
    using binding_ensemble_exists [OF sample_binding_ok] by blast
  have "initial sample_prims s0" using s0(1) unfolding initial_def by (intro exI)
  then have "reachable sample_prims s0 []" by (rule run_init)
  from run_step [OF this step_activate [OF s1(1)]] have "reachable sample_prims s1 []" by simp
  from run_step [OF this step_dispatch [OF sample_dispatch [OF s1(2,3,4) ens]]] s1(2,3) ens show ?thesis by auto
qed

lemma sample_commit:
  "\<exists>s e s'. reachable sample_prims s [] \<and> exec_step sample_prims s [e] s' \<and> es_status s' = Certified sample_outcome
     \<and> es_version s' = ExecutionVersion 3 \<and> es_status s = Active \<and> es_binding s = sample_binding"
proof -
  obtain s s0 ens where r: "reachable sample_prims s []" and s0: "sample_fresh (PeerId 9) s0" "es_status s0 = Active"
    "binding_ensemble sample_binding = Inr ens"
    "s = s0\<lparr>es_event_position := 1, es_proposal := Some (sample_proposal ens), es_version := ExecutionVersion 2\<rparr>"
    using sample_staged [of "PeerId 9"] by blast
  obtain cert s' where c: "certify_step sample_prims s cert = Inr (s', committed_proposal cert (sample_proposal ens))"
    "es_status s' = Certified sample_outcome" "es_version s' = ExecutionVersion 3"
    using sample_certify [OF s0(1,3,4)] by blast
  from r step_certify [OF c(1)] c(2,3) s0 show ?thesis
    by (intro exI [of _ s] exI [of _ "sp_entry (committed_proposal cert (sample_proposal ens))"] exI [of _ s'])
      (simp add: sample_fresh_def)
qed

lemma sample_run:
  "\<exists>s tr. reachable sample_prims s tr \<and> es_status s = Certified sample_outcome
     \<and> es_version s = ExecutionVersion 3 \<and> length tr = 1"
proof -
  obtain s e s' where s: "reachable sample_prims s []" "exec_step sample_prims s [e] s'"
    "es_status s' = Certified sample_outcome" "es_version s' = ExecutionVersion 3" using sample_commit by blast
  from run_step [OF s(1,2)] s(3,4) show ?thesis by fastforce
qed

end
