(* ===== verification/Execution_Properties.thy ===== *)
theory Execution_Properties
  imports Sample_Run
begin

text \<open>
  The properties of whole executions: what holds of every state some sequence of operations can
  reach, together with the certified trace those operations committed.
\<close>

section \<open>Recovery\<close>

text \<open>C2: every reachable state can be read back.  Whatever operations ran, in whatever order, the
  aggregate the program would persist passes \<open>validate_recovered\<close>, the complete check of
  \<open>ExecutionState::decode\<close>: binding, producer, budget, last certificate, direct lanes, end
  handshake, status, outgoing queue and pending proposal with all its signatures.  The one
  exception is a published receipt whose identity is the all-zero hash, which the reader rejects.\<close>

theorem reachable_recoverable:
  assumes "borsh_layout P" "reachable P s tr" "published_receipt_id (es_status s) \<noteq> Some (ReceiptId 0)"
  shows "validate_recovered P s = Inr ()"
  using state_run.holds [OF assms(2)] assms(1,3) by (simp add: state_ok_recovered)

theorem reachable_recoverable_witness:
  "\<exists>s tr. reachable sample_prims s tr \<and> length tr = 1 \<and> is_terminal (es_status s)
     \<and> validate_recovered sample_prims s = Inr ()"
proof -
  obtain s tr where r: "reachable sample_prims s tr" "es_status s = Certified sample_outcome" "length tr = 1"
    using sample_run by blast
  have "validate_recovered sample_prims s = Inr ()"
    using reachable_recoverable [OF sample_layout r(1)] r(2) by simp
  with r show ?thesis by (intro exI [of _ s] exI [of _ tr]) (simp add: is_terminal_def)
qed

section \<open>The certified trace\<close>

text \<open>C1: the aggregate refines its trace.  The state keeps only a cursor, a step count and a byte
  count, yet along every run they are exactly what an independent verifier computes from the
  committed entries: \<open>validate_agreed_trace\<close> accepts the trace (every entry in order, linked,
  signed by all participants) and ends on the state's cursor; the step counter is the number of
  entries and the byte counter their encoded size; a terminal entry is the last one, and the status
  is the one it decides.  The receipt bounds hold throughout.\<close>

theorem reachable_trace_refinement:
  assumes "borsh_layout P" "reachable P s tr"
  shows "validate_agreed_trace P (es_binding s) tr = Inr (cursor_of s)
    \<and> length tr = unat (es_agreed_step s)
    \<and> unat (es_trace_bytes s) = sum_list (map (entry_size P) tr)
    \<and> no_terminal (butlast tr) \<and> status_ends P (es_status s) tr
    \<and> length tr \<le> MAX_RECEIPT_TRACE_ENTRIES
    \<and> sum_list (map (entry_size P) tr) + unat (es_receipt_overhead s) \<le> MAX_RECEIPT_BYTES"
  using trace_run.holds [OF assms(2)] assms(1) by (simp add: trace_ok_def state_ok_def core_ok_def)

theorem reachable_trace_refinement_witness:
  "\<exists>s tr. reachable sample_prims s tr \<and> tr \<noteq> []
     \<and> validate_agreed_trace sample_prims (es_binding s) tr = Inr (cursor_of s)
     \<and> te_terminal (last tr) = Some (TerminalEnd []) \<and> es_agreed_step s = 1"
proof -
  obtain s tr where r: "reachable sample_prims s tr" "es_status s = Certified sample_outcome" "length tr = 1"
    using sample_run by blast
  note t = reachable_trace_refinement [OF sample_layout r(1)]
  then have "unat (es_agreed_step s) = 1" using r(3) by simp
  then have "es_agreed_step s = 1" by (metis unat_1 unsigned_word_eqI)
  with t r show ?thesis by (auto simp: sample_outcome_def)
qed

section \<open>Sealing\<close>

text \<open>C3: an execution that has ended can be sealed.  For every reachable state that is certified or
  stopped, assembling the receipt from the stored trace succeeds (the body is valid, the artifact
  stays below the receipt limit, because the budget reserved enough for any ending) and
  publishing it succeeds and moves the status to the published one with the artifact's identity,
  unless the version counter is exhausted.\<close>

theorem ended_sealable:
  assumes "borsh_layout P" "reachable P s tr" "status_receipt_work (es_status s) = Assemble"
    and "checked_add (version_get (es_version s)) 1 = Some v"
  shows "\<exists>art s'. assemble_terminal_artifact P (bind_activation (es_binding s)) tr s = Inr art
    \<and> rb_trace (artifact_body art) = tr
    \<and> publish_receipt P s art = Inr s'
    \<and> status_receipt_work (es_status s') = Published
    \<and> published_receipt_id (es_status s') = Some (artifact_id art)
    \<and> es_version s' = ExecutionVersion v \<and> cursor_of s' = cursor_of s"
proof -
  have e: "ended s" using assms(3) by (simp add: ended_def)
  have "state_ok P s \<and> trace_ok P s tr" using trace_run.holds [OF assms(2)] assms(1) by simp
  with sealed_publish [OF assms(1) _ _ e assms(4)] e show ?thesis
    by (fastforce elim: ended_cases)
qed

theorem ended_sealable_witness:
  "\<exists>s tr art s'. reachable sample_prims s tr \<and> tr \<noteq> []
     \<and> assemble_terminal_artifact sample_prims (bind_activation (es_binding s)) tr s = Inr art
     \<and> publish_receipt sample_prims s art = Inr s' \<and> es_version s' = ExecutionVersion 4"
proof -
  obtain s tr where r: "reachable sample_prims s tr" "es_status s = Certified sample_outcome"
    "es_version s = ExecutionVersion 3" "length tr = 1" using sample_run by blast
  have "checked_add (version_get (es_version s)) 1 = Some 4" by (simp add: r(3) checked_add_Some)
  from ended_sealable [OF sample_layout r(1) _ this] r(2)
  obtain art s' where "assemble_terminal_artifact sample_prims (bind_activation (es_binding s)) tr s = Inr art"
    "publish_receipt sample_prims s art = Inr s'" "es_version s' = ExecutionVersion 4" by auto
  with r(1,4) show ?thesis by (intro exI [of _ s] exI [of _ tr] exI [of _ art] exI [of _ s']) auto
qed

section \<open>Lifecycle\<close>

text \<open>C7: the status follows the lifecycle machine.  Every operation leaves the status alone or takes
  one edge of \<open>lifecycle_step\<close>; from a terminal status nothing is ever certified again, the agreed
  cursor and the trace are frozen and the only edges left lead to publication.\<close>

theorem execution_lifecycle:
  assumes "borsh_layout P" "reachable P s tr" "exec_step P s es s'"
  shows "(es_status s' = es_status s \<or> lifecycle_step (es_status s) (es_status s'))
    \<and> (is_terminal (es_status s) \<longrightarrow> is_terminal (es_status s') \<and> es = [] \<and> cursor_of s' = cursor_of s
         \<and> (es_status s' \<noteq> es_status s \<longrightarrow> status_receipt_work (es_status s') = Published))"
proof -
  have ok: "state_ok P s" using state_run.holds [OF assms(2)] assms(1) by simp
  from exec_step_effect [OF assms(3)] show ?thesis
  proof (elim disjE exE conjE)
    assume "es = []" and q: "quiet_step s s'"
    moreover have "is_terminal (es_status s') \<and> (es_status s' \<noteq> es_status s \<longrightarrow> status_receipt_work (es_status s') = Published)"
      if "is_terminal (es_status s)"
      using q that by (auto simp: quiet_step_def is_terminal_def elim: lifecycle_step.cases)
    ultimately show ?thesis by (auto simp: quiet_step_def)
  next
    fix p cert
    assume c: "es = [sp_entry (committed_proposal cert p)]" "commit_step P s p cert s'"
    then have "es_status s = Active" using ok by (auto simp: state_ok_def status_ok_def commit_step_def)
    moreover have "sp_status p = Active \<or> lifecycle_step Active (sp_status p)"
      using c(2) by (auto simp: commit_step_def proposal_at_def validate_proposal_status_ok
          split: option.splits step_terminal.splits intro: lifecycle_step.intros)
    ultimately show ?thesis using c(2) by (auto simp: commit_step_def is_terminal_def)
  qed
qed

theorem execution_lifecycle_witness:
  "\<exists>s tr s' art. reachable sample_prims s tr \<and> exec_step sample_prims s [] s'
     \<and> es_status s = Certified sample_outcome \<and> es_status s' = Completed sample_outcome (artifact_id art)
     \<and> lifecycle_step (es_status s) (es_status s')"
proof -
  obtain s tr where r: "reachable sample_prims s tr" "es_status s = Certified sample_outcome"
    "es_version s = ExecutionVersion 3" using sample_run by blast
  have e: "ended s" by (simp add: ended_def r(2))
  have ok: "state_ok sample_prims s" "trace_ok sample_prims s tr"
    using trace_run.holds [OF r(1)] sample_layout by simp_all
  have v: "checked_add (version_get (es_version s)) 1 = Some 4" by (simp add: r(3) checked_add_Some)
  obtain art s' where a: "assemble_terminal_artifact sample_prims (bind_activation (es_binding s)) tr s = Inr art"
    "publish_receipt sample_prims s art = Inr s'" "es_status s' = Completed sample_outcome (artifact_id art)"
    using sealed_publish [OF sample_layout ok e v] r(2) by auto
  from a(1) obtain body where "artifact_new sample_prims body = Inr art"
    by (auto simp: assemble_terminal_artifact_def Let_def bind_res_ok)
  from step_publish [OF this a(2)] have "exec_step sample_prims s [] s'" .
  moreover from execution_lifecycle [OF sample_layout r(1) this] r(2) a(3)
  have "lifecycle_step (es_status s) (es_status s')" by simp
  ultimately show ?thesis
    using r(1,2) a(3) by (intro exI [of _ s] exI [of _ tr] exI [of _ s'] exI [of _ art]) simp
qed

section \<open>Versions\<close>

definition versioned :: "execution_state \<Rightarrow> execution_state \<Rightarrow> bool" where
  "versioned s s' \<longleftrightarrow> s' = s \<or> (\<exists>v. checked_add (version_get (es_version s)) 1 = Some v \<and> es_version s' = ExecutionVersion v)"

lemma bump_versioned: "bump_version s1 = Inr s' \<Longrightarrow> es_version s1 = es_version s \<Longrightarrow> versioned s s'"
  by (auto simp: bump_version_ok versioned_def)

lemma begin_end_version [simp]: "es_version (begin_end s) = es_version s"
  by (simp add: begin_end_def)

lemma dispatch_versioned:
  assumes "apply_dispatch P s ev shared local effects out pending callout = Inr (s', frame)"
  shows "versioned s s'"
proof -
  have local: "versioned s s'" if "apply_local P s ev shared local effects l out callout = Inr s'" for l s'
    using that by (auto simp: apply_local_def install_dispatch_def Let_def bind_res_ok if_Inl_ok bump_version_ok versioned_def
        split: if_splits)
  have agreed: "versioned s s'" if "apply_agreed P s ev shared local effects i l out callout = Inr (s', frame)" for i l
    using that by (auto simp: apply_agreed_def Let_def bind_res_ok stage_proposal_def if_Inl_ok elim!: bump_versioned)
  show ?thesis
    using assms by (auto simp: apply_dispatch_def bind_res_ok if_Inl_ok ex_unit intro: agreed local split: if_splits)
qed

lemma install_version: "install_certified P s cert = Inr (s', q) \<Longrightarrow> es_version s' = es_version s"
  by (auto simp: install_certified_ok installed_def)

lemma sign_versioned:
  assumes "add_step_signature P s sg = Inr (s', r)"
  shows "versioned s s'"
proof -
  from assms obtain p c p' where "if length (sp_signatures p') = length (binding_tickets (es_binding s))
           then \<exists>cert s1 q. certificate_from_signatures P (es_binding s) c p' = Inr cert
                  \<and> install_certified P (s\<lparr>es_proposal := Some p'\<rparr>) cert = Inr (s1, q)
                  \<and> bump_version s1 = Inr s' \<and> r = Some q
           else bump_version (s\<lparr>es_proposal := Some p'\<rparr>) = Inr s' \<and> r = None"
    unfolding add_step_signature_ok by blast
  then show ?thesis by (auto split: if_splits dest: install_version elim!: bump_versioned)
qed

lemma exec_step_versioned:
  assumes "exec_step P s es s'"
  shows "versioned s s'"
  using assms
proof cases
  case step_activate
  then show ?thesis by (auto simp: activate_def split: if_splits elim!: bump_versioned)
next
  case step_drop
  then show ?thesis by (auto simp: drop_outgoing_head_def split: if_splits elim!: bump_versioned)
next
  case step_certify
  then show ?thesis by (auto simp: certify_step_ok dest: install_version elim!: bump_versioned)
next
  case step_stop
  then show ?thesis by (auto simp: stop_def bind_res_ok status_stopped_def if_Inl_ok elim!: bump_versioned)
next
  case step_publish
  then show ?thesis by (auto simp: publish_receipt_def bind_res_ok elim!: bump_versioned)
next
  case step_record
  then show ?thesis by (auto simp: record_direct_def bind_res_ok next_version_ok versioned_def split: if_splits)
next
  case step_ack
  then show ?thesis by (auto simp: ack_direct_def bind_res_ok next_version_ok versioned_def
        split: if_splits option.splits)
next
  case step_confirm
  then show ?thesis by (auto simp: confirm_end_def bind_res_ok bump_version_ok versioned_def
        split: if_splits option.splits)
next
  case step_expire
  then show ?thesis by (auto simp: expire_end_def bump_version_ok versioned_def split: end_phase.splits)
qed (auto intro: dispatch_versioned sign_versioned)

abbreviation exec_path :: "prims \<Rightarrow> execution_state \<Rightarrow> execution_state \<Rightarrow> bool" where
  "exec_path P \<equiv> (\<lambda>s s'. \<exists>es. exec_step P s es s')\<^sup>*\<^sup>*"

text \<open>C8: a version names one state.  Along any sequence of operations the version never decreases,
  and two states of the sequence with the same version are the same state, so the compare-and-swap
  on the version that guards every commit can never accept a write computed from a stale
  aggregate.\<close>

theorem version_identifies_state:
  assumes "exec_path P s s'"
  shows "unat (version_get (es_version s)) \<le> unat (version_get (es_version s'))
    \<and> (es_version s' = es_version s \<longrightarrow> s' = s)"
  using assms
proof (induction rule: rtranclp_induct)
  case base
  show ?case by simp
next
  case (step t u)
  then have tu: "versioned t u" by (auto intro: exec_step_versioned)
  show ?case
  proof (cases "u = t")
    case False
    with tu have lt: "unat (version_get (es_version t)) < unat (version_get (es_version u))"
      by (auto simp: versioned_def checked_add_Some)
    with step.IH show ?thesis by auto
  qed (use step.IH in simp)
qed

theorem version_identifies_state_witness:
  "\<exists>s s'. exec_path sample_prims s s' \<and> es_version s = ExecutionVersion 0 \<and> es_version s' = ExecutionVersion 1
     \<and> unat (version_get (es_version s)) \<le> unat (version_get (es_version s')) \<and> s' \<noteq> s"
proof -
  obtain s where s: "sample_fresh (PeerId 9) s" "es_status s = Activating" "es_version s = ExecutionVersion 0"
    using sample_new [of "PeerId 9"] by blast
  then obtain s' where s': "activate s = Inr s'" "es_version s' = ExecutionVersion 1" using sample_activate by blast
  then have "exec_path sample_prims s s'" by (auto intro: step_activate)
  from this version_identifies_state [OF this] s(3) s'(2) show ?thesis
    by (intro exI [of _ s] exI [of _ s']) auto
qed

section \<open>Agreement\<close>

text \<open>C4: nothing is committed without everyone.  An operation extends the trace by at most one entry,
  and then that entry carries the full signer bitmap and an aggregate signature that verifies
  under the keys of all participants (at least two, one per ticket) on the commitment of exactly
  this entry at the previous cursor; the new cursor is that commitment's.\<close>

theorem commit_is_unanimous:
  assumes "borsh_layout P" "reachable P s tr" "exec_step P s es s'"
  shows "es = [] \<and> cursor_of s' = cursor_of s
    \<or> (\<exists>e c keys. es = [e] \<and> participant_bls_keys (es_binding s) = Inr keys
        \<and> length keys = length (participants (es_binding s)) \<and> 2 \<le> length keys
        \<and> te_step e = es_agreed_step s \<and> te_pre_state e = es_agreed_state s
        \<and> commit_entry P (es_binding s) e (es_agreed_link s) = Inr c
        \<and> full (length keys) = Inr (att_signers (te_agreement e))
        \<and> fast_aggregate_verify P (att_aggregate (te_agreement e)) (signing_bytes P c) keys = Inr True
        \<and> cursor_of s' = \<lparr>next_step = es_agreed_step s + 1, cursor_state_hash = te_post_state e,
                          chain_hash = link_hash P c\<rparr>)"
proof -
  have ok: "binding_ok P (es_binding s)" using state_run.holds [OF assms(2)] assms(1) by (simp add: state_ok_def core_ok_def)
  from exec_step_effect [OF assms(3)] show ?thesis
  proof (elim disjE exE conjE)
    fix p cert
    assume es: "es = [sp_entry (committed_proposal cert p)]" and "commit_step P s p cert s'"
    then obtain cur where c: "proposal_at P (es_binding s) (cursor_of s) p (cert_commitment cert)"
      "certificate_verify P cert (es_binding s) = Inr ()" "advance P (cursor_of s) (cert_commitment cert) = Inr cur"
      "cursor_of s' = cur" by (auto simp: commit_step_def)
    from c(2) obtain keys where k: "participant_bls_keys (es_binding s) = Inr keys"
      "full (length keys) = Inr (att_signers (cert_agreement cert))"
      "fast_aggregate_verify P (att_aggregate (cert_agreement cert)) (signing_bytes P (cert_commitment cert)) keys = Inr True"
      by (auto simp: certificate_verify_ok)
    then obtain ks where ks: "participant_keys (es_binding s) = Inr ks" "keys = map snd ks"
      by (auto simp: participant_bls_keys_def bind_res_ok)
    have e: "sp_entry (committed_proposal cert p) = (sp_entry p)\<lparr>te_agreement := cert_agreement cert\<rparr>"
      by (simp add: committed_proposal_def)
    have commit: "commit_entry P (es_binding s) (sp_entry p) (es_agreed_link s) = Inr (cert_commitment cert)"
      "te_pre_state (sp_entry p) = es_agreed_state s"
      using c(1) by (auto simp: proposal_at_def cursor_of_def)
    then have fields: "sc_step (cert_commitment cert) = te_step (sp_entry p)"
      "sc_post_state (cert_commitment cert) = te_post_state (sp_entry p)"
      by (simp_all add: commit_entry_ok for_entry_ok)
    have cur: "cur = \<lparr>next_step = es_agreed_step s + 1, cursor_state_hash = te_post_state (sp_entry p),
        chain_hash = link_hash P (cert_commitment cert)\<rparr>" "te_step (sp_entry p) = es_agreed_step s"
      using c(3) fields by (cases cur; auto simp: advance_ok cursor_of_def checked_add_def split: if_splits)+
    show ?thesis
      using es k ks participant_table(2,4) [OF ok ks(1)] commit cur c(4)
      by (intro disjI2 exI [of _ "sp_entry (committed_proposal cert p)"] exI [of _ "cert_commitment cert"] exI [of _ keys])
        (simp add: e participants_signers)
  qed (simp add: quiet_step_def)
qed

theorem commit_is_unanimous_witness:
  "\<exists>s e s' keys. reachable sample_prims s [] \<and> exec_step sample_prims s [e] s'
     \<and> participant_bls_keys (es_binding s) = Inr keys \<and> 2 \<le> length keys
     \<and> full (length keys) = Inr (att_signers (te_agreement e)) \<and> next_step (cursor_of s') = es_agreed_step s + 1"
proof -
  obtain s e s' where s: "reachable sample_prims s []" "exec_step sample_prims s [e] s'" using sample_commit by blast
  from commit_is_unanimous [OF sample_layout s] obtain keys where "participant_bls_keys (es_binding s) = Inr keys"
    "2 \<le> length keys" "full (length keys) = Inr (att_signers (te_agreement e))"
    "next_step (cursor_of s') = es_agreed_step s + 1" by auto
  with s show ?thesis by (intro exI [of _ s] exI [of _ e] exI [of _ s'] exI [of _ keys]) simp
qed

end
