(* ===== verification/Signature_Collection.thy ===== *)
theory Signature_Collection
  imports Execution_Properties
begin

text \<open>
  Liveness of agreement: \<open>ExecutionState::add_step_signature\<close> completes a step exactly with the last
  missing participant.  The one assumption about the BLS library is the correctness of
  aggregation, \<open>blst_aggregation\<close>.
\<close>

section \<open>The aggregation contract\<close>

definition blst_aggregation :: "prims \<Rightarrow> bool" where
  "blst_aggregation P \<longleftrightarrow>
     (\<forall>msg ks ss. ks \<noteq> []
        \<and> list_all2 (\<lambda>k s. blst_pk_error P k = None \<and> blst_sig_error P s = None \<and> blst_verify P DST_SIG msg k s) ks ss \<longrightarrow>
        (\<exists>agg. blst_aggregate P ss = Inr agg \<and> blst_sig_error P agg = None
           \<and> blst_fast_aggregate_verify P DST_SIG msg ks agg))"

lemma sample_aggregation: "blst_aggregation sample_prims"
proof -
  have "list_all2 (\<lambda>k s. bls_sig_word s = bls_key_word k) ks ss \<Longrightarrow> map bls_sig_word ss = map bls_key_word ks" for ks ss
    by (induction rule: list_all2_induct) auto
  then show ?thesis by (simp add: blst_aggregation_def sample_prims_def) metis
qed

lemma aggregation_verifies:
  assumes "blst_aggregation P" "ks \<noteq> []" "list_all2 (\<lambda>k s. bls_verify P k msg s = Inr True) ks ss"
  shows "\<exists>agg. aggregate P ss = Inr agg \<and> fast_aggregate_verify P agg msg ks = Inr True"
proof -
  have parts: "list_all2 (\<lambda>k s. blst_pk_error P k = None \<and> blst_sig_error P s = None \<and> blst_verify P DST_SIG msg k s) ks ss"
    using assms(3) by (rule list_all2_mono) (simp add: bls_verify_ok)
  then have "\<forall>s \<in> set ss. blst_sig_error P s = None" "\<forall>k \<in> set ks. blst_pk_error P k = None"
    by (auto simp: list_all2_conv_all_nth in_set_conv_nth)
  moreover obtain agg where "blst_aggregate P ss = Inr agg" "blst_sig_error P agg = None"
    "blst_fast_aggregate_verify P DST_SIG msg ks agg"
    using assms(1,2) parts unfolding blst_aggregation_def by blast
  ultimately show ?thesis
    using assms(2) by (auto simp: aggregate_def fast_aggregate_verify_true bind_res_ok map_err_ok collect_parse_sig)
qed

section \<open>Collecting a complete set\<close>

lemma collect_signatures_ok:
  assumes "\<forall>(p, k) \<in> set ps. \<exists>s. find (\<lambda>s. pss_participant s = p) sigs = Some s \<and> verify_step_signature P k c s = Inr ()"
  shows "\<exists>new. collect_signatures P c sigs n (enumerate i ps) signers acc
      = Inr (fold signers_set [i..<i + length ps] signers, acc @ new)
    \<and> list_all2 (\<lambda>k s. bls_verify P k (signing_bytes P c) s = Inr True) (map snd ps) new"
  using assms
proof (induction ps arbitrary: i signers acc)
  case (Cons q ps)
  obtain p k where q: "q = (p, k)" by (cases q)
  from Cons.prems obtain s where s: "find (\<lambda>s. pss_participant s = p) sigs = Some s" "verify_step_signature P k c s = Inr ()"
    by (auto simp: q)
  from Cons.IH [of "Suc i" "signers_set i signers" "acc @ [sig_sig (pss_signature s)]"] Cons.prems
  obtain new where "collect_signatures P c sigs n (enumerate (Suc i) ps) (signers_set i signers) (acc @ [sig_sig (pss_signature s)])
      = Inr (fold signers_set [Suc i..<Suc i + length ps] (signers_set i signers), (acc @ [sig_sig (pss_signature s)]) @ new)"
    "list_all2 (\<lambda>k s. bls_verify P k (signing_bytes P c) s = Inr True) (map snd ps) new" by auto
  moreover have "bls_verify P k (signing_bytes P c) (sig_sig (pss_signature s)) = Inr True"
    using s(2) by (simp add: verify_step_signature_ok)
  ultimately show ?case using s
    by (intro exI [of _ "sig_sig (pss_signature s) # new"]) (simp add: q upt_conv_Cons del: upt_Suc)
qed simp

lemma length_signers_set: "i div 8 < length (bitmap s) \<Longrightarrow> length (bitmap (signers_set i s)) = length (bitmap s)"
  by (simp add: signers_set_def Let_def)

lemma length_fold_signers_set:
  "\<forall>i \<in> set is. i div 8 < length (bitmap s) \<Longrightarrow> length (bitmap (fold signers_set is s)) = length (bitmap s)"
  by (induction "is" arbitrary: s) (simp_all add: length_signers_set)

lemma fold_signers_full:
  assumes "n \<le> MAX_PARTICIPANTS"
  shows "full n = Inr (fold signers_set [0..<n] (with_capacity n))"
  using assms growing.mem_fold [of "[0..<n]" "with_capacity n"] div_ceil8_index [of _ n]
    length_fold_signers_set [of "[0..<n]" "with_capacity n"]
  by (simp add: full_ok with_capacity_def) (simp flip: with_capacity_def)

text \<open>A collected list as long as the ensemble has exactly one verified signature per participant.\<close>

lemma complete_signatures:
  assumes b: "binding_ok P b" and ks: "participant_keys b = Inr ks"
    and at_c: "signatures_at P b p c" and len: "length (sp_signatures p) = length ks" and q: "(w, k) \<in> set ks"
  shows "\<exists>s. find (\<lambda>s. pss_participant s = w) (sp_signatures p) = Some s \<and> verify_step_signature P k c s = Inr ()"
proof -
  have d: "distinct (map pss_participant (sp_signatures p))" "distinct (map fst ks)"
    using at_c participant_table(3) [OF b ks] by (auto simp: signatures_at_def strict_sorted_iff)
  have v: "\<forall>s \<in> set (sp_signatures p). \<exists>key. map_of ks (pss_participant s) = Some key \<and> verify_step_signature P key c s = Inr ()"
    using at_c ks by (auto simp: signatures_at_def)
  then have sub: "set (map pss_participant (sp_signatures p)) \<subseteq> set (map fst ks)"
    by (force dest: map_of_SomeD)
  have "card (set (map pss_participant (sp_signatures p))) = card (set (map fst ks))"
    using distinct_card [OF d(1)] distinct_card [OF d(2)] len by simp
  from card_subset_eq [OF _ sub this] q have "w \<in> set (map pss_participant (sp_signatures p))" by force
  then obtain s where s: "find (\<lambda>s. pss_participant s = w) (sp_signatures p) = Some s"
    by (cases "find (\<lambda>s. pss_participant s = w) (sp_signatures p)") (auto simp: find_None_iff)
  then have "s \<in> set (sp_signatures p)" "pss_participant s = w" by (auto simp: find_Some_iff)
  with v map_of_is_SomeI [OF d(2) q] s show ?thesis by auto
qed

lemma certificate_complete:
  assumes "blst_aggregation P" and b: "binding_ok P b" and ks: "participant_keys b = Inr ks"
    and at_c: "signatures_at P b p c" and len: "length (sp_signatures p) = length ks"
  shows "\<exists>cert. certificate_from_signatures P b c p = Inr cert \<and> cert_commitment cert = c
     \<and> verify_full_agreement P (cert_agreement cert) c (map snd ks) = Inr ()"
proof -
  note t = participant_table [OF b ks]
  have "\<forall>(w, k) \<in> set ks. \<exists>s. find (\<lambda>s. pss_participant s = w) (sp_signatures p) = Some s \<and> verify_step_signature P k c s = Inr ()"
    using complete_signatures [OF b ks at_c len] by auto
  from collect_signatures_ok [OF this, of "length ks" 0 "with_capacity (length ks)" "[]"] obtain sigs where
    sigs: "collect_signatures P c (sp_signatures p) (length ks) (enumerate 0 ks) (with_capacity (length ks)) []
        = Inr (fold signers_set [0..<length ks] (with_capacity (length ks)), sigs)"
    "list_all2 (\<lambda>k s. bls_verify P k (signing_bytes P c) s = Inr True) (map snd ks) sigs" by auto
  have ne: "map snd ks \<noteq> []" "sigs \<noteq> []" using t(4) sigs(2) by (auto simp: list_all2_Cons2)
  from aggregation_verifies [OF assms(1) ne(1) sigs(2)] obtain agg where
    agg: "aggregate P sigs = Inr agg" "fast_aggregate_verify P agg (signing_bytes P c) (map snd ks) = Inr True" by blast
  let ?a = "\<lparr>att_aggregate = agg, att_signers = fold signers_set [0..<length ks] (with_capacity (length ks))\<rparr>"
  have "verify_full_agreement P ?a c (map snd ks) = Inr ()"
    using agg(2) t(5) by (simp add: verify_full_agreement_ok fold_signers_full MAX_PARTICIPANTS_def)
  then show ?thesis
    using ks len sigs(1) agg(1) ne(2)
    by (simp add: certificate_from_signatures_def attestation_from_signatures_def map_err_def)
qed

section \<open>Completing a step\<close>

definition missing_signature :: "prims \<Rightarrow> execution_state \<Rightarrow> shared_proposal \<Rightarrow> participant_step_signature \<Rightarrow> bool" where
  "missing_signature P s p sg \<longleftrightarrow>
     es_proposal s = Some p \<and> (\<forall>x \<in> set (sp_signatures p). pss_participant x \<noteq> pss_participant sg)
     \<and> (\<exists>key c. participant_key (es_binding s) (pss_participant sg) = Inr key
          \<and> commit_entry P (es_binding s) (sp_entry p) (es_agreed_link s) = Inr c
          \<and> verify_step_signature P key c sg = Inr ())"

lemma missing_add:
  assumes ok: "state_ok P s" and m: "missing_signature P s p sg"
  shows "\<exists>c p' t. commit_entry P (es_binding s) (sp_entry p) (es_agreed_link s) = Inr c
     \<and> check_receipt_budget P s (sp_entry p) = Inr t
     \<and> add_signature P (es_binding s) c sg p = Inr p' \<and> signatures_at P (es_binding s) p' c
     \<and> validate_proposal P (es_binding s) (cursor_of s) (sp_event_position p) p' = Inr ()
     \<and> p' = p\<lparr>sp_signatures := sort_key pss_participant (sp_signatures p @ [sg])\<rparr>"
proof -
  from m obtain key c where a: "es_proposal s = Some p"
    "\<forall>x \<in> set (sp_signatures p). pss_participant x \<noteq> pss_participant sg"
    "participant_key (es_binding s) (pss_participant sg) = Inr key"
    "commit_entry P (es_binding s) (sp_entry p) (es_agreed_link s) = Inr c" "verify_step_signature P key c sg = Inr ()"
    by (auto simp: missing_signature_def)
  have b: "binding_ok P (es_binding s)" using ok by (simp add: state_ok_def core_ok_def)
  obtain ks where ks: "participant_keys (es_binding s) = Inr ks" using participant_keys_ok [OF b] by blast
  have pend: "validate_recovered_proposal P s p = Inr ()" using ok a(1) by (simp add: state_ok_def pending_ok_def)
  then have p: "validate_proposal P (es_binding s) (cursor_of s) (sp_event_position p) p = Inr ()"
    "\<exists>t. check_receipt_budget P s (sp_entry p) = Inr t"
    by (simp_all add: recovered_proposal_ok check_proposal_receipt_budget_ok)
  then have old: "signatures_at P (es_binding s) p c"
    using a(4) by (auto simp: validate_proposal_ok proposal_at_def cursor_of_def)
  let ?ss = "sg # sp_signatures p"
  have "length ?ss \<le> length ks"
  proof (rule distinct_keys_bound [where f = pss_participant])
    show "distinct (map pss_participant ?ss)"
      using old a(2) by (auto simp: signatures_at_def strict_sorted_iff)
    show "\<forall>x \<in> set ?ss. map_of ks (pss_participant x) \<noteq> None"
      using old ks participant_key_table [OF b ks] a(3) by (auto simp: signatures_at_def)
  qed
  then have "length (sp_signatures p) < MAX_PROOF_SIGNATURES"
    using participant_table(5) [OF b ks] by (simp add: MAX_PROOF_SIGNATURES_def MAX_PARTICIPANTS_def)
  then have add: "add_signature P (es_binding s) c sg p
      = Inr (p\<lparr>sp_signatures := sort_key pss_participant (sp_signatures p @ [sg])\<rparr>)"
    using a by (auto simp: add_signature_ok)
  have "validate_proposal P (es_binding s) (cursor_of s) (sp_event_position p)
      (p\<lparr>sp_signatures := sort_key pss_participant (sp_signatures p @ [sg])\<rparr>) = Inr ()"
    using add_signature_valid [OF b p(1) add] a(4) by (simp add: cursor_of_def)
  with add_signature_signatures [OF b old add] add p(2) a(4) show ?thesis by blast
qed

lemma install_complete:
  assumes agg: "blst_aggregation P" and ok: "state_ok P s"
    and at_c: "signatures_at P (es_binding s) p' c"
    and commit: "commit_entry P (es_binding s) (sp_entry p') (es_agreed_link s) = Inr c"
    and valid: "validate_proposal P (es_binding s) (cursor_of s) (sp_event_position p') p' = Inr ()"
    and budget: "check_receipt_budget P s (sp_entry p') = Inr t"
    and len: "length (sp_signatures p') = length (binding_tickets (es_binding s))"
  shows "\<exists>cert s1. certificate_from_signatures P (es_binding s) c p' = Inr cert
    \<and> install_certified P (s\<lparr>es_proposal := Some p'\<rparr>) cert = Inr (s1, committed_proposal cert p')
    \<and> es_version s1 = es_version s"
proof -
  have b: "binding_ok P (es_binding s)" using ok by (simp add: state_ok_def core_ok_def)
  obtain ks where ks: "participant_keys (es_binding s) = Inr ks" using participant_keys_ok [OF b] by blast
  have "length (sp_signatures p') = length ks" using len participant_table(2) [OF b ks] by simp
  from certificate_complete [OF agg b ks at_c this] obtain cert where
    cert: "certificate_from_signatures P (es_binding s) c p' = Inr cert" "cert_commitment cert = c"
      "verify_full_agreement P (cert_agreement cert) c (map snd ks) = Inr ()" by blast
  have "is_bound_to c (binding_session_id (es_binding s))"
    using commit by (simp add: commit_entry_ok for_entry_ok is_bound_to_def has_step_domain_def)
  then have v: "certificate_verify P cert (es_binding s) = Inr ()"
    using cert(2,3) ks by (simp add: certificate_verify_def participant_bls_keys_def)
  from valid commit obtain cur where "advance P (cursor_of s) c = Inr cur"
    by (auto simp: validate_proposal_ok proposal_at_def cursor_of_def)
  then have "install_certified P (s\<lparr>es_proposal := Some p'\<rparr>) cert
      = Inr ((begin_end (installed (s\<lparr>es_proposal := Some p'\<rparr>) cert p' cur t))\<lparr>es_callout := sp_callout p', es_proposal := None\<rparr>,
             committed_proposal cert p')"
    unfolding install_certified_ok using valid commit budget v cert(2)
    by (intro exI [of _ p'] exI [of _ cur] exI [of _ t] conjI) simp_all
  with cert(1) show ?thesis by (simp add: installed_def)
qed


lemma sample_missing:
  "\<exists>s p sg. reachable sample_prims s [] \<and> missing_signature sample_prims s p sg \<and> es_version s = ExecutionVersion 2
     \<and> pss_participant sg = PeerId 9 \<and> sp_signatures p = [] \<and> es_binding s = sample_binding"
proof -
  obtain s s0 ens where r: "reachable sample_prims s []" and s0: "sample_fresh (PeerId 9) s0" "es_status s0 = Active"
    "binding_ensemble sample_binding = Inr ens"
    "s = s0\<lparr>es_event_position := 1, es_proposal := Some (sample_proposal ens), es_version := ExecutionVersion 2\<rparr>"
    using sample_staged [of "PeerId 9"] by blast
  let ?p = "sample_proposal ens"
  let ?sg = "\<lparr>pss_participant = PeerId 9, pss_signature = \<lparr>sig_step = 0, sig_sig = BlsSignature 9\<rparr>\<rparr>"
  obtain c where c: "commit_entry sample_prims sample_binding (sample_entry ens) CHAIN_START = Inr c"
    using sample_proposal_valid [OF s0(3,1)] by blast
  then have "sc_step c = 0" by (simp add: commit_entry_ok for_entry_ok sample_entry_def)
  then have "verify_step_signature sample_prims (BlsPublicKey 9) c ?sg = Inr ()" by (simp add: verify_step_signature_ok)
  moreover have "participant_key sample_binding (PeerId 9) = Inr (BlsPublicKey 9)"
    by (simp add: participant_key_def sample_tickets_def sample_ticket_def ticket_key_def)
  ultimately have "missing_signature sample_prims s ?p ?sg"
    using c s0(1) by (simp add: s0(4) missing_signature_def sample_fresh_def sample_proposal_def)
  with r s0(1) show ?thesis
    by (intro exI [of _ s] exI [of _ ?p] exI [of _ ?sg]) (simp add: s0(4) sample_proposal_def sample_fresh_def)
qed


end
