(* ===== verification/Agreement.thy ===== *)
theory Agreement
  imports Signature_Collection
begin

text \<open>
  Agreement between participants.  A participant signs a step only in \<open>ensure_step_signature\<close>
  (\<open>arena0-node/src/execution/guest.rs\<close>): the commitment of its one staged proposal.  \<open>signer_step\<close>
  adds that log of signed commitments to the operations of \<open>ExecutionState\<close>; the log never holds two
  commitments for one step.  With the unforgeability of the participants' keys it follows that the
  certified traces of any two honest participants agree wherever both have an entry.
\<close>

section \<open>Signing\<close>

text \<open>The second component is the certified proposal, the third what the execution key signed.\<close>

definition ensure_step_signature ::
  "prims \<Rightarrow> (bytes \<Rightarrow> bls_signature) \<Rightarrow> execution_state
   \<Rightarrow> step_commitment list \<times> (protocol_error + execution_state \<times> shared_proposal option)" where
  "ensure_step_signature P sign s =
     (case es_proposal s of
        None \<Rightarrow> ([], Inr (s, None))
      | Some p \<Rightarrow>
          if \<exists>x \<in> set (sp_signatures p). pss_participant x = es_producer s then ([], Inr (s, None))
          else (case commitment_for P s p of
                  Inl e \<Rightarrow> ([], Inl e)
                | Inr c \<Rightarrow>
                    ([c], add_step_signature P s
                       \<lparr>pss_participant = es_producer s,
                        pss_signature = \<lparr>sig_step = sc_step c, sig_sig = sign (signing_bytes P c)\<rparr>\<rparr>)))"

text \<open>A participant's state together with everything its execution key has signed.\<close>

inductive signer_step ::
  "prims \<Rightarrow> execution_state \<times> step_commitment list \<Rightarrow> trace_entry list
   \<Rightarrow> execution_state \<times> step_commitment list \<Rightarrow> bool" for P where
  signer_exec: "exec_step P s es s' \<Longrightarrow> signer_step P (s, log) es (s', log)"
| signer_sign: "es_proposal s = Some p \<Longrightarrow> commitment_for P s p = Inr c \<Longrightarrow> signer_step P (s, log) [] (s, log @ [c])"

definition signer_initial :: "prims \<Rightarrow> execution_state \<times> step_commitment list \<Rightarrow> bool" where
  "signer_initial P sl \<longleftrightarrow> initial P (fst sl) \<and> snd sl = []"

abbreviation signer_reachable ::
  "prims \<Rightarrow> execution_state \<times> step_commitment list \<Rightarrow> trace_entry list \<Rightarrow> bool" where
  "signer_reachable P \<equiv> run (signer_initial P) (signer_step P)"

lemma ensure_step_signature_refines:
  assumes "signer_reachable P (s, log) tr" "ensure_step_signature P sign s = (cs, r)"
  shows "case r of
      Inl e \<Rightarrow> signer_reachable P (s, log @ cs) tr
    | Inr (s', q) \<Rightarrow> signer_reachable P (s', log @ cs)
        (tr @ (case q of None \<Rightarrow> [] | Some q \<Rightarrow> [sp_entry q]))"
proof -
  have sign: "signer_reachable P (s, log @ [c]) tr" if "es_proposal s = Some p" "commitment_for P s p = Inr c" for p c
    using run_step [OF assms(1) signer_sign [OF that]] by simp
  have exec: "signer_reachable P (s', log @ [c]) (tr @ es)"
    if "es_proposal s = Some p" "commitment_for P s p = Inr c" "exec_step P s es s'" for p c es s'
    by (rule run_step [OF sign [OF that(1,2)] signer_exec [OF that(3)]])
  show ?thesis
    using assms sign exec [OF _ _ step_sign] exec [OF _ _ step_complete]
    by (fastforce simp: ensure_step_signature_def split: option.splits if_splits sum.splits)
qed

section \<open>Commitments of a trace\<close>

definition committed_at ::
  "prims \<Rightarrow> execution_binding \<Rightarrow> trace_entry list \<Rightarrow> nat \<Rightarrow> step_commitment \<Rightarrow> bool" where
  "committed_at P b tr k c \<longleftrightarrow>
     k < length tr \<and> (\<exists>link. chain_links P b CHAIN_START (take k tr) = Inr link \<and> commit_entry P b (tr ! k) link = Inr c)"

lemma committed_at_unique: "committed_at P b tr k c \<Longrightarrow> committed_at P b tr k c' \<Longrightarrow> c = c'"
  by (auto simp: committed_at_def)

lemma committed_at_append: "committed_at P b tr k c \<Longrightarrow> committed_at P b (tr @ tr') k c"
  by (auto simp: committed_at_def nth_append)

lemma committed_at_last:
  assumes "chain_links P b CHAIN_START tr = Inr link" "commit_entry P b e link = Inr c"
  shows "committed_at P b (tr @ [e]) (length tr) c"
  using assms by (simp add: committed_at_def)

lemma agreed_trace_links: "validate_agreed_trace P b tr = Inr cur \<Longrightarrow> chain_links P b CHAIN_START tr = Inr (chain_hash cur)"
  using chain_links_trace [of P b _ "start_cursor b"]
  by (auto simp: validate_agreed_trace_def bind_res_ok start_cursor_def)

section \<open>One commitment per step\<close>

text \<open>A staged proposal keeps its entry until the step commits or the execution ends.\<close>

definition keeps_proposal :: "execution_state \<Rightarrow> execution_state \<Rightarrow> bool" where
  "keeps_proposal s s' \<longleftrightarrow> (\<forall>p. es_proposal s = Some p \<longrightarrow>
     is_terminal (es_status s') \<or> (\<exists>p'. es_proposal s' = Some p' \<and> sp_entry p' = sp_entry p))"

lemma keeps_bump: "bump_version s = Inr s' \<Longrightarrow> keeps_proposal s0 s \<Longrightarrow> keeps_proposal s0 s'"
  by (auto simp: bump_version_ok keeps_proposal_def)

lemma sign_keeps:
  assumes "add_step_signature P s sg = Inr (s', None)"
  shows "keeps_proposal s s'"
proof -
  from assms obtain p c p' where "es_proposal s = Some p" "add_signature P (es_binding s) c sg p = Inr p'"
    "bump_version (s\<lparr>es_proposal := Some p'\<rparr>) = Inr s'"
    unfolding add_step_signature_ok by (auto split: if_splits)
  then show ?thesis by (auto simp: add_signature_ok bump_version_ok keeps_proposal_def)
qed

lemma dispatch_keeps:
  "apply_dispatch P s ev shared local effects out pending callout = Inr (s', frame) \<Longrightarrow> keeps_proposal s s'"
  by (simp add: apply_dispatch_def keeps_proposal_def if_Inl_ok)

lemma exec_step_keeps:
  assumes "exec_step P s [] s'"
  shows "keeps_proposal s s'"
  using assms
proof cases
  case step_activate
  then show ?thesis by (auto simp: activate_def keeps_proposal_def split: if_splits elim!: keeps_bump)
next
  case step_drop
  then show ?thesis by (auto simp: drop_outgoing_head_def keeps_proposal_def split: if_splits)
next
  case step_stop
  then show ?thesis
    by (auto simp: stop_def bind_res_ok status_stopped_def if_Inl_ok bump_version_ok keeps_proposal_def is_terminal_def)
next
  case step_publish
  then show ?thesis by (auto simp: publish_receipt_def bind_res_ok bump_version_ok keeps_proposal_def)
next
  case step_record
  then show ?thesis by (auto simp: record_direct_def bind_res_ok keeps_proposal_def split: if_splits)
next
  case step_ack
  then show ?thesis by (auto simp: ack_direct_def bind_res_ok keeps_proposal_def split: if_splits option.splits)
next
  case step_confirm
  then show ?thesis
    by (auto simp: confirm_end_def bind_res_ok bump_version_ok keeps_proposal_def split: if_splits option.splits)
next
  case step_expire
  then show ?thesis by (auto simp: expire_end_def bump_version_ok keeps_proposal_def split: end_phase.splits)
qed (auto intro: dispatch_keeps sign_keeps)

definition log_ok :: "prims \<Rightarrow> execution_state \<Rightarrow> step_commitment list \<Rightarrow> trace_entry list \<Rightarrow> bool" where
  "log_ok P s log tr \<longleftrightarrow>
     (\<forall>c \<in> set log. committed_at P (es_binding s) tr (unat (sc_step c)) c
        \<or> unat (sc_step c) = length tr
          \<and> (is_terminal (es_status s) \<or> (\<exists>p. es_proposal s = Some p \<and> commitment_for P s p = Inr c)))
     \<and> (\<forall>c \<in> set log. \<forall>c' \<in> set log. sc_step c = sc_step c' \<longrightarrow> c = c')"

lemma quiet_terminal: "quiet_step s s' \<Longrightarrow> is_terminal (es_status s) \<Longrightarrow> is_terminal (es_status s')"
  by (auto simp: quiet_step_def is_terminal_def elim: lifecycle_step.cases)

lemma quiet_log_ok:
  assumes "log_ok P s log tr" "quiet_step s s'" "keeps_proposal s s'"
  shows "log_ok P s' log tr"
proof -
  have q: "es_binding s' = es_binding s" "es_agreed_link s' = es_agreed_link s"
    using assms(2) by (auto simp: quiet_step_def cursor_of_def)
  have "commitment_for P s' p' = commitment_for P s p" if "sp_entry p' = sp_entry p" for p p'
    using that q by (simp add: commitment_for_def)
  then have "is_terminal (es_status s') \<or> (\<exists>p. es_proposal s' = Some p \<and> commitment_for P s' p = Inr c)"
    if "is_terminal (es_status s) \<or> (\<exists>p. es_proposal s = Some p \<and> commitment_for P s p = Inr c)" for c
    using that assms(3) quiet_terminal [OF assms(2)] unfolding keeps_proposal_def by metis
  with assms(1) q(1) show ?thesis by (simp add: log_ok_def) blast
qed

lemma commit_log_ok:
  assumes log: "log_ok P s log tr" and tr: "trace_ok P s tr" and ok: "state_ok P s"
    and commit: "commit_step P s p cert s'"
  shows "log_ok P s' log (tr @ [sp_entry (committed_proposal cert p)])"
proof -
  let ?e = "sp_entry (committed_proposal cert p)"
  from commit obtain p0 where p0: "es_proposal s = Some p0" "sp_entry p0 = sp_entry p"
    "commit_entry P (es_binding s) (sp_entry p) (es_agreed_link s) = Inr (cert_commitment cert)"
    "es_binding s' = es_binding s"
    by (auto simp: commit_step_def proposal_at_def cursor_of_def)
  have "es_status s = Active" using ok p0(1) by (auto simp: state_ok_def status_ok_def)
  then have active: "\<not> is_terminal (es_status s)" by (simp add: is_terminal_def)
  have links: "chain_links P (es_binding s) CHAIN_START tr = Inr (es_agreed_link s)"
    using tr agreed_trace_links by (fastforce simp: trace_ok_def cursor_of_def)
  have "committed_at P (es_binding s') (tr @ [?e]) (unat (sc_step c)) c" if "c \<in> set log" for c
  proof (cases "committed_at P (es_binding s) tr (unat (sc_step c)) c")
    case True
    then show ?thesis by (simp add: p0(4) committed_at_append)
  next
    case False
    with log that active p0(1) have "unat (sc_step c) = length tr" "commitment_for P s p0 = Inr c"
      by (auto simp: log_ok_def)
    then show ?thesis
      using committed_at_last [OF links, of ?e c] p0(2,4) by (simp add: commitment_for_def committed_proposal_def)
  qed
  with log show ?thesis by (simp add: log_ok_def)
qed

lemma sign_log_ok:
  assumes log: "log_ok P s log tr" and tr: "trace_ok P s tr" and ok: "state_ok P s"
    and p: "es_proposal s = Some p" "commitment_for P s p = Inr c"
  shows "log_ok P s (log @ [c]) tr"
proof -
  have "es_status s = Active" using ok p(1) by (auto simp: state_ok_def status_ok_def)
  then have active: "\<not> is_terminal (es_status s)" by (simp add: is_terminal_def)
  have "validate_recovered_proposal P s p = Inr ()" using ok p(1) by (simp add: state_ok_def pending_ok_def)
  then have step: "sc_step c = es_agreed_step s"
    using p(2) by (auto simp: recovered_proposal_ok validate_proposal_ok proposal_at_def advance_ok cursor_of_def
        commitment_for_def)
  have len: "length tr = unat (es_agreed_step s)" using tr by (simp add: trace_ok_def)
  have same: "c' = c" if "c' \<in> set log" "sc_step c' = sc_step c" for c'
    using log that step len active p by (auto simp: log_ok_def committed_at_def)
  with log step len p show ?thesis by (auto simp: log_ok_def)
qed

lemma initial_log_ok: "log_ok P s [] tr"
  by (simp add: log_ok_def)

interpretation signer_run: run_invariant "signer_initial P" "signer_step P"
  "\<lambda>sl tr. borsh_layout P \<longrightarrow> reachable P (fst sl) tr \<and> state_ok P (fst sl) \<and> trace_ok P (fst sl) tr
     \<and> log_ok P (fst sl) (snd sl) tr" for P
proof
  show "borsh_layout P \<longrightarrow> reachable P (fst sl) [] \<and> state_ok P (fst sl) \<and> trace_ok P (fst sl) [] \<and> log_ok P (fst sl) (snd sl) []"
    if "signer_initial P sl" for sl
    using that by (simp add: signer_initial_def run_init initial_state_ok initial_trace_ok initial_log_ok)
next
  fix sl tr es sl'
  assume inv: "borsh_layout P \<longrightarrow> reachable P (fst sl) tr \<and> state_ok P (fst sl) \<and> trace_ok P (fst sl) tr
     \<and> log_ok P (fst sl) (snd sl) tr" and step: "signer_step P sl es sl'"
  from step show "borsh_layout P \<longrightarrow> reachable P (fst sl') (tr @ es) \<and> state_ok P (fst sl') \<and> trace_ok P (fst sl') (tr @ es)
     \<and> log_ok P (fst sl') (snd sl') (tr @ es)"
  proof cases
    case (signer_exec s s' log)
    show ?thesis
    proof (intro impI)
      assume layout: "borsh_layout P"
      with inv signer_exec have old: "reachable P s tr" "log_ok P s log tr" "state_ok P s" "trace_ok P s tr" by auto
      from run_step [OF old(1) signer_exec(3)] have r: "reachable P s' (tr @ es)" .
      from trace_run.holds [OF r] layout have new: "state_ok P s'" "trace_ok P s' (tr @ es)" by auto
      from exec_step_effect [OF signer_exec(3)] have "log_ok P s' log (tr @ es)"
        using quiet_log_ok [OF old(2)] exec_step_keeps signer_exec(3) commit_log_ok [OF old(2,4,3)] by auto
      with r new signer_exec show "reachable P (fst sl') (tr @ es) \<and> state_ok P (fst sl') \<and> trace_ok P (fst sl') (tr @ es)
        \<and> log_ok P (fst sl') (snd sl') (tr @ es)" by simp
    qed
  next
    case (signer_sign s p c log)
    with inv show ?thesis by (auto intro: sign_log_ok)
  qed
qed

section \<open>Two participants\<close>

lemma validate_trace_nth:
  assumes "validate_trace_from P b keys cur tr = Inr cur'" "k < length tr"
  shows "\<exists>link c. chain_links P b (chain_hash cur) (take k tr) = Inr link \<and> commit_entry P b (tr ! k) link = Inr c
    \<and> verify_full_agreement P (te_agreement (tr ! k)) c keys = Inr () \<and> unat (sc_step c) = unat (next_step cur) + k"
  using assms
proof (induction tr arbitrary: cur k)
  case (Cons e tr)
  then obtain c mid where e: "commit_entry P b e (chain_hash cur) = Inr c" "chain_hash mid = link_hash P c"
    "verify_full_agreement P (te_agreement e) c keys = Inr ()" "validate_trace_from P b keys mid tr = Inr cur'"
    "sc_step c = next_step cur" "unat (next_step mid) = unat (next_step cur) + 1"
    by (auto simp: bind_res_ok map_err_ok advance_ok checked_add_Some split: if_splits)
  show ?case
  proof (cases k)
    case (Suc j)
    with Cons.IH [OF e(4), of j] Cons.prems(2) e show ?thesis by auto
  qed (use e in simp)
qed simp

lemma committed_at_signed:
  assumes "trace_ok P s tr" "k < length tr"
  shows "\<exists>c keys. committed_at P (es_binding s) tr k c \<and> participant_bls_keys (es_binding s) = Inr keys
    \<and> fast_aggregate_verify P (att_aggregate (te_agreement (tr ! k))) (signing_bytes P c) keys = Inr True
    \<and> unat (sc_step c) = k"
proof -
  from assms(1) obtain keys where k: "participant_bls_keys (es_binding s) = Inr keys"
    "validate_trace_from P (es_binding s) keys (start_cursor (es_binding s)) tr = Inr (cursor_of s)"
    by (auto simp: trace_ok_def validate_agreed_trace_def bind_res_ok)
  from validate_trace_nth [OF k(2) assms(2)] k(1) assms(2) show ?thesis
    by (auto simp: committed_at_def start_cursor_def verify_full_agreement_ok)
qed

lemma cursor_from_last:
  assumes tr: "trace_ok P s tr" and c: "committed_at P (es_binding s) tr k c" and last: "Suc k = length tr"
  shows "cursor_state_hash (cursor_of s) = sc_post_state c \<and> chain_hash (cursor_of s) = link_hash P c"
proof -
  have "tr \<noteq> []" "length tr - 1 = k" using last by auto
  then have bl: "butlast tr = take k tr" "last tr = tr ! k"
    by (simp_all add: butlast_conv_take last_conv_nth)
  have ne: "tr = butlast tr @ [last tr]" using \<open>tr \<noteq> []\<close> by simp
  have no: "no_terminal (butlast tr)" using tr by (simp add: trace_ok_def)
  have "validate_agreed_trace P (es_binding s) (butlast tr @ [last tr]) = Inr (cursor_of s)"
    using tr ne by (simp add: trace_ok_def)
  then obtain mid c' where m: "validate_agreed_trace P (es_binding s) (butlast tr) = Inr mid"
    "commit_entry P (es_binding s) (last tr) (chain_hash mid) = Inr c'" "advance P mid c' = Inr (cursor_of s)"
    unfolding agreed_trace_snoc [OF no] validate_trace_one by blast
  have "committed_at P (es_binding s) tr k c'"
    using agreed_trace_links [OF m(1)] m(2) last by (simp add: committed_at_def bl)
  with c have "c' = c" by (rule committed_at_unique [rotated])
  with m(3) show ?thesis by (simp add: advance_ok)
qed

text \<open>Unforgeability of one participant's key on one trace: an aggregate of the trace that verifies under
  a list of keys including this one covers a message its owner signed.\<close>

definition unforged :: "prims \<Rightarrow> bls_public_key \<Rightarrow> step_commitment list \<Rightarrow> execution_binding \<Rightarrow> trace_entry list \<Rightarrow> bool" where
  "unforged P key log b tr \<longleftrightarrow>
     (\<forall>k c keys. committed_at P b tr k c \<longrightarrow> key \<in> set keys \<longrightarrow>
        fast_aggregate_verify P (att_aggregate (te_agreement (tr ! k))) (signing_bytes P c) keys = Inr True \<longrightarrow>
        signing_bytes P c \<in> signing_bytes P ` set log)"

definition trace_commitments :: "prims \<Rightarrow> execution_binding \<Rightarrow> trace_entry list \<Rightarrow> step_commitment set" where
  "trace_commitments P b tr = {c. \<exists>k. committed_at P b tr k c}"

lemma producer_key:
  assumes "binding_ok P b" "participant_key b me = Inr key" "participant_bls_keys b = Inr keys"
  shows "key \<in> set keys"
proof -
  from assms(3) obtain ks where ks: "participant_keys b = Inr ks" "keys = map snd ks"
    by (auto simp: participant_bls_keys_def bind_res_ok)
  with participant_key_table [OF assms(1) ks(1)] assms(2) show ?thesis by (force dest: map_of_SomeD)
qed

lemma committed_in_log:
  assumes run: "signer_reachable P (s, log) tr" and layout: "borsh_layout P"
    and key: "participant_key (es_binding s) (es_producer s) = Inr key"
    and tr': "trace_ok P s' tr'" "es_binding s' = es_binding s" "k < length tr'"
    and unf: "unforged P key log (es_binding s) tr'"
    and inj: "inj_on (signing_bytes P) (set log \<union> trace_commitments P (es_binding s) tr')"
  shows "\<exists>c \<in> set log. committed_at P (es_binding s) tr' k c \<and> unat (sc_step c) = k"
proof -
  have b: "binding_ok P (es_binding s)"
    using signer_run.holds [OF run] layout by (simp add: state_ok_def core_ok_def)
  from committed_at_signed [OF tr'(1,3)] tr'(2) obtain c keys where c: "committed_at P (es_binding s) tr' k c"
    "participant_bls_keys (es_binding s) = Inr keys"
    "fast_aggregate_verify P (att_aggregate (te_agreement (tr' ! k))) (signing_bytes P c) keys = Inr True"
    "unat (sc_step c) = k" by auto
  with unf producer_key [OF b key c(2)] obtain c' where c': "c' \<in> set log" "signing_bytes P c = signing_bytes P c'"
    unfolding unforged_def by blast
  have "c \<in> trace_commitments P (es_binding s) tr'" using c(1) by (auto simp: trace_commitments_def)
  with inj c' have "c = c'" by (auto dest: inj_onD)
  with c c' show ?thesis by auto
qed

text \<open>C5: two honest participants never certify different steps.  Take any two runs of the same session,
  by two participants, with whatever the network delivered in between.  If the first participant's
  key is unforgeable (every certificate of either trace under it covers something it signed) and
  step commitments are encoded injectively, then wherever both traces have an entry the two
  entries carry the same commitment: same step, same previous link, same entry hash, same states.
  Participants at the same step have the same agreed state and the same chain.\<close>

theorem honest_traces_agree:
  assumes "borsh_layout P"
    and "signer_reachable P (s1, log1) tr1" "signer_reachable P (s2, log2) tr2" "es_binding s2 = es_binding s1"
    and "participant_key (es_binding s1) (es_producer s1) = Inr key"
    and "unforged P key log1 (es_binding s1) tr1" "unforged P key log1 (es_binding s1) tr2"
    and "inj_on (signing_bytes P) (set log1 \<union> trace_commitments P (es_binding s1) tr1
                                    \<union> trace_commitments P (es_binding s1) tr2)"
  shows "(\<forall>k < min (length tr1) (length tr2). \<exists>c. committed_at P (es_binding s1) tr1 k c \<and> committed_at P (es_binding s1) tr2 k c)
    \<and> (es_agreed_step s1 = es_agreed_step s2 \<longrightarrow> cursor_of s1 = cursor_of s2)"
proof -
  have t: "trace_ok P s1 tr1" "trace_ok P s2 tr2" "log_ok P s1 log1 tr1"
    using signer_run.holds [OF assms(2)] signer_run.holds [OF assms(3)] assms(1) by simp_all
  have inj: "inj_on (signing_bytes P) (set log1 \<union> trace_commitments P (es_binding s1) tr1)"
    "inj_on (signing_bytes P) (set log1 \<union> trace_commitments P (es_binding s1) tr2)"
    using assms(8) by (auto elim: inj_on_subset)
  have agree: "\<exists>c. committed_at P (es_binding s1) tr1 k c \<and> committed_at P (es_binding s1) tr2 k c"
    if k: "k < length tr1" "k < length tr2" for k
  proof -
    obtain c1 where c1: "c1 \<in> set log1" "committed_at P (es_binding s1) tr1 k c1" "unat (sc_step c1) = k"
      using committed_in_log [OF assms(2,1,5) t(1) refl k(1) assms(6) inj(1)] by blast
    obtain c2 where c2: "c2 \<in> set log1" "committed_at P (es_binding s1) tr2 k c2" "unat (sc_step c2) = k"
      using committed_in_log [OF assms(2,1,5) t(2) assms(4) k(2) assms(7) inj(2)] by blast
    have "sc_step c1 = sc_step c2" using c1(3) c2(3) by (simp add: word_unat_eq_iff)
    with t(3) c1(1) c2(1) have "c1 = c2" by (auto simp: log_ok_def)
    with c1(2) c2(2) show ?thesis by blast
  qed
  have "cursor_of s1 = cursor_of s2" if steps: "es_agreed_step s1 = es_agreed_step s2"
  proof (cases "length tr1")
    case 0
    with steps t(1,2) have "tr1 = []" "tr2 = []" by (auto simp: trace_ok_def)
    with t(1,2) assms(4) show ?thesis by (auto simp: trace_ok_def validate_agreed_trace_def bind_res_ok)
  next
    case (Suc k)
    with steps t(1,2) have len: "Suc k = length tr1" "Suc k = length tr2" by (auto simp: trace_ok_def)
    then obtain c where "committed_at P (es_binding s1) tr1 k c" "committed_at P (es_binding s2) tr2 k c"
      using agree [of k] assms(4) by auto
    from cursor_from_last [OF t(1) this(1) len(1)] cursor_from_last [OF t(2) this(2) len(2)] steps
    show ?thesis by (simp add: cursor_of_def)
  qed
  with agree show ?thesis by auto
qed

lemma sample_signer_run:
  "\<exists>c. \<forall>me \<in> {PeerId 9, PeerId 3}. \<exists>s e. signer_reachable sample_prims (s, [c]) [e] \<and> es_producer s = me
     \<and> es_binding s = sample_binding \<and> commit_entry sample_prims sample_binding e CHAIN_START = Inr c"
proof -
  obtain ens where ens: "binding_ensemble sample_binding = Inr ens"
    using binding_ensemble_exists [OF sample_binding_ok] by blast
  obtain c where c: "commit_entry sample_prims sample_binding (sample_entry ens) CHAIN_START = Inr c"
    using sample_entry_fits [OF ens] by (simp add: commit_entry_def for_entry_def entry_hash_fits map_err_def)
  have "\<exists>s e. signer_reachable sample_prims (s, [c]) [e] \<and> es_producer s = me
     \<and> es_binding s = sample_binding \<and> commit_entry sample_prims sample_binding e CHAIN_START = Inr c"
    if me: "me = PeerId 9 \<or> me = PeerId 3" for me
  proof -
    obtain s s0 where s0: "reachable sample_prims s []" "sample_fresh me s0" "es_status s0 = Active"
      "s = s0\<lparr>es_event_position := 1, es_proposal := Some (sample_proposal ens), es_version := ExecutionVersion 2\<rparr>"
      using sample_staged [OF me] ens by auto
    obtain cert s' where s': "certify_step sample_prims s cert = Inr (s', committed_proposal cert (sample_proposal ens))"
      "es_binding s' = sample_binding" "es_producer s' = me" using sample_certify [OF s0(2) ens s0(4)] by blast
    have fresh: "signer_reachable sample_prims (s, []) tr" if "reachable sample_prims s tr" for s tr
      using that by (induction rule: run.induct) (auto intro!: run_init run_step signer_exec simp: signer_initial_def)
    have "commitment_for sample_prims s (sample_proposal ens) = Inr c" "es_proposal s = Some (sample_proposal ens)"
      using c s0(2) by (simp_all add: s0(4) commitment_for_def sample_fresh_def sample_proposal_def)
    from run_step [OF fresh [OF s0(1)] signer_sign [OF this(2,1)]]
    have "signer_reachable sample_prims (s, [c]) []" by simp
    from run_step [OF this signer_exec [OF step_certify [OF s'(1)]]] s'(2,3) c show ?thesis
      by (intro exI [of _ s'] exI [of _ "sp_entry (committed_proposal cert (sample_proposal ens))"])
        (simp add: committed_proposal_def sample_proposal_def)
  qed
  then show ?thesis by (intro exI [of _ c]) blast
qed

theorem honest_traces_agree_witness:
  "\<exists>s1 s2 tr1 tr2 log1 log2 c. signer_reachable sample_prims (s1, log1) tr1 \<and> signer_reachable sample_prims (s2, log2) tr2
     \<and> es_producer s1 = PeerId 9 \<and> es_producer s2 = PeerId 3
     \<and> committed_at sample_prims (es_binding s1) tr1 0 c \<and> committed_at sample_prims (es_binding s1) tr2 0 c"
proof -
  obtain c s1 e1 s2 e2 where
    r1: "signer_reachable sample_prims (s1, [c]) [e1]" "es_producer s1 = PeerId 9" "es_binding s1 = sample_binding"
      "commit_entry sample_prims sample_binding e1 CHAIN_START = Inr c"
    and r2: "signer_reachable sample_prims (s2, [c]) [e2]" "es_producer s2 = PeerId 3" "es_binding s2 = sample_binding"
      "commit_entry sample_prims sample_binding e2 CHAIN_START = Inr c"
    using sample_signer_run by fastforce
  have at0: "committed_at sample_prims sample_binding [e1] k c' \<Longrightarrow> c' = c" "committed_at sample_prims sample_binding [e2] k c' \<Longrightarrow> c' = c"
    for k c' using r1(4) r2(4) by (auto simp: committed_at_def)
  have key: "participant_key (es_binding s1) (es_producer s1) = Inr (BlsPublicKey 9)"
    by (simp add: r1(2,3) participant_key_def sample_tickets_def sample_ticket_def ticket_key_def)
  have unf: "unforged sample_prims (BlsPublicKey 9) [c] (es_binding s1) [e1]" "unforged sample_prims (BlsPublicKey 9) [c] (es_binding s1) [e2]"
    using at0 by (auto simp: unforged_def r1(3))
  have inj: "inj_on (signing_bytes sample_prims) (set [c] \<union> trace_commitments sample_prims (es_binding s1) [e1]
      \<union> trace_commitments sample_prims (es_binding s1) [e2])"
    by (rule inj_on_subset [of _ "{c}"]) (use at0 in \<open>auto simp: trace_commitments_def r1(3)\<close>)
  have "es_binding s2 = es_binding s1" by (simp add: r1(3) r2(3))
  from honest_traces_agree [OF sample_layout r1(1) r2(1) this key unf inj]
  obtain c' where "committed_at sample_prims (es_binding s1) [e1] 0 c'" "committed_at sample_prims (es_binding s1) [e2] 0 c'"
    by auto
  with r1(1,2) r2(1,2) show ?thesis by blast
qed

end
