(* ===== verification/State_Codec.thy ===== *)
theory State_Codec
  imports State_Invariant
begin

text \<open>
  The durable encoding of \<open>ExecutionState\<close>: the Borsh shape its derives give it (\<open>state_value\<close>), \<open>encode\<close>
  with the bound on the whole aggregate, and \<open>decode\<close>, which recomputes the one field that is not
  stored and validates what it read.  \<open>borsh::from_slice\<close> is the parameter \<open>rd\<close>.
\<close>

section \<open>Shapes\<close>

definition MAX_EXECUTION_STATE_BYTES :: nat where
  "MAX_EXECUTION_STATE_BYTES = 32 * 1024 * 1024"

fun exec_id_value :: "exec_id \<Rightarrow> borsh_value" where
  "exec_id_value (ExecId h) = BArr32 h"

fun receipt_id_value :: "receipt_id \<Rightarrow> borsh_value" where
  "receipt_id_value (ReceiptId h) = BArr32 h"

definition outcome_value :: "terminal_outcome \<Rightarrow> borsh_value" where
  "outcome_value out = BStruct [BBytes MAX_TERMINAL_OUTCOME_BYTES (outcome_borsh out),
                                BBytes MAX_TERMINAL_OUTCOME_BYTES (outcome_json out)]"

fun status_value :: "execution_status \<Rightarrow> borsh_value" where
  "status_value Activating = BEnum 0 []"
| "status_value Active = BEnum 1 []"
| "status_value (Certified out) = BEnum 2 [outcome_value out]"
| "status_value (Completed out rid) = BEnum 3 [outcome_value out, receipt_id_value rid]"
| "status_value (Stopped cause) = BEnum 4 [cause_value cause]"
| "status_value (StoppedPublished cause rid) = BEnum 5 [cause_value cause, receipt_id_value rid]"

definition certificate_value :: "step_certificate \<Rightarrow> borsh_value" where
  "certificate_value c = BStruct [commitment_value (cert_commitment c), attestation_value (cert_agreement c)]"

fun end_phase_value :: "end_phase \<Rightarrow> borsh_value" where
  "end_phase_value Open = BEnum 0 []"
| "end_phase_value (Ending ps) = BEnum 1 [BVec U32_MAX (map peer_value ps)]"
| "end_phase_value (Ended ps) = BEnum 2 [BVec U32_MAX (map peer_value ps)]"

definition direct_entry_value :: "direct_entry \<Rightarrow> borsh_value" where
  "direct_entry_value e = BStruct [BU64 (de_seq e), BBytes MAX_DIRECT_CONTROL_BYTES (de_msg e),
                                   option_value range_value (de_range e)]"

definition lane_value :: "direct_lane \<Rightarrow> borsh_value" where
  "lane_value lane = BStruct [BU64 (last_queued lane), BVec MAX_DIRECT_QUEUE (map direct_entry_value (lane_queue lane)),
                              BU64 (last_applied lane)]"

definition outgoing_value :: "bytes list \<Rightarrow> borsh_value" where
  "outgoing_value msgs = BVec U32_MAX (map (BBytes U32_MAX) msgs)"

definition callout_value :: "open_callout \<Rightarrow> borsh_value" where
  "callout_value c = BStruct [case oc_id c of CalloutId n \<Rightarrow> BU64 n, BU32 (oc_index c),
                              BBytes MAX_CALLOUT_CONTEXT_BYTES (oc_context c)]"

definition participant_signature_value :: "participant_step_signature \<Rightarrow> borsh_value" where
  "participant_signature_value x =
     BStruct [peer_value (pss_participant x),
              BStruct [BU64 (sig_step (pss_signature x)), bls_signature_value (sig_sig (pss_signature x))]]"

definition shared_state_value :: "shared_state_bytes \<Rightarrow> borsh_value" where
  "shared_state_value s = BBytes U32_MAX (shared_as_bytes s)"

definition local_state_value :: "local_state_bytes \<Rightarrow> borsh_value" where
  "local_state_value s = BBytes U32_MAX (local_as_bytes s)"

definition proposal_value :: "shared_proposal \<Rightarrow> borsh_value" where
  "proposal_value p = BStruct [entry_value (sp_entry p), shared_state_value (sp_shared_state p),
     local_state_value (sp_local_state p), outgoing_value (sp_outgoing p),
     BVec U32_MAX (map (\<lambda>(i, e). BStruct [BU32 i, effect_value e]) (sp_effects p)), BU64 (sp_event_position p),
     status_value (sp_status p), option_value callout_value (sp_callout p),
     BVec U32_MAX (map participant_signature_value (sp_signatures p))]"

text \<open>\<open>receipt_overhead\<close> is skipped.\<close>

definition state_value :: "execution_state \<Rightarrow> borsh_value" where
  "state_value s = BStruct [exec_id_value (es_execution_id s), activation_value (bind_activation (es_binding s)),
     peer_value (es_producer s), status_value (es_status s), BU64 (version_get (es_version s)),
     BU64 (es_event_position s), BU64 (es_agreed_step s), BU64 (es_trace_bytes s),
     state_hash_value (es_agreed_state s), BArr32 (es_agreed_link s),
     option_value certificate_value (es_last_certificate s), end_phase_value (es_end_phase s),
     BVec U32_MAX (map (\<lambda>(p, lane). BStruct [peer_value p, lane_value lane]) (es_direct s)),
     outgoing_value (es_outgoing s), shared_state_value (es_shared_state s), local_state_value (es_local_state s),
     option_value proposal_value (es_proposal s), option_value callout_value (es_callout s)]"

section \<open>Encoding and decoding\<close>

definition state_encode :: "prims \<Rightarrow> execution_state \<Rightarrow> protocol_error + bytes" where
  "state_encode P s =
     bind_res (map_err Serialization (to_vec P (state_value s))) (\<lambda>bs.
     bind_res (ensure_encoded ''execution state'' (length bs) MAX_EXECUTION_STATE_BYTES) (\<lambda>_. Inr bs))"

definition state_decode :: "prims \<Rightarrow> (bytes \<Rightarrow> string + execution_state) \<Rightarrow> bytes \<Rightarrow> protocol_error + execution_state" where
  "state_decode P rd bs =
     bind_res (ensure_encoded ''execution state'' (length bs) MAX_EXECUTION_STATE_BYTES) (\<lambda>_.
     bind_res (map_err Deserialization (rd bs)) (\<lambda>s.
     bind_res (reserved_overhead P (es_binding s)) (\<lambda>overhead.
     let s = s\<lparr>es_receipt_overhead := overhead\<rparr> in
     bind_res (validate_recovered P s) (\<lambda>_. Inr s))))"

end
