(* ===== verification/End_Handshake.thy ===== *)
theory End_Handshake
  imports Sample_Run
begin

text \<open>
  The end handshake of \<open>execution/end.rs\<close> along runs.  \<open>end_step\<close> is what the handshake promises: it
  opens once, with every other participant unconfirmed, confirms one peer at a time, and its window
  expires at most once.  Every operation of \<open>ExecutionState\<close> leaves the phase or takes one such step.
\<close>

section \<open>The abstract handshake\<close>

definition other_participants :: "execution_state \<Rightarrow> peer_id list" where
  "other_participants s = remdups_adj (sort (filter (\<lambda>p. p \<noteq> es_producer s) (participants (es_binding s))))"

inductive end_step :: "peer_id list \<Rightarrow> end_phase \<Rightarrow> end_phase \<Rightarrow> bool" for others where
  end_begins: "end_step others Open (Ending others)"
| end_confirms: "phase_unconfirmed ph = Some ps \<Longrightarrow> p \<in> set ps \<Longrightarrow> end_step others ph (confirm_phase p ph)"
| end_expires: "end_step others (Ending ps) (Ended ps)"

inductive_cases end_step_open: "end_step others Open ph"

section \<open>Every operation is a step of the handshake\<close>

lemma bump_phase [simp]: "bump_version s = Inr s' \<Longrightarrow> es_end_phase s' = es_end_phase s"
  by (auto simp: bump_version_ok)

lemma begin_end_step:
  assumes "es_end_phase s' = es_end_phase (begin_end s1)" "es_end_phase s1 = es_end_phase s"
    "es_producer s1 = es_producer s" "es_binding s1 = es_binding s"
  shows "es_end_phase s' = es_end_phase s \<or> end_step (other_participants s) (es_end_phase s) (es_end_phase s')"
  using assms by (auto simp: begin_end_def other_participants_def intro: end_begins)

lemma install_end_step:
  assumes "install_certified P s cert = Inr (s', q)"
  shows "es_end_phase s' = es_end_phase s \<or> end_step (other_participants s) (es_end_phase s) (es_end_phase s')"
proof -
  from assms obtain p cur t where "s' = (begin_end (installed s cert p cur t))\<lparr>es_callout := sp_callout p, es_proposal := None\<rparr>"
    unfolding install_certified_ok by blast
  then show ?thesis by (intro begin_end_step [of _ "installed s cert p cur t"]) (simp_all add: installed_def)
qed

lemma sign_end_step:
  assumes "add_step_signature P s sg = Inr (s', r)"
  shows "es_end_phase s' = es_end_phase s \<or> end_step (other_participants s) (es_end_phase s) (es_end_phase s')"
proof -
  from assms obtain p' where br: "(\<exists>cert s1 q. install_certified P (s\<lparr>es_proposal := Some p'\<rparr>) cert = Inr (s1, q)
        \<and> bump_version s1 = Inr s') \<or> bump_version (s\<lparr>es_proposal := Some p'\<rparr>) = Inr s'"
    unfolding add_step_signature_ok by (auto split: if_splits)
  then show ?thesis
  proof (elim disjE exE conjE)
    fix cert s1 q
    assume "install_certified P (s\<lparr>es_proposal := Some p'\<rparr>) cert = Inr (s1, q)" "bump_version s1 = Inr s'"
    with install_end_step [of P "s\<lparr>es_proposal := Some p'\<rparr>" cert s1 q] show ?thesis
      by (simp add: other_participants_def)
  qed (auto dest: bump_phase)
qed

lemma dispatch_phase:
  assumes "apply_dispatch P s ev shared local effects out pending callout = Inr (s', frame)"
  shows "es_end_phase s' = es_end_phase s"
proof -
  have local: "es_end_phase s' = es_end_phase s" if "apply_local P s ev shared local effects l out callout = Inr s'" for l s'
    using that by (auto simp: apply_local_def install_dispatch_def Let_def bind_res_ok if_Inl_ok bump_version_ok split: if_splits)
  have agreed: "es_end_phase s' = es_end_phase s" if "apply_agreed P s ev shared local effects i l out callout = Inr (s', frame)" for i l
    using that by (auto simp: apply_agreed_def stage_proposal_def Let_def bind_res_ok if_Inl_ok bump_version_ok)
  show ?thesis
    using assms by (auto simp: apply_dispatch_def bind_res_ok if_Inl_ok ex_unit intro: agreed local split: if_splits)
qed

lemma confirm_end_step:
  "confirm_end s p = Inr (s', r) \<Longrightarrow> es_end_phase s' = es_end_phase s \<or> end_step others (es_end_phase s) (es_end_phase s')"
  by (auto simp: confirm_end_def bind_res_ok bump_version_ok intro: end_confirms split: if_splits option.splits)

lemma exec_step_end:
  assumes "exec_step P s es s'"
  shows "es_end_phase s' = es_end_phase s \<or> end_step (other_participants s) (es_end_phase s) (es_end_phase s')"
  using assms
proof cases
  case step_activate
  then show ?thesis by (auto simp: activate_def bump_version_ok split: if_splits)
next
  case step_dispatch
  then show ?thesis by (auto dest: dispatch_phase)
next
  case step_drop
  then show ?thesis by (auto simp: drop_outgoing_head_def bump_version_ok split: if_splits)
next
  case (step_certify cert q)
  then show ?thesis by (auto simp: certify_step_ok dest!: install_end_step)
next
  case (step_stop a)
  then obtain status where "bump_version (begin_end (s\<lparr>es_proposal := None, es_callout := None, es_status := status\<rparr>)) = Inr s'"
    by (auto simp: stop_def bind_res_ok if_Inl_ok)
  then show ?thesis
    by (intro begin_end_step [of _ "s\<lparr>es_proposal := None, es_callout := None, es_status := status\<rparr>"]) simp_all
next
  case (step_publish body art)
  then show ?thesis by (auto simp: publish_receipt_def bind_res_ok bump_version_ok)
next
  case (step_record peer seq)
  then show ?thesis by (auto simp: record_direct_def bind_res_ok split: if_splits)
next
  case (step_ack peer seq r)
  then show ?thesis by (auto simp: ack_direct_def bind_res_ok split: if_splits option.splits)
next
  case (step_confirm peer r)
  then show ?thesis using confirm_end_step by blast
next
  case step_expire
  then show ?thesis by (auto simp: expire_end_def bump_version_ok intro: end_expires split: end_phase.splits)
qed (auto dest: sign_end_step)

section \<open>Unconfirmed peers\<close>

text \<open>The unconfirmed peers are a set: strictly ascending, among the other participants.\<close>

fun phase_set :: "peer_id list \<Rightarrow> end_phase \<Rightarrow> bool" where
  "phase_set others Open \<longleftrightarrow> True"
| "phase_set others (Ending ps) \<longleftrightarrow> ps \<noteq> [] \<and> sorted_wrt (<) ps \<and> set ps \<subseteq> set others"
| "phase_set others (Ended ps) \<longleftrightarrow> sorted_wrt (<) ps \<and> set ps \<subseteq> set others"

lemma sorted_distinct_remdups_adj: "sorted xs \<Longrightarrow> distinct (remdups_adj (xs :: 'a::linorder list))"
  by (induction xs rule: remdups_adj.induct) auto

lemma sorted_distinct_set: "sorted_wrt (<) (remdups_adj (sort (xs :: 'a::linorder list)))"
  by (simp add: strict_sorted_iff sorted_remdups_adj sorted_distinct_remdups_adj)

lemma confirm_phase_set:
  assumes "phase_set others ph"
  shows "phase_set others (confirm_phase p ph)"
  using assms by (cases ph) (auto simp: Let_def sorted_wrt_filter)

lemma end_step_set:
  assumes "end_step others ph ph'" "phase_set others ph" "others \<noteq> []" "sorted_wrt (<) others"
  shows "phase_set others ph'"
  using assms by (induction rule: end_step.induct) (auto intro: confirm_phase_set)

lemma other_participants_nonempty:
  assumes "binding_ok P (es_binding s)"
  shows "other_participants s \<noteq> []"
proof -
  let ?ps = "participants (es_binding s)"
  have "distinct ?ps" "2 \<le> length ?ps"
    using binding_tickets_facts [OF assms] by (simp_all add: participants_signers)
  then have "2 \<le> card (set ?ps)" by (simp add: distinct_card)
  then have "\<not> set ?ps \<subseteq> {es_producer s}"
    using card_mono [of "{es_producer s}" "set ?ps"] by auto
  then have "filter (\<lambda>p. p \<noteq> es_producer s) ?ps \<noteq> []" by (auto simp: filter_empty_conv)
  then show ?thesis by (metis other_participants_def remdups_adj_Nil_iff set_empty set_sort)
qed

lemma other_participants_sorted: "sorted_wrt (<) (other_participants s)"
  by (simp add: other_participants_def sorted_distinct_set)

lemma step_identity:
  "exec_step P s es s' \<Longrightarrow> es_binding s' = es_binding s \<and> es_producer s' = es_producer s"
  by (drule exec_step_effect) (auto simp: quiet_step_def commit_step_def)

lemma step_others: "exec_step P s es s' \<Longrightarrow> other_participants s' = other_participants s"
  using step_identity [of P s es s'] by (simp add: other_participants_def)

interpretation end_run: run_invariant "initial P" "exec_step P"
  "\<lambda>s tr. binding_ok P (es_binding s) \<and> phase_set (other_participants s) (es_end_phase s)" for P
proof
  fix s assume "initial P s"
  then show "binding_ok P (es_binding s) \<and> phase_set (other_participants s) (es_end_phase s)"
    by (auto simp: initial_def state_new_def bind_res_ok binding_new_ok if_Inl_ok Let_def)
next
  fix s tr es s'
  assume i: "binding_ok P (es_binding s) \<and> phase_set (other_participants s) (es_end_phase s)" and st: "exec_step P s es s'"
  then show "binding_ok P (es_binding s') \<and> phase_set (other_participants s') (es_end_phase s')"
    using exec_step_end [OF st] step_identity [OF st] step_others [OF st]
      end_step_set other_participants_nonempty [of P s] other_participants_sorted [of s]
    by auto
qed

section \<open>The handshake ends\<close>

text \<open>A run that records the phases it passes through.\<close>

definition phase_step :: "prims \<Rightarrow> execution_state \<Rightarrow> end_phase list \<Rightarrow> execution_state \<Rightarrow> bool" where
  "phase_step P s phs s' \<longleftrightarrow> (\<exists>es. exec_step P s es s')
     \<and> phs = (if es_end_phase s' = es_end_phase s then [] else [es_end_phase s'])"

text \<open>How many steps the handshake can still take.\<close>

fun phase_rank :: "peer_id list \<Rightarrow> end_phase \<Rightarrow> nat" where
  "phase_rank others Open = length others + 2"
| "phase_rank others (Ending ps) = length ps + 1"
| "phase_rank others (Ended ps) = length ps"

lemma end_step_rank: "end_step others ph ph' \<Longrightarrow> phase_rank others ph' < phase_rank others ph"
proof (induction rule: end_step.induct)
  case (end_confirms ph ps p)
  have "length (filter (\<lambda>q. q \<noteq> p) ps) < length ps" using end_confirms(2) by (rule length_filter_less) simp
  with end_confirms(1) show ?case by (cases ph) (auto simp: Let_def)
qed simp_all

lemma phase_history_step:
  assumes chain: "successively (end_step others) (Open # phs)" "phase_rank others (last (Open # phs)) + length phs \<le> n"
    and step: "end_step others (last (Open # phs)) ph"
  shows "successively (end_step others) (Open # phs @ [ph])" "phase_rank others ph + length (phs @ [ph]) \<le> n"
proof -
  have "successively (end_step others) ((Open # phs) @ [ph])" using chain(1) step by (subst successively_append_iff) auto
  then show "successively (end_step others) (Open # phs @ [ph])" by simp
  show "phase_rank others ph + length (phs @ [ph]) \<le> n" using end_step_rank [OF step] chain(2) by simp
qed

interpretation phase_run: run_invariant "initial P" "phase_step P"
  "\<lambda>s phs. es_end_phase s = last (Open # phs) \<and> successively (end_step (other_participants s)) (Open # phs)
     \<and> phase_rank (other_participants s) (last (Open # phs)) + length phs \<le> length (other_participants s) + 2" for P
proof
  fix s assume "initial P s"
  then show "es_end_phase s = last [Open] \<and> successively (end_step (other_participants s)) [Open]
      \<and> phase_rank (other_participants s) (last [Open]) + length ([] :: end_phase list) \<le> length (other_participants s) + 2"
    by (auto simp: initial_def state_new_def bind_res_ok if_Inl_ok Let_def)
next
  fix s phs new s'
  assume i: "es_end_phase s = last (Open # phs) \<and> successively (end_step (other_participants s)) (Open # phs)
      \<and> phase_rank (other_participants s) (last (Open # phs)) + length phs \<le> length (other_participants s) + 2"
    and st: "phase_step P s new s'"
  then obtain es where es: "exec_step P s es s'" "new = (if es_end_phase s' = es_end_phase s then [] else [es_end_phase s'])"
    by (auto simp: phase_step_def)
  with exec_step_end [OF es(1)] step_others [OF es(1)] i
    phase_history_step [of "other_participants s" phs "length (other_participants s) + 2" "es_end_phase s'"]
  show "es_end_phase s' = last (Open # phs @ new) \<and> successively (end_step (other_participants s')) (Open # phs @ new)
      \<and> phase_rank (other_participants s') (last (Open # phs @ new)) + length (phs @ new) \<le> length (other_participants s') + 2"
    by (cases "es_end_phase s' = es_end_phase s") (simp_all del: successively.simps)
qed

lemma reachable_phases: "reachable P s tr \<Longrightarrow> \<exists>phs. run (initial P) (phase_step P) s phs"
proof (induction rule: run.induct)
  case (run_step s tr es s')
  then show ?case by (blast intro: run.run_step [where step = "phase_step P"] phase_step_def [THEN iffD2])
qed (blast intro: run_init)

lemma phases_reachable: "run (initial P) (phase_step P) s phs \<Longrightarrow> \<exists>tr. reachable P s tr"
  by (induction rule: run.induct) (auto simp: phase_step_def intro: run_init run.run_step)

lemma phase_chain_set:
  assumes "successively (end_step others) (ph # phs)" "phase_set others ph" "others \<noteq> []" "sorted_wrt (<) others"
  shows "list_all (phase_set others) phs"
  using assms(1,2)
proof (induction phs arbitrary: ph)
  case (Cons ph' phs)
  then have "phase_set others ph'" using end_step_set [OF _ _ assms(3,4), of ph ph'] by simp
  with Cons.prems Cons.IH [of ph'] show ?case by simp
qed simp

text \<open>C19: The end handshake finishes.  Along every run the phase moves only as the handshake allows:
  from \<open>Open\<close> once, to every other participant unconfirmed, then by confirmations and at most one
  expiry; it never reopens.  So it moves at most as often as there are other participants plus two, after which no step changes it again, and what is unconfirmed is at every moment a strictly
  ascending list of other participants.\<close>

theorem end_handshake_finishes:
  assumes "run (initial P) (phase_step P) s phs"
  shows "successively (end_step (other_participants s)) (Open # phs) \<and> es_end_phase s = last (Open # phs)
    \<and> length phs + phase_rank (other_participants s) (es_end_phase s) \<le> length (other_participants s) + 2
    \<and> list_all (phase_set (other_participants s)) phs"
proof -
  note i = phase_run.holds [OF assms]
  obtain tr where "reachable P s tr" using assms phases_reachable by blast
  then have "binding_ok P (es_binding s)" using end_run.holds by blast
  note others = other_participants_nonempty [OF this] other_participants_sorted [of s]
  have "list_all (phase_set (other_participants s)) phs"
    using i phase_chain_set [of "other_participants s" Open phs] others by simp
  with i show ?thesis by (simp add: add.commute)
qed

theorem end_handshake_finishes_witness:
  "\<exists>s phs. run (initial sample_prims) (phase_step sample_prims) s phs \<and> phs \<noteq> []
     \<and> successively (end_step (other_participants s)) (Open # phs)
     \<and> length phs + phase_rank (other_participants s) (es_end_phase s) \<le> length (other_participants s) + 2"
proof -
  obtain s tr where s: "reachable sample_prims s tr" "es_status s = Certified sample_outcome" using sample_run by blast
  then obtain phs where phs: "run (initial sample_prims) (phase_step sample_prims) s phs" using reachable_phases by blast
  have "es_end_phase s \<noteq> Open"
    using state_run.holds [OF s(1)] sample_layout s(2) by (auto simp: state_ok_def status_ok_def validate_end_ok is_terminal_def)
  then have "phs \<noteq> []" using end_handshake_finishes [OF phs] by auto
  with phs end_handshake_finishes [OF phs] show ?thesis by blast
qed

end
