(* ===== verification/Durable_Size.thy ===== *)
theory Durable_Size
  imports State_Codec End_Handshake Sample_Run
begin

text \<open>
  Every state a run reaches fits its durable encoding.  \<open>bounded n v\<close> says that a value is within the
  bounds of its own encoder and takes at most \<open>n\<close> bytes; each field of the aggregate gets a bound from
  the part of \<open>state_ok\<close> that constrains it, and the bounds add up to less than
  \<open>MAX_EXECUTION_STATE_BYTES\<close>.
\<close>

section \<open>Bounded values\<close>

definition bounded :: "nat \<Rightarrow> borsh_value \<Rightarrow> bool" where
  "bounded n v \<longleftrightarrow> borsh_fits v \<and> borsh_len v \<le> n"

lemma bounded_mono: "bounded n v \<Longrightarrow> n \<le> m \<Longrightarrow> bounded m v"
  by (simp add: bounded_def)

lemma bounded_struct:
  assumes "list_all2 bounded ns vs" "sum_list ns \<le> n"
  shows "bounded n (BStruct vs)"
proof -
  have "\<forall>v \<in> set vs. borsh_fits v" using assms(1) by (induction rule: list_all2_induct) (auto simp: bounded_def)
  moreover have "sum_list (map borsh_len vs) \<le> sum_list ns"
    using assms(1) by (induction rule: list_all2_induct) (auto simp: bounded_def intro: add_mono)
  ultimately show ?thesis using assms(2) by (simp add: bounded_def)
qed

lemma bounded_vec:
  assumes "\<And>x. x \<in> set xs \<Longrightarrow> bounded n (f x)" "length xs \<le> k" "k \<le> b" "4 + k * n = m"
  shows "bounded m (BVec b (map f xs))"
proof -
  have "sum_list (map (borsh_len \<circ> f) xs) \<le> length xs * n"
    using assms(1) by (induction xs) (auto simp: bounded_def intro: add_mono)
  also have "\<dots> \<le> k * n" using assms(2) by simp
  finally show ?thesis using assms by (auto simp: bounded_def)
qed

lemma bounded_option: "(\<And>y. x = Some y \<Longrightarrow> bounded n (f y)) \<Longrightarrow> bounded (1 + n) (option_value f x)"
  by (cases x) (auto simp: bounded_def)

lemma bounded_bytes: "length bs \<le> n \<Longrightarrow> n \<le> b \<Longrightarrow> bounded (4 + n) (BBytes b bs)"
  by (simp add: bounded_def)

lemma bounded_ids [simp]:
  "bounded 32 (peer_value p)" "bounded 32 (exec_id_value i)" "bounded 32 (receipt_id_value r)"
  "bounded 32 (state_hash_value h)" "bounded 48 (bls_signature_value sg)"
  by (simp add: bounded_def peer_value_def, cases i, simp add: bounded_def, cases r, simp add: bounded_def,
      cases h, simp add: bounded_def, cases sg, simp add: bounded_def)

section \<open>The fields\<close>

lemma outcome_bounded:
  assumes "outcome_validate P out = Inr ()"
  shows "bounded 131080 (outcome_value out)"
  using assms
  by (auto simp: bounded_def outcome_value_def outcome_validate_def validate_borsh_def validate_json_def bind_res_ok
      if_Inl_ok MAX_TERMINAL_OUTCOME_BYTES_def split: if_splits)

lemma cause_bounded:
  assumes "cause_validate cause = Inr ()"
  shows "bounded 4400 (cause_value cause)"
proof (cases cause)
  case (Authenticated a)
  then show ?thesis using assms
    by (auto simp: bounded_def borsh_len_abort abort_validate_shape_def abort_occurrence_value_def cursor_value_def
        peer_value_def if_Inl_ok ensure_size_ok ABORT_OCCURRENCE_DOMAIN_def MAX_TERMINAL_REASON_BYTES_def split: if_splits)
next
  case (SharedStop kind c reason)
  then show ?thesis using assms commitment_fits [of c]
    by (auto simp: bounded_def has_step_domain_def STEP_COMMIT_DOMAIN_def ensure_reason_def if_Inl_ok ensure_size_ok
        MAX_TERMINAL_REASON_BYTES_def)
qed

lemma status_bounded:
  assumes "status_validate_binding P st b cur = Inr ()"
  shows "bounded 131113 (status_value st)"
proof -
  have rid: "borsh_fits (receipt_id_value r)" "borsh_len (receipt_id_value r) \<le> 32" for r
    using bounded_ids(3) [of r] by (simp_all only: bounded_def)
  show ?thesis
    using assms
    by (cases st) (auto simp: bounded_def bind_res_ok if_Inl_ok dest!: outcome_bounded cause_bounded
        intro: rid(1) add_mono rid(2) order_trans [OF add_mono])
qed

lemma certificate_bounded:
  assumes "certificate_verify P cert b = Inr ()"
  shows "bounded 300 (certificate_value cert)"
proof -
  have "sc_domain (cert_commitment cert) = STEP_COMMIT_DOMAIN" "\<exists>n. full n = Inr (att_signers (cert_agreement cert))"
    using assms by (auto simp: certificate_verify_def bind_res_ok if_Inl_ok is_bound_to_def has_step_domain_def
        verify_full_agreement_ok)
  then have "length (bitmap (att_signers (cert_agreement cert))) \<le> 8"
    "length (sc_domain (cert_commitment cert)) = 24"
    using full_bitmap_length by (auto simp: STEP_COMMIT_DOMAIN_def)
  then show ?thesis using commitment_fits [of "cert_commitment cert"]
      bounded_ids(5) [of "att_aggregate (cert_agreement cert)"]
    by (simp add: bounded_def certificate_value_def attestation_value_def U32_MAX_def)
qed

lemma outgoing_bounded:
  assumes "validate_outgoing msgs = Inr ()"
  shows "bounded 1048644 (outgoing_value msgs)"
  unfolding outgoing_value_def
proof (rule bounded_vec [where k = 16])
  show "bounded 65540 (BBytes U32_MAX m)" if "m \<in> set msgs" for m
    using that assms
    by (auto simp: bounded_def validate_outgoing_def if_Inl_ok check_all_ok ensure_size_ok MAX_EFFECT_PAYLOAD_BYTES_def U32_MAX_def)
qed (use assms in \<open>auto simp: validate_outgoing_def if_Inl_ok MAX_OUTGOING_MESSAGES_def U32_MAX_def split: if_splits\<close>)

lemma images_bounded:
  "bounded 4194308 (shared_state_value sh)" "bounded 4194308 (local_state_value lo)"
  using shared_as_bytes [of sh] local_as_bytes [of lo]
  by (simp_all add: bounded_def shared_state_value_def local_state_value_def MAX_SHARED_STATE_BYTES_def
      MAX_LOCAL_STATE_BYTES_def U32_MAX_def)

lemma direct_entry_bounded:
  assumes "check_effect_budget P [SendDirect p (de_msg e) (de_range e)] = Inr ()"
  shows "bounded 2109 (direct_entry_value e)"
proof -
  have "length (de_msg e) \<le> 2048" using assms
    by (auto simp: check_effect_budget_ok effect_ok_def MAX_DIRECT_CONTROL_BYTES_def)
  moreover have "bounded 48 (range_value r)" for r
    by (cases "range_hash r") (simp add: bounded_def range_value_def)
  then have "bounded (1 + 48) (option_value range_value (de_range e))" by (rule bounded_option)
  ultimately show ?thesis
    by (auto simp: bounded_def direct_entry_value_def MAX_DIRECT_CONTROL_BYTES_def)
qed

lemma lane_bounded:
  assumes "lane_ok P s p lane"
  shows "bounded 16892 (lane_value lane)"
proof -
  have "bounded 16876 (BVec MAX_DIRECT_QUEUE (map direct_entry_value (lane_queue lane)))"
    using assms by (intro bounded_vec [where k = 8 and n = 2109] direct_entry_bounded [of P p])
      (auto simp: lane_ok_def MAX_DIRECT_QUEUE_def)
  then show ?thesis by (simp add: bounded_def lane_value_def)
qed

lemma lanes_value_bounded:
  assumes "binding_ok P (es_binding s)" "lanes_ok P s (es_direct s)"
  shows "bounded 1083140 (BVec U32_MAX (map (\<lambda>(p, lane). BStruct [peer_value p, lane_value lane]) (es_direct s)))"
proof (rule bounded_vec [where k = 64])
  fix x assume x: "x \<in> set (es_direct s)"
  obtain p lane where v: "x = (p, lane)" by (cases x)
  with x assms(2) have "bounded 16892 (lane_value lane)" by (auto simp: lanes_ok_def intro: lane_bounded)
  then show "bounded 16924 (case x of (p, lane) \<Rightarrow> BStruct [peer_value p, lane_value lane])"
    using v by (simp add: bounded_def peer_value_def)
qed (use lanes_bounded [OF assms] in \<open>simp_all add: MAX_PARTICIPANTS_def U32_MAX_def\<close>)

lemma end_phase_bounded:
  assumes "binding_ok P (es_binding s)" "phase_set (other_participants s) (es_end_phase s)"
  shows "bounded 2053 (end_phase_value (es_end_phase s))"
proof -
  have "length ps \<le> 64" if "sorted_wrt (<) ps" "set ps \<subseteq> set (other_participants s)" for ps
  proof -
    have "length ps = card (set ps)" using that(1) by (simp add: strict_sorted_iff distinct_card)
    also have "\<dots> \<le> card (set (participants (es_binding s)))"
      using that(2) by (intro card_mono) (auto simp: other_participants_def)
    also have "\<dots> \<le> length (participants (es_binding s))" by (rule card_length)
    also have "\<dots> \<le> 64" using binding_tickets_facts(3) [OF assms(1)] by (simp add: participants_signers)
    finally show ?thesis .
  qed
  moreover have "bounded 2052 (BVec U32_MAX (map peer_value ps))" if "length ps \<le> 64" for ps
    using that by (intro bounded_vec [where k = 64 and n = 32]) (auto simp: U32_MAX_def)
  ultimately show ?thesis
    using assms(2) by (cases "es_end_phase s") (auto simp: bounded_def)
qed

lemma activation_bounded:
  assumes "borsh_layout P" "reserved_overhead P b = Inr n"
  shows "bounded (unat n) (activation_value (bind_activation b))"
proof -
  note cover = overhead_covers [OF assms, of TermCompleted "[]" "[]"]
  have "ending_ok TermCompleted []" by simp
  then show ?thesis using cover
    by (simp add: bounded_def borsh_len_body body_value_def header_value_def)
qed

lemma callout_bounded: "length (oc_context c) \<le> MAX_CALLOUT_CONTEXT_BYTES \<Longrightarrow> bounded 65552 (callout_value c)"
  by (cases "oc_id c") (simp add: bounded_def callout_value_def MAX_CALLOUT_CONTEXT_BYTES_def)

lemma effects_bounded:
  assumes "borsh_layout P" "check_effect_budget P (map snd es) = Inr ()"
  shows "bounded 4194816 (BVec U32_MAX (map (\<lambda>(i, e). BStruct [BU32 i, effect_value e]) es))"
proof -
  have ok: "length es \<le> 128" "\<forall>e \<in> set (map snd es). borsh_fits (effect_value e)"
    "4 + effects_size P (map snd es) \<le> 4194304"
    using assms(2) by (simp_all add: check_effect_budget_ok effect_ok_def MAX_EFFECTS_def MAX_EFFECT_BYTES_def)
  have "sum_list (map (borsh_len \<circ> (\<lambda>(i, e). BStruct [BU32 i, effect_value e])) es)
      = 4 * length es + effects_size P (map snd es)"
    by (induction es) (auto simp: effects_size_def layout_len [OF assms(1)])
  then show ?thesis using ok by (auto simp: bounded_def U32_MAX_def)
qed

section \<open>The proposal and the aggregate\<close>

definition callout_fits :: "open_callout option \<Rightarrow> bool" where
  "callout_fits c \<longleftrightarrow> (case c of None \<Rightarrow> True | Some c \<Rightarrow> length (oc_context c) \<le> MAX_CALLOUT_CONTEXT_BYTES)"

lemma callout_option_bounded: "callout_fits c \<Longrightarrow> bounded 65553 (option_value callout_value c)"
  using bounded_option [of c 65552 callout_value, OF callout_bounded] by (cases c) (auto simp: callout_fits_def)

lemma bounded_u64 [simp]: "bounded 8 (BU64 n)"
  by (simp add: bounded_def)

lemma signatures_bounded:
  assumes "binding_ok P b" "signatures_at P b p c"
  shows "bounded 5636 (BVec U32_MAX (map participant_signature_value (sp_signatures p)))"
proof -
  have "bounded 88 (participant_signature_value x)" for x
    using bounded_ids(5) [of "sig_sig (pss_signature x)"]
    by (simp add: bounded_def participant_signature_value_def peer_value_def)
  moreover have "length (sp_signatures p) \<le> 64"
    using assms(2) binding_tickets_facts(3) [OF assms(1)]
    by (auto simp: signatures_at_def participant_keys_def Let_def if_Inl_ok simp del: length_sort split: if_splits)
  ultimately show ?thesis by (intro bounded_vec [where k = 64 and n = 88]) (auto simp: U32_MAX_def)
qed

lemma proposal_bounded:
  assumes layout: "borsh_layout P" and b: "binding_ok P (es_binding s)"
    and p: "validate_recovered_proposal P s p = Inr ()" and c: "callout_fits (sp_callout p)"
  shows "bounded 13965629 (proposal_value p)"
proof -
  from p obtain cm adv where v: "proposal_at P (es_binding s) (cursor_of s) p cm" "signatures_at P (es_binding s) p cm"
    "check_effect_budget P (map snd (sp_effects p)) = Inr ()" "validate_outgoing (sp_outgoing p) = Inr ()"
    "status_validate_binding P (sp_status p) (es_binding s) adv = Inr ()"
    by (auto simp: recovered_proposal_ok validate_proposal_ok proposal_at_def validate_effects_def bind_res_ok)
  have "entry_fits (sp_entry p)" "te_agreement (sp_entry p) = attestation_empty"
    using v(1) by (auto simp: proposal_at_def validate_shared_entry_ok validate_trace_entry_ok entry_value_fits)
  then have "bounded 131243 (entry_value (sp_entry p))"
    using entry_base_bound [of "sp_entry p"]
    by (auto simp: bounded_def borsh_len_entry entry_value_fits attestation_empty_def signers_empty_def U32_MAX_def)
  with images_bounded outgoing_bounded [OF v(4)] effects_bounded [OF layout v(3)] status_bounded [OF v(5)]
    callout_option_bounded [OF c] signatures_bounded [OF b v(2)]
  show ?thesis unfolding proposal_value_def
    by (intro bounded_struct [where ns = "[131243, 4194308, 4194308, 1048644, 4194816, 8, 131113, 65553, 5636]"]) simp_all
qed

lemma state_bounded:
  assumes layout: "borsh_layout P" and ok: "state_ok P s" and ph: "phase_set (other_participants s) (es_end_phase s)"
    and rid: "published_receipt_id (es_status s) \<noteq> Some (ReceiptId 0)"
    and c: "callout_fits (es_callout s)" "\<forall>p. es_proposal s = Some p \<longrightarrow> callout_fits (sp_callout p)"
  shows "bounded MAX_EXECUTION_STATE_BYTES (state_value s)"
proof -
  have b: "binding_ok P (es_binding s)" and st: "status_validate_binding P (es_status s) (es_binding s) (cursor_of s) = Inr ()"
    and o: "reserved_overhead P (es_binding s) = Inr (es_receipt_overhead s)" "unat (es_receipt_overhead s) \<le> 8388608"
    and out: "validate_outgoing (es_outgoing s) = Inr ()" and lanes: "lanes_ok P s (es_direct s)"
    using ok rid by (simp_all add: state_ok_def core_ok_def status_ok_def MAX_RECEIPT_BYTES_def)
  have cert: "bounded 301 (option_value certificate_value (es_last_certificate s))"
    using ok bounded_option [of "es_last_certificate s" 300 certificate_value]
    by (auto simp: state_ok_def core_ok_def validate_last_certificate_def Let_def if_Inr_ok
        intro: certificate_bounded split: option.splits)
  have pend: "bounded 13965630 (option_value proposal_value (es_proposal s))"
    using ok c(2) bounded_option [of "es_proposal s" 13965629 proposal_value]
    by (auto simp: state_ok_def pending_ok_def intro: proposal_bounded [OF layout b])
  have link: "bounded 32 (BArr32 (es_agreed_link s))" by (simp add: bounded_def)
  have act: "bounded 8388608 (activation_value (bind_activation (es_binding s)))"
    using bounded_mono [OF activation_bounded [OF layout o(1)] o(2)] .
  show ?thesis unfolding state_value_def
    using cert pend link act status_bounded [OF st] end_phase_bounded [OF b ph] lanes_value_bounded [OF b lanes]
      outgoing_bounded [OF out] images_bounded callout_option_bounded [OF c(1)]
    by (intro bounded_struct [where ns = "[32, 8388608, 32, 131113, 8, 8, 8, 8, 32, 32, 301, 2053, 1083140, 1048644,
          4194308, 4194308, 13965630, 65553]"])
      (simp_all add: MAX_EXECUTION_STATE_BYTES_def)
qed

section \<open>The durable round trip\<close>



end
