(* ===== verification/Change_Log.thy ===== *)
theory Change_Log
  imports Trace Exec_Types
begin

text \<open>
  \<open>arena0-store/src/changes.rs\<close>: the commit-ordered change log of one store.  The ring of the last
  \<open>CHANGE_RING\<close> changes is a list, oldest first; the \<open>watch\<close> value is the field \<open>cl_head\<close>.  Sequence
  numbers are \<open>u64\<close> and wrap.
\<close>

section \<open>The log\<close>

definition CHANGE_RING :: nat where
  "CHANGE_RING = 8192"

datatype change_key =
    ChangeExec exec_id
  | ChangeStep exec_id u64
  | ChangeReceipt receipt_id
  | ChangeProgram program_hash
  | ChangeBlob blob_hash

datatype catchup = CatchupKeys u64 "change_key list" | CatchupSnapshot u64

record change_log =
  cl_ring :: "(u64 \<times> change_key) list"
  cl_head :: u64

definition change_log_new :: change_log where
  "change_log_new = \<lparr>cl_ring = [], cl_head = 0\<rparr>"

text \<open>\<open>push_back\<close>, then \<open>pop_front\<close> when the ring is over its capacity.\<close>

definition ring_push :: "(u64 \<times> change_key) list \<Rightarrow> u64 \<times> change_key \<Rightarrow> (u64 \<times> change_key) list" where
  "ring_push ring x = (let ring = ring @ [x] in if length ring > CHANGE_RING then tl ring else ring)"

primrec publish_loop :: "(u64 \<times> change_key) list \<Rightarrow> u64 \<Rightarrow> change_key list \<Rightarrow> (u64 \<times> change_key) list \<times> u64" where
  "publish_loop ring lst [] = (ring, lst)"
| "publish_loop ring lst (k # ks) = publish_loop (ring_push ring (lst + 1, k)) (lst + 1) ks"

definition publish :: "change_key list \<Rightarrow> change_log \<Rightarrow> change_log" where
  "publish keys log =
     (let (ring, lst) = publish_loop (cl_ring log) (cl_head log) keys in
      \<lparr>cl_ring = ring, cl_head = (if lst \<noteq> cl_head log then lst else cl_head log)\<rparr>)"

text \<open>The \<open>filter_map\<close> over a \<open>HashSet\<close>: each key at its first occurrence.\<close>

fun first_seen :: "'a list \<Rightarrow> 'a list \<Rightarrow> 'a list" where
  "first_seen seen [] = []"
| "first_seen seen (k # ks) = (if k \<in> set seen then first_seen seen ks else k # first_seen (k # seen) ks)"

definition since :: "change_log \<Rightarrow> u64 \<Rightarrow> catchup" where
  "since log seq =
     (let head = cl_head log in
      if seq = head then CatchupKeys head []
      else if seq > head \<or> (case cl_ring log of [] \<Rightarrow> True | (first, _) # _ \<Rightarrow> first > seq + 1)
      then CatchupSnapshot head
      else CatchupKeys head (first_seen [] (map snd (filter (\<lambda>(s, _). s > seq) (cl_ring log)))))"

section \<open>The ring as a window of the history\<close>

text \<open>The history of a store is the list of every key it ever published; the change at index \<open>i\<close> has
  sequence number \<open>i + 1\<close>.  The ring is its last \<open>CHANGE_RING\<close> changes.\<close>

definition numbered :: "change_key list \<Rightarrow> (u64 \<times> change_key) list" where
  "numbered hist = map (\<lambda>(i, k). (word_of_nat (Suc i), k)) (enumerate 0 hist)"

definition window :: "'a list \<Rightarrow> 'a list" where
  "window xs = drop (length xs - CHANGE_RING) xs"

definition log_of :: "change_key list \<Rightarrow> change_log" where
  "log_of hist = \<lparr>cl_ring = window (numbered hist), cl_head = word_of_nat (length hist)\<rparr>"

lemma length_numbered [simp]: "length (numbered hist) = length hist"
  by (simp add: numbered_def)

lemma numbered_snoc: "numbered (hist @ [k]) = numbered hist @ [(word_of_nat (Suc (length hist)), k)]"
  by (simp add: numbered_def enumerate_append_eq)

lemma ring_positive: "0 < CHANGE_RING"
  by (simp add: CHANGE_RING_def)

lemma window_push: "ring_push (window xs) x = window (xs @ [x])"
proof (cases "length xs < CHANGE_RING")
  case True
  then show ?thesis by (simp add: ring_push_def window_def)
next
  case False
  have "ring_push (window xs) x = tl (drop (length xs - CHANGE_RING) (xs @ [x]))"
    using False by (simp add: ring_push_def window_def)
  also have "\<dots> = drop (Suc (length xs - CHANGE_RING)) (xs @ [x])" by (simp only: drop_Suc tl_drop)
  also have "\<dots> = window (xs @ [x])" using False unfolding window_def by (simp add: Suc_diff_le)
  finally show ?thesis .
qed

lemma publish_loop_window:
  "publish_loop (window (numbered hist)) (word_of_nat (length hist)) keys =
     (window (numbered (hist @ keys)), word_of_nat (length (hist @ keys)))"
proof (induction keys arbitrary: hist)
  case Nil
  then show ?case by simp
next
  case (Cons k keys)
  have "word_of_nat (length hist) + 1 = (word_of_nat (length (hist @ [k])) :: u64)" by simp
  with Cons [of "hist @ [k]"] show ?case
    by (simp add: window_push numbered_snoc add.commute)
qed

lemma publish_log_of: "publish keys (log_of hist) = log_of (hist @ keys)"
  by (simp add: publish_def log_of_def publish_loop_window)

lemma fold_publish: "fold publish batches (log_of hist) = log_of (hist @ concat batches)"
  by (induction batches arbitrary: hist) (simp_all add: publish_log_of)

lemma log_of_nil: "log_of [] = change_log_new"
  by (simp add: log_of_def change_log_new_def window_def numbered_def)

section \<open>Reading the window\<close>

lemma remdups_snoc: "remdups (xs @ [k]) = filter (\<lambda>x. x \<noteq> k) (remdups xs) @ [k]"
  by (induction xs) auto

lemma first_seen_filter: "first_seen seen xs = filter (\<lambda>x. x \<notin> set seen) (rev (remdups (rev xs)))"
proof (induction xs arbitrary: seen)
  case Nil
  then show ?case by simp
next
  case (Cons k xs)
  then show ?case
    by (auto simp: remdups_snoc rev_filter [symmetric] intro!: filter_cong)
qed

lemma nth_numbered: "i < length hist \<Longrightarrow> numbered hist ! i = (word_of_nat (Suc i), hist ! i)"
  by (simp add: numbered_def nth_enumerate_eq)

lemma unat_number: "i < n \<Longrightarrow> n < 2 ^ 64 \<Longrightarrow> unat (word_of_nat (Suc i) :: u64) = Suc i"
  by (simp add: unat_of_nat del: of_nat_Suc)

lemma map_snd_numbered: "map snd (numbered hist) = hist"
  by (rule nth_equalityI) (simp_all add: nth_numbered)

text \<open>Dropping a prefix is filtering by sequence number, as long as numbers do not wrap.\<close>

lemma filter_numbered:
  assumes "length hist < 2 ^ 64" "m \<le> unat seq"
  shows "filter (\<lambda>(s, _). s > seq) (drop m (numbered hist)) = drop (unat seq) (numbered hist)"
proof -
  let ?n = "numbered hist" and ?d = "unat seq - m"
  have num: "unat (fst (?n ! i)) = Suc i" if "i < length hist" for i
    using unat_number [OF that assms(1)] that by (simp add: nth_numbered del: of_nat_Suc)
  have split: "drop m ?n = take ?d (drop m ?n) @ drop (unat seq) ?n"
    using assms(2) by (metis append_take_drop_id drop_drop le_add_diff_inverse2)
  have "\<forall>x \<in> set (take ?d (drop m ?n)). \<not> fst x > seq"
  proof
    fix x assume "x \<in> set (take ?d (drop m ?n))"
    then obtain i where "i < ?d" "m + i < length hist" "x = ?n ! (m + i)"
      by (auto simp: in_set_conv_nth)
    then show "\<not> fst x > seq" using num [of "m + i"] by (simp add: word_less_nat_alt)
  qed
  then have "filter (\<lambda>(s, _). s > seq) (take ?d (drop m ?n)) = []"
    by (auto simp: filter_empty_conv split: prod.splits)
  moreover have "\<forall>x \<in> set (drop (unat seq) ?n). fst x > seq"
  proof
    fix x assume "x \<in> set (drop (unat seq) ?n)"
    then obtain i where "i < length hist - unat seq" "x = ?n ! (unat seq + i)"
      by (auto simp: in_set_conv_nth)
    then have "unat seq + i < length hist" "x = ?n ! (unat seq + i)" by simp_all
    then show "fst x > seq" using num [of "unat seq + i"] by (simp add: word_less_nat_alt)
  qed
  then have "filter (\<lambda>(s, _). s > seq) (drop (unat seq) ?n) = drop (unat seq) ?n"
    by (auto intro!: filter_True split: prod.splits)
  ultimately show ?thesis using split by (metis append_Nil filter_append)
qed

lemma window_front:
  assumes "hist \<noteq> []" "length hist < 2 ^ 64"
  shows "(case window (numbered hist) of [] \<Rightarrow> True | (first, _) # _ \<Rightarrow> first > seq + 1)
    \<longleftrightarrow> unat (seq + 1) < Suc (length hist - CHANGE_RING)"
proof -
  let ?m = "length hist - CHANGE_RING"
  have m: "?m < length hist" using assms(1) ring_positive by simp
  then have "window (numbered hist) = numbered hist ! ?m # drop (Suc ?m) (numbered hist)"
    by (simp add: window_def Cons_nth_drop_Suc)
  moreover have "unat (word_of_nat (Suc ?m) :: u64) = Suc ?m" by (rule unat_number [OF m assms(2)])
  ultimately show ?thesis using m by (simp add: nth_numbered word_less_nat_alt del: of_nat_Suc)
qed

section \<open>Properties\<close>

text \<open>C20: what a reader catches up with.  After any batches of commits, fewer than \<open>2^64\<close> keys in all,
  a reader that has applied every change up to \<open>seq\<close> is given exactly the keys published after \<open>seq\<close>,
  each once at its first occurrence, when at most \<open>CHANGE_RING\<close> of them are missing; otherwise, and when
  its cursor is ahead of the head, it is told to take a snapshot.  The head is the number of keys.\<close>

theorem catchup_exact:
  assumes "hist = concat batches" "length hist < 2 ^ 64"
  shows "since (fold publish batches change_log_new) seq =
    (if unat seq \<le> length hist \<and> length hist - unat seq \<le> CHANGE_RING
     then CatchupKeys (word_of_nat (length hist)) (rev (remdups (rev (drop (unat seq) hist))))
     else CatchupSnapshot (word_of_nat (length hist)))"
proof -
  let ?n = "length hist" and ?log = "fold publish batches change_log_new"
  have log: "?log = log_of hist"
    using fold_publish [of batches "[]"] assms(1) by (simp add: log_of_nil)
  have head: "unat (cl_head ?log) = ?n" using assms(2) by (simp add: log log_of_def unat_of_nat)
  have eq: "seq = cl_head ?log \<longleftrightarrow> unat seq = ?n" and gt: "seq > cl_head ?log \<longleftrightarrow> unat seq > ?n"
    using head by (simp_all add: word_unat_eq_iff word_less_nat_alt)
  have succ: "unat (seq + 1) = Suc (unat seq)" if "unat seq < ?n"
    using that assms(2) by (simp add: unat_word_ariths)
  consider "unat seq = ?n" | "unat seq > ?n" | "unat seq < ?n" by linarith
  then show ?thesis
  proof cases
    case 1
    then show ?thesis using eq by (simp add: since_def log log_of_def)
  next
    case 2
    then show ?thesis using eq gt by (simp add: since_def log log_of_def)
  next
    case 3
    then have "hist \<noteq> []" by auto
    from window_front [OF this assms(2), of seq] succ [OF 3]
    have front: "(case cl_ring ?log of [] \<Rightarrow> True | (first, _) # _ \<Rightarrow> first > seq + 1)
        \<longleftrightarrow> \<not> ?n - unat seq \<le> CHANGE_RING"
      using 3 by (auto simp: log log_of_def)
    have "map snd (filter (\<lambda>(s, _). s > seq) (cl_ring ?log)) = drop (unat seq) hist"
      if "?n - unat seq \<le> CHANGE_RING"
      using that filter_numbered [OF assms(2), of "?n - CHANGE_RING" seq]
      by (simp add: log log_of_def window_def drop_map [symmetric] map_snd_numbered)
    with 3 front eq gt show ?thesis
      by (simp add: since_def Let_def first_seen_filter log log_of_def)
  qed
qed

theorem catchup_exact_witness:
  "since (fold publish [[ChangeExec (ExecId 1), ChangeExec (ExecId 2)], [], [ChangeExec (ExecId 1), ChangeExec (ExecId 3)]]
      change_log_new) 1 =
    CatchupKeys 4 [ChangeExec (ExecId 2), ChangeExec (ExecId 1), ChangeExec (ExecId 3)]"
  using catchup_exact [of "[ChangeExec (ExecId 1), ChangeExec (ExecId 2), ChangeExec (ExecId 1), ChangeExec (ExecId 3)]"
      "[[ChangeExec (ExecId 1), ChangeExec (ExecId 2)], [], [ChangeExec (ExecId 1), ChangeExec (ExecId 3)]]" 1]
  by (simp add: CHANGE_RING_def)

end
