(* ===== verification/Store_Codec.thy ===== *)
theory Store_Codec
  imports Layout
begin

text \<open>
  \<open>arena0-store/src/codec.rs\<close>: the durable envelope around every stored value (magic, kind, version,
  payload, checksum) and the integer and lifecycle columns.  SQLite's \<open>INTEGER\<close> is an \<open>i64\<close>,
  here an \<^typ>\<open>int\<close>.  \<open>borsh::from_slice\<close> at a type is the parameter \<open>rd\<close>; \<open>borsh_bijective\<close> is what the
  Borsh specification promises of it, that values and encodings correspond one to one.
\<close>

section \<open>Errors\<close>

datatype store_error =
    BlobTooLarge u64
  | BlobNotFound blob_hash
  | BlobUnreadable blob_hash
  | StoreSqlite string
  | StoreIo string
  | AlreadyOwned string
  | StoreClosed
  | UnsupportedSchema u64
  | InvalidDatabase string
  | IdentityMismatch peer_id peer_id
  | ExecutionAlreadyClaimed exec_id
  | ExecutionNotFound exec_id
  | ActivationNotFound exec_id
  | ExecutionRequestNotFound exec_id
  | ExecutionLifecycleStarted exec_id
  | ActivationNotCommitted exec_id
  | Corruption string
  | StoreProtocol protocol_error
  | StorePayloadTooLarge nat nat
  | InvalidConfiguration string
  | InvalidAdmission string

section \<open>The durable envelope\<close>

definition ENVELOPE_VERSION :: u16 where
  "ENVELOPE_VERSION = 2"

definition ENVELOPE_MAGIC :: string where
  "ENVELOPE_MAGIC = ''AR0STOR1''"

definition ENVELOPE_DOMAIN :: string where
  "ENVELOPE_DOMAIN = ''arena0/store-envelope/v2''"

definition MAX_ENVELOPE_OVERHEAD :: nat where
  "MAX_ENVELOPE_OVERHEAD = 8 + 2 + 2 + 4 + 32"

datatype envelope_kind =
    EnvActivation | EnvPreparedActivation | EnvExecutionState | EnvEventRecord | EnvAgreedStep
  | EnvEffects | EnvReceipt | EnvTimer | EnvExecutionSalt | EnvProgram | EnvExecutionAdmission | EnvStepState

fun envelope_kind_tag :: "envelope_kind \<Rightarrow> u16" where
  "envelope_kind_tag EnvActivation = 1"
| "envelope_kind_tag EnvPreparedActivation = 2"
| "envelope_kind_tag EnvExecutionState = 3"
| "envelope_kind_tag EnvEventRecord = 4"
| "envelope_kind_tag EnvAgreedStep = 5"
| "envelope_kind_tag EnvEffects = 6"
| "envelope_kind_tag EnvReceipt = 8"
| "envelope_kind_tag EnvTimer = 10"
| "envelope_kind_tag EnvExecutionSalt = 11"
| "envelope_kind_tag EnvProgram = 12"
| "envelope_kind_tag EnvExecutionAdmission = 13"
| "envelope_kind_tag EnvStepState = 14"

record durable_envelope =
  env_magic :: string
  env_kind :: u16
  env_version :: u16
  env_payload :: bytes
  env_checksum :: "256 word"

definition envelope_value :: "durable_envelope \<Rightarrow> borsh_value" where
  "envelope_value env =
     BStruct [BDomain (env_magic env), BU16 (env_kind env), BU16 (env_version env),
              BBytes U32_MAX (env_payload env), BArr32 (env_checksum env)]"

definition envelope_checksum :: "prims \<Rightarrow> envelope_kind \<Rightarrow> bytes \<Rightarrow> 256 word" where
  "envelope_checksum P kind payload =
     blake3 P (string_bytes ENVELOPE_DOMAIN @ le_bytes 2 (unat (envelope_kind_tag kind))
               @ le_bytes 2 (unat ENVELOPE_VERSION) @ payload)"

definition envelope_seal :: "prims \<Rightarrow> envelope_kind \<Rightarrow> bytes \<Rightarrow> store_error + bytes" where
  "envelope_seal P kind payload =
     map_err (\<lambda>e. Corruption (''durable envelope encode: '' @ e))
       (to_vec P (envelope_value
          \<lparr>env_magic = ENVELOPE_MAGIC, env_kind = envelope_kind_tag kind, env_version = ENVELOPE_VERSION,
           env_payload = payload, env_checksum = envelope_checksum P kind payload\<rparr>))"

definition envelope_open ::
  "prims \<Rightarrow> (bytes \<Rightarrow> string + durable_envelope) \<Rightarrow> envelope_kind \<Rightarrow> bytes \<Rightarrow> nat \<Rightarrow> store_error + bytes" where
  "envelope_open P rd kind encoded max_payload =
     (if max_payload + MAX_ENVELOPE_OVERHEAD \<ge> 2 ^ 64 then Inl (Corruption ''durable envelope size bound overflow'')
      else if length encoded > max_payload + MAX_ENVELOPE_OVERHEAD
      then Inl (Corruption ''durable envelope exceeds bound'')
      else bind_res (map_err (\<lambda>e. Corruption (''durable envelope decode: '' @ e)) (rd encoded)) (\<lambda>env.
        if env_magic env \<noteq> ENVELOPE_MAGIC \<or> env_kind env \<noteq> envelope_kind_tag kind \<or> env_version env \<noteq> ENVELOPE_VERSION
        then Inl (Corruption ''durable envelope header is invalid'')
        else if length (env_payload env) > max_payload
        then Inl (Corruption ''durable envelope payload exceeds bound'')
        else if env_checksum env \<noteq> envelope_checksum P kind (env_payload env)
        then Inl (Corruption ''durable envelope checksum mismatch'')
        else Inr (env_payload env)))"

section \<open>Columns\<close>

definition MAX_ERROR_BYTES :: nat where
  "MAX_ERROR_BYTES = 4 * 1024"

definition MAX_RESPONSE_BYTES :: nat where
  "MAX_RESPONSE_BYTES = 8 * 1024 * 1024"

fun lifecycle_tag :: "exec_lifecycle \<Rightarrow> int" where
  "lifecycle_tag LcNegotiating = 0"
| "lifecycle_tag LcActivating = 1"
| "lifecycle_tag LcWaiting = 2"
| "lifecycle_tag LcActive = 3"
| "lifecycle_tag LcCompleted = 4"
| "lifecycle_tag LcAborted = 5"
| "lifecycle_tag LcFailed = 7"

definition lifecycle_from_tag :: "int \<Rightarrow> store_error + exec_lifecycle" where
  "lifecycle_from_tag tag =
     (if tag = 0 then Inr LcNegotiating else if tag = 1 then Inr LcActivating else if tag = 2 then Inr LcWaiting
      else if tag = 3 then Inr LcActive else if tag = 4 then Inr LcCompleted else if tag = 5 then Inr LcAborted
      else if tag = 7 then Inr LcFailed
      else Inl (Corruption ''unknown lifecycle tag''))"

definition bounded_reason :: "string \<Rightarrow> store_error + string" where
  "bounded_reason reason =
     (if length reason > MAX_ERROR_BYTES then Inl (StorePayloadTooLarge (length reason) MAX_ERROR_BYTES) else Inr reason)"

definition account_response :: "nat \<Rightarrow> nat \<Rightarrow> store_error + nat" where
  "account_response current additional =
     (if current + additional \<ge> 2 ^ 64 then Inl (StorePayloadTooLarge (2 ^ 64 - 1) MAX_RESPONSE_BYTES)
      else if current + additional > MAX_RESPONSE_BYTES
      then Inl (StorePayloadTooLarge (current + additional) MAX_RESPONSE_BYTES)
      else Inr (current + additional))"

definition sqlite_u64 :: "u64 \<Rightarrow> store_error + int" where
  "sqlite_u64 v =
     (if unat v < 2 ^ 63 then Inr (uint v)
      else Inl (Corruption ''u64 value cannot be represented in SQLite INTEGER''))"

definition sqlite_i64 :: "int \<Rightarrow> store_error + u64" where
  "sqlite_i64 v =
     (if v < 0 then Inl (Corruption ''negative SQLite INTEGER where u64 was required'') else Inr (word_of_int v))"

section \<open>Lemmas\<close>

text \<open>A reader at one type: it reads back exactly the encodings of the values of that type.\<close>

definition borsh_bijective :: "prims \<Rightarrow> ('a \<Rightarrow> borsh_value) \<Rightarrow> ('a \<Rightarrow> bool) \<Rightarrow> (bytes \<Rightarrow> string + 'a) \<Rightarrow> bool" where
  "borsh_bijective P val ok rd \<longleftrightarrow>
     (\<forall>x. ok x \<and> borsh_fits (val x) \<longrightarrow> rd (borsh P (val x)) = Inr x)
     \<and> (\<forall>bs x. rd bs = Inr x \<longrightarrow> ok x \<and> borsh_fits (val x) \<and> bs = borsh P (val x))"

text \<open>An envelope as the Rust type has it: the magic is an array of eight bytes.\<close>

definition envelope_ok :: "durable_envelope \<Rightarrow> bool" where
  "envelope_ok env \<longleftrightarrow> length (env_magic env) = 8"

definition envelope_of :: "prims \<Rightarrow> envelope_kind \<Rightarrow> bytes \<Rightarrow> durable_envelope" where
  "envelope_of P kind payload =
     \<lparr>env_magic = ENVELOPE_MAGIC, env_kind = envelope_kind_tag kind, env_version = ENVELOPE_VERSION,
      env_payload = payload, env_checksum = envelope_checksum P kind payload\<rparr>"

lemma envelope_seal_ok [ok_simps]:
  "envelope_seal P kind payload = Inr bs \<longleftrightarrow> length payload \<le> U32_MAX \<and> bs = borsh P (envelope_value (envelope_of P kind payload))"
  by (simp add: envelope_seal_def envelope_of_def ok_simps) (simp add: envelope_value_def)

lemma bijective_reads:
  "borsh_bijective P val ok rd \<Longrightarrow> ok x \<Longrightarrow> borsh_fits (val x) \<Longrightarrow> rd bs = Inr x \<longleftrightarrow> bs = borsh P (val x)"
  unfolding borsh_bijective_def by blast

lemma envelope_fits: "borsh_fits (envelope_value (envelope_of P kind payload)) \<longleftrightarrow> length payload \<le> U32_MAX"
  by (simp add: envelope_value_def envelope_of_def)

lemma envelope_of_ok: "envelope_ok (envelope_of P kind payload)"
  by (simp add: envelope_ok_def envelope_of_def ENVELOPE_MAGIC_def)

lemma sealed_length:
  "borsh_layout P \<Longrightarrow> length (borsh P (envelope_value (envelope_of P kind payload))) = length payload + MAX_ENVELOPE_OVERHEAD"
  by (simp add: layout_len envelope_value_def envelope_of_def ENVELOPE_MAGIC_def MAX_ENVELOPE_OVERHEAD_def)

lemma envelope_tag_inj: "envelope_kind_tag k = envelope_kind_tag k' \<Longrightarrow> k = k'"
  by (cases k; cases k') simp_all

lemma envelope_open_ok:
  "envelope_open P rd kind enc m = Inr p \<longleftrightarrow>
     m + MAX_ENVELOPE_OVERHEAD < 2 ^ 64 \<and> length enc \<le> m + MAX_ENVELOPE_OVERHEAD
     \<and> length p \<le> m \<and> rd enc = Inr (envelope_of P kind p)"
proof -
  have "(\<exists>env. rd enc = Inr env \<and> env_magic env = ENVELOPE_MAGIC \<and> env_kind env = envelope_kind_tag kind
          \<and> env_version env = ENVELOPE_VERSION \<and> length (env_payload env) \<le> m
          \<and> env_checksum env = envelope_checksum P kind (env_payload env) \<and> env_payload env = p)
      \<longleftrightarrow> length p \<le> m \<and> rd enc = Inr (envelope_of P kind p)"
    (is "(\<exists>env. ?Q env) \<longleftrightarrow> ?R")
  proof
    assume "\<exists>env. ?Q env"
    then obtain env where env: "?Q env" by blast
    then have "env = envelope_of P kind p" unfolding envelope_of_def by (intro durable_envelope.equality) simp_all
    moreover have "length p \<le> m" "rd enc = Inr env" using env by auto
    ultimately show ?R by simp
  next
    assume ?R
    then have "?Q (envelope_of P kind p)" by (simp add: envelope_of_def)
    then show "\<exists>env. ?Q env" ..
  qed
  then show ?thesis by (simp add: envelope_open_def ok_simps not_le not_less) blast
qed

section \<open>A concrete reader\<close>

lemma be_bytes_be_word: "length bs = n \<Longrightarrow> LENGTH('w) = 8 * n \<Longrightarrow> be_bytes n (be_word bs :: 'w::len word) = bs"
proof -
  assume n: "length bs = n" "LENGTH('w) = 8 * n"
  then have "le_nat (rev bs) < 2 ^ LENGTH('w)"
    using le_nat_bound [of "rev bs"] by (simp add: power_mult)
  then have "unat (be_word bs :: 'w word) = le_nat (rev bs)" by (simp add: be_word_def unat_of_nat)
  then show ?thesis using le_bytes_le_nat [of "rev bs"] n by (simp add: be_bytes_def)
qed

definition bytes_string :: "bytes \<Rightarrow> string" where
  "bytes_string bs = map (\<lambda>b. char_of (unat b)) bs"

lemma string_bytes_inverse [simp]: "bytes_string (string_bytes s) = s" "string_bytes (bytes_string bs) = bs"
proof -
  show "bytes_string (string_bytes s) = s"
    by (simp add: bytes_string_def string_bytes_def comp_def unat_of_nat of_char_mod_256)
  have "unat b < 256" for b :: u8 using unsigned_less [of b] by simp
  then show "string_bytes (bytes_string bs) = bs"
    by (simp add: bytes_string_def string_bytes_def comp_def map_idI)
qed

lemma length_string_bytes [simp]: "length (string_bytes s) = length s" "length (bytes_string bs) = length bs"
  by (simp_all add: string_bytes_def bytes_string_def)

definition sample_envelope_read :: "bytes \<Rightarrow> string + durable_envelope" where
  "sample_envelope_read bs =
     (let n = le_nat (take 4 (drop 12 bs)) in
      if length bs = 48 + n
      then Inr \<lparr>env_magic = bytes_string (take 8 bs), env_kind = word_of_nat (le_nat (take 2 (drop 8 bs))),
                env_version = word_of_nat (le_nat (take 2 (drop 10 bs))), env_payload = take n (drop 16 bs),
                env_checksum = be_word (drop (16 + n) bs)\<rparr>
      else Inl ''Unexpected length of input'')"

lemma le_word_inverse:
  "length bs = n \<Longrightarrow> LENGTH('w) = 8 * n \<Longrightarrow> le_bytes n (unat (word_of_nat (le_nat bs) :: 'w::len word)) = bs"
  using le_nat_bound [of bs] le_bytes_le_nat [of bs] by (simp add: unat_of_nat power_mult)

lemma sample_envelope_bytes:
  "borsh sample_prims (envelope_value env) =
     string_bytes (env_magic env) @ le_bytes 2 (unat (env_kind env)) @ le_bytes 2 (unat (env_version env))
     @ le_bytes 4 (length (env_payload env)) @ env_payload env @ be_bytes 32 (env_checksum env)"
  by (simp add: sample_prims_def envelope_value_def)

lemma sample_envelope_decode:
  assumes "envelope_ok env" "borsh_fits (envelope_value env)"
  shows "sample_envelope_read (borsh sample_prims (envelope_value env)) = Inr env"
proof -
  have "length (env_magic env) = 8" "length (env_payload env) < 256 ^ 4"
    using assms by (simp_all add: envelope_ok_def envelope_value_def U32_MAX_def)
  moreover have "unat (env_kind env) < 65536" "unat (env_version env) < 65536"
    using unsigned_less [of "env_kind env"] unsigned_less [of "env_version env"] by simp_all
  ultimately show ?thesis
    unfolding sample_envelope_bytes sample_envelope_read_def by (simp add: le_nat_le_bytes)
qed

lemma sample_envelope_canonical:
  assumes "sample_envelope_read bs = Inr env"
  shows "envelope_ok env \<and> borsh_fits (envelope_value env) \<and> bs = borsh sample_prims (envelope_value env)"
proof -
  define n where n: "n = le_nat (take 4 (drop 12 bs))"
  from assms have len: "length bs = 48 + n" and env: "env = \<lparr>env_magic = bytes_string (take 8 bs),
      env_kind = word_of_nat (le_nat (take 2 (drop 8 bs))), env_version = word_of_nat (le_nat (take 2 (drop 10 bs))),
      env_payload = take n (drop 16 bs), env_checksum = be_word (drop (16 + n) bs)\<rparr>"
    unfolding sample_envelope_read_def Let_def if_Inr_ok sum.inject n by blast+
  have four: "length (take 4 (drop 12 bs)) = 4" using len by simp
  with le_nat_bound [of "take 4 (drop 12 bs)"] have bound: "n < 256 ^ 4" by (simp add: n)
  have pay: "length (take n (drop 16 bs)) = n" using len by simp
  have step: "take k (drop i bs) @ drop (i + k) bs = drop i bs" for k i
    using append_take_drop_id [of k "drop i bs"] by (simp add: add.commute)
  have pieces: "take 8 bs @ take 2 (drop 8 bs) @ take 2 (drop 10 bs) @ take 4 (drop 12 bs)
      @ take n (drop 16 bs) @ drop (16 + n) bs = bs"
    using step [of 2 8] step [of 2 10] step [of 4 12] step [of n 16] by simp
  have lens: "length (take 2 (drop 8 bs)) = 2" "length (take 2 (drop 10 bs)) = 2" "length (drop (16 + n) bs) = 32"
    using len by simp_all
  have "string_bytes (env_magic env) = take 8 bs" by (simp only: env durable_envelope.simps string_bytes_inverse)
  moreover have "le_bytes 2 (unat (env_kind env)) = take 2 (drop 8 bs)"
    unfolding env durable_envelope.simps by (rule le_word_inverse [OF lens(1)]) simp
  moreover have "le_bytes 2 (unat (env_version env)) = take 2 (drop 10 bs)"
    unfolding env durable_envelope.simps by (rule le_word_inverse [OF lens(2)]) simp
  moreover have "le_bytes 4 n = take 4 (drop 12 bs)"
    using le_bytes_le_nat [of "take 4 (drop 12 bs)"] by (simp only: four n)
  moreover have payload: "env_payload env = take n (drop 16 bs)" by (simp only: env durable_envelope.simps)
  moreover have "be_bytes 32 (env_checksum env) = drop (16 + n) bs"
    unfolding env durable_envelope.simps by (rule be_bytes_be_word [OF lens(3)]) simp
  ultimately have "borsh sample_prims (envelope_value env) = bs"
    by (simp only: sample_envelope_bytes pay pieces)
  moreover have "length (env_magic env) = 8" using len by (simp add: env)
  ultimately show ?thesis
    using bound pay by (simp add: envelope_ok_def envelope_value_def payload U32_MAX_def)
qed

lemma sample_envelope_bijective: "borsh_bijective sample_prims envelope_value envelope_ok sample_envelope_read"
  using sample_envelope_decode sample_envelope_canonical unfolding borsh_bijective_def by blast

section \<open>Properties\<close>

text \<open>C21: the durable envelope is exact.  With a reader that keeps the Borsh promise, bytes open as a
  payload of a kind exactly when they are the sealed envelope of that payload and kind and the payload
  is within the caller's bound: nothing sealed is lost, nothing else is accepted, and an envelope of one
  kind never opens as another.\<close>

theorem envelope_exact:
  assumes "borsh_layout P" "borsh_bijective P envelope_value envelope_ok rd"
    and "m + MAX_ENVELOPE_OVERHEAD < 2 ^ 64" "m \<le> U32_MAX"
  shows "(envelope_open P rd kind enc m = Inr p \<longleftrightarrow> envelope_seal P kind p = Inr enc \<and> length p \<le> m)
    \<and> (envelope_seal P kind p = Inr enc \<and> kind' \<noteq> kind \<longrightarrow> (\<exists>e. envelope_open P rd kind' enc m = Inl (Corruption e)))"
proof
  have reads: "rd enc = Inr (envelope_of P k q) \<longleftrightarrow> envelope_seal P k q = Inr enc" if "length q \<le> U32_MAX" for k q
    using bijective_reads [OF assms(2) envelope_of_ok] that by (simp add: envelope_seal_ok envelope_fits)
  have len: "length enc \<le> m + MAX_ENVELOPE_OVERHEAD" if "envelope_seal P k q = Inr enc" "length q \<le> m" for k q
    using that sealed_length [OF assms(1), of k q] by (simp add: envelope_seal_ok)
  show "envelope_open P rd kind enc m = Inr p \<longleftrightarrow> envelope_seal P kind p = Inr enc \<and> length p \<le> m"
    using reads [of p kind] len [of kind p] assms(3,4) by (auto simp: envelope_open_ok)
  have "envelope_open P rd kind' enc m \<noteq> Inr q" if "envelope_seal P kind p = Inr enc" "kind' \<noteq> kind" for q
  proof
    assume "envelope_open P rd kind' enc m = Inr q"
    then have "rd enc = Inr (envelope_of P kind' q)" by (simp add: envelope_open_ok)
    moreover have "rd enc = Inr (envelope_of P kind p)"
      using that(1) reads [of p kind] by (simp add: envelope_seal_ok)
    ultimately show False using that(2) envelope_tag_inj [of kind' kind] by (auto simp: envelope_of_def)
  qed
  moreover have "\<exists>e. envelope_open P rd kind' enc m = Inl (Corruption e)"
    if "\<forall>q. envelope_open P rd kind' enc m \<noteq> Inr q"
    using that by (auto simp: envelope_open_def map_err_def bind_res_def split: sum.splits if_splits)
  ultimately show "envelope_seal P kind p = Inr enc \<and> kind' \<noteq> kind \<longrightarrow> (\<exists>e. envelope_open P rd kind' enc m = Inl (Corruption e))"
    by blast
qed

theorem envelope_exact_witness:
  "\<exists>enc. envelope_seal sample_prims EnvTimer [1, 2, 3] = Inr enc
     \<and> envelope_open sample_prims sample_envelope_read EnvTimer enc 100 = Inr [1, 2, 3]
     \<and> (\<exists>e. envelope_open sample_prims sample_envelope_read EnvReceipt enc 100 = Inl (Corruption e))"
proof -
  have "100 + MAX_ENVELOPE_OVERHEAD < 2 ^ 64" "100 \<le> U32_MAX"
    by (simp_all add: MAX_ENVELOPE_OVERHEAD_def U32_MAX_def)
  note exact = envelope_exact [OF sample_layout sample_envelope_bijective this]
  obtain enc where enc: "envelope_seal sample_prims EnvTimer [1, 2, 3] = Inr enc"
    by (auto simp: envelope_seal_ok U32_MAX_def)
  with exact [of EnvTimer enc "[1, 2, 3]" EnvReceipt] show ?thesis by auto
qed

text \<open>C22: integer columns keep their values.  A \<open>u64\<close> is stored exactly when it is below \<open>2^63\<close> and read
  back as itself, a negative column is refused, and a lifecycle tag reads back as the lifecycle it was
  written for and as no other.\<close>

theorem columns_exact:
  "(sqlite_u64 v = Inr i \<longleftrightarrow> unat v < 2 ^ 63 \<and> i = uint v)
   \<and> (sqlite_i64 i = Inr v \<and> i < 2 ^ 63 \<longleftrightarrow> sqlite_u64 v = Inr i)
   \<and> (lifecycle_from_tag t = Inr l \<longleftrightarrow> lifecycle_tag l = t)"
proof (intro conjI)
  show stored: "sqlite_u64 v = Inr i \<longleftrightarrow> unat v < 2 ^ 63 \<and> i = uint v"
    by (auto simp: sqlite_u64_def)
  have small: "unat v < 2 ^ 63 \<longleftrightarrow> uint v < 2 ^ 63"
    using of_nat_less_iff [of "unat v" "2 ^ 63", where 'a = int] by (simp only: uint_nat) simp
  have "v = word_of_int i \<and> 0 \<le> i \<and> i < 2 ^ 63 \<longleftrightarrow> uint v < 2 ^ 63 \<and> i = uint v"
  proof
    assume r: "v = word_of_int i \<and> 0 \<le> i \<and> i < 2 ^ 63"
    then have "uint v = i" by (simp add: uint_word_of_int_eq take_bit_int_eq_self)
    with r show "uint v < 2 ^ 63 \<and> i = uint v" by simp
  qed simp
  then show "sqlite_i64 i = Inr v \<and> i < 2 ^ 63 \<longleftrightarrow> sqlite_u64 v = Inr i"
    unfolding stored small by (auto simp: sqlite_i64_def)
  show "lifecycle_from_tag t = Inr l \<longleftrightarrow> lifecycle_tag l = t"
    by (cases l) (auto simp: lifecycle_from_tag_def)
qed

end
