(* ===== verification/Blob_Store.thy ===== *)
theory Blob_Store
  imports Change_Log Store_Codec "HOL-Library.AList"
begin

text \<open>
  The blob tables and files of the store (\<open>arena0-store/src/database/blobs.rs\<close> and the blob calls of
  \<open>arena0-store/src/lib.rs\<close>).  Metadata lives in three tables and is rolled back with its transaction;
  bytes live in files, which are not.  A disk is what the file system holds, path by path; a file write
  has an outcome of its own, so that a torn or failed write is a case of the model.
\<close>

section \<open>Values\<close>

definition MAX_BLOB_BYTES :: u64 where
  "MAX_BLOB_BYTES = 16 * 1024 * 1024"

datatype blob_change =
    BlobAppend blob_hash u64 u64 bytes
  | BlobCommit blob_hash

record blob_partial =
  bp_length :: u64
  bp_written :: u64
  bp_committed :: bool

section \<open>Paths\<close>

text \<open>\<open>blake3::Hash::to_hex\<close>: 64 lowercase hexadecimal characters.\<close>

definition hex_digit :: "nat \<Rightarrow> char" where
  "hex_digit n = ''0123456789abcdef'' ! n"

definition to_hex :: "256 word \<Rightarrow> string" where
  "to_hex w = concat (map (\<lambda>b. [hex_digit (unat b div 16), hex_digit (unat b mod 16)]) (be_bytes 32 w))"

definition owned_path :: "string \<Rightarrow> blob_hash \<Rightarrow> string" where
  "owned_path dir hash = dir @ ''/own-'' @ (case hash of BlobHash h \<Rightarrow> to_hex h)"

definition received_path :: "string \<Rightarrow> exec_id \<Rightarrow> blob_hash \<Rightarrow> string" where
  "received_path dir eid hash =
     dir @ ''/recv-'' @ (case eid of ExecId e \<Rightarrow> to_hex e) @ ''-'' @ (case hash of BlobHash h \<Rightarrow> to_hex h)"

section \<open>Files\<close>

type_synonym disk = "string \<Rightarrow> bytes option"

datatype io_outcome = IoDone | OpenFailed string | TornWrite nat string

text \<open>Create or truncate, then write; a torn write leaves a prefix.\<close>

fun create_file :: "disk \<Rightarrow> string \<Rightarrow> bytes \<Rightarrow> io_outcome \<Rightarrow> disk \<times> (store_error + unit)" where
  "create_file disk path bs IoDone = (disk(path \<mapsto> bs), Inr ())"
| "create_file disk path bs (OpenFailed e) = (disk, Inl (StoreIo e))"
| "create_file disk path bs (TornWrite n e) = (disk(path \<mapsto> take n bs), Inl (StoreIo e))"

definition overwrite :: "bytes \<Rightarrow> nat \<Rightarrow> bytes \<Rightarrow> bytes" where
  "overwrite file offset bs =
     take offset file @ replicate (offset - length file) 0 @ bs @ drop (offset + length bs) file"

text \<open>Write into an existing file at an offset.\<close>

definition write_all_at :: "disk \<Rightarrow> string \<Rightarrow> nat \<Rightarrow> bytes \<Rightarrow> io_outcome \<Rightarrow> disk \<times> (store_error + unit)" where
  "write_all_at disk path offset bs io =
     (case disk path of
        None \<Rightarrow> (disk, Inl (StoreIo ''not found''))
      | Some file \<Rightarrow>
          (case io of
             IoDone \<Rightarrow> (disk(path \<mapsto> overwrite file offset bs), Inr ())
           | OpenFailed e \<Rightarrow> (disk, Inl (StoreIo e))
           | TornWrite n e \<Rightarrow> (disk(path \<mapsto> overwrite file offset (take n bs)), Inl (StoreIo e))))"

section \<open>Tables\<close>

record blob_row =
  br_length :: int
  br_path :: string
  br_linked :: bool

record partial_row =
  pr_length :: int
  pr_written :: int
  pr_committed :: bool

record blob_tables =
  bt_blobs :: "(blob_hash \<times> blob_row) list"
  bt_grants :: "((exec_id \<times> blob_hash) \<times> unit) list"
  bt_partials :: "((exec_id \<times> blob_hash) \<times> partial_row) list"

text \<open>Whether the store owns the bytes of a blob: \<open>linked = 0\<close>.\<close>

definition owned_row :: "blob_tables \<Rightarrow> blob_hash \<Rightarrow> bool" where
  "owned_row t hash \<longleftrightarrow> (case map_of (bt_blobs t) hash of None \<Rightarrow> False | Some row \<Rightarrow> \<not> br_linked row)"

definition blob_location :: "blob_tables \<Rightarrow> blob_hash \<Rightarrow> store_error + (string \<times> u64) option" where
  "blob_location t hash =
     (case map_of (bt_blobs t) hash of
        None \<Rightarrow> Inr None
      | Some row \<Rightarrow> bind_res (sqlite_i64 (br_length row)) (\<lambda>len. Inr (Some (br_path row, len))))"

definition blob_granted :: "blob_tables \<Rightarrow> exec_id \<Rightarrow> blob_hash \<Rightarrow> store_error + u64 option" where
  "blob_granted t eid hash =
     (case map_of (bt_grants t) (eid, hash) of
        None \<Rightarrow> Inr None
      | Some _ \<Rightarrow>
          (case map_of (bt_blobs t) hash of
             None \<Rightarrow> Inr None
           | Some row \<Rightarrow> bind_res (sqlite_i64 (br_length row)) (\<lambda>len. Inr (Some len))))"

definition blob_partial_row :: "blob_tables \<Rightarrow> exec_id \<Rightarrow> blob_hash \<Rightarrow> store_error + blob_partial option" where
  "blob_partial_row t eid hash =
     (case map_of (bt_partials t) (eid, hash) of
        None \<Rightarrow> Inr None
      | Some row \<Rightarrow>
          bind_res (sqlite_i64 (pr_length row)) (\<lambda>len.
          bind_res (sqlite_i64 (pr_written row)) (\<lambda>written.
          Inr (Some \<lparr>bp_length = len, bp_written = written, bp_committed = pr_committed row\<rparr>))))"

definition insert_owned_blob ::
  "blob_tables \<Rightarrow> blob_hash \<Rightarrow> u64 \<Rightarrow> string \<Rightarrow> store_error + bool \<times> blob_tables \<times> change_key list" where
  "insert_owned_blob t hash len path =
     bind_res (sqlite_u64 len) (\<lambda>l.
     case map_of (bt_blobs t) hash of
       Some _ \<Rightarrow> Inr (False, t, [])
     | None \<Rightarrow>
         Inr (True, t\<lparr>bt_blobs := AList.update hash \<lparr>br_length = l, br_path = path, br_linked = False\<rparr> (bt_blobs t)\<rparr>,
              [ChangeBlob hash]))"

definition insert_linked_blob ::
  "blob_tables \<Rightarrow> blob_hash \<Rightarrow> u64 \<Rightarrow> string \<Rightarrow> store_error + blob_tables \<times> change_key list" where
  "insert_linked_blob t hash len path =
     bind_res (sqlite_u64 len) (\<lambda>l.
     if owned_row t hash then Inr (t, [])
     else Inr (t\<lparr>bt_blobs := AList.update hash \<lparr>br_length = l, br_path = path, br_linked = True\<rparr> (bt_blobs t)\<rparr>,
               [ChangeBlob hash]))"

section \<open>Received bytes\<close>

text \<open>\<open>BlobChange::Append\<close>: the file is written and synced before its row; only the row is rolled back.\<close>

definition apply_append ::
  "string \<Rightarrow> exec_id \<Rightarrow> blob_hash \<Rightarrow> u64 \<Rightarrow> u64 \<Rightarrow> bytes \<Rightarrow> io_outcome \<Rightarrow> disk \<Rightarrow> blob_tables
   \<Rightarrow> disk \<times> (store_error + blob_tables)" where
  "apply_append dir eid hash len offset bs io disk t =
     (case blob_partial_row t eid hash of
        Inl e \<Rightarrow> (disk, Inl e)
      | Inr partial \<Rightarrow>
          (if (case partial of None \<Rightarrow> offset \<noteq> 0
               | Some row \<Rightarrow> bp_committed row \<or> bp_length row \<noteq> len \<or> bp_written row \<noteq> offset)
           then (disk, Inl (Corruption ''blob append does not continue the partial''))
           else
             let path = received_path dir eid hash; written = offset + word_of_nat (length bs) in
             case (case partial of None \<Rightarrow> create_file disk path bs io
                   | Some _ \<Rightarrow> write_all_at disk path (unat offset) bs io) of
               (disk, Inl e) \<Rightarrow> (disk, Inl e)
             | (disk, Inr _) \<Rightarrow>
                 (disk,
                  case map_of (bt_partials t) (eid, hash) of
                    None \<Rightarrow>
                      bind_res (sqlite_u64 len) (\<lambda>l.
                      bind_res (sqlite_u64 written) (\<lambda>w. Inr
                        (t\<lparr>bt_partials := AList.update (eid, hash)
                              \<lparr>pr_length = l, pr_written = w, pr_committed = False\<rparr> (bt_partials t)\<rparr>)))
                  | Some row \<Rightarrow>
                      bind_res (sqlite_u64 written) (\<lambda>w. Inr
                        (t\<lparr>bt_partials := AList.update (eid, hash) (row\<lparr>pr_written := w\<rparr>) (bt_partials t)\<rparr>)))))"

text \<open>\<open>BlobChange::Commit\<close>: publish the received file, grant it and close the partial.\<close>

definition apply_commit ::
  "string \<Rightarrow> exec_id \<Rightarrow> blob_hash \<Rightarrow> blob_tables \<Rightarrow> store_error + blob_tables \<times> change_key list" where
  "apply_commit dir eid hash t =
     bind_res (blob_partial_row t eid hash) (\<lambda>partial.
     case partial of
       None \<Rightarrow> Inl (Corruption ''committing an incomplete blob partial'')
     | Some row \<Rightarrow>
         if bp_committed row \<or> bp_written row \<noteq> bp_length row
         then Inl (Corruption ''committing an incomplete blob partial'')
         else
           bind_res (sqlite_u64 (bp_length row)) (\<lambda>l.
           let blobs = (if owned_row t hash then bt_blobs t
                        else AList.update hash
                               \<lparr>br_length = l, br_path = received_path dir eid hash, br_linked = False\<rparr> (bt_blobs t));
               partials = (case map_of (bt_partials t) (eid, hash) of None \<Rightarrow> bt_partials t
                           | Some r \<Rightarrow> AList.update (eid, hash) (r\<lparr>pr_committed := True\<rparr>) (bt_partials t)) in
           Inr (t\<lparr>bt_blobs := blobs, bt_grants := AList.update (eid, hash) () (bt_grants t), bt_partials := partials\<rparr>,
                if owned_row t hash then [] else [ChangeBlob hash])))"

fun apply_blob_changes ::
  "string \<Rightarrow> exec_id \<Rightarrow> blob_change list \<Rightarrow> io_outcome list \<Rightarrow> disk \<Rightarrow> blob_tables
   \<Rightarrow> disk \<times> (store_error + blob_tables \<times> change_key list)" where
  "apply_blob_changes dir eid [] ios disk t = (disk, Inr (t, []))"
| "apply_blob_changes dir eid (BlobAppend hash len offset bs # chs) ios disk t =
     (case apply_append dir eid hash len offset bs (case ios of [] \<Rightarrow> IoDone | io # _ \<Rightarrow> io) disk t of
        (disk, Inl e) \<Rightarrow> (disk, Inl e)
      | (disk, Inr t) \<Rightarrow> apply_blob_changes dir eid chs (tl ios) disk t)"
| "apply_blob_changes dir eid (BlobCommit hash # chs) ios disk t =
     (case apply_commit dir eid hash t of
        Inl e \<Rightarrow> (disk, Inl e)
      | Inr (t, keys) \<Rightarrow>
          (case apply_blob_changes dir eid chs ios disk t of
             (disk, Inl e) \<Rightarrow> (disk, Inl e)
           | (disk, Inr (t, rest)) \<Rightarrow> (disk, Inr (t, keys @ rest))))"

section \<open>Copies, links, reads and the sweep\<close>

text \<open>\<open>copy_blob\<close>: \<open>contents\<close> is what the source file yields, \<open>temporary\<close> the fresh name of the copy.
  A failed insertion leaves the renamed file behind, without a row.\<close>

definition copy_blob ::
  "prims \<Rightarrow> string \<Rightarrow> string \<Rightarrow> bytes \<Rightarrow> io_outcome \<Rightarrow> store_error option \<Rightarrow> disk \<Rightarrow> blob_tables
   \<Rightarrow> (disk \<times> blob_tables) \<times> (store_error + blob_hash \<times> u64)" where
  "copy_blob P dir temporary contents io sql disk t =
     (if length contents > unat MAX_BLOB_BYTES
      then ((disk, t), Inl (BlobTooLarge (word_of_nat (length contents))))
      else if disk temporary \<noteq> None then ((disk, t), Inl (StoreIo ''already exists''))
      else case create_file disk temporary contents io of
        (_, Inl e) \<Rightarrow> ((disk(temporary := None), t), Inl e)
      | (_, Inr _) \<Rightarrow>
          let hash = BlobHash (blake3 P contents); len = word_of_nat (length contents) in
          (case blob_location t hash of
             Inl e \<Rightarrow> ((disk(temporary := None), t), Inl e)
           | Inr (Some (_, existing)) \<Rightarrow> ((disk(temporary := None), t), Inr (hash, existing))
           | Inr None \<Rightarrow>
               let disk = disk(temporary := None, owned_path dir hash \<mapsto> contents) in
               (case sql of
                  Some e \<Rightarrow> ((disk, t), Inl e)
                | None \<Rightarrow>
                    (case insert_owned_blob t hash len (owned_path dir hash) of
                       Inl e \<Rightarrow> ((disk, t), Inl e)
                     | Inr (_, t, _) \<Rightarrow> ((disk, t), Inr (hash, len))))))"

definition link_blob ::
  "prims \<Rightarrow> string \<Rightarrow> disk \<Rightarrow> blob_tables \<Rightarrow> store_error + (blob_hash \<times> u64) \<times> blob_tables" where
  "link_blob P path disk t =
     (case disk path of
        None \<Rightarrow> Inl (StoreIo ''not found'')
      | Some contents \<Rightarrow>
          if length contents > unat MAX_BLOB_BYTES then Inl (BlobTooLarge (word_of_nat (length contents)))
          else
            let hash = BlobHash (blake3 P contents); len = word_of_nat (length contents) in
            bind_res (insert_linked_blob t hash len path) (\<lambda>(t, _). Inr ((hash, len), t)))"

definition read_blob_range ::
  "disk \<Rightarrow> blob_tables \<Rightarrow> blob_hash \<Rightarrow> u64 \<Rightarrow> u64 \<Rightarrow> store_error + bytes option" where
  "read_blob_range disk t hash first past =
     bind_res (blob_location t hash) (\<lambda>location. Inr
       (case location of
          None \<Rightarrow> None
        | Some (path, _) \<Rightarrow>
            (case disk path of
               None \<Rightarrow> None
             | Some file \<Rightarrow>
                 if unat past \<le> length file then Some (take (unat past - unat first) (drop (unat first) file)) else None)))"

definition hash_blob_partial ::
  "prims \<Rightarrow> string \<Rightarrow> disk \<Rightarrow> blob_tables \<Rightarrow> exec_id \<Rightarrow> blob_hash \<Rightarrow> bytes \<Rightarrow> store_error + blob_hash" where
  "hash_blob_partial P dir disk t eid hash tail =
     bind_res (blob_partial_row t eid hash) (\<lambda>partial.
     bind_res (ok_or partial (Corruption ''hashing a missing blob partial'')) (\<lambda>row.
     let short = Inl (Corruption ''blob partial file is shorter than written'') in
     case disk (received_path dir eid hash) of
       None \<Rightarrow> short
     | Some file \<Rightarrow>
         if length file < unat (bp_written row) then short
         else Inr (BlobHash (blake3 P (take (unat (bp_written row)) file @ tail)))))"

text \<open>\<open>export_blob\<close> writes a new file with the blob's bytes.\<close>

definition export_blob ::
  "disk \<Rightarrow> blob_tables \<Rightarrow> blob_hash \<Rightarrow> string \<Rightarrow> disk \<times> (store_error + u64 option)" where
  "export_blob disk t hash destination =
     (case blob_location t hash of
        Inl e \<Rightarrow> (disk, Inl e)
      | Inr None \<Rightarrow> (disk, Inr None)
      | Inr (Some (path, len)) \<Rightarrow>
          (case disk path of
             None \<Rightarrow> (disk, Inl (BlobUnreadable hash))
           | Some file \<Rightarrow>
               if disk destination \<noteq> None then (disk, Inl (StoreIo ''already exists''))
               else if length file < unat len then (disk, Inl (BlobUnreadable hash))
               else (disk(destination \<mapsto> take (unat len) file), Inr (Some len))))"

definition retained_paths :: "string \<Rightarrow> blob_tables \<Rightarrow> string list" where
  "retained_paths dir t = map (br_path \<circ> snd) (bt_blobs t)
     @ map (\<lambda>((eid, hash), _). received_path dir eid hash) (filter (\<lambda>(_, row). \<not> pr_committed row) (bt_partials t))"

text \<open>\<open>sweep_blob_files\<close> removes what no row owns among the direct children of the blob directory.\<close>

definition starts_with :: "string \<Rightarrow> string \<Rightarrow> bool" where
  "starts_with name p \<longleftrightarrow> take (length p) name = p"

definition sweep_blob_files :: "string \<Rightarrow> blob_tables \<Rightarrow> disk \<Rightarrow> disk" where
  "sweep_blob_files dir t disk =
     (\<lambda>path.
        let name = drop (length dir + 1) path in
        if starts_with path (dir @ ''/'') \<and> CHR ''/'' \<notin> set name
           \<and> (starts_with name ''copy-''
              \<or> (starts_with name ''recv-'' \<or> starts_with name ''own-'') \<and> path \<notin> set (retained_paths dir t))
        then None else disk path)"

end
