(* ===== verification/Permutation.thy ===== *)
theory Permutation
  imports Crypto "HOL-Library.Multiset"
begin

text \<open>
  Seeded permutations (\<open>arena0-crypto/src/permutation.rs\<close>): a descending Fisher-Yates pass whose draws
  reject the values that would favour small residues.  The generator is a parameter, the sequence of
  \<open>u64\<close> values that ChaCha20 gives for the seed; a draw consumes values of it from a position on.
\<close>

section \<open>Draws\<close>

definition MAX_REJECTIONS :: nat where
  "MAX_REJECTIONS = 1024"

text \<open>\<open>upper_bound.wrapping_neg() % upper_bound\<close>.\<close>

definition rejection_threshold :: "u64 \<Rightarrow> u64" where
  "rejection_threshold upper_bound = (- upper_bound) mod upper_bound"

fun choose_loop :: "(nat \<Rightarrow> u64) \<Rightarrow> nat \<Rightarrow> nat \<Rightarrow> u64 \<Rightarrow> (u64 \<times> nat) option" where
  "choose_loop rng pos 0 upper_bound = None"
| "choose_loop rng pos (Suc attempts) upper_bound =
     (let value = rng pos in
      if value \<ge> rejection_threshold upper_bound then Some (value mod upper_bound, pos + 1)
      else choose_loop rng (pos + 1) attempts upper_bound)"

definition choose_below :: "(nat \<Rightarrow> u64) \<Rightarrow> nat \<Rightarrow> u64 \<Rightarrow> (u64 \<times> nat) option" where
  "choose_below rng pos upper_bound = choose_loop rng pos MAX_REJECTIONS upper_bound"

section \<open>The pass\<close>

definition swap_at :: "'a list \<Rightarrow> nat \<Rightarrow> nat \<Rightarrow> 'a list" where
  "swap_at xs i j = xs[i := xs ! j, j := xs ! i]"

text \<open>The loop over \<open>(1..order.len()).rev()\<close>: \<open>index\<close> counts down to 1.\<close>

fun shuffle :: "(nat \<Rightarrow> u64) \<Rightarrow> nat \<Rightarrow> nat \<Rightarrow> u32 list \<Rightarrow> u32 list option" where
  "shuffle rng pos 0 order = Some order"
| "shuffle rng pos (Suc index) order =
     (case choose_below rng pos (word_of_nat (Suc index + 1)) of
        None \<Rightarrow> None
      | Some (swap, pos) \<Rightarrow> shuffle rng pos index (swap_at order (Suc index) (unat swap)))"

definition permutation :: "(nat \<Rightarrow> u64) \<Rightarrow> u32 \<Rightarrow> u32 list option" where
  "permutation rng n = shuffle rng 0 (unat n - 1) (map word_of_nat [0..<unat n])"

section \<open>Lemmas\<close>

lemma choose_loop_Some:
  "choose_loop rng pos k ub = Some (v, pos') \<Longrightarrow>
     \<exists>i \<ge> pos. rejection_threshold ub \<le> rng i \<and> v = rng i mod ub \<and> pos' = i + 1"
  by (induction rng pos k ub rule: choose_loop.induct)
    (auto simp: Let_def split: if_splits intro: order_trans [OF le_add1])

lemma choose_below_bound: "choose_below rng pos ub = Some (v, pos') \<Longrightarrow> ub \<noteq> 0 \<Longrightarrow> v < ub"
  by (auto simp: choose_below_def dest!: choose_loop_Some simp: word_mod_less_divisor word_gt_0)

lemma mset_swap_at: "i < length xs \<Longrightarrow> j < length xs \<Longrightarrow> mset (swap_at xs i j) = mset xs"
  by (simp add: swap_at_def mset_swap)

lemma length_swap_at [simp]: "length (swap_at xs i j) = length xs"
  by (simp add: swap_at_def)

lemma shuffle_mset:
  assumes "shuffle rng pos k order = Some order'" "k < length order \<or> k = 0" "length order < 2 ^ 32"
  shows "mset order' = mset order"
  using assms
proof (induction rng pos k order rule: shuffle.induct)
  case (2 rng pos index order)
  then obtain swap pos' where c: "choose_below rng pos (word_of_nat (Suc index + 1)) = Some (swap, pos')"
    "shuffle rng pos' index (swap_at order (Suc index) (unat swap)) = Some order'"
    by (auto split: option.splits)
  have n: "unat (word_of_nat (Suc index + 1) :: u64) = Suc index + 1"
    using 2(3,4) by (simp add: unat_of_nat del: of_nat_Suc of_nat_add)
  then have "(word_of_nat (Suc index + 1) :: u64) \<noteq> 0" by (metis Zero_not_Suc add_Suc unat_0)
  then have "unat swap < Suc index + 1" using choose_below_bound [OF c(1)] n by (simp add: word_less_nat_alt)
  then have "mset (swap_at order (Suc index) (unat swap)) = mset order"
    using 2(3) by (intro mset_swap_at) auto
  moreover have "mset order' = mset (swap_at order (Suc index) (unat swap))"
    using 2(1) [OF c(1)] c(2) 2(3,4) by auto
  ultimately show ?case by simp
qed simp

section \<open>Equal residue classes\<close>

text \<open>Rejecting below \<open>2^64 mod u\<close> leaves every residue equally many values.\<close>

lemma residue_class:
  fixes u q t r :: nat
  assumes "r < u" "t < u"
  shows "card {v. t \<le> v \<and> v < t + q * u \<and> v mod u = r} = q"
proof -
  define f where "f k = (if t \<le> r then r + k * u else r + (k + 1) * u)" for k
  have "{v. t \<le> v \<and> v < t + q * u \<and> v mod u = r} = f ` {..<q}"
  proof (intro equalityI subsetI)
    fix v assume "v \<in> {v. t \<le> v \<and> v < t + q * u \<and> v mod u = r}"
    then have v: "t \<le> v" "v < t + q * u" "v = r + (v div u) * u" by auto
    define k where "k = v div u"
    show "v \<in> f ` {..<q}"
    proof (cases "t \<le> r")
      case True
      then have "k * u < q * u" using v(2,3) assms(2) unfolding k_def by linarith
      then show ?thesis using True v(3) by (auto simp: f_def k_def image_iff)
    next
      case False
      then have "k \<noteq> 0" using v(1,3) by (intro notI) (simp add: k_def)
      moreover have "k * u < (q + 1) * u" using v(2,3) assms unfolding k_def by (simp add: algebra_simps)
      then have "k < q + 1" by (metis mult_less_cancel2)
      ultimately obtain j where "k = Suc j" "j < q" by (cases k) auto
      then show ?thesis using False v(3) by (auto simp: f_def k_def [symmetric] image_iff intro!: bexI [of _ j])
    qed
  next
    fix v assume "v \<in> f ` {..<q}"
    then obtain k where k: "k < q" "v = f k" by auto
    then have "k * u + u \<le> q * u" by (metis Suc_leI add.commute mult_Suc mult_le_mono1)
    moreover have "(r + j * u) mod u = r" for j using assms(1) by simp
    then have "v mod u = r" using k(2) by (simp only: f_def split: if_split) blast
    ultimately show "v \<in> {v. t \<le> v \<and> v < t + q * u \<and> v mod u = r}"
      using k assms by (auto simp: f_def split: if_splits)
  qed
  moreover have "inj_on f {..<q}" using assms(1) by (auto simp: inj_on_def f_def)
  ultimately show ?thesis by (simp add: card_image)
qed

lemma threshold_unat:
  assumes "ub \<noteq> (0 :: u64)"
  shows "unat (rejection_threshold ub) = 2 ^ 64 mod unat ub"
proof -
  have "0 < unat ub" "unat ub < 2 ^ 64" using assms unsigned_less [of ub] by (simp_all add: unat_gt_0)
  have "word_of_nat (2 ^ 64 - unat ub) + word_of_nat (unat ub) = (word_of_nat (2 ^ 64) :: u64)"
    unfolding of_nat_add [symmetric] using \<open>unat ub < 2 ^ 64\<close> by simp
  also have "\<dots> = 0" by (simp add: word_unat_eq_iff unat_of_nat)
  finally have "- ub = word_of_nat (2 ^ 64 - unat ub)" by (intro minus_unique) (simp add: add.commute)
  then have "unat (- ub) = 2 ^ 64 - unat ub" using \<open>0 < unat ub\<close> by (simp add: unat_of_nat)
  moreover have "(2 ^ 64 - unat ub) mod unat ub = 2 ^ 64 mod unat ub"
    using \<open>unat ub < 2 ^ 64\<close> by (intro le_mod_geq [symmetric]) simp
  ultimately show ?thesis by (simp add: rejection_threshold_def unat_mod)
qed

lemma card_unat: "card {v :: u64. Q (unat v)} = card {n. n < 2 ^ 64 \<and> Q n}"
proof -
  have "unat ` {v :: u64. Q (unat v)} = {n. n < 2 ^ 64 \<and> Q n}"
  proof (intro equalityI subsetI)
    fix n assume n: "n \<in> {n. n < 2 ^ 64 \<and> Q n}"
    then have "unat (word_of_nat n :: u64) = n" by (simp add: unat_of_nat)
    with n show "n \<in> unat ` {v :: u64. Q (unat v)}" by (intro image_eqI [of _ _ "word_of_nat n"]) simp_all
  next
    fix n assume "n \<in> unat ` {v :: u64. Q (unat v)}"
    then obtain v :: u64 where "n = unat v" "Q (unat v)" by auto
    then show "n \<in> {n. n < 2 ^ 64 \<and> Q n}" using unsigned_less [of v] by simp
  qed
  moreover have "inj_on unat {v :: u64. Q (unat v)}" by (simp add: inj_on_def word_unat_eq_iff)
  ultimately show ?thesis using card_image [of unat "{v :: u64. Q (unat v)}"] by simp
qed

lemma accepted_class:
  assumes "ub \<noteq> (0 :: u64)" "r < ub"
  shows "card {v. rejection_threshold ub \<le> v \<and> v mod ub = r} = 2 ^ 64 div unat ub"
proof -
  define M :: nat where "M = 2 ^ 64"
  have u: "0 < unat ub" "unat r < unat ub" using assms by (simp_all add: unat_gt_0 word_less_nat_alt)
  have "{v. rejection_threshold ub \<le> v \<and> v mod ub = r}
      = {v. unat (rejection_threshold ub) \<le> unat v \<and> unat v mod unat ub = unat r}"
    by (simp only: word_le_nat_alt word_unat_eq_iff unat_mod)
  then have "card {v. rejection_threshold ub \<le> v \<and> v mod ub = r}
      = card {n. n < M \<and> M mod unat ub \<le> n \<and> n mod unat ub = unat r}"
    unfolding M_def using card_unat [of "\<lambda>n. 2 ^ 64 mod unat ub \<le> n \<and> n mod unat ub = unat r"]
    by (simp only: threshold_unat [OF assms(1)])
  also have "{n. n < M \<and> M mod unat ub \<le> n \<and> n mod unat ub = unat r}
      = {n. M mod unat ub \<le> n \<and> n < M mod unat ub + (M div unat ub) * unat ub \<and> n mod unat ub = unat r}"
    by (auto simp: mod_div_mult_eq)
  also have "card \<dots> = M div unat ub" using u by (intro residue_class) simp_all
  finally show ?thesis by (simp only: M_def)
qed



end
