(* ===== verification/Host_Imports.thy ===== *)
theory Host_Imports
  imports Execution_State Blob_Store Permutation
begin

text \<open>
  The host side of the sandbox boundary: the state one guest call sees (\<open>HostState\<close>, \<open>DispatchScope\<close>
  and \<open>ResourceLedger\<close> of \<open>arena0-sandbox/src/engine/mod.rs\<close>) and every import a guest can call
  (\<open>engine/imports/\<close>).  An import is a function from the host state to a trap or a result and the next
  state; the Wasm engine itself is not modelled, so a guest is any sequence of imports between
  which it may do what it likes to its own work memory and fuel.  The signer, the verifier, the
  blob view and the random source are fields or arguments, as they are for the engine.
\<close>

section \<open>Text\<close>

text \<open>UTF-8 as the standard library reads it: the length of the next scalar, or of the longest prefix
  of a broken one, which \<open>from_utf8_lossy\<close> replaces by U+FFFD.\<close>

definition continuation :: "bytes \<Rightarrow> bool" where
  "continuation bs \<longleftrightarrow> (case bs of [] \<Rightarrow> False | b # _ \<Rightarrow> 0x80 \<le> b \<and> b \<le> 0xBF)"

definition second_byte :: "u8 \<Rightarrow> bytes \<Rightarrow> bool" where
  "second_byte b bs \<longleftrightarrow>
     (case bs of
        [] \<Rightarrow> False
      | c # _ \<Rightarrow>
          (if b = 0xE0 then 0xA0 \<le> c \<and> c \<le> 0xBF
           else if b = 0xED then 0x80 \<le> c \<and> c \<le> 0x9F
           else if b = 0xF0 then 0x90 \<le> c \<and> c \<le> 0xBF
           else if b = 0xF4 then 0x80 \<le> c \<and> c \<le> 0x8F
           else 0x80 \<le> c \<and> c \<le> 0xBF))"

definition utf8_next :: "u8 \<Rightarrow> bytes \<Rightarrow> bool \<times> nat" where
  "utf8_next b bs =
     (if b < 0x80 then (True, 0)
      else if 0xC2 \<le> b \<and> b \<le> 0xDF then (if continuation bs then (True, 1) else (False, 0))
      else if 0xE0 \<le> b \<and> b \<le> 0xEF
      then (if \<not> second_byte b bs then (False, 0)
            else if continuation (drop 1 bs) then (True, 2) else (False, 1))
      else if 0xF0 \<le> b \<and> b \<le> 0xF4
      then (if \<not> second_byte b bs then (False, 0)
            else if \<not> continuation (drop 1 bs) then (False, 1)
            else if continuation (drop 2 bs) then (True, 3) else (False, 2))
      else (False, 0))"

function utf8_valid :: "bytes \<Rightarrow> bool" where
  "utf8_valid [] = True"
| "utf8_valid (b # bs) = (fst (utf8_next b bs) \<and> utf8_valid (drop (snd (utf8_next b bs)) bs))"
  by pat_completeness auto
termination by (relation "measure length") auto

function utf8_lossy :: "bytes \<Rightarrow> bytes" where
  "utf8_lossy [] = []"
| "utf8_lossy (b # bs) =
     (let (valid, n) = utf8_next b bs in
      (if valid then b # take n bs else [0xEF, 0xBF, 0xBD]) @ utf8_lossy (drop n bs))"
  by pat_completeness auto
termination by (relation "measure length") auto

definition from_utf8 :: "bytes \<Rightarrow> string option" where
  "from_utf8 bs = (if utf8_valid bs then Some (bytes_string bs) else None)"

definition from_utf8_lossy :: "bytes \<Rightarrow> string" where
  "from_utf8_lossy bs = bytes_string (utf8_lossy bs)"

section \<open>Profiles and the ledger\<close>

text \<open>The limits and prices of the execution profile that imports read.\<close>

record exec_profile =
  max_permutation_len :: u64
  max_host_bytes :: u64
  max_effects_per_dispatch :: u64
  max_effect_bytes :: u64
  max_log_bytes :: u64
  max_log_entries :: u64
  max_host_calls :: u64
  max_random_draws :: u64
  max_shared_state_bytes :: u64
  max_local_state_bytes :: u64
  max_draw_bytes :: u64
  hash_per_byte :: u64
  permutation_per_item :: u64
  verify_fuel :: u64
  max_memory_bytes :: u64
  min_prepared_work_memory_bytes :: u64
  max_output_bytes :: u64
  max_call_envelope_bytes :: u64
  fuel_per_call :: u64

definition current_profile :: exec_profile where
  "current_profile =
     \<lparr>max_permutation_len = 4096, max_host_bytes = 32 * 1024 * 1024, max_effects_per_dispatch = 100,
      max_effect_bytes = 4 * 1024 * 1024, max_log_bytes = 1024 * 1024, max_log_entries = 1000,
      max_host_calls = 10000, max_random_draws = 1000,
      max_shared_state_bytes = word_of_nat MAX_SHARED_STATE_BYTES,
      max_local_state_bytes = word_of_nat MAX_LOCAL_STATE_BYTES, max_draw_bytes = 4 * 1024 * 1024,
      hash_per_byte = 1, permutation_per_item = 32, verify_fuel = 1000000,
      max_memory_bytes = 64 * 1024 * 1024, min_prepared_work_memory_bytes = 56 * 1024 * 1024,
      max_output_bytes = 4 * 1024 * 1024, max_call_envelope_bytes = 16 * 1024 * 1024,
      fuel_per_call = 1000000000\<rparr>"

definition saturating_add :: "u64 \<Rightarrow> u64 \<Rightarrow> u64" where
  "saturating_add a b = (case checked_add a b of None \<Rightarrow> -1 | Some c \<Rightarrow> c)"

record resource_ledger =
  host_calls :: u64
  host_bytes :: u64
  log_bytes :: u64
  log_entries :: u64
  effect_bytes :: u64
  effect_entries :: u64
  random_draws :: u64

definition ledger_new :: resource_ledger where
  "ledger_new = \<lparr>host_calls = 0, host_bytes = 0, log_bytes = 0, log_entries = 0, effect_bytes = 0,
                 effect_entries = 0, random_draws = 0\<rparr>"

definition ledger_host_call :: "resource_ledger \<Rightarrow> u64 \<Rightarrow> string + resource_ledger" where
  "ledger_host_call l limit =
     (let l = l\<lparr>host_calls := saturating_add (host_calls l) 1\<rparr> in
      if host_calls l > limit then Inl ''host call limit exceeded'' else Inr l)"

definition ledger_copy_bytes :: "resource_ledger \<Rightarrow> nat \<Rightarrow> u64 \<Rightarrow> string + resource_ledger" where
  "ledger_copy_bytes l n limit =
     (let l = l\<lparr>host_bytes := saturating_add (host_bytes l) (word_of_nat n)\<rparr> in
      if host_bytes l > limit then Inl ''host copied too many bytes'' else Inr l)"

definition ledger_log :: "resource_ledger \<Rightarrow> nat \<Rightarrow> u64 \<Rightarrow> u64 \<Rightarrow> string + resource_ledger" where
  "ledger_log l n max_bytes max_entries =
     (let l = l\<lparr>log_entries := saturating_add (log_entries l) 1,
               log_bytes := saturating_add (log_bytes l) (word_of_nat n)\<rparr> in
      if log_entries l > max_entries then Inl ''log limit exceeded''
      else if log_bytes l > max_bytes then Inl ''log limit exceeded'' else Inr l)"

definition ledger_effect :: "resource_ledger \<Rightarrow> nat \<Rightarrow> u64 \<Rightarrow> u64 \<Rightarrow> string + resource_ledger" where
  "ledger_effect l n max_bytes max_entries =
     (let l = l\<lparr>effect_entries := saturating_add (effect_entries l) 1,
               effect_bytes := saturating_add (effect_bytes l) (word_of_nat n)\<rparr> in
      if effect_entries l > max_entries then Inl ''intent overflow''
      else if effect_bytes l > max_bytes then Inl ''effect bytes limit exceeded'' else Inr l)"

definition ledger_random :: "resource_ledger \<Rightarrow> u64 \<Rightarrow> string + resource_ledger" where
  "ledger_random l limit =
     (let l = l\<lparr>random_draws := saturating_add (random_draws l) 1\<rparr> in
      if random_draws l > limit then Inl ''random draw limit exceeded'' else Inr l)"

section \<open>Host state\<close>

datatype call_kind = CkPrepare | CkMetadata | CkInitialize | CkDispatch | CkQuery | CkView | CkOutcome

definition allows_effects :: "call_kind \<Rightarrow> bool" where
  "allows_effects k \<longleftrightarrow> k = CkDispatch"

definition allows_state_io :: "call_kind \<Rightarrow> bool" where
  "allows_state_io k \<longleftrightarrow> k = CkDispatch"

datatype dispatch_kind = AgreedDispatch | LocalDispatch

datatype log_level = LogDebug | LogInfo | LogWarn | LogError

definition log_level_from_tag :: "u32 \<Rightarrow> log_level option" where
  "log_level_from_tag tag =
     (if tag = 0 then Some LogDebug else if tag = 1 then Some LogInfo else if tag = 2 then Some LogWarn
      else if tag = 3 then Some LogError else None)"

datatype verify_error = VerifyMalformed | VerifyOtherSession | VerifyNotParticipant | VerifyBadSignature

text \<open>The interface of stored blobs to one dispatch, \<open>trait BlobView\<close>.\<close>

record blob_view =
  view_granted :: "blob_hash \<Rightarrow> store_error + u64 option"
  view_read :: "blob_hash \<Rightarrow> u64 \<Rightarrow> u64 \<Rightarrow> store_error + bytes option"
  view_partial :: "blob_hash \<Rightarrow> store_error + blob_partial option"
  view_hash_partial :: "blob_hash \<Rightarrow> bytes \<Rightarrow> store_error + blob_hash"

type_synonym guest_signer = "u32 \<Rightarrow> sign_scheme \<Rightarrow> bytes \<Rightarrow> string + bytes \<times> bytes"

type_synonym guest_verifier = "bytes \<Rightarrow> bytes \<Rightarrow> peer_id \<Rightarrow> verify_error + bytes"

text \<open>Observations and capabilities of one call; a reset replaces all of it.\<close>

record dispatch_scope =
  sc_logs :: "(log_level \<times> string) list"
  sc_effects :: "effect list"
  sc_draws :: "bytes list"
  sc_ledger :: resource_ledger
  sc_signer :: "guest_signer option"
  sc_sign_calls :: u32
  sc_verifier :: "guest_verifier option"
  sc_blobs :: "blob_view option"
  sc_staged :: "blob_change list"
  sc_attachment :: "bytes option"
  sc_direct_queued :: "(peer_id \<times> nat) list"
  sc_peer_id :: "peer_id option"
  sc_session :: "peer_id list option"

definition scope_new :: dispatch_scope where
  "scope_new =
     \<lparr>sc_logs = [], sc_effects = [], sc_draws = [], sc_ledger = ledger_new, sc_signer = None, sc_sign_calls = 0,
      sc_verifier = None, sc_blobs = None, sc_staged = [], sc_attachment = None, sc_direct_queued = [],
      sc_peer_id = None, sc_session = None\<rparr>"

record host_state =
  hs_call_kind :: call_kind
  hs_dispatch :: dispatch_kind
  hs_outgoing_len :: nat
  hs_profile :: exec_profile
  hs_scope :: dispatch_scope
  hs_work :: bytes
  hs_shared :: bytes
  hs_local :: bytes
  hs_fuel :: u64

definition host_reset_for_dispatch :: "host_state \<Rightarrow> dispatch_kind \<Rightarrow> nat \<Rightarrow> host_state" where
  "host_reset_for_dispatch h kind outgoing_len =
     h\<lparr>hs_call_kind := CkDispatch, hs_dispatch := kind, hs_outgoing_len := outgoing_len, hs_scope := scope_new\<rparr>"

definition host_reset_after_prepare :: "host_state \<Rightarrow> call_kind \<Rightarrow> host_state" where
  "host_reset_after_prepare h kind = h\<lparr>hs_call_kind := kind, hs_scope := scope_new\<rparr>"

section \<open>What every import starts from\<close>

definition update_ledger :: "host_state \<Rightarrow> (resource_ledger \<Rightarrow> string + resource_ledger) \<Rightarrow> string + host_state" where
  "update_ledger h f =
     bind_res (f (sc_ledger (hs_scope h))) (\<lambda>l. Inr (h\<lparr>hs_scope := (hs_scope h)\<lparr>sc_ledger := l\<rparr>\<rparr>))"

definition begin_import :: "host_state \<Rightarrow> string + host_state" where
  "begin_import h = update_ledger h (\<lambda>l. ledger_host_call l (max_host_calls (hs_profile h)))"

definition copy_bytes :: "host_state \<Rightarrow> nat \<Rightarrow> string + host_state" where
  "copy_bytes h n = update_ledger h (\<lambda>l. ledger_copy_bytes l n (max_host_bytes (hs_profile h)))"

definition charge_fuel :: "host_state \<Rightarrow> u64 \<Rightarrow> string + host_state" where
  "charge_fuel h fuel =
     (if hs_fuel h < fuel then Inl ''insufficient fuel'' else Inr (h\<lparr>hs_fuel := hs_fuel h - fuel\<rparr>))"

definition reject_read_only :: "host_state \<Rightarrow> string + unit" where
  "reject_read_only h =
     (if allows_effects (hs_call_kind h) then Inr () else Inl ''effect imports are unavailable to this call'')"

definition reject_state_io :: "host_state \<Rightarrow> string + unit" where
  "reject_state_io h =
     (if allows_state_io (hs_call_kind h) then Inr () else Inl ''state memory imports are unavailable to this call'')"

definition require_local :: "host_state \<Rightarrow> string + unit" where
  "require_local h =
     bind_res (reject_read_only h) (\<lambda>_.
     if hs_dispatch h = LocalDispatch then Inr () else Inl ''only available in local handlers'')"

definition read_guest_bytes :: "host_state \<Rightarrow> u32 \<Rightarrow> nat \<Rightarrow> string + bytes \<times> host_state" where
  "read_guest_bytes h ptr len =
     bind_res (copy_bytes h len) (\<lambda>h.
     if unat ptr + len > length (hs_work h) then Inl ''read out of bounds''
     else Inr (take len (drop (unat ptr) (hs_work h)), h))"

definition write_guest_bytes :: "host_state \<Rightarrow> nat \<Rightarrow> bytes \<Rightarrow> string + host_state" where
  "write_guest_bytes h start bs =
     (if start + length bs > length (hs_work h) then Inl ''out of bounds memory access''
      else Inr (h\<lparr>hs_work := copy_at start bs (hs_work h)\<rparr>))"

section \<open>Effects\<close>

text \<open>\<open>record_effect\<close>: every limit the protocol puts on the effects of a dispatch is enforced here, when
  the effect is emitted.\<close>

definition record_effect :: "prims \<Rightarrow> host_state \<Rightarrow> effect \<Rightarrow> string + host_state" where
  "record_effect P h e =
     (let queue = sc_effects (hs_scope h) in
      if \<not> allows_effects (hs_call_kind h) then Inl ''effect is unavailable to this call''
      else if is_send_direct e \<and> hs_dispatch h \<noteq> LocalDispatch then Inl ''send_direct: only available in local handlers''
      else if is_lifecycle e \<and> hs_dispatch h \<noteq> AgreedDispatch
      then Inl ''a lifecycle effect is only available to agreed events''
      else if is_lifecycle e \<and> list_ex is_lifecycle queue
      then Inl ''at most one lifecycle effect is allowed per dispatch''
      else if is_lifecycle e \<and> list_ex is_set_timer queue
      then Inl ''a lifecycle effect cannot be combined with SetTimer''
      else if is_set_timer e \<and> list_ex is_lifecycle queue
      then Inl ''SetTimer cannot be combined with a lifecycle effect''
      else bind_res (map_err (\<lambda>_. ''effect rejected'') (check_effect_budget P (queue @ [e]))) (\<lambda>_.
      bind_res (map_err (\<lambda>_. ''effect encoding failed'') (to_vec P (effect_value e))) (\<lambda>bs.
      bind_res (update_ledger h (\<lambda>l. ledger_effect l (length bs) (max_effect_bytes (hs_profile h))
                                        (max_effects_per_dispatch (hs_profile h)))) (\<lambda>h.
      Inr (h\<lparr>hs_scope := (hs_scope h)\<lparr>sc_effects := queue @ [e]\<rparr>\<rparr>)))))"

definition import_fail :: "prims \<Rightarrow> host_state \<Rightarrow> u32 \<Rightarrow> u32 \<Rightarrow> string + u32 \<times> host_state" where
  "import_fail P h ptr len =
     bind_res (begin_import h) (\<lambda>h. bind_res (reject_read_only h) (\<lambda>_.
     bind_res (read_guest_bytes h ptr (unat len)) (\<lambda>(reason, h).
     bind_res (record_effect P h (Fail (from_utf8_lossy reason))) (\<lambda>h. Inr (0, h)))))"

definition import_end_session :: "prims \<Rightarrow> host_state \<Rightarrow> u32 \<Rightarrow> u32 \<Rightarrow> string + u32 \<times> host_state" where
  "import_end_session P h ptr len =
     bind_res (begin_import h) (\<lambda>h. bind_res (reject_read_only h) (\<lambda>_.
     bind_res (read_guest_bytes h ptr (unat len)) (\<lambda>(out, h).
     bind_res (record_effect P h (SessionEnd out)) (\<lambda>h. Inr (0, h)))))"

definition import_abort_session :: "prims \<Rightarrow> host_state \<Rightarrow> u32 \<Rightarrow> u32 \<Rightarrow> string + u32 \<times> host_state" where
  "import_abort_session P h ptr len =
     bind_res (begin_import h) (\<lambda>h. bind_res (reject_read_only h) (\<lambda>_.
     bind_res (read_guest_bytes h ptr (unat len)) (\<lambda>(reason, h).
     bind_res (record_effect P h (SessionAbort (from_utf8_lossy reason))) (\<lambda>h. Inr (0, h)))))"

definition import_set_timer ::
  "prims \<Rightarrow> host_state \<Rightarrow> u64 \<Rightarrow> u32 \<Rightarrow> u32 \<Rightarrow> u32 \<Rightarrow> u32 \<Rightarrow> string + u32 \<times> host_state" where
  "import_set_timer P h delay type_ptr type_len data_ptr data_len =
     bind_res (begin_import h) (\<lambda>h. bind_res (reject_read_only h) (\<lambda>_.
     bind_res (read_guest_bytes h type_ptr (unat type_len)) (\<lambda>(type_bytes, h).
     bind_res (ok_or (from_utf8 type_bytes) ''set_timer: invalid type name'') (\<lambda>name.
     bind_res (read_guest_bytes h data_ptr (unat data_len)) (\<lambda>(data, h).
     bind_res (record_effect P h (SetTimer delay \<lparr>type_name = name, timer_data = data\<rparr>)) (\<lambda>h. Inr (0, h)))))))"

text \<open>\<open>broadcast\<close>: only a local handler sees the bound of the outgoing queue.\<close>

definition import_broadcast :: "prims \<Rightarrow> host_state \<Rightarrow> u32 \<Rightarrow> u32 \<Rightarrow> string + u32 \<times> host_state" where
  "import_broadcast P h ptr len =
     bind_res (begin_import h) (\<lambda>h. bind_res (reject_read_only h) (\<lambda>_.
     if hs_dispatch h = LocalDispatch
        \<and> hs_outgoing_len h + length (filter is_broadcast (sc_effects (hs_scope h))) \<ge> MAX_OUTGOING_MESSAGES
     then Inr (1, h)
     else bind_res (read_guest_bytes h ptr (unat len)) (\<lambda>(data, h).
       bind_res (record_effect P h (Broadcast data)) (\<lambda>h. Inr (0, h)))))"

definition sends_to :: "peer_id \<Rightarrow> effect \<Rightarrow> bool" where
  "sends_to p e = (case e of SendDirect q _ _ \<Rightarrow> q = p | _ \<Rightarrow> False)"

text \<open>\<open>send_direct\<close>: \<open>rd\<close> reads the range attachment; the \<open>expect\<close> on the installed session is a trap here.\<close>

definition send_direct_range ::
  "(bytes \<Rightarrow> string + range_attachment) \<Rightarrow> host_state \<Rightarrow> u32 \<Rightarrow> u32 \<Rightarrow> string + range_attachment option \<times> host_state" where
  "send_direct_range rd h range_ptr range_len =
     (if range_len = 0 then Inr (None, h)
      else bind_res (read_guest_bytes h range_ptr (unat range_len)) (\<lambda>(bs, h).
        bind_res (rd bs) (\<lambda>range.
        bind_res (ok_or (sc_blobs (hs_scope h)) ''blob view unavailable'') (\<lambda>view.
        bind_res (map_err (\<lambda>_. ''blob view failed'') (view_granted view (range_hash range))) (\<lambda>granted.
        bind_res (ok_or granted ''send_direct: blob not granted'') (\<lambda>len.
        if range_start range \<ge> range_end range \<or> range_end range > len
           \<or> range_end range - range_start range > MAX_DIRECT_RANGE_BYTES
        then Inl ''send_direct: invalid source range''
        else Inr (Some range, h)))))))"

definition import_send_direct ::
  "prims \<Rightarrow> (bytes \<Rightarrow> string + range_attachment) \<Rightarrow> host_state \<Rightarrow> u32 \<Rightarrow> u32 \<Rightarrow> u32 \<Rightarrow> u32 \<Rightarrow> u32
   \<Rightarrow> string + u32 \<times> host_state" where
  "import_send_direct P rd h to_ptr msg_ptr msg_len range_ptr range_len =
     bind_res (begin_import h) (\<lambda>h. bind_res (require_local h) (\<lambda>_.
     bind_res (read_guest_bytes h to_ptr 32) (\<lambda>(to_bytes, h).
     let to = PeerId (be_word to_bytes) in
     bind_res (ok_or (sc_session (hs_scope h)) ''dispatch session installed'') (\<lambda>session.
     if Some to = sc_peer_id (hs_scope h) \<or> to \<notin> set session
     then Inl ''send_direct: recipient must be another participant''
     else if unat msg_len > MAX_DIRECT_CONTROL_BYTES then Inl ''send_direct: control message exceeds limit''
     else bind_res (send_direct_range rd h range_ptr range_len) (\<lambda>(range, h).
       let queued = (case map_of (sc_direct_queued (hs_scope h)) to of None \<Rightarrow> 0 | Some n \<Rightarrow> n);
           here = length (filter (sends_to to) (sc_effects (hs_scope h))) in
       if queued + here \<ge> MAX_DIRECT_QUEUE then Inr (1, h)
       else bind_res (read_guest_bytes h msg_ptr (unat msg_len)) (\<lambda>(msg, h).
         bind_res (record_effect P h (SendDirect to msg range)) (\<lambda>h. Inr (0, h))))))))"

section \<open>State memories\<close>

datatype state_memory = SharedMemory | LocalMemory

definition state_memory_kind :: "u32 \<Rightarrow> string + state_memory" where
  "state_memory_kind kind =
     (if kind = 0 then Inr SharedMemory else if kind = 1 then Inr LocalMemory else Inl ''unknown state memory kind'')"

fun state_memory_of :: "host_state \<Rightarrow> state_memory \<Rightarrow> bytes" where
  "state_memory_of h SharedMemory = hs_shared h"
| "state_memory_of h LocalMemory = hs_local h"

fun set_state_memory :: "host_state \<Rightarrow> state_memory \<Rightarrow> bytes \<Rightarrow> host_state" where
  "set_state_memory h SharedMemory m = h\<lparr>hs_shared := m\<rparr>"
| "set_state_memory h LocalMemory m = h\<lparr>hs_local := m\<rparr>"

fun state_payload_max :: "host_state \<Rightarrow> state_memory \<Rightarrow> nat" where
  "state_payload_max h SharedMemory = unat (max_shared_state_bytes (hs_profile h))"
| "state_payload_max h LocalMemory = unat (max_local_state_bytes (hs_profile h))"

definition import_state_len :: "host_state \<Rightarrow> u32 \<Rightarrow> string + u32 \<times> host_state" where
  "import_state_len h kind =
     bind_res (begin_import h) (\<lambda>h. bind_res (reject_state_io h) (\<lambda>_.
     bind_res (state_memory_kind kind) (\<lambda>k.
     bind_res (map_err (\<lambda>_. ''state_len'') (state_frame_len (state_memory_of h k) (state_payload_max h k))) (\<lambda>len.
     Inr (word_of_nat len, h)))))"

definition import_state_read :: "host_state \<Rightarrow> u32 \<Rightarrow> u32 \<Rightarrow> u32 \<Rightarrow> string + u32 \<times> host_state" where
  "import_state_read h kind dst len =
     bind_res (begin_import h) (\<lambda>h. bind_res (reject_state_io h) (\<lambda>_.
     bind_res (state_memory_kind kind) (\<lambda>k.
     bind_res (map_err (\<lambda>_. ''state_read'') (state_frame_len (state_memory_of h k) (state_payload_max h k))) (\<lambda>payload_len.
     if unat len > payload_len then Inl ''state_read: requested range exceeds state payload''
     else if unat dst + unat len > length (hs_work h) then Inl ''state_read: destination exceeds work memory''
     else bind_res (copy_bytes h (unat len)) (\<lambda>h.
       bind_res (write_guest_bytes h (unat dst)
                   (take (unat len) (drop CANONICAL_STATE_PREFIX_BYTES (state_memory_of h k)))) (\<lambda>h. Inr (0, h)))))))"

definition import_state_write :: "host_state \<Rightarrow> u32 \<Rightarrow> u32 \<Rightarrow> u32 \<Rightarrow> string + u32 \<times> host_state" where
  "import_state_write h kind src len =
     bind_res (begin_import h) (\<lambda>h. bind_res (reject_state_io h) (\<lambda>_.
     if unat src + unat len > length (hs_work h) then Inl ''state_write: source exceeds work memory''
     else bind_res (state_memory_kind kind) (\<lambda>k.
     if unat len > state_payload_max h k then Inl ''state_write: payload length exceeds maximum''
     else bind_res (map_err (\<lambda>_. ''state_write'') (state_frame_len (state_memory_of h k) (state_payload_max h k))) (\<lambda>old_len.
     if CANONICAL_STATE_PREFIX_BYTES + unat len > length (state_memory_of h k)
     then Inl ''state_write: payload exceeds state memory''
     else bind_res (copy_bytes h ((old_len - unat len) + unat len)) (\<lambda>h.
       bind_res (map_err (\<lambda>_. ''state_write'')
          (write_state_frame (state_memory_of h k) old_len (take (unat len) (drop (unat src) (hs_work h))))) (\<lambda>m.
       Inr (0, set_state_memory h k m)))))))"

end
