(* ===== verification/Host_Calls.thy ===== *)
theory Host_Calls
  imports Host_Imports
begin

text \<open>
  The remaining imports (hashing, permutations, signatures, logs, randomness and blobs) and the whole
  import table as one function, \<open>host_import\<close>.  What the imports take from outside, the hash tree, the
  seeded generator, the Borsh readers, is the record \<open>host_env\<close>.
\<close>

section \<open>Pure imports\<close>

record host_env =
  env_prims :: prims
  env_max_subtree_len :: "u64 \<Rightarrow> u64 option"
  env_subtree_cv :: "bytes \<Rightarrow> u64 \<Rightarrow> bytes"
  env_merge_cv :: "bytes \<Rightarrow> bytes \<Rightarrow> bool \<Rightarrow> bytes"
  env_chacha :: "bytes \<Rightarrow> nat \<Rightarrow> u64"
  env_read_range :: "bytes \<Rightarrow> string + range_attachment"

definition import_hash :: "host_env \<Rightarrow> host_state \<Rightarrow> u32 \<Rightarrow> u32 \<Rightarrow> u32 \<Rightarrow> string + u32 \<times> host_state" where
  "import_hash E h data_ptr data_len out_ptr =
     bind_res (begin_import h) (\<lambda>h.
     bind_res (read_guest_bytes h data_ptr (unat data_len)) (\<lambda>(data, h).
     bind_res (charge_fuel h (ucast data_len * hash_per_byte (hs_profile h))) (\<lambda>h.
     bind_res (copy_bytes h 32) (\<lambda>h.
     bind_res (write_guest_bytes h (unat out_ptr) (be_bytes 32 (blake3 (env_prims E) data))) (\<lambda>h. Inr (0, h))))))"

definition import_merge_cv ::
  "host_env \<Rightarrow> host_state \<Rightarrow> u32 \<Rightarrow> u32 \<Rightarrow> u32 \<Rightarrow> u32 \<Rightarrow> string + u32 \<times> host_state" where
  "import_merge_cv E h left_ptr right_ptr root out_ptr =
     bind_res (begin_import h) (\<lambda>h.
     bind_res (read_guest_bytes h left_ptr 32) (\<lambda>(left, h).
     bind_res (read_guest_bytes h right_ptr 32) (\<lambda>(right, h).
     bind_res (charge_fuel h (64 * hash_per_byte (hs_profile h))) (\<lambda>h.
     bind_res (copy_bytes h 32) (\<lambda>h.
     bind_res (write_guest_bytes h (unat out_ptr) (env_merge_cv E left right (root \<noteq> 0))) (\<lambda>h. Inr (0, h)))))))"

primrec write_items :: "host_state \<Rightarrow> nat \<Rightarrow> u32 list \<Rightarrow> string + host_state" where
  "write_items h start [] = Inr h"
| "write_items h start (item # items) =
     bind_res (write_guest_bytes h start (u32_to_le_bytes item)) (\<lambda>h. write_items h (start + 4) items)"

definition import_permutation :: "host_env \<Rightarrow> host_state \<Rightarrow> u32 \<Rightarrow> u32 \<Rightarrow> u32 \<Rightarrow> string + u32 \<times> host_state" where
  "import_permutation E h seed_ptr n out_ptr =
     bind_res (begin_import h) (\<lambda>h.
     if ucast n > max_permutation_len (hs_profile h) then Inl ''permutation: length exceeds maximum''
     else bind_res (read_guest_bytes h seed_ptr 32) (\<lambda>(seed, h).
       bind_res (copy_bytes h (4 * unat n)) (\<lambda>h.
       bind_res (charge_fuel h (ucast n * permutation_per_item (hs_profile h))) (\<lambda>h.
       bind_res (ok_or (permutation (env_chacha E seed) n) ''permutation: random draw exhausted'') (\<lambda>order.
       bind_res (write_items h (unat out_ptr) order) (\<lambda>h. Inr (0, h)))))))"

fun verify_error_tag :: "verify_error \<Rightarrow> u8" where
  "verify_error_tag VerifyMalformed = 0"
| "verify_error_tag VerifyOtherSession = 1"
| "verify_error_tag VerifyNotParticipant = 2"
| "verify_error_tag VerifyBadSignature = 3"

text \<open>The Borsh form of \<open>Result\<close>: tag 1 for a success, 0 for an error.\<close>

fun verify_result_value :: "verify_error + bytes \<Rightarrow> borsh_value" where
  "verify_result_value (Inr payload) = BEnum 1 [BBytes U32_MAX payload]"
| "verify_result_value (Inl e) = BEnum 0 [BU8 (verify_error_tag e)]"

definition import_verify ::
  "host_env \<Rightarrow> host_state \<Rightarrow> u32 \<Rightarrow> u32 \<Rightarrow> u32 \<Rightarrow> u32 \<Rightarrow> u32 \<Rightarrow> u32 \<Rightarrow> u32 \<Rightarrow> string + u32 \<times> host_state" where
  "import_verify E h signed_ptr signed_len sig_ptr sig_len signer_ptr out_ptr out_cap =
     bind_res (begin_import h) (\<lambda>h.
     bind_res (ok_or (sc_verifier (hs_scope h)) ''verify is only available in dispatches'') (\<lambda>verifier.
     bind_res (charge_fuel h (verify_fuel (hs_profile h))) (\<lambda>h.
     bind_res (read_guest_bytes h signed_ptr (unat signed_len)) (\<lambda>(signed_bytes, h).
     bind_res (read_guest_bytes h sig_ptr (unat sig_len)) (\<lambda>(signature, h).
     bind_res (read_guest_bytes h signer_ptr 32) (\<lambda>(signer, h).
     let encoded = borsh (env_prims E) (verify_result_value (verifier signed_bytes signature (PeerId (be_word signer)))) in
     if length encoded > unat out_cap then Inl ''verify: result exceeds output capacity''
     else bind_res (copy_bytes h (length encoded)) (\<lambda>h.
       bind_res (write_guest_bytes h (unat out_ptr) encoded) (\<lambda>h. Inr (word_of_nat (length encoded), h)))))))))"

section \<open>Logs, randomness and signatures\<close>

definition import_log :: "host_state \<Rightarrow> u32 \<Rightarrow> u32 \<Rightarrow> u32 \<Rightarrow> string + u32 \<times> host_state" where
  "import_log h level ptr len =
     bind_res (begin_import h) (\<lambda>h. bind_res (reject_read_only h) (\<lambda>_.
     bind_res (read_guest_bytes h ptr (unat len)) (\<lambda>(message, h).
     bind_res (update_ledger h (\<lambda>l. ledger_log l (length message) (max_log_bytes (hs_profile h))
                                      (max_log_entries (hs_profile h)))) (\<lambda>h.
     bind_res (ok_or (log_level_from_tag level) ''invalid log level ABI tag'') (\<lambda>level.
     Inr (0, h\<lparr>hs_scope := (hs_scope h)
       \<lparr>sc_logs := sc_logs (hs_scope h) @ [(level, from_utf8_lossy message)]\<rparr>\<rparr>))))))"

text \<open>\<open>random\<close>: \<open>draw\<close> is what the live source gives for \<open>len\<close> bytes.\<close>

definition import_random :: "host_state \<Rightarrow> u32 \<Rightarrow> u32 \<Rightarrow> (nat \<Rightarrow> bytes) \<Rightarrow> string + u32 \<times> host_state" where
  "import_random h ptr len draw =
     bind_res (begin_import h) (\<lambda>h. bind_res (reject_read_only h) (\<lambda>_.
     if ucast len > max_draw_bytes (hs_profile h) then Inl ''random: draw exceeds maximum''
     else bind_res (copy_bytes h (unat len)) (\<lambda>h.
       bind_res (update_ledger h (\<lambda>l. ledger_random l (max_random_draws (hs_profile h)))) (\<lambda>h.
       if unat ptr + unat len > length (hs_work h) then Inl ''random: write out of bounds''
       else Inr (0, h\<lparr>hs_work := copy_at (unat ptr) (draw (unat len)) (hs_work h),
                      hs_scope := (hs_scope h)\<lparr>sc_draws := sc_draws (hs_scope h) @ [draw (unat len)]\<rparr>\<rparr>)))))"

definition sign_scheme_from_tag :: "u32 \<Rightarrow> sign_scheme option" where
  "sign_scheme_from_tag tag = (if tag = 0 then Some Ed25519 else if tag = 1 then Some Bls else None)"

definition import_sign ::
  "host_env \<Rightarrow> sign_scheme list \<Rightarrow> host_state \<Rightarrow> u32 \<Rightarrow> u32 \<Rightarrow> u32 \<Rightarrow> u32 \<Rightarrow> u32 \<Rightarrow> string + u32 \<times> host_state" where
  "import_sign E allowed h scheme data_ptr data_len out_ptr out_cap =
     bind_res (begin_import h) (\<lambda>h. bind_res (reject_read_only h) (\<lambda>_.
     bind_res (ok_or (sign_scheme_from_tag scheme) ''unknown sign scheme'') (\<lambda>scheme.
     if scheme \<notin> set allowed then Inl ''sign scheme is not declared''
     else bind_res (read_guest_bytes h data_ptr (unat data_len)) (\<lambda>(payload, h).
       bind_res (ok_or (sc_signer (hs_scope h)) ''sign is only available in local handlers'') (\<lambda>signer.
       let call = sc_sign_calls (hs_scope h);
           h = h\<lparr>hs_scope := (hs_scope h)\<lparr>sc_sign_calls := if call = -1 then call else call + 1\<rparr>\<rparr> in
       bind_res (signer call scheme payload) (\<lambda>(signed_bytes, signature).
       bind_res (to_vec (env_prims E) (BStruct [BBytes U32_MAX signed_bytes, BBytes U32_MAX signature])) (\<lambda>encoded.
       if length encoded > unat out_cap then Inl ''sign: result exceeds guest capacity''
       else bind_res (copy_bytes h (length encoded)) (\<lambda>h.
         bind_res (write_guest_bytes h (unat out_ptr) encoded) (\<lambda>h. Inr (word_of_nat (length encoded), h))))))))))"

section \<open>Blobs\<close>

datatype blob_error = BlobENotFound | BlobEQuota | BlobEBadRange | BlobEBadAttachment | BlobEIncomplete | BlobEMismatch

fun blob_status :: "blob_error \<Rightarrow> u32" where
  "blob_status BlobENotFound = 1"
| "blob_status BlobEQuota = 2"
| "blob_status BlobEBadRange = 3"
| "blob_status BlobEBadAttachment = 4"
| "blob_status BlobEIncomplete = 5"
| "blob_status BlobEMismatch = 6"

record blob_receive =
  rv_length :: "u64 option"
  rv_written :: u64
  rv_committed :: bool
  rv_durable :: bool

fun overlay_change :: "blob_hash \<Rightarrow> blob_change \<Rightarrow> blob_receive \<Rightarrow> blob_receive" where
  "overlay_change hash (BlobAppend h len _ bs) r =
     (if h = hash then r\<lparr>rv_length := Some len, rv_written := rv_written r + word_of_nat (length bs)\<rparr> else r)"
| "overlay_change hash (BlobCommit h) r = (if h = hash then r\<lparr>rv_committed := True\<rparr> else r)"

definition receive_state :: "dispatch_scope \<Rightarrow> blob_hash \<Rightarrow> string + blob_receive" where
  "receive_state sc hash =
     bind_res (ok_or (sc_blobs sc) ''blob view unavailable'') (\<lambda>view.
     bind_res (map_err (\<lambda>_. ''blob view failed'') (view_partial view hash)) (\<lambda>partial.
     Inr (fold (overlay_change hash) (sc_staged sc)
       (case partial of
          None \<Rightarrow> \<lparr>rv_length = None, rv_written = 0, rv_committed = False, rv_durable = False\<rparr>
        | Some p \<Rightarrow> \<lparr>rv_length = Some (bp_length p), rv_written = bp_written p, rv_committed = bp_committed p,
                     rv_durable = True\<rparr>))))"

definition staged_tail :: "dispatch_scope \<Rightarrow> blob_hash \<Rightarrow> bytes" where
  "staged_tail sc hash =
     concat (map (\<lambda>c. case c of BlobAppend h _ _ bs \<Rightarrow> (if h = hash then bs else []) | BlobCommit _ \<Rightarrow> []) (sc_staged sc))"

definition stage_blob :: "host_state \<Rightarrow> blob_change \<Rightarrow> host_state" where
  "stage_blob h c = h\<lparr>hs_scope := (hs_scope h)\<lparr>sc_staged := sc_staged (hs_scope h) @ [c]\<rparr>\<rparr>"

definition import_blob_append ::
  "host_state \<Rightarrow> u32 \<Rightarrow> u64 \<Rightarrow> u32 \<Rightarrow> string + u32 \<times> host_state" where
  "import_blob_append h hash_ptr len attachment =
     bind_res (begin_import h) (\<lambda>h. bind_res (require_local h) (\<lambda>_.
     bind_res (read_guest_bytes h hash_ptr 32) (\<lambda>(hash_bytes, h).
     let hash = BlobHash (be_word hash_bytes) in
     if len > MAX_BLOB_BYTES then Inr (blob_status BlobEQuota, h)
     else case sc_attachment (hs_scope h) of
       None \<Rightarrow> Inr (blob_status BlobEBadAttachment, h)
     | Some bs \<Rightarrow>
         if attachment \<noteq> 0 \<or> bs = [] then Inr (blob_status BlobEBadAttachment, h)
         else bind_res (receive_state (hs_scope h) hash) (\<lambda>r.
           if rv_committed r \<or> (rv_length r \<noteq> None \<and> rv_length r \<noteq> Some len)
              \<or> unat (rv_written r) + length bs > unat len
           then Inr (blob_status BlobEBadRange, h)
           else bind_res (copy_bytes h (length bs)) (\<lambda>h.
             Inr (0, stage_blob h (BlobAppend hash len (rv_written r) bs)))))))"

definition import_blob_commit ::
  "host_env \<Rightarrow> host_state \<Rightarrow> u32 \<Rightarrow> string + u32 \<times> host_state" where
  "import_blob_commit E h hash_ptr =
     bind_res (begin_import h) (\<lambda>h. bind_res (require_local h) (\<lambda>_.
     bind_res (read_guest_bytes h hash_ptr 32) (\<lambda>(hash_bytes, h).
     let hash = BlobHash (be_word hash_bytes) in
     bind_res (receive_state (hs_scope h) hash) (\<lambda>r.
     case rv_length r of
       None \<Rightarrow> Inr (blob_status BlobENotFound, h)
     | Some len \<Rightarrow>
         if rv_committed r then Inr (blob_status BlobEBadRange, h)
         else if rv_written r \<noteq> len then Inr (blob_status BlobEIncomplete, h)
         else bind_res (charge_fuel h (len * hash_per_byte (hs_profile h))) (\<lambda>h.
           let tail = staged_tail (hs_scope h) hash in
           bind_res (if rv_durable r
                     then bind_res (ok_or (sc_blobs (hs_scope h)) ''blob view unavailable'') (\<lambda>view.
                            map_err (\<lambda>_. ''blob view failed'') (view_hash_partial view hash tail))
                     else Inr (BlobHash (blake3 (env_prims E) tail))) (\<lambda>digest.
           if digest \<noteq> hash then Inr (blob_status BlobEMismatch, h)
           else Inr (0, stage_blob h (BlobCommit hash))))))))"

datatype cv_source = CvBlob blob_hash u64 u64 | CvAttachment u32

definition CHUNK_BYTES :: u64 where
  "CHUNK_BYTES = 1024"

definition is_subtree :: "host_env \<Rightarrow> u64 \<Rightarrow> u64 \<Rightarrow> bool" where
  "is_subtree E offset len \<longleftrightarrow>
     len \<noteq> 0 \<and> offset mod CHUNK_BYTES = 0
     \<and> (case env_max_subtree_len E offset of None \<Rightarrow> True | Some limit \<Rightarrow> len \<le> limit)"

text \<open>\<open>subtree_cv\<close> checks the geometry before it reads; \<open>Inl status\<close> is a blob error.\<close>

definition cv_length :: "host_state \<Rightarrow> blob_view \<Rightarrow> cv_source \<Rightarrow> string + blob_error + u64" where
  "cv_length h view source =
     (case source of
        CvBlob hash first past \<Rightarrow>
          if first \<ge> past \<or> past - first > MAX_DIRECT_RANGE_BYTES then Inr (Inl BlobEBadRange)
          else bind_res (map_err (\<lambda>_. ''blob view failed'') (view_granted view hash)) (\<lambda>granted.
            case granted of
              None \<Rightarrow> Inr (Inl BlobENotFound)
            | Some len \<Rightarrow> if past > len then Inr (Inl BlobEBadRange) else Inr (Inr (past - first)))
      | CvAttachment token \<Rightarrow>
          (case sc_attachment (hs_scope h) of
             None \<Rightarrow> Inr (Inl BlobEBadAttachment)
           | Some bs \<Rightarrow>
               if token \<noteq> 0 \<or> bs = [] then Inr (Inl BlobEBadAttachment)
               else if length bs > unat MAX_DIRECT_RANGE_BYTES then Inr (Inl BlobEBadRange)
               else Inr (Inr (word_of_nat (length bs)))))"

definition cv_bytes :: "host_state \<Rightarrow> blob_view \<Rightarrow> cv_source \<Rightarrow> string + bytes option" where
  "cv_bytes h view source =
     (case source of
        CvBlob hash first past \<Rightarrow> map_err (\<lambda>_. ''blob view failed'') (view_read view hash first past)
      | CvAttachment _ \<Rightarrow> Inr (sc_attachment (hs_scope h)))"

definition import_subtree_cv ::
  "host_env \<Rightarrow> (bytes \<Rightarrow> string + cv_source) \<Rightarrow> host_state \<Rightarrow> u32 \<Rightarrow> u32 \<Rightarrow> u64 \<Rightarrow> u32 \<Rightarrow> string + u32 \<times> host_state" where
  "import_subtree_cv E rd h source_ptr source_len offset out_ptr =
     bind_res (begin_import h) (\<lambda>h. bind_res (require_local h) (\<lambda>_.
     if source_len > 64 then Inl ''subtree_cv: source exceeds limit''
     else bind_res (read_guest_bytes h source_ptr (unat source_len)) (\<lambda>(bs, h).
       bind_res (rd bs) (\<lambda>source.
       bind_res (ok_or (sc_blobs (hs_scope h)) ''blob view unavailable'') (\<lambda>view.
       bind_res (cv_length h view source) (\<lambda>checked.
       case checked of
         Inl e \<Rightarrow> Inr (blob_status e, h)
       | Inr len \<Rightarrow>
           if \<not> is_subtree E offset len then Inr (blob_status BlobEBadRange, h)
           else bind_res (charge_fuel h (len * hash_per_byte (hs_profile h))) (\<lambda>h.
             bind_res (copy_bytes h 32) (\<lambda>h.
             bind_res (cv_bytes h view source) (\<lambda>found.
             case found of
               None \<Rightarrow> Inr (blob_status BlobENotFound, h)
             | Some data \<Rightarrow>
                 bind_res (write_guest_bytes h (unat out_ptr) (env_subtree_cv E data offset)) (\<lambda>h. Inr (0, h)))))))))))"

section \<open>The import table\<close>

datatype host_call =
    CallHash u32 u32 u32
  | CallMergeCv u32 u32 u32 u32
  | CallPermutation u32 u32 u32
  | CallVerify u32 u32 u32 u32 u32 u32 u32
  | CallStateLen u32
  | CallStateRead u32 u32 u32
  | CallStateWrite u32 u32 u32
  | CallLog u32 u32 u32
  | CallRandom u32 u32 "nat \<Rightarrow> bytes"
  | CallFail u32 u32
  | CallEndSession u32 u32
  | CallAbortSession u32 u32
  | CallSendDirect u32 u32 u32 u32 u32
  | CallBroadcast u32 u32
  | CallSetTimer u64 u32 u32 u32 u32
  | CallSign "sign_scheme list" u32 u32 u32 u32 u32
  | CallBlobAppend u32 u64 u32
  | CallBlobCommit u32
  | CallSubtreeCv "bytes \<Rightarrow> string + cv_source" u32 u32 u64 u32

fun host_import :: "host_env \<Rightarrow> host_state \<Rightarrow> host_call \<Rightarrow> string + u32 \<times> host_state" where
  "host_import E h (CallHash a b c) = import_hash E h a b c"
| "host_import E h (CallMergeCv a b c d) = import_merge_cv E h a b c d"
| "host_import E h (CallPermutation a b c) = import_permutation E h a b c"
| "host_import E h (CallVerify a b c d e f g) = import_verify E h a b c d e f g"
| "host_import E h (CallStateLen a) = import_state_len h a"
| "host_import E h (CallStateRead a b c) = import_state_read h a b c"
| "host_import E h (CallStateWrite a b c) = import_state_write h a b c"
| "host_import E h (CallLog a b c) = import_log h a b c"
| "host_import E h (CallRandom a b draw) = import_random h a b draw"
| "host_import E h (CallFail a b) = import_fail (env_prims E) h a b"
| "host_import E h (CallEndSession a b) = import_end_session (env_prims E) h a b"
| "host_import E h (CallAbortSession a b) = import_abort_session (env_prims E) h a b"
| "host_import E h (CallSendDirect a b c d e) = import_send_direct (env_prims E) (env_read_range E) h a b c d e"
| "host_import E h (CallBroadcast a b) = import_broadcast (env_prims E) h a b"
| "host_import E h (CallSetTimer a b c d e) = import_set_timer (env_prims E) h a b c d e"
| "host_import E h (CallSign schemes a b c d e) = import_sign E schemes h a b c d e"
| "host_import E h (CallBlobAppend a b c) = import_blob_append h a b c"
| "host_import E h (CallBlobCommit a) = import_blob_commit E h a"
| "host_import E h (CallSubtreeCv rd a b c d) = import_subtree_cv E rd h a b c d"

text \<open>What a guest can do during one call: import calls, and between them anything to its work memory
  and fuel.\<close>

inductive guest_step :: "host_env \<Rightarrow> host_state \<Rightarrow> host_state \<Rightarrow> bool" for E where
  guest_import: "host_import E h c = Inr (r, h') \<Longrightarrow> guest_step E h h'"
| guest_compute: "length work = length (hs_work h) \<Longrightarrow> fuel \<le> hs_fuel h
     \<Longrightarrow> guest_step E h (h\<lparr>hs_work := work, hs_fuel := fuel\<rparr>)"

end
