(* ===== verification/Effect_Queue.thy ===== *)
theory Effect_Queue
  imports Host_Calls Sample_Run
begin

text \<open>
  What a guest can queue.  Every import keeps the installed capabilities of the dispatch and either
  leaves the effect queue and the staged blob changes alone, or adds one element to one of them under
  the guards of its source.  It follows that whatever a guest does, the effects of a local dispatch are
  acceptable to \<open>ExecutionState::apply_dispatch\<close>.
\<close>

section \<open>Frames\<close>

text \<open>What a call observes of the host apart from its own logs, draws and accounting.\<close>

definition host_obs :: "host_state \<Rightarrow> call_kind \<times> dispatch_kind \<times> nat \<times> exec_profile \<times> dispatch_scope" where
  "host_obs h = (hs_call_kind h, hs_dispatch h, hs_outgoing_len h, hs_profile h,
     (hs_scope h)\<lparr>sc_logs := [], sc_draws := [], sc_ledger := ledger_new, sc_sign_calls := 0\<rparr>)"

named_theorems quiet_dest

lemma bind_resE: "bind_res r f = Inr y \<Longrightarrow> (\<And>x. r = Inr x \<Longrightarrow> f x = Inr y \<Longrightarrow> thesis) \<Longrightarrow> thesis"
  by (auto simp: bind_res_ok)

lemma update_ledger_quiet [quiet_dest]: "update_ledger h f = Inr h' \<Longrightarrow> host_obs h' = host_obs h"
  by (auto simp: update_ledger_def bind_res_ok host_obs_def)

lemma begin_import_quiet [quiet_dest]: "begin_import h = Inr h' \<Longrightarrow> host_obs h' = host_obs h"
  by (auto simp: begin_import_def dest: update_ledger_quiet)

lemma copy_bytes_quiet [quiet_dest]: "copy_bytes h n = Inr h' \<Longrightarrow> host_obs h' = host_obs h"
  by (auto simp: copy_bytes_def dest: update_ledger_quiet)

lemma charge_fuel_quiet [quiet_dest]: "charge_fuel h n = Inr h' \<Longrightarrow> host_obs h' = host_obs h"
  by (auto simp: charge_fuel_def host_obs_def split: if_splits)

lemma read_guest_quiet [quiet_dest]: "read_guest_bytes h ptr n = Inr (bs, h') \<Longrightarrow> host_obs h' = host_obs h"
  by (auto simp: read_guest_bytes_def bind_res_ok if_Inl_ok dest: copy_bytes_quiet)

lemma write_guest_quiet [quiet_dest]: "write_guest_bytes h ptr bs = Inr h' \<Longrightarrow> host_obs h' = host_obs h"
  by (auto simp: write_guest_bytes_def host_obs_def split: if_splits)

lemma write_items_quiet [quiet_dest]: "write_items h start items = Inr h' \<Longrightarrow> host_obs h' = host_obs h"
  by (induction items arbitrary: h start) (auto simp: bind_res_ok dest: write_guest_quiet)

lemma set_state_memory_quiet [simp]: "host_obs (set_state_memory h k m) = host_obs h"
  by (cases k) (simp_all add: host_obs_def)

lemma obs_fields:
  assumes "host_obs h' = host_obs h"
  shows "hs_call_kind h' = hs_call_kind h" "hs_dispatch h' = hs_dispatch h" "hs_outgoing_len h' = hs_outgoing_len h"
    "hs_profile h' = hs_profile h" "sc_effects (hs_scope h') = sc_effects (hs_scope h)"
    "sc_staged (hs_scope h') = sc_staged (hs_scope h)" "sc_blobs (hs_scope h') = sc_blobs (hs_scope h)"
    "sc_attachment (hs_scope h') = sc_attachment (hs_scope h)"
    "sc_direct_queued (hs_scope h') = sc_direct_queued (hs_scope h)"
    "sc_peer_id (hs_scope h') = sc_peer_id (hs_scope h)" "sc_session (hs_scope h') = sc_session (hs_scope h)"
proof -
  have *: "(hs_scope h')\<lparr>sc_logs := [], sc_draws := [], sc_ledger := ledger_new, sc_sign_calls := 0\<rparr>
      = (hs_scope h)\<lparr>sc_logs := [], sc_draws := [], sc_ledger := ledger_new, sc_sign_calls := 0\<rparr>"
    using assms by (simp add: host_obs_def)
  show "hs_call_kind h' = hs_call_kind h" "hs_dispatch h' = hs_dispatch h" "hs_outgoing_len h' = hs_outgoing_len h"
    "hs_profile h' = hs_profile h" using assms by (simp_all add: host_obs_def)
  show "sc_effects (hs_scope h') = sc_effects (hs_scope h)" using arg_cong [OF *, of sc_effects] by simp
  show "sc_staged (hs_scope h') = sc_staged (hs_scope h)" using arg_cong [OF *, of sc_staged] by simp
  show "sc_blobs (hs_scope h') = sc_blobs (hs_scope h)" using arg_cong [OF *, of sc_blobs] by simp
  show "sc_attachment (hs_scope h') = sc_attachment (hs_scope h)" using arg_cong [OF *, of sc_attachment] by simp
  show "sc_direct_queued (hs_scope h') = sc_direct_queued (hs_scope h)" using arg_cong [OF *, of sc_direct_queued] by simp
  show "sc_peer_id (hs_scope h') = sc_peer_id (hs_scope h)" using arg_cong [OF *, of sc_peer_id] by simp
  show "sc_session (hs_scope h') = sc_session (hs_scope h)" using arg_cong [OF *, of sc_session] by simp
qed

section \<open>Imports that emit nothing\<close>

lemma quiet_imports [quiet_dest]:
  "import_hash E h a b c = Inr (r, h') \<Longrightarrow> host_obs h' = host_obs h"
  "import_merge_cv E h a b c d = Inr (r, h') \<Longrightarrow> host_obs h' = host_obs h"
  "import_permutation E h a b c = Inr (r, h') \<Longrightarrow> host_obs h' = host_obs h"
  "import_state_len h a = Inr (r, h') \<Longrightarrow> host_obs h' = host_obs h"
  "import_state_read h a b c = Inr (r, h') \<Longrightarrow> host_obs h' = host_obs h"
  "import_state_write h a b c = Inr (r, h') \<Longrightarrow> host_obs h' = host_obs h"
  by (auto simp: import_hash_def import_merge_cv_def import_permutation_def import_state_len_def import_state_read_def
      import_state_write_def bind_res_ok if_Inl_ok dest!: quiet_dest)

lemma quiet_observations [quiet_dest]:
  "import_log h a b c = Inr (r, h') \<Longrightarrow> host_obs h' = host_obs h"
  "import_random h a b draw = Inr (r, h') \<Longrightarrow> host_obs h' = host_obs h"
  by (auto simp: import_log_def import_random_def bind_res_ok if_Inl_ok dest!: quiet_dest)
    (simp_all add: host_obs_def)

lemma quiet_verify [quiet_dest]:
  "import_verify E h a b c d e f g = Inr (r, h') \<Longrightarrow> host_obs h' = host_obs h"
  by (auto simp: import_verify_def Let_def bind_res_ok if_Inl_ok dest!: quiet_dest)

lemma quiet_sign [quiet_dest]:
  "import_sign E schemes h a b c d e = Inr (r, h') \<Longrightarrow> host_obs h' = host_obs h"
  by (auto simp: import_sign_def Let_def bind_res_ok if_Inl_ok dest!: quiet_dest) (simp_all add: host_obs_def)

lemma quiet_subtree_cv [quiet_dest]:
  "import_subtree_cv E rd h a b c d = Inr (r, h') \<Longrightarrow> host_obs h' = host_obs h"
  by (auto simp: import_subtree_cv_def elim!: bind_resE dest!: quiet_dest
      split: sum.split_asm option.split_asm if_split_asm)

section \<open>Imports that emit an effect\<close>

text \<open>What the emitting import checks besides \<open>record_effect\<close>.\<close>

fun emit_guard :: "host_state \<Rightarrow> effect \<Rightarrow> bool" where
  "emit_guard h (Broadcast _) \<longleftrightarrow> hs_dispatch h = LocalDispatch \<longrightarrow>
     hs_outgoing_len h + length (filter is_broadcast (sc_effects (hs_scope h))) < MAX_OUTGOING_MESSAGES"
| "emit_guard h (SendDirect to _ _) \<longleftrightarrow>
     (\<exists>session. sc_session (hs_scope h) = Some session \<and> to \<in> set session) \<and> sc_peer_id (hs_scope h) \<noteq> Some to
     \<and> (case map_of (sc_direct_queued (hs_scope h)) to of None \<Rightarrow> 0 | Some n \<Rightarrow> n)
        + length (filter (sends_to to) (sc_effects (hs_scope h))) < MAX_DIRECT_QUEUE"
| "emit_guard h _ \<longleftrightarrow> True"

lemma emit_guard_obs: "host_obs h' = host_obs h \<Longrightarrow> emit_guard h' e = emit_guard h e"
  by (cases e) (simp_all add: obs_fields [of h' h])

definition emits :: "host_env \<Rightarrow> host_state \<Rightarrow> host_state \<Rightarrow> bool" where
  "emits E h h' \<longleftrightarrow> (\<exists>h1 e. host_obs h1 = host_obs h \<and> record_effect (env_prims E) h1 e = Inr h' \<and> emit_guard h e)"

lemma emits_intro:
  "record_effect (env_prims E) h1 e = Inr h' \<Longrightarrow> host_obs h1 = host_obs h \<Longrightarrow> emit_guard h e \<Longrightarrow> emits E h h'"
  unfolding emits_def by blast

lemma emitting_imports:
  "import_fail (env_prims E) h a b = Inr (r, h') \<Longrightarrow> emits E h h'"
  "import_end_session (env_prims E) h a b = Inr (r, h') \<Longrightarrow> emits E h h'"
  "import_abort_session (env_prims E) h a b = Inr (r, h') \<Longrightarrow> emits E h h'"
  "import_set_timer (env_prims E) h t a b c d = Inr (r, h') \<Longrightarrow> emits E h h'"
  by (auto simp: import_fail_def import_end_session_def import_abort_session_def import_set_timer_def bind_res_ok
      dest!: quiet_dest elim!: emits_intro)

lemma broadcast_import:
  assumes "import_broadcast (env_prims E) h a b = Inr (r, h')"
  shows "host_obs h' = host_obs h \<or> emits E h h'"
proof -
  from assms obtain h1 where q: "begin_import h = Inr h1"
    and c: "h' = h1 \<or> emit_guard h1 (Broadcast []) \<and> (\<exists>data h2. read_guest_bytes h1 a (unat b) = Inr (data, h2)
      \<and> record_effect (env_prims E) h2 (Broadcast data) = Inr h')"
    unfolding import_broadcast_def by (auto simp: bind_res_ok not_le split: if_splits)
  have h1: "host_obs h1 = host_obs h" using q by (rule quiet_dest)
  from c show ?thesis
  proof (elim disjE conjE exE)
    fix data h2
    assume "emit_guard h1 (Broadcast [])" "read_guest_bytes h1 a (unat b) = Inr (data, h2)"
      "record_effect (env_prims E) h2 (Broadcast data) = Inr h'"
    then show ?thesis using h1 emit_guard_obs [OF h1, of "Broadcast data"]
      by (intro disjI2 emits_intro [of E h2 "Broadcast data"]) (auto dest!: quiet_dest)
  qed (simp add: h1)
qed

lemma send_direct_range_quiet [quiet_dest]:
  "send_direct_range rd h a b = Inr (rng, h') \<Longrightarrow> host_obs h' = host_obs h"
  by (auto simp: send_direct_range_def bind_res_ok dest!: quiet_dest split: if_splits)

lemma send_direct_import:
  assumes "import_send_direct (env_prims E) rd h a b c d e = Inr (r, h')"
  shows "host_obs h' = host_obs h \<or> emits E h h'"
proof -
  let ?queued = "\<lambda>h to. (case map_of (sc_direct_queued (hs_scope h)) to of None \<Rightarrow> 0 | Some n \<Rightarrow> n)
    + length (filter (sends_to to) (sc_effects (hs_scope h)))"
  from assms obtain h0 tb h1 session rng h2 where q: "begin_import h = Inr h0" "read_guest_bytes h0 a 32 = Inr (tb, h1)"
      "send_direct_range rd h1 d e = Inr (rng, h2)"
    and s: "sc_session (hs_scope h1) = Some session" "sc_peer_id (hs_scope h1) \<noteq> Some (PeerId (be_word tb))"
      "PeerId (be_word tb) \<in> set session"
    and c: "h' = h2 \<or> \<not> ?queued h2 (PeerId (be_word tb)) \<ge> MAX_DIRECT_QUEUE \<and> (\<exists>msg h3. read_guest_bytes h2 b (unat c) = Inr (msg, h3)
        \<and> record_effect (env_prims E) h3 (SendDirect (PeerId (be_word tb)) msg rng) = Inr h')"
    unfolding import_send_direct_def Let_def by (auto simp: bind_res_ok if_Inl_ok ok_or_ok split: if_splits)
  then have obs: "host_obs h1 = host_obs h" "host_obs h2 = host_obs h" by (auto dest!: quiet_dest)
  from c show ?thesis
  proof (elim disjE conjE exE)
    fix msg h3
    assume n: "\<not> ?queued h2 (PeerId (be_word tb)) \<ge> MAX_DIRECT_QUEUE" and r: "read_guest_bytes h2 b (unat c) = Inr (msg, h3)"
      "record_effect (env_prims E) h3 (SendDirect (PeerId (be_word tb)) msg rng) = Inr h'"
    have "host_obs h3 = host_obs h" using r(1) obs(2) by (auto dest!: quiet_dest)
    moreover have "emit_guard h (SendDirect (PeerId (be_word tb)) msg rng)"
      using s n obs_fields [OF obs(1)] obs_fields [OF obs(2)] by (simp add: not_le)
    ultimately show ?thesis using r(2) emits_intro by blast
  qed (simp add: obs)
qed

section \<open>Imports that stage a blob change\<close>

text \<open>A staged change under the guards of its import: an append continues what the dispatch sees of the
  object within its declared length; a commit names a complete object whose bytes hash to its name.\<close>

inductive stages :: "host_env \<Rightarrow> host_state \<Rightarrow> host_state \<Rightarrow> bool" for E h where
  stages_append: "host_obs h1 = host_obs h \<Longrightarrow> host_obs h2 = host_obs h \<Longrightarrow> receive_state (hs_scope h2) hash = Inr r
     \<Longrightarrow> \<not> rv_committed r \<Longrightarrow> rv_length r \<in> {None, Some len} \<Longrightarrow> \<not> unat len < unat (rv_written r) + length bs
     \<Longrightarrow> \<not> MAX_BLOB_BYTES < len \<Longrightarrow> bs \<noteq> [] \<Longrightarrow> stages E h (stage_blob h1 (BlobAppend hash len (rv_written r) bs))"
| stages_commit_durable: "host_obs h1 = host_obs h \<Longrightarrow> host_obs h2 = host_obs h \<Longrightarrow> receive_state (hs_scope h2) hash = Inr r
     \<Longrightarrow> \<not> rv_committed r \<Longrightarrow> rv_length r = Some (rv_written r) \<Longrightarrow> rv_durable r \<Longrightarrow> sc_blobs (hs_scope h1) = Some view
     \<Longrightarrow> view_hash_partial view hash (staged_tail (hs_scope h1) hash) = Inr hash \<Longrightarrow> stages E h (stage_blob h1 (BlobCommit hash))"
| stages_commit_fresh: "host_obs h1 = host_obs h \<Longrightarrow> host_obs h2 = host_obs h \<Longrightarrow> receive_state (hs_scope h2) hash = Inr r
     \<Longrightarrow> \<not> rv_committed r \<Longrightarrow> rv_length r = Some (rv_written r) \<Longrightarrow> \<not> rv_durable r
     \<Longrightarrow> BlobHash (blake3 (env_prims E) (staged_tail (hs_scope h1) hash)) = hash \<Longrightarrow> stages E h (stage_blob h1 (BlobCommit hash))"

lemma receive_state_obs: "host_obs h' = host_obs h \<Longrightarrow> receive_state (hs_scope h') hash = receive_state (hs_scope h) hash"
  by (simp add: receive_state_def obs_fields [of h' h])

lemma staged_tail_obs: "host_obs h' = host_obs h \<Longrightarrow> staged_tail (hs_scope h') hash = staged_tail (hs_scope h) hash"
  by (simp add: staged_tail_def obs_fields [of h' h])

lemma blob_append_import:
  assumes "import_blob_append h a len c = Inr (r, h')" "host_obs h' \<noteq> host_obs h"
  shows "stages E h h'"
  using assms unfolding import_blob_append_def Let_def
  by (auto elim!: bind_resE dest!: quiet_dest split: option.split_asm if_split_asm)
    (auto intro!: stages_append)

lemma receive_state_view: "receive_state sc hash = Inr r \<Longrightarrow> \<exists>view. sc_blobs sc = Some view"
  by (auto simp: receive_state_def bind_res_ok ok_or_ok)

lemma blob_commit_import:
  assumes "import_blob_commit E h a = Inr (r, h')" "host_obs h' \<noteq> host_obs h"
  shows "stages E h h'"
  using assms unfolding import_blob_commit_def Let_def
  by (auto elim!: bind_resE dest!: quiet_dest simp: ok_or_ok map_err_ok split: option.split_asm if_split_asm)
    (auto intro: stages_commit_durable stages_commit_fresh)

section \<open>What a guest step can do\<close>

lemma guest_step_cases:
  assumes "guest_step E h h'"
  shows "host_obs h' = host_obs h \<or> emits E h h' \<or> stages E h h'"
  using assms
proof cases
  case (guest_import c r)
  then show ?thesis
    using blob_append_import [of h _ _ _ r h' E] blob_commit_import [of E h _ r h']
    by (cases c) (auto dest: quiet_dest emitting_imports broadcast_import send_direct_import)
next
  case (guest_compute work fuel)
  then show ?thesis by (simp add: host_obs_def)
qed

end
