(* ===== verification/Guest_Memory.thy ===== *)
theory Guest_Memory
  imports Host_Calls
begin

text \<open>
  One call into a Wasm guest: \<open>arena0-sandbox/src/engine/memory.rs\<close>.  The Wasm functions of the
  guest and \<open>Memory::grow\<close> belong to the Wasm engine and are the parameters in \<open>wasm_guest\<close>; what
  the host does around them is a state transformer that also says what a failed call leaves behind.
\<close>

section \<open>State transformers with results\<close>

type_synonym ('s, 'e, 'a) action = "'s \<Rightarrow> 's \<times> ('e + 'a)"

definition pure :: "'a \<Rightarrow> ('s, 'e, 'a) action" where
  "pure x s = (s, Inr x)"

definition throw :: "'e \<Rightarrow> ('s, 'e, 'a) action" where
  "throw e s = (s, Inl e)"

definition lift_res :: "'e + 'a \<Rightarrow> ('s, 'e, 'a) action" where
  "lift_res r s = (s, r)"

definition modify :: "('s \<Rightarrow> 's) \<Rightarrow> ('s, 'e, unit) action" where
  "modify f s = (f s, Inr ())"

definition andthen :: "('s, 'e, 'a) action \<Rightarrow> ('a \<Rightarrow> ('s, 'e, 'b) action) \<Rightarrow> ('s, 'e, 'b) action" where
  "andthen m f s = (case m s of (s', Inl e) \<Rightarrow> (s', Inl e) | (s', Inr x) \<Rightarrow> f x s')"

text \<open>An action keeps a relation between the state before and after, whatever it returns.\<close>

definition keeps :: "('s \<Rightarrow> 's \<Rightarrow> bool) \<Rightarrow> ('s, 'e, 'a) action \<Rightarrow> bool" where
  "keeps R m \<longleftrightarrow> (\<forall>s. R s (fst (m s)))"

lemma andthen_cases:
  "andthen m f s = (s', r) \<Longrightarrow>
     (\<And>e. m s = (s', Inl e) \<Longrightarrow> r = Inl e \<Longrightarrow> thesis) \<Longrightarrow>
     (\<And>s1 x. m s = (s1, Inr x) \<Longrightarrow> f x s1 = (s', r) \<Longrightarrow> thesis) \<Longrightarrow> thesis"
  by (auto simp: andthen_def split: prod.splits sum.splits)

lemma andthen_ok [simp]: "m s = (s1, Inr x) \<Longrightarrow> andthen m f s = f x s1"
  by (simp add: andthen_def)

lemma andthen_err [simp]: "m s = (s1, Inl e) \<Longrightarrow> andthen m f s = (s1, Inl e)"
  by (simp add: andthen_def)

lemma action_simps [simp]:
  "pure x s = (s, Inr x)" "throw e s = (s, Inl e)" "lift_res r s = (s, r)" "modify g s = (g s, Inr ())"
  by (simp_all add: pure_def throw_def lift_res_def modify_def)

lemma keeps_andthen:
  assumes "transp R" "keeps R m" "\<And>x. keeps R (f x)"
  shows "keeps R (andthen m f)"
  using assms unfolding keeps_def andthen_def transp_def by (auto split: prod.split sum.split) (metis fst_conv)+

lemma keeps_results: "reflp R \<Longrightarrow> keeps R (pure x)" "reflp R \<Longrightarrow> keeps R (throw e)" "reflp R \<Longrightarrow> keeps R (lift_res r)"
  by (simp_all add: keeps_def reflp_def)

section \<open>The machine\<close>

datatype sandbox_error =
    InstantiationFailed string
  | MemoryLimitExceeded nat
  | OutputLimitExceeded nat nat
  | InputLimitExceeded string
  | ReadOnlyViolation string
  | DispatchFailed string
  | SerializationFailed string
  | DeserializationFailed string

text \<open>The Wasm store of one instance: host state with the memories, the mutable globals and the
  \<open>memory_size\<close> limit of \<open>StoreLimits\<close>.\<close>

record machine =
  m_host :: host_state
  m_globals :: "u64 list"
  m_memory_limit :: nat

record wasm_guest =
  wg_alloc :: "u32 \<Rightarrow> (machine, sandbox_error, u32) action"
  wg_dealloc :: "u32 \<Rightarrow> u32 \<Rightarrow> (machine, sandbox_error, unit) action"
  wg_export :: "string \<Rightarrow> u32 \<Rightarrow> u32 \<Rightarrow> (machine, sandbox_error, u64) action"
  wg_grow :: "nat \<Rightarrow> (machine, sandbox_error, unit) action"
  wg_prepare :: "(machine, sandbox_error, u32) action"
  wg_link :: "host_state \<Rightarrow> sandbox_error + machine"
  wg_set_fuel :: "u64 \<Rightarrow> (machine, sandbox_error, unit) action"
  wg_set_global :: "nat \<Rightarrow> u64 \<Rightarrow> (machine, sandbox_error, unit) action"

definition m_work :: "machine \<Rightarrow> bytes" where
  "m_work m = hs_work (m_host m)"

definition set_work :: "bytes \<Rightarrow> machine \<Rightarrow> machine" where
  "set_work work m = m\<lparr>m_host := (m_host m)\<lparr>hs_work := work\<rparr>\<rparr>"

section \<open>Memory access\<close>

text \<open>The high 32 bits are the pointer and the low 32 bits the length; the sum of two \<open>u32\<close> values never
  overflows \<open>usize\<close>.\<close>

definition unpack_i64 :: "u64 \<Rightarrow> sandbox_error + u32 \<times> u32" where
  "unpack_i64 packed =
     (if sint packed < 0 then Inl (DispatchFailed ''guest returned a negative pointer/length pair'')
      else Inr (ucast (drop_bit 32 packed), ucast packed))"

definition read_mem :: "u32 \<Rightarrow> u32 \<Rightarrow> (machine, sandbox_error, bytes) action" where
  "read_mem ptr len m =
     (let start = unat ptr; stop = start + unat len in
      if stop > length (m_work m) then (m, Inl (DispatchFailed ''read out of bounds''))
      else (m, Inr (take (unat len) (drop start (m_work m)))))"

text \<open>A copy over the budget fails after the ledger is updated.\<close>

definition charge_copy :: "nat \<Rightarrow> u64 \<Rightarrow> (machine, sandbox_error, unit) action" where
  "charge_copy n limit m =
     (let l = sc_ledger (hs_scope (m_host m));
          l = l\<lparr>host_bytes := saturating_add (host_bytes l) (word_of_nat n)\<rparr>;
          m = m\<lparr>m_host := (m_host m)\<lparr>hs_scope := (hs_scope (m_host m))\<lparr>sc_ledger := l\<rparr>\<rparr>\<rparr> in
      if host_bytes l > limit then (m, Inl (InputLimitExceeded ''host copied too many bytes'')) else (m, Inr ()))"

definition read_mem_charged :: "u32 \<Rightarrow> u32 \<Rightarrow> u64 \<Rightarrow> (machine, sandbox_error, bytes) action" where
  "read_mem_charged ptr len max_host = andthen (charge_copy (unat len) max_host) (\<lambda>_. read_mem ptr len)"

definition write_mem :: "wasm_guest \<Rightarrow> u32 \<Rightarrow> bytes \<Rightarrow> (machine, sandbox_error, unit) action" where
  "write_mem w offset bs m =
     (let max_memory = unat (max_memory_bytes (hs_profile (m_host m)));
          needed = unat offset + length bs; current = length (m_work m) in
      if length bs > max_memory then (m, Inl (MemoryLimitExceeded (length bs)))
      else if needed > max_memory then (m, Inl (MemoryLimitExceeded needed))
      else andthen
        (if needed > current
         then (\<lambda>m. case wg_grow w ((needed - current + 65535) div 65536) m of
                     (m, Inl _) \<Rightarrow> (m, Inl (MemoryLimitExceeded needed)) | (m, Inr _) \<Rightarrow> (m, Inr ()))
         else pure ())
        (\<lambda>_ m. (set_work (copy_at (unat offset) bs (m_work m)) m, Inr ())) m)"

definition write_mem_charged :: "wasm_guest \<Rightarrow> u32 \<Rightarrow> bytes \<Rightarrow> u64 \<Rightarrow> (machine, sandbox_error, unit) action" where
  "write_mem_charged w offset bs max_host = andthen (charge_copy (length bs) max_host) (\<lambda>_. write_mem w offset bs)"

definition zero_mem :: "u32 \<Rightarrow> u32 \<Rightarrow> (machine, sandbox_error, unit) action" where
  "zero_mem offset len m =
     (if unat offset + unat len > length (m_work m) then (m, Inl (DispatchFailed ''zero out of bounds''))
      else (set_work (copy_at (unat offset) (replicate (unat len) 0) (m_work m)) m, Inr ()))"

section \<open>Calls\<close>

definition guest_alloc :: "wasm_guest \<Rightarrow> u32 \<Rightarrow> (machine, sandbox_error, u32) action" where
  "guest_alloc w len =
     andthen (wg_alloc w len) (\<lambda>ptr.
       if sint ptr \<le> 0 \<and> len > 0
       then throw (DispatchFailed ''guest allocator returned null for a non-empty buffer'')
       else pure ptr)"

definition call_pair_return :: "wasm_guest \<Rightarrow> string \<Rightarrow> u32 \<Rightarrow> u32 \<Rightarrow> (machine, sandbox_error, u32 \<times> u32) action" where
  "call_pair_return w name ptr len = andthen (wg_export w name ptr len) (\<lambda>packed. lift_res (unpack_i64 packed))"

definition decode_output ::
  "wasm_guest \<Rightarrow> (bytes \<Rightarrow> string + 'o) \<Rightarrow> u32 \<Rightarrow> u32 \<Rightarrow> u64 \<Rightarrow> u64 \<Rightarrow> (machine, sandbox_error, 'o) action" where
  "decode_output w rd ptr len max_envelope max_host =
     (if unat len > unat max_envelope then throw (OutputLimitExceeded (unat len) (unat max_envelope))
      else andthen (read_mem_charged ptr len max_host) (\<lambda>bs.
        andthen (zero_mem ptr len) (\<lambda>_.
        andthen (wg_dealloc w ptr len) (\<lambda>_.
        lift_res (map_err DeserializationFailed (rd bs))))))"

definition call_export ::
  "wasm_guest \<Rightarrow> (bytes \<Rightarrow> string + 'o) \<Rightarrow> exec_profile \<Rightarrow> string \<Rightarrow> bytes \<Rightarrow> (machine, sandbox_error, 'o \<times> u64) action" where
  "call_export w rd profile name bs =
     (if length bs \<ge> 2 ^ 32 then throw (InputLimitExceeded ''call input length overflows u32'')
      else let len = word_of_nat (length bs); max_host = max_host_bytes profile in
        andthen (guest_alloc w len) (\<lambda>input_ptr.
        andthen (write_mem_charged w input_ptr bs max_host) (\<lambda>_.
        andthen (call_pair_return w name input_ptr len) (\<lambda>(output_ptr, output_len).
        andthen (decode_output w rd output_ptr output_len (max_call_envelope_bytes profile) max_host) (\<lambda>out.
        andthen (zero_mem input_ptr len) (\<lambda>_.
        andthen (wg_dealloc w input_ptr len) (\<lambda>_ m.
        let per_call = fuel_per_call profile; left = hs_fuel (m_host m) in
        (m, Inr (out, if per_call \<ge> left then per_call - left else 0)))))))))"


section \<open>What a call can do to a machine at its memory limit\<close>

definition capped :: "machine \<Rightarrow> bool" where
  "capped m \<longleftrightarrow> length (m_work m) = m_memory_limit m"

definition shape :: "machine \<Rightarrow> nat \<times> nat \<times> nat \<times> nat \<times> nat \<times> exec_profile" where
  "shape m = (length (m_work m), length (hs_shared (m_host m)), length (hs_local (m_host m)), length (m_globals m),
     m_memory_limit m, hs_profile (m_host m))"

definition same_shape :: "machine \<Rightarrow> machine \<Rightarrow> bool" where
  "same_shape m m' \<longleftrightarrow> (capped m \<longrightarrow> shape m' = shape m)"

text \<open>The documented behaviour of the Wasm engine that the host relies on: fuel and globals can be set;
  a memory at the limit of its store does not grow, so a Wasm function leaves every size as it was.\<close>

definition wasm_limits :: "wasm_guest \<Rightarrow> bool" where
  "wasm_limits w \<longleftrightarrow>
     (\<forall>n m. wg_set_fuel w n m = (m\<lparr>m_host := (m_host m)\<lparr>hs_fuel := n\<rparr>\<rparr>, Inr ()))
     \<and> (\<forall>i v m. i < length (m_globals m) \<longrightarrow> wg_set_global w i v m = (m\<lparr>m_globals := (m_globals m)[i := v]\<rparr>, Inr ()))
     \<and> (\<forall>n m. capped m \<and> 0 < n \<longrightarrow> (\<exists>e. wg_grow w n m = (m, Inl e)))
     \<and> (\<forall>n. keeps same_shape (wg_alloc w n)) \<and> (\<forall>p n. keeps same_shape (wg_dealloc w p n))
     \<and> (\<forall>name p n. keeps same_shape (wg_export w name p n))"

lemma shape_capped: "shape m' = shape m \<Longrightarrow> capped m' = capped m"
  by (simp add: shape_def capped_def)

lemma same_shape_order: "reflp same_shape" "transp same_shape"
  unfolding same_shape_def reflp_def transp_def by (blast, metis shape_capped)

lemmas keeps_shape = keeps_andthen [OF same_shape_order(2)] keeps_results [OF same_shape_order(1)]

lemma shape_set_work [simp]: "length work = length (m_work m) \<Longrightarrow> shape (set_work work m) = shape m"
  by (simp add: shape_def set_work_def m_work_def)

lemma length_copy_at [simp]: "i + length src \<le> length xs \<Longrightarrow> length (copy_at i src xs) = length xs"
  by (simp add: copy_at_def)

lemma memory_keeps_shape:
  "keeps same_shape (read_mem ptr len)" "keeps same_shape (charge_copy n limit)" "keeps same_shape (zero_mem ptr len)"
  by (simp_all add: keeps_def same_shape_def read_mem_def Let_def charge_copy_def zero_mem_def)
    (simp add: shape_def m_work_def)

lemma write_mem_keeps_shape:
  assumes "wasm_limits w"
  shows "keeps same_shape (write_mem w offset bs)"
  unfolding keeps_def same_shape_def
proof (intro allI impI)
  fix m
  assume c: "capped m"
  let ?needed = "unat offset + length bs"
  show "shape (fst (write_mem w offset bs m)) = shape m"
  proof (cases "?needed > length (m_work m)")
    case True
    then have "0 < (?needed - length (m_work m) + 65535) div 65536" by (simp add: div_greater_zero_iff)
    with assms c obtain e where "wg_grow w ((?needed - length (m_work m) + 65535) div 65536) m = (m, Inl e)"
      unfolding wasm_limits_def by blast
    then show ?thesis using True by (simp add: write_mem_def Let_def andthen_def)
  next
    case False
    then show ?thesis by (simp add: write_mem_def Let_def andthen_def not_less)
  qed
qed

lemma call_export_keeps_shape:
  assumes "wasm_limits w"
  shows "keeps same_shape (call_export w rd profile name bs)"
proof -
  have engine: "keeps same_shape (wg_alloc w n)" "keeps same_shape (wg_dealloc w p n)"
    "keeps same_shape (wg_export w name p n)" for n p name using assms by (auto simp: wasm_limits_def)
  have alloc: "keeps same_shape (guest_alloc w n)" for n
    unfolding guest_alloc_def by (intro keeps_shape engine) (simp add: keeps_shape)
  have wr: "keeps same_shape (write_mem_charged w p b n)" for p b n
    unfolding write_mem_charged_def by (intro keeps_shape memory_keeps_shape write_mem_keeps_shape assms)
  have call: "keeps same_shape (call_pair_return w nm p n)" for nm p n
    unfolding call_pair_return_def by (intro keeps_shape engine)
  have decode: "keeps same_shape (decode_output w rd p n a b)" for p n a b
    unfolding decode_output_def read_mem_charged_def
    by (cases "unat a < unat n") (simp_all add: keeps_shape engine memory_keeps_shape)
  have last: "keeps same_shape (\<lambda>m. (m, Inr (x m)))" for x :: "machine \<Rightarrow> 'a \<times> u64"
    by (simp add: keeps_def same_shape_def)
  show ?thesis
  proof (cases "2 ^ 32 \<le> length bs")
    case False
    then show ?thesis unfolding call_export_def Let_def split_beta if_not_P [OF False]
      by (intro keeps_shape(1) alloc wr call decode memory_keeps_shape engine last)
  qed (simp add: call_export_def keeps_shape)
qed

end
