(* ===== verification/Resident.thy ===== *)
theory Resident
  imports Guest_Memory
begin

text \<open>
  The resident Wasm instance of one execution: \<open>DispatchCall\<close> of \<open>arena0-sandbox/src/call.rs\<close>,
  instance set-up of \<open>engine/mod.rs\<close> and \<open>ProgramInstance\<close> of \<open>engine/runtime.rs\<close>.  A dispatch runs
  on state memories that stay in the instance between calls; the rollback checkpoint says which
  payloads are committed.
\<close>

section \<open>Calls\<close>

record dispatch_call =
  dc_peer_id :: peer_id
  dc_session :: ensemble
  dc_event :: event
  dc_outgoing_len :: nat
  dc_signer :: "guest_signer option"
  dc_verifier :: "guest_verifier option"
  dc_blobs :: "blob_view option"
  dc_attachment :: "bytes option"
  dc_direct_queued :: "(peer_id \<times> nat) list"

definition dispatch_call_new :: "peer_id \<Rightarrow> ensemble \<Rightarrow> event \<Rightarrow> dispatch_call" where
  "dispatch_call_new peer session ev =
     \<lparr>dc_peer_id = peer, dc_session = session, dc_event = ev, dc_outgoing_len = 0, dc_signer = None,
      dc_verifier = None, dc_blobs = None, dc_attachment = None, dc_direct_queued = []\<rparr>"

definition MAX_CALL_PAYLOAD_BYTES :: nat where
  "MAX_CALL_PAYLOAD_BYTES = 4 * 1024 * 1024"

definition MAX_SESSION_CONTEXT_BYTES :: nat where
  "MAX_SESSION_CONTEXT_BYTES = 1024 * 1024"

text \<open>The Borsh shape of \<open>Event<Vec<u8>>\<close>; the message of \<open>MessageReceived\<close> is a plain vector.\<close>

fun event_value :: "event \<Rightarrow> borsh_value" where
  "event_value (SessionStarted ens) = BEnum 0 [ensemble_value ens]"
| "event_value (MessageReceived sender msg) = BEnum 1 [peer_value sender, BBytes (2 ^ 32 - 1) msg]"
| "event_value (InputReceived idx data) = BEnum 2 [BU32 idx, BBytes MAX_EFFECT_PAYLOAD_BYTES data]"
| "event_value (TimerFired t) = BEnum 3 [timer_value t]"
| "event_value (DirectReceived sender msg att) =
     BEnum 4 [peer_value sender, BBytes MAX_DIRECT_CONTROL_BYTES msg,
              option_value (\<lambda>a. case a of Attachment n \<Rightarrow> BU32 n) att]"

definition dispatch_input_value :: "peer_id \<Rightarrow> bytes \<Rightarrow> bytes \<Rightarrow> borsh_value" where
  "dispatch_input_value peer session ev =
     BStruct [peer_value peer, BBytes MAX_SESSION_CONTEXT_BYTES session, BBytes MAX_CALL_PAYLOAD_BYTES ev]"

text \<open>\<open>into_input\<close> with \<open>DispatchInput::try_new\<close>; the Host-only parts of the call pass through.\<close>

definition into_input :: "prims \<Rightarrow> dispatch_call \<Rightarrow> sandbox_error + borsh_value \<times> dispatch_kind" where
  "into_input P c =
     bind_res (map_err SerializationFailed (to_vec P (ensemble_value (dc_session c)))) (\<lambda>session_bytes.
     bind_res (map_err SerializationFailed (to_vec P (event_value (dc_event c)))) (\<lambda>event_bytes.
     if length session_bytes > MAX_SESSION_CONTEXT_BYTES then Inl (InputLimitExceeded ''session context'')
     else if length event_bytes > MAX_CALL_PAYLOAD_BYTES then Inl (InputLimitExceeded ''event'')
     else Inr (dispatch_input_value (dc_peer_id c) session_bytes event_bytes,
               case dc_event c of
                 SessionStarted _ \<Rightarrow> AgreedDispatch
               | MessageReceived _ _ \<Rightarrow> AgreedDispatch
               | InputReceived _ _ \<Rightarrow> LocalDispatch
               | TimerFired _ \<Rightarrow> LocalDispatch
               | DirectReceived _ _ _ \<Rightarrow> LocalDispatch)))"

definition encode_envelope :: "prims \<Rightarrow> borsh_value \<Rightarrow> u64 \<Rightarrow> sandbox_error + bytes" where
  "encode_envelope P v max_bytes =
     bind_res (map_err SerializationFailed (to_vec P v)) (\<lambda>bs.
     if length bs > unat max_bytes then Inl (InputLimitExceeded ''encoded call input'') else Inr bs)"

datatype call_status = Accepted | Rejected

record dispatch_output =
  do_status :: call_status
  do_reason :: "string option"
  do_callout :: "callout_request option"

text \<open>Decoding of \<open>DispatchOutput\<close>: \<open>raw\<close> reads the Borsh fields.\<close>

definition read_dispatch_output :: "(bytes \<Rightarrow> string + dispatch_output) \<Rightarrow> bytes \<Rightarrow> string + dispatch_output" where
  "read_dispatch_output raw bs =
     bind_res (raw bs) (\<lambda>out.
     if do_status out = Accepted \<and> do_reason out \<noteq> None
     then Inl ''accepted dispatch cannot carry a rejection reason''
     else if do_status out = Rejected \<and> do_callout out \<noteq> None
     then Inl ''rejected dispatch cannot carry an open callout''
     else Inr out)"

text \<open>What the host knows of a loaded program: its guest, the Borsh reader of its outputs, one JSON schema
  check per declared callout, and the bounds of its state.\<close>

record loaded_program =
  lp_guest :: wasm_guest
  lp_read_output :: "bytes \<Rightarrow> string + dispatch_output"
  lp_callout_inputs :: "(bytes \<Rightarrow> string + unit) list"
  lp_profile :: exec_profile
  lp_state_max_bytes :: nat

definition validate_callout_context :: "(bytes \<Rightarrow> string + unit) list \<Rightarrow> callout_request \<Rightarrow> sandbox_error + unit" where
  "validate_callout_context inputs c =
     (if unat (cr_index c) \<ge> length inputs then Inl (DispatchFailed ''unknown callout schema index'')
      else map_err DispatchFailed ((inputs ! unat (cr_index c)) (cr_context c)))"

section \<open>The instance\<close>

record program_instance =
  pi_machine :: machine
  pi_baseline_work :: bytes
  pi_baseline_globals :: "u64 list"
  pi_shared_max :: nat
  pi_committed_shared :: shared_state_bytes
  pi_committed_local :: local_state_bytes

definition pi_local_max :: "loaded_program \<Rightarrow> nat" where
  "pi_local_max lp = unat (max_local_state_bytes (lp_profile lp))"

definition lp_shared_max :: "loaded_program \<Rightarrow> nat" where
  "lp_shared_max lp = min (lp_state_max_bytes lp) (unat (max_shared_state_bytes (lp_profile lp)))"

definition on_machine ::
  "(machine, sandbox_error, 'a) action \<Rightarrow> (program_instance, sandbox_error, 'a) action" where
  "on_machine f i = (case f (pi_machine i) of (m, r) \<Rightarrow> (i\<lparr>pi_machine := m\<rparr>, r))"

definition on_host :: "(host_state \<Rightarrow> host_state) \<Rightarrow> (program_instance, sandbox_error, unit) action" where
  "on_host f = on_machine (modify (\<lambda>m. m\<lparr>m_host := f (m_host m)\<rparr>))"

text \<open>\<open>write_state_payload\<close>: the memory is zeroed before the frame is written.\<close>

definition write_state_payload :: "state_memory \<Rightarrow> bytes \<Rightarrow> (machine, sandbox_error, unit) action" where
  "write_state_payload k payload m =
     (let data = state_memory_of (m_host m) k in
      if length data \<noteq> CANONICAL_STATE_MEMORY_BYTES
      then (m, Inl (MemoryLimitExceeded CANONICAL_STATE_MEMORY_BYTES))
      else let zero = replicate (length data) 0 in
        (case write_state_frame zero 0 payload of
           Inl e \<Rightarrow> (m\<lparr>m_host := set_state_memory (m_host m) k zero\<rparr>, Inl (DispatchFailed ''write state payload''))
         | Inr img \<Rightarrow> (m\<lparr>m_host := set_state_memory (m_host m) k img\<rparr>, Inr ())))"

primrec set_globals :: "wasm_guest \<Rightarrow> nat \<Rightarrow> u64 list \<Rightarrow> (machine, sandbox_error, unit) action" where
  "set_globals w i [] = pure ()"
| "set_globals w i (v # vs) = andthen (wg_set_global w i v) (\<lambda>_. set_globals w (Suc i) vs)"

definition reset_work_and_globals :: "loaded_program \<Rightarrow> (program_instance, sandbox_error, unit) action" where
  "reset_work_and_globals lp i =
     (if length (m_work (pi_machine i)) \<noteq> length (pi_baseline_work i)
      then (i, Inl (DispatchFailed ''resident work memory size changed''))
      else andthen (on_machine (modify (set_work (pi_baseline_work i))))
        (\<lambda>_. on_machine (set_globals (lp_guest lp) 0 (pi_baseline_globals i))) i)"

definition validate_payloads :: "loaded_program \<Rightarrow> nat \<Rightarrow> shared_state_bytes \<Rightarrow> local_state_bytes \<Rightarrow> sandbox_error + unit" where
  "validate_payloads lp shared_max shared local =
     (if length (shared_as_bytes shared) > shared_max then Inl (MemoryLimitExceeded (length (shared_as_bytes shared)))
      else if length (local_as_bytes local) > pi_local_max lp
      then Inl (MemoryLimitExceeded (length (local_as_bytes local)))
      else Inr ())"

text \<open>\<open>write_state_payload\<close> on both memories and the reset, shared by the two restoring operations.\<close>

definition write_payloads ::
  "loaded_program \<Rightarrow> shared_state_bytes \<Rightarrow> local_state_bytes \<Rightarrow> (program_instance, sandbox_error, unit) action" where
  "write_payloads lp shared local =
     andthen (on_machine (write_state_payload SharedMemory (shared_as_bytes shared))) (\<lambda>_.
     andthen (on_machine (write_state_payload LocalMemory (local_as_bytes local))) (\<lambda>_.
     reset_work_and_globals lp))"

definition restore_payloads ::
  "loaded_program \<Rightarrow> shared_state_bytes \<Rightarrow> local_state_bytes \<Rightarrow> (program_instance, sandbox_error, unit) action" where
  "restore_payloads lp shared local i =
     andthen (lift_res (validate_payloads lp (pi_shared_max i) shared local)) (\<lambda>_.
     andthen (write_payloads lp shared local) (\<lambda>_.
     modify (\<lambda>i. i\<lparr>pi_committed_shared := shared, pi_committed_local := local\<rparr>))) i"

definition restore_committed :: "loaded_program \<Rightarrow> (program_instance, sandbox_error, unit) action" where
  "restore_committed lp i = write_payloads lp (pi_committed_shared i) (pi_committed_local i) i"

definition resident_payload :: "state_memory \<Rightarrow> nat \<Rightarrow> program_instance \<Rightarrow> sandbox_error + bytes" where
  "resident_payload k max_payload i =
     map_err (\<lambda>e. case e of FrameTooLarge actual _ \<Rightarrow> MemoryLimitExceeded actual
                          | _ \<Rightarrow> DispatchFailed ''state image'')
       (canonical_state_payload (state_memory_of (m_host (pi_machine i)) k) max_payload)"

definition resident_payloads :: "loaded_program \<Rightarrow> program_instance \<Rightarrow> sandbox_error + shared_state_bytes \<times> local_state_bytes" where
  "resident_payloads lp i =
     bind_res (resident_payload SharedMemory (pi_shared_max i) i) (\<lambda>shared_payload.
     bind_res (resident_payload LocalMemory (pi_local_max lp) i) (\<lambda>local_payload.
     bind_res (map_err (\<lambda>_. DispatchFailed ''shared state'') (shared_try_new shared_payload)) (\<lambda>shared.
     bind_res (map_err (\<lambda>_. DispatchFailed ''local state'') (local_try_new local_payload)) (\<lambda>local.
     Inr (shared, local)))))"

definition instance_commit :: "loaded_program \<Rightarrow> (program_instance, sandbox_error, unit) action" where
  "instance_commit lp i =
     andthen (lift_res (resident_payloads lp i)) (\<lambda>(shared, local).
     modify (\<lambda>i. i\<lparr>pi_committed_shared := shared, pi_committed_local := local\<rparr>)) i"

section \<open>Instance set-up\<close>

definition host_new :: "exec_profile \<Rightarrow> call_kind \<Rightarrow> dispatch_kind \<Rightarrow> host_state" where
  "host_new profile kind dispatch =
     \<lparr>hs_call_kind = kind, hs_dispatch = dispatch, hs_outgoing_len = 0, hs_profile = profile, hs_scope = scope_new,
      hs_work = [], hs_shared = [], hs_local = [], hs_fuel = fuel_per_call profile\<rparr>"

text \<open>\<open>prepare_instance\<close>: linking and the ABI check of the new instance are \<open>wg_link\<close>.\<close>

definition prepare_instance :: "loaded_program \<Rightarrow> call_kind \<Rightarrow> dispatch_kind \<Rightarrow> sandbox_error + machine" where
  "prepare_instance lp kind dispatch =
     bind_res (wg_link (lp_guest lp) (host_new (lp_profile lp) CkPrepare dispatch)) (\<lambda>m.
     case wg_prepare (lp_guest lp) m of
       (_, Inl e) \<Rightarrow> Inl (InstantiationFailed ''prepare'')
     | (m, Inr prepared) \<Rightarrow>
         if prepared = 0 then Inl (InstantiationFailed ''arena0_prepare reported allocator preparation failure'')
         else (case wg_set_fuel (lp_guest lp) (fuel_per_call (lp_profile lp))
                      (m\<lparr>m_host := host_reset_after_prepare (m_host m) kind\<rparr>) of
                 (_, Inl e) \<Rightarrow> Inl (InstantiationFailed ''set fuel'')
               | (m, Inr _) \<Rightarrow> Inr m))"

definition resident :: "loaded_program \<Rightarrow> shared_state_bytes \<Rightarrow> local_state_bytes \<Rightarrow> sandbox_error + program_instance" where
  "resident lp shared local =
     bind_res (validate_payloads lp (lp_shared_max lp) shared local) (\<lambda>_.
     bind_res (prepare_instance lp CkDispatch LocalDispatch) (\<lambda>m.
     let observed = length (m_work m);
         max_work = min (unat (max_memory_bytes (lp_profile lp))) (64 * 1024 * 1024) in
     if observed < unat (min_prepared_work_memory_bytes (lp_profile lp))
     then Inl (InstantiationFailed ''arena0_prepare established too few work-memory bytes'')
     else if observed > max_work
     then Inl (InstantiationFailed ''arena0_prepare established too many work-memory bytes'')
     else
       (case restore_payloads lp shared local
               \<lparr>pi_machine = m\<lparr>m_memory_limit := observed\<rparr>, pi_baseline_work = m_work m, pi_baseline_globals = m_globals m,
                pi_shared_max = lp_shared_max lp, pi_committed_shared = SharedStateBytes [],
                pi_committed_local = LocalStateBytes []\<rparr> of
          (_, Inl e) \<Rightarrow> Inl e
        | (i, Inr _) \<Rightarrow> Inr i)))"

section \<open>Dispatch\<close>

record dispatch_call_result =
  dr_status :: call_status
  dr_reason :: "string option"
  dr_callout :: "callout_request option"
  dr_images :: "(shared_state_bytes \<times> local_state_bytes) option"
  dr_effects :: "effect list"
  dr_fuel_used :: u64
  dr_draws :: "bytes list"
  dr_logs :: "(log_level \<times> string) list"
  dr_blobs :: "blob_change list"

definition reset_for_dispatch :: "loaded_program \<Rightarrow> dispatch_kind \<Rightarrow> nat \<Rightarrow> (program_instance, sandbox_error, unit) action" where
  "reset_for_dispatch lp kind outgoing_len i =
     (case reset_work_and_globals lp i of
        (i, r) \<Rightarrow>
          andthen (on_host (\<lambda>h. host_reset_for_dispatch h kind outgoing_len)) (\<lambda>_.
          andthen (lift_res r) (\<lambda>_.
          on_machine (wg_set_fuel (lp_guest lp) (fuel_per_call (lp_profile lp))))) i)"

definition rollback_after_failure :: "loaded_program \<Rightarrow> (program_instance, sandbox_error, unit) action" where
  "rollback_after_failure lp i =
     (case restore_committed lp i of
        (i, r) \<Rightarrow> (fst (on_host (\<lambda>h. host_reset_for_dispatch h LocalDispatch 0) i), r))"

text \<open>\<open>or_else(|error| self.rollback_error(error))\<close>: a failed rollback is ignored.\<close>

definition or_rollback :: "loaded_program \<Rightarrow> (program_instance, sandbox_error, 'a) action \<Rightarrow> (program_instance, sandbox_error, 'a) action" where
  "or_rollback lp f i =
     (case f i of (i, Inl e) \<Rightarrow> (fst (rollback_after_failure lp i), Inl e) | (i, Inr x) \<Rightarrow> (i, Inr x))"

definition install_call :: "dispatch_call \<Rightarrow> host_state \<Rightarrow> host_state" where
  "install_call c h =
     h\<lparr>hs_scope := (hs_scope h)\<lparr>sc_signer := dc_signer c, sc_verifier := dc_verifier c, sc_blobs := dc_blobs c,
        sc_attachment := dc_attachment c, sc_direct_queued := dc_direct_queued c, sc_peer_id := Some (dc_peer_id c),
        sc_session := Some (peers (dc_session c))\<rparr>\<rparr>"

definition check_callout :: "loaded_program \<Rightarrow> dispatch_output \<Rightarrow> sandbox_error + unit" where
  "check_callout lp out =
     (case (do_status out, do_callout out) of
        (Accepted, Some c) \<Rightarrow> validate_callout_context (lp_callout_inputs lp) c
      | _ \<Rightarrow> Inr ())"

definition finish_dispatch ::
  "loaded_program \<Rightarrow> dispatch_output \<Rightarrow> u64 \<Rightarrow> (program_instance, sandbox_error, dispatch_call_result) action" where
  "finish_dispatch lp out fuel_used i =
     (if do_status out = Rejected then
        andthen (rollback_after_failure lp) (\<lambda>_.
        pure \<lparr>dr_status = Rejected, dr_reason = do_reason out, dr_callout = None, dr_images = None, dr_effects = [],
              dr_fuel_used = fuel_used, dr_draws = [], dr_logs = [], dr_blobs = []\<rparr>) i
      else
        let scope = hs_scope (m_host (pi_machine i)) in
        andthen (on_host (\<lambda>h. h\<lparr>hs_scope := (hs_scope h)\<lparr>sc_effects := [], sc_draws := [], sc_logs := []\<rparr>\<rparr>)) (\<lambda>_.
        andthen (or_rollback lp (\<lambda>i. (i, resident_payloads lp i))) (\<lambda>images.
        andthen (on_host (\<lambda>h. h\<lparr>hs_scope := (hs_scope h)\<lparr>sc_staged := []\<rparr>\<rparr>)) (\<lambda>_.
        pure \<lparr>dr_status = Accepted, dr_reason = do_reason out, dr_callout = do_callout out, dr_images = Some images,
              dr_effects = sc_effects scope, dr_fuel_used = fuel_used, dr_draws = sc_draws scope,
              dr_logs = sc_logs scope, dr_blobs = sc_staged scope\<rparr>))) i)"

definition instance_dispatch ::
  "prims \<Rightarrow> loaded_program \<Rightarrow> dispatch_call \<Rightarrow> (program_instance, sandbox_error, dispatch_call_result) action" where
  "instance_dispatch P lp c =
     andthen (lift_res (into_input P c)) (\<lambda>(input, kind).
     andthen (lift_res (encode_envelope P input (max_call_envelope_bytes (lp_profile lp)))) (\<lambda>bs.
     andthen (or_rollback lp (reset_for_dispatch lp kind (dc_outgoing_len c))) (\<lambda>_.
     andthen (on_host (install_call c)) (\<lambda>_.
     andthen (or_rollback lp (on_machine (call_export (lp_guest lp) (read_dispatch_output (lp_read_output lp))
                (lp_profile lp) ''arena0_dispatch'' bs))) (\<lambda>(out, fuel_used).
     andthen (or_rollback lp (lift_res (check_callout lp out))) (\<lambda>_.
     finish_dispatch lp out fuel_used))))))"

end
