(* ===== verification/Resident_Custody.thy ===== *)
theory Resident_Custody
  imports Resident Execution_Run
begin

text \<open>
  Custody of state in the resident instance: what the two memories hold after every operation of
  \<open>ProgramInstance\<close>, that a restore never fails, and that a dispatch on the resident instance gives
  what a fresh instance with the committed payloads gives.
\<close>

section \<open>Sizes and images\<close>

abbreviation pi_host :: "program_instance \<Rightarrow> host_state" where
  "pi_host i \<equiv> m_host (pi_machine i)"

text \<open>What stays the same for the life of an instance.\<close>

definition pi_frame :: "program_instance \<Rightarrow> bytes \<times> u64 list \<times> nat \<times> nat \<times> exec_profile" where
  "pi_frame i = (pi_baseline_work i, pi_baseline_globals i, pi_shared_max i, m_memory_limit (pi_machine i),
     hs_profile (pi_host i))"

definition sized :: "loaded_program \<Rightarrow> program_instance \<Rightarrow> bool" where
  "sized lp i \<longleftrightarrow> capped (pi_machine i) \<and> length (m_work (pi_machine i)) = length (pi_baseline_work i)
     \<and> length (m_globals (pi_machine i)) = length (pi_baseline_globals i)
     \<and> length (hs_shared (pi_host i)) = CANONICAL_STATE_MEMORY_BYTES
     \<and> length (hs_local (pi_host i)) = CANONICAL_STATE_MEMORY_BYTES
     \<and> validate_payloads lp (pi_shared_max i) (pi_committed_shared i) (pi_committed_local i) = Inr ()"

definition holds_images :: "program_instance \<Rightarrow> shared_state_bytes \<Rightarrow> local_state_bytes \<Rightarrow> bool" where
  "holds_images i shared local \<longleftrightarrow>
     hs_shared (pi_host i) = state_image (shared_as_bytes shared) \<and> hs_local (pi_host i) = state_image (local_as_bytes local)"

definition settled :: "loaded_program \<Rightarrow> program_instance \<Rightarrow> bool" where
  "settled lp i \<longleftrightarrow> sized lp i \<and> holds_images i (pi_committed_shared i) (pi_committed_local i)"

lemma local_fits_image: "length (local_as_bytes l) \<le> max_image_payload"
  using local_as_bytes [of l]
  by (simp add: MAX_LOCAL_STATE_BYTES_def CANONICAL_STATE_MEMORY_BYTES_def CANONICAL_STATE_PREFIX_BYTES_def)

lemma zeroed_frame: 
  "length p \<le> max_image_payload \<Longrightarrow> write_state_frame (replicate CANONICAL_STATE_MEMORY_BYTES 0) 0 p = Inr (state_image p)"
  using write_state_frame_image [of "[]" p] by (simp add: zero_memory_image)

lemma write_shared_payload:
  assumes "length (hs_shared (m_host m)) = CANONICAL_STATE_MEMORY_BYTES"
  shows "write_state_payload SharedMemory (shared_as_bytes s) m =
    (m\<lparr>m_host := (m_host m)\<lparr>hs_shared := state_image (shared_as_bytes s)\<rparr>\<rparr>, Inr ())"
  using assms by (simp add: write_state_payload_def Let_def zeroed_frame [OF shared_fits_image])

lemma write_local_payload:
  assumes "length (hs_local (m_host m)) = CANONICAL_STATE_MEMORY_BYTES"
  shows "write_state_payload LocalMemory (local_as_bytes l) m =
    (m\<lparr>m_host := (m_host m)\<lparr>hs_local := state_image (local_as_bytes l)\<rparr>\<rparr>, Inr ())"
  using assms by (simp add: write_state_payload_def Let_def zeroed_frame [OF local_fits_image])

lemma set_globals_all:
  assumes "wasm_limits w" "length (m_globals m) = n + length vs"
  shows "set_globals w n vs m = (m\<lparr>m_globals := take n (m_globals m) @ vs\<rparr>, Inr ())"
  using assms(2)
proof (induction vs arbitrary: n m)
  case (Cons v vs)
  let ?m = "m\<lparr>m_globals := (m_globals m)[n := v]\<rparr>"
  have "wg_set_global w n v m = (?m, Inr ())" using assms(1) Cons.prems by (simp add: wasm_limits_def)
  moreover have "take (Suc n) ((m_globals m)[n := v]) = take n (m_globals m) @ [v]"
    using Cons.prems by (simp add: take_Suc_conv_app_nth)
  ultimately show ?case using Cons.IH [of ?m "Suc n"] Cons.prems by simp
qed simp

text \<open>The machine with both images, the baseline work memory and the baseline globals.\<close>

definition restored :: "program_instance \<Rightarrow> shared_state_bytes \<Rightarrow> local_state_bytes \<Rightarrow> program_instance" where
  "restored i shared local = i\<lparr>pi_machine := (pi_machine i)\<lparr>
     m_host := (pi_host i)\<lparr>hs_shared := state_image (shared_as_bytes shared),
        hs_local := state_image (local_as_bytes local), hs_work := pi_baseline_work i\<rparr>,
     m_globals := pi_baseline_globals i\<rparr>\<rparr>"

definition reset_machine :: "program_instance \<Rightarrow> machine" where
  "reset_machine i = (pi_machine i)\<lparr>m_host := (pi_host i)\<lparr>hs_work := pi_baseline_work i\<rparr>, m_globals := pi_baseline_globals i\<rparr>"

lemma reset_work_and_globals_ok:
  assumes "wasm_limits (lp_guest lp)" "length (m_work (pi_machine i)) = length (pi_baseline_work i)"
    "length (m_globals (pi_machine i)) = length (pi_baseline_globals i)"
  shows "reset_work_and_globals lp i = (i\<lparr>pi_machine := reset_machine i\<rparr>, Inr ())"
proof -
  let ?m = "set_work (pi_baseline_work i) (pi_machine i)"
  have "set_globals (lp_guest lp) 0 (pi_baseline_globals i) ?m = (?m\<lparr>m_globals := pi_baseline_globals i\<rparr>, Inr ())"
    using set_globals_all [OF assms(1), of ?m 0 "pi_baseline_globals i"] assms(3) by (simp add: set_work_def)
  then show ?thesis
    using assms(2) by (simp add: reset_work_and_globals_def on_machine_def andthen_def reset_machine_def set_work_def)
qed

lemma write_payloads_ok:
  assumes "wasm_limits (lp_guest lp)" "sized lp i"
  shows "write_payloads lp shared local i = (restored i shared local, Inr ())"
proof -
  let ?i = "i\<lparr>pi_machine := (pi_machine i)\<lparr>m_host := (pi_host i)\<lparr>hs_shared := state_image (shared_as_bytes shared),
      hs_local := state_image (local_as_bytes local)\<rparr>\<rparr>\<rparr>"
  have "reset_work_and_globals lp ?i = (?i\<lparr>pi_machine := reset_machine ?i\<rparr>, Inr ())"
    by (rule reset_work_and_globals_ok) (use assms in \<open>simp_all add: sized_def m_work_def\<close>)
  then show ?thesis
    using assms(2) write_shared_payload [of "pi_machine i" shared]
      write_local_payload [of "(pi_machine i)\<lparr>m_host := (pi_host i)\<lparr>hs_shared := state_image (shared_as_bytes shared)\<rparr>\<rparr>" local]
    by (simp add: write_payloads_def on_machine_def andthen_def sized_def restored_def reset_machine_def)
qed


section \<open>Restoring\<close>

lemma length_shared_image [simp]: "length (state_image (shared_as_bytes s)) = CANONICAL_STATE_MEMORY_BYTES"
  by (rule length_state_image [OF shared_fits_image])

lemma length_local_image [simp]: "length (state_image (local_as_bytes l)) = CANONICAL_STATE_MEMORY_BYTES"
  by (rule length_state_image [OF local_fits_image])

lemma restored_frame [simp]:
  "pi_frame (restored i s l) = pi_frame i" "pi_committed_shared (restored i s l) = pi_committed_shared i"
  "pi_committed_local (restored i s l) = pi_committed_local i" "pi_shared_max (restored i s l) = pi_shared_max i"
  by (simp_all add: restored_def pi_frame_def)

lemma restored_sized: "sized lp i \<Longrightarrow> sized lp (restored i s l)"
  by (simp add: sized_def restored_def m_work_def capped_def)

lemma restored_images: "holds_images (restored i s l) s l"
  by (simp add: holds_images_def restored_def)

lemma restored_settled: "sized lp i \<Longrightarrow> settled lp (restored i (pi_committed_shared i) (pi_committed_local i))"
  by (simp add: settled_def restored_sized restored_images)

text \<open>Changes of the host state that leave the memories and the profile alone.\<close>

definition host_quiet :: "(host_state \<Rightarrow> host_state) \<Rightarrow> bool" where
  "host_quiet f \<longleftrightarrow> (\<forall>h. hs_work (f h) = hs_work h \<and> hs_shared (f h) = hs_shared h \<and> hs_local (f h) = hs_local h
     \<and> hs_profile (f h) = hs_profile h)"

lemma host_quiets [simp]:
  "host_quiet (\<lambda>h. host_reset_for_dispatch h kind n)" "host_quiet (install_call c)"
  "host_quiet (\<lambda>h. h\<lparr>hs_scope := g h\<rparr>)"
  by (simp_all add: host_quiet_def host_reset_for_dispatch_def install_call_def)

lemma on_host_eq [simp]: "on_host f i = (i\<lparr>pi_machine := (pi_machine i)\<lparr>m_host := f (pi_host i)\<rparr>\<rparr>, Inr ())"
  by (simp add: on_host_def on_machine_def)

lemma on_host_quiet:
  assumes "host_quiet f"
  shows "sized lp (i\<lparr>pi_machine := (pi_machine i)\<lparr>m_host := f (pi_host i)\<rparr>\<rparr>) = sized lp i"
    "holds_images (i\<lparr>pi_machine := (pi_machine i)\<lparr>m_host := f (pi_host i)\<rparr>\<rparr>) s l = holds_images i s l"
    "pi_frame (i\<lparr>pi_machine := (pi_machine i)\<lparr>m_host := f (pi_host i)\<rparr>\<rparr>) = pi_frame i"
  using assms by (simp_all add: host_quiet_def sized_def holds_images_def pi_frame_def capped_def m_work_def)

lemma scope_quiet:
  "sized lp (i\<lparr>pi_machine := (pi_machine i)\<lparr>m_host := (pi_host i)\<lparr>hs_scope := sc\<rparr>\<rparr>\<rparr>) = sized lp i"
  "holds_images (i\<lparr>pi_machine := (pi_machine i)\<lparr>m_host := (pi_host i)\<lparr>hs_scope := sc\<rparr>\<rparr>\<rparr>) s l = holds_images i s l"
  "pi_frame (i\<lparr>pi_machine := (pi_machine i)\<lparr>m_host := (pi_host i)\<lparr>hs_scope := sc\<rparr>\<rparr>\<rparr>) = pi_frame i"
  using on_host_quiet [OF host_quiets(3) [of "\<lambda>_. sc"]] by blast+

lemma restore_committed_ok:
  assumes "wasm_limits (lp_guest lp)" "sized lp i"
  shows "restore_committed lp i = (restored i (pi_committed_shared i) (pi_committed_local i), Inr ())"
  unfolding restore_committed_def by (rule write_payloads_ok [OF assms])

definition rolled_back :: "program_instance \<Rightarrow> program_instance" where
  "rolled_back i = (let j = restored i (pi_committed_shared i) (pi_committed_local i) in
     j\<lparr>pi_machine := (pi_machine j)\<lparr>m_host := host_reset_for_dispatch (pi_host j) LocalDispatch 0\<rparr>\<rparr>)"

lemma rollback_ok:
  assumes "wasm_limits (lp_guest lp)" "sized lp i"
  shows "rollback_after_failure lp i = (rolled_back i, Inr ())"
  by (simp add: rollback_after_failure_def restore_committed_ok [OF assms] rolled_back_def Let_def)

lemma rolled_back_settled:
  assumes "sized lp i"
  shows "settled lp (rolled_back i)" "pi_frame (rolled_back i) = pi_frame i"
    "pi_committed_shared (rolled_back i) = pi_committed_shared i" "pi_committed_local (rolled_back i) = pi_committed_local i"
    "hs_scope (pi_host (rolled_back i)) = scope_new"
  using restored_settled [OF assms] unfolding rolled_back_def Let_def settled_def
  by (simp_all add: on_host_quiet [OF host_quiets(1)]) (simp add: host_reset_for_dispatch_def)

section \<open>Entering a dispatch\<close>

definition entered :: "loaded_program \<Rightarrow> dispatch_kind \<Rightarrow> nat \<Rightarrow> program_instance \<Rightarrow> program_instance" where
  "entered lp kind n i = i\<lparr>pi_machine := (reset_machine i)\<lparr>
     m_host := (host_reset_for_dispatch (m_host (reset_machine i)) kind n)\<lparr>hs_fuel := fuel_per_call (lp_profile lp)\<rparr>\<rparr>\<rparr>"

lemma reset_for_dispatch_ok:
  assumes "wasm_limits (lp_guest lp)" "sized lp i"
  shows "reset_for_dispatch lp kind n i = (entered lp kind n i, Inr ())"
proof -
  have "reset_work_and_globals lp i = (i\<lparr>pi_machine := reset_machine i\<rparr>, Inr ())"
    using assms by (intro reset_work_and_globals_ok) (simp_all add: sized_def)
  moreover have "wg_set_fuel (lp_guest lp) k m = (m\<lparr>m_host := (m_host m)\<lparr>hs_fuel := k\<rparr>\<rparr>, Inr ())" for k m
    using assms(1) by (simp add: wasm_limits_def)
  ultimately show ?thesis by (simp add: reset_for_dispatch_def entered_def on_machine_def andthen_def)
qed

lemma entered_sized:
  assumes "sized lp i"
  shows "sized lp (entered lp kind n i)" "pi_frame (entered lp kind n i) = pi_frame i"
    "pi_committed_shared (entered lp kind n i) = pi_committed_shared i"
    "pi_committed_local (entered lp kind n i) = pi_committed_local i"
  using assms by (simp_all add: sized_def entered_def reset_machine_def host_reset_for_dispatch_def pi_frame_def capped_def m_work_def)

text \<open>Two settled instances of one program with the same checkpoint are indistinguishable once entered.\<close>

definition same_checkpoint :: "program_instance \<Rightarrow> program_instance \<Rightarrow> bool" where
  "same_checkpoint i j \<longleftrightarrow> pi_frame i = pi_frame j \<and> pi_committed_shared i = pi_committed_shared j
     \<and> pi_committed_local i = pi_committed_local j"

lemma entered_eq:
  assumes "settled lp i" "settled lp j" "same_checkpoint i j"
  shows "entered lp kind n i = entered lp kind n j"
proof -
  have "pi_machine (entered lp kind n i) = pi_machine (entered lp kind n j)"
    using assms
    by (intro machine.equality; (intro host_state.equality)?)
      (auto simp: entered_def reset_machine_def host_reset_for_dispatch_def settled_def holds_images_def same_checkpoint_def pi_frame_def)
  then show ?thesis
    using assms(3) by (intro program_instance.equality) (auto simp: entered_def same_checkpoint_def pi_frame_def)
qed

section \<open>Images that leave and enter the checkpoint\<close>

lemma resident_payload_ok:
  "resident_payload k n i = Inr p \<longleftrightarrow> canonical_state_payload (state_memory_of (pi_host i) k) n = Inr p"
  by (simp add: resident_payload_def map_err_ok)

lemma resident_payloads_ok:
  "resident_payloads lp i = Inr (shared, local) \<longleftrightarrow>
     holds_images i shared local \<and> validate_payloads lp (pi_shared_max i) shared local = Inr ()"
proof
  assume "resident_payloads lp i = Inr (shared, local)"
  then obtain sp lop where p: "canonical_state_payload (hs_shared (pi_host i)) (pi_shared_max i) = Inr sp"
      "canonical_state_payload (hs_local (pi_host i)) (pi_local_max lp) = Inr lop"
      "shared_try_new sp = Inr shared" "local_try_new lop = Inr local"
    unfolding resident_payloads_def bind_res_ok resident_payload_ok map_err_ok by auto
  from p(3,4) have "shared_as_bytes shared = sp" "local_as_bytes local = lop"
    by (auto simp: shared_try_new_def local_try_new_def SharedStateBytes_inverse LocalStateBytes_inverse split: if_splits)
  then show "holds_images i shared local \<and> validate_payloads lp (pi_shared_max i) shared local = Inr ()"
    using canonical_state_payload_inv [OF p(1)] canonical_state_payload_inv [OF p(2)]
    by (simp add: holds_images_def validate_payloads_def not_less)
next
  assume a: "holds_images i shared local \<and> validate_payloads lp (pi_shared_max i) shared local = Inr ()"
  have "shared_try_new (shared_as_bytes shared) = Inr shared" "local_try_new (local_as_bytes local) = Inr local"
    using shared_as_bytes [of shared] local_as_bytes [of local]
    by (simp_all add: shared_try_new_def local_try_new_def shared_as_bytes_inverse local_as_bytes_inverse)
  with a show "resident_payloads lp i = Inr (shared, local)"
    using canonical_state_payload_image [OF shared_fits_image] canonical_state_payload_image [OF local_fits_image]
    by (simp add: resident_payloads_def bind_res_def resident_payload_def map_err_def holds_images_def validate_payloads_def
        split: if_splits)
qed

section \<open>What a dispatch leaves behind\<close>

definition kept :: "program_instance \<Rightarrow> program_instance \<Rightarrow> bool" where
  "kept i i' \<longleftrightarrow> pi_frame i' = pi_frame i \<and> pi_committed_shared i' = pi_committed_shared i
     \<and> pi_committed_local i' = pi_committed_local i"

definition custody :: "loaded_program \<Rightarrow> program_instance \<Rightarrow> program_instance \<times> (sandbox_error + dispatch_call_result) \<Rightarrow> bool" where
  "custody lp i out \<longleftrightarrow> kept i (fst out) \<and>
     (case snd out of
        Inl _ \<Rightarrow> settled lp (fst out)
      | Inr r \<Rightarrow> (case dr_images r of
          None \<Rightarrow> dr_status r = Rejected \<and> settled lp (fst out)
        | Some (s, l) \<Rightarrow> dr_status r = Accepted \<and> sized lp (fst out) \<and> holds_images (fst out) s l
            \<and> validate_payloads lp (pi_shared_max (fst out)) s l = Inr ()))"

lemma kept_trans: "kept i j \<Longrightarrow> kept j k \<Longrightarrow> kept i k"
  by (simp add: kept_def)

lemma custody_trans: "kept i j \<Longrightarrow> custody lp j out \<Longrightarrow> custody lp i out"
  by (auto simp: custody_def intro: kept_trans)

lemma rolled_back_kept: "sized lp i \<Longrightarrow> kept i (rolled_back i)"
  by (simp add: kept_def rolled_back_settled)

lemma sized_shape:
  assumes "sized lp i" "shape m = shape (pi_machine i)"
  shows "sized lp (i\<lparr>pi_machine := m\<rparr>)" "kept i (i\<lparr>pi_machine := m\<rparr>)"
  using assms shape_capped [OF assms(2)] by (simp_all add: sized_def kept_def pi_frame_def shape_def m_work_def)

lemma quiet_sized:
  assumes "sized lp i" "host_quiet f"
  shows "sized lp (i\<lparr>pi_machine := (pi_machine i)\<lparr>m_host := f (pi_host i)\<rparr>\<rparr>)"
    "kept i (i\<lparr>pi_machine := (pi_machine i)\<lparr>m_host := f (pi_host i)\<rparr>\<rparr>)"
  using assms on_host_quiet [OF assms(2)] by (simp_all add: kept_def)

lemma entered_kept: "sized lp i \<Longrightarrow> kept i (entered lp kind n i)"
  by (simp add: kept_def entered_sized)

lemma finish_rejected:
  assumes "wasm_limits (lp_guest lp)" "sized lp i" "do_status out = Rejected"
  shows "custody lp i (finish_dispatch lp out fuel i)"
  using assms(3) rollback_ok [OF assms(1,2)] rolled_back_settled [OF assms(2)] rolled_back_kept [OF assms(2)]
  by (simp add: finish_dispatch_def custody_def)

text \<open>The observations are taken before the images are read, so a bad image still rolls back.\<close>

abbreviation take_observations :: "program_instance \<Rightarrow> program_instance" where
  "take_observations i \<equiv> i\<lparr>pi_machine := (pi_machine i)\<lparr>m_host := (pi_host i)\<lparr>hs_scope := (hs_scope (pi_host i))\<lparr>
     sc_effects := [], sc_draws := [], sc_logs := []\<rparr>\<rparr>\<rparr>\<rparr>"

lemma finish_accepted:
  assumes "wasm_limits (lp_guest lp)" "sized lp i" "do_status out = Accepted"
  shows "custody lp i (finish_dispatch lp out fuel i)"
proof -
  let ?i = "take_observations i"
  have i: "sized lp ?i" "kept i ?i" using assms(2) by (simp_all only: scope_quiet kept_def) simp_all
  show ?thesis
  proof (cases "resident_payloads lp ?i")
    case (Inl e)
    then show ?thesis
      using assms(3) rollback_ok [OF assms(1) i(1)] rolled_back_settled [OF i(1)]
        kept_trans [OF i(2) rolled_back_kept [OF i(1)]]
      by (simp add: finish_dispatch_def custody_def andthen_def or_rollback_def Let_def)
  next
    case (Inr images)
    obtain s l where sl: "images = (s, l)" by (cases images)
    have im: "holds_images ?i s l" "validate_payloads lp (pi_shared_max ?i) s l = Inr ()"
      using Inr unfolding sl resident_payloads_ok by auto
    let ?j = "?i\<lparr>pi_machine := (pi_machine ?i)\<lparr>m_host := (pi_host ?i)\<lparr>hs_scope := (hs_scope (pi_host ?i))\<lparr>sc_staged := []\<rparr>\<rparr>\<rparr>\<rparr>"
    have "sized lp ?j" "kept ?i ?j" "holds_images ?j s l"
      using i(1) im(1) by (simp_all only: scope_quiet kept_def) simp_all
    moreover have "fst (finish_dispatch lp out fuel i) = ?j"
      "\<exists>r. snd (finish_dispatch lp out fuel i) = Inr r \<and> dr_images r = Some (s, l) \<and> dr_status r = Accepted"
      using Inr assms(3) by (simp_all add: finish_dispatch_def andthen_def or_rollback_def Let_def sl)
    ultimately show ?thesis
      using im(2) kept_trans [OF i(2)] unfolding custody_def by auto
  qed
qed

text \<open>The part of a dispatch after the entry reset.\<close>

definition run_entered :: "loaded_program \<Rightarrow> dispatch_call \<Rightarrow> bytes \<Rightarrow> (program_instance, sandbox_error, dispatch_call_result) action" where
  "run_entered lp c bs =
     andthen (on_host (install_call c)) (\<lambda>_.
     andthen (or_rollback lp (on_machine (call_export (lp_guest lp) (read_dispatch_output (lp_read_output lp))
                (lp_profile lp) ''arena0_dispatch'' bs))) (\<lambda>(out, fuel_used).
     andthen (or_rollback lp (lift_res (check_callout lp out))) (\<lambda>_.
     finish_dispatch lp out fuel_used)))"

definition call_bytes :: "prims \<Rightarrow> loaded_program \<Rightarrow> dispatch_call \<Rightarrow> sandbox_error + bytes \<times> dispatch_kind" where
  "call_bytes P lp c =
     bind_res (into_input P c) (\<lambda>(input, kind).
     bind_res (encode_envelope P input (max_call_envelope_bytes (lp_profile lp))) (\<lambda>bs. Inr (bs, kind)))"

lemma instance_dispatch_eq:
  assumes "wasm_limits (lp_guest lp)" "sized lp i"
  shows "instance_dispatch P lp c i =
    (case call_bytes P lp c of
       Inl e \<Rightarrow> (i, Inl e)
     | Inr (bs, kind) \<Rightarrow> run_entered lp c bs (entered lp kind (dc_outgoing_len c) i))"
proof (cases "into_input P c")
  case (Inr ik)
  obtain input kind where ik: "ik = (input, kind)" by (cases ik)
  show ?thesis
    using Inr reset_for_dispatch_ok [OF assms, of kind "dc_outgoing_len c"]
    by (cases "encode_envelope P input (max_call_envelope_bytes (lp_profile lp))")
      (simp_all add: ik instance_dispatch_def call_bytes_def bind_res_def andthen_def or_rollback_def run_entered_def)
qed (simp add: instance_dispatch_def call_bytes_def bind_res_def andthen_def)

lemma run_entered_custody:
  assumes "wasm_limits (lp_guest lp)" "sized lp j"
  shows "custody lp j (run_entered lp c bs j)"
proof -
  let ?j = "j\<lparr>pi_machine := (pi_machine j)\<lparr>m_host := install_call c (pi_host j)\<rparr>\<rparr>"
  let ?call = "call_export (lp_guest lp) (read_dispatch_output (lp_read_output lp)) (lp_profile lp) ''arena0_dispatch'' bs"
  have j: "sized lp ?j" "kept j ?j" using quiet_sized [OF assms(2) host_quiets(2)] by auto
  obtain m r where call: "?call (pi_machine ?j) = (m, r)" by (cases "?call (pi_machine ?j)")
  have "keeps same_shape ?call" by (rule call_export_keeps_shape [OF assms(1)])
  then have "same_shape (pi_machine ?j) m" using call unfolding keeps_def by (metis fst_conv)
  then have "shape m = shape (pi_machine ?j)" using j(1) by (simp add: same_shape_def sized_def)
  note k = sized_shape [OF j(1) this]
  let ?k = "?j\<lparr>pi_machine := m\<rparr>"
  have jk: "kept j ?k" using kept_trans [OF j(2) k(2)] .
  have undo: "custody lp j (rolled_back ?k, Inl e)" for e
    using kept_trans [OF jk rolled_back_kept [OF k(1)]] rolled_back_settled(1) [OF k(1)] by (simp add: custody_def)
  show ?thesis
  proof (cases r)
    case (Inl e)
    then show ?thesis using call undo rollback_ok [OF assms(1) k(1)]
      by (simp add: run_entered_def andthen_def or_rollback_def on_machine_def)
  next
    case (Inr x)
    obtain out fuel where x: "x = (out, fuel)" by (cases x)
    have fin: "custody lp j (finish_dispatch lp out fuel ?k)"
      using custody_trans [OF jk] finish_accepted [OF assms(1) k(1)] finish_rejected [OF assms(1) k(1)]
      by (cases "do_status out") blast+
    have eq: "run_entered lp c bs j =
        (case check_callout lp out of Inl e \<Rightarrow> (rolled_back ?k, Inl e) | Inr _ \<Rightarrow> finish_dispatch lp out fuel ?k)"
      using call Inr x rollback_ok [OF assms(1) k(1)]
      by (simp add: run_entered_def andthen_def or_rollback_def on_machine_def split: sum.split)
    show ?thesis unfolding eq using undo fin by (simp split: sum.split)
  qed
qed

lemma dispatch_custody:
  assumes "wasm_limits (lp_guest lp)" "settled lp i"
  shows "custody lp i (instance_dispatch P lp c i)"
proof -
  have i: "sized lp i" using assms(2) by (simp add: settled_def)
  have "custody lp i (run_entered lp c bs (entered lp kind n i))" for bs kind n
    using run_entered_custody [OF assms(1) entered_sized(1) [OF i]] custody_trans [OF entered_kept [OF i]] by blast
  moreover have "custody lp i (i, Inl e)" for e using assms(2) by (simp add: custody_def kept_def)
  ultimately show ?thesis unfolding instance_dispatch_eq [OF assms(1) i] by (simp split: sum.split prod.split)
qed

section \<open>Fresh instances\<close>

text \<open>The instance \<open>resident\<close> builds before it installs the payloads.\<close>

definition template :: "loaded_program \<Rightarrow> machine \<Rightarrow> program_instance" where
  "template lp m = \<lparr>pi_machine = m\<lparr>m_memory_limit := length (m_work m)\<rparr>, pi_baseline_work = m_work m,
     pi_baseline_globals = m_globals m, pi_shared_max = lp_shared_max lp, pi_committed_shared = SharedStateBytes [],
     pi_committed_local = LocalStateBytes []\<rparr>"

lemma empty_payloads [simp]: "shared_as_bytes (SharedStateBytes []) = []" "local_as_bytes (LocalStateBytes []) = []"
  by (simp_all add: SharedStateBytes_inverse LocalStateBytes_inverse)

lemma template_sized:
  "sized lp (template lp m) \<longleftrightarrow> length (hs_shared (m_host m)) = CANONICAL_STATE_MEMORY_BYTES
     \<and> length (hs_local (m_host m)) = CANONICAL_STATE_MEMORY_BYTES"
  by (simp add: sized_def template_def capped_def m_work_def validate_payloads_def)

lemma restore_payloads_ok:
  assumes "wasm_limits (lp_guest lp)" "sized lp i" "validate_payloads lp (pi_shared_max i) shared local = Inr ()"
  shows "restore_payloads lp shared local i =
    ((restored i shared local)\<lparr>pi_committed_shared := shared, pi_committed_local := local\<rparr>, Inr ())"
  using assms(3) write_payloads_ok [OF assms(1,2)] by (simp add: restore_payloads_def andthen_def)

lemma recommitted:
  "pi_frame (i\<lparr>pi_committed_shared := s, pi_committed_local := l\<rparr>) = pi_frame i"
  "holds_images (i\<lparr>pi_committed_shared := s, pi_committed_local := l\<rparr>) s' l' = holds_images i s' l'"
  "sized lp i \<Longrightarrow> validate_payloads lp (pi_shared_max i) s l = Inr () \<Longrightarrow>
     sized lp (i\<lparr>pi_committed_shared := s, pi_committed_local := l\<rparr>)"
  by (simp_all add: pi_frame_def holds_images_def sized_def)

lemma restore_payloads_settled:
  assumes "wasm_limits (lp_guest lp)" "sized lp i" "restore_payloads lp shared local i = (i', Inr u)"
  shows "settled lp i'" "pi_frame i' = pi_frame i" "pi_committed_shared i' = shared" "pi_committed_local i' = local"
proof -
  have v: "validate_payloads lp (pi_shared_max i) shared local = Inr ()"
    using assms(3) unfolding restore_payloads_def by (auto elim!: andthen_cases)
  have i': "i' = (restored i shared local)\<lparr>pi_committed_shared := shared, pi_committed_local := local\<rparr>"
    using assms(3) restore_payloads_ok [OF assms(1,2) v] by simp
  show "settled lp i'" unfolding settled_def i'
    using recommitted(3) [OF restored_sized [OF assms(2)], of _ _ shared local] v
    by (simp add: recommitted restored_images)
  show "pi_frame i' = pi_frame i" "pi_committed_shared i' = shared" "pi_committed_local i' = local"
    by (simp_all add: i' recommitted)
qed

lemma write_state_payload_length:
  "write_state_payload k p m = (m', Inr u) \<Longrightarrow> length (state_memory_of (m_host m) k) = CANONICAL_STATE_MEMORY_BYTES
     \<and> (k = SharedMemory \<longrightarrow> hs_local (m_host m') = hs_local (m_host m))"
  by (cases k) (auto simp: write_state_payload_def Let_def split: if_splits sum.splits)

lemma restore_payloads_sizes:
  assumes "restore_payloads lp shared local (template lp m) = (i, Inr u)"
  shows "sized lp (template lp m)"
  using assms unfolding restore_payloads_def write_payloads_def template_sized
  by (auto elim!: andthen_cases simp: on_machine_def template_def split: prod.splits dest!: write_state_payload_length)

lemma finished_action:
  "(case p of (_, Inl e) \<Rightarrow> Inl e | (i, Inr _) \<Rightarrow> Inr i) = Inr j \<longleftrightarrow> p = (j, Inr ())" for p :: "'a \<times> ('e + unit)"
  by (cases p) (auto split: sum.splits)

lemma resident_ok:
  "resident lp shared local = Inr i \<longleftrightarrow>
     validate_payloads lp (lp_shared_max lp) shared local = Inr () \<and> (\<exists>m. prepare_instance lp CkDispatch LocalDispatch = Inr m
       \<and> unat (min_prepared_work_memory_bytes (lp_profile lp)) \<le> length (m_work m)
       \<and> length (m_work m) \<le> min (unat (max_memory_bytes (lp_profile lp))) (64 * 1024 * 1024)
       \<and> restore_payloads lp shared local (template lp m) = (i, Inr ()))"
  unfolding resident_def Let_def bind_res_ok if_Inl_ok not_less finished_action template_def [symmetric] ex_unit by blast

lemma resident_settled:
  assumes "wasm_limits (lp_guest lp)" "resident lp shared local = Inr i"
  shows "settled lp i" "pi_committed_shared i = shared" "pi_committed_local i = local" "pi_shared_max i = lp_shared_max lp"
proof -
  from assms(2) obtain m where m: "restore_payloads lp shared local (template lp m) = (i, Inr ())"
    unfolding resident_ok by blast
  note r = restore_payloads_settled [OF assms(1) restore_payloads_sizes [OF m] m]
  show "settled lp i" "pi_committed_shared i = shared" "pi_committed_local i = local" using r by auto
  show "pi_shared_max i = lp_shared_max lp" using r(2) by (simp add: pi_frame_def template_def)
qed

lemma resident_again:
  assumes "wasm_limits (lp_guest lp)" "resident lp shared0 local0 = Inr i0"
    "validate_payloads lp (lp_shared_max lp) shared local = Inr ()"
  shows "\<exists>j. resident lp shared local = Inr j \<and> pi_frame j = pi_frame i0"
proof -
  from assms(2) obtain m where m: "prepare_instance lp CkDispatch LocalDispatch = Inr m"
      "unat (min_prepared_work_memory_bytes (lp_profile lp)) \<le> length (m_work m)"
      "length (m_work m) \<le> min (unat (max_memory_bytes (lp_profile lp))) (64 * 1024 * 1024)"
      "restore_payloads lp shared0 local0 (template lp m) = (i0, Inr ())"
    unfolding resident_ok by blast
  have t: "sized lp (template lp m)" by (rule restore_payloads_sizes [OF m(4)])
  have "pi_shared_max (template lp m) = lp_shared_max lp" by (simp add: template_def)
  then obtain j where j: "restore_payloads lp shared local (template lp m) = (j, Inr ())"
    using restore_payloads_ok [OF assms(1) t] assms(3) by simp
  have "pi_frame j = pi_frame i0"
    using restore_payloads_settled(2) [OF assms(1) t j] restore_payloads_settled(2) [OF assms(1) t m(4)] by simp
  then show ?thesis using j m assms(3) unfolding resident_ok by blast
qed

section \<open>The owner of an instance\<close>

text \<open>The owner dispatches only without an open candidate; an accepted dispatch opens one, which is
  committed, discarded or replaced by durable payloads.\<close>

definition is_accepted :: "sandbox_error + dispatch_call_result \<Rightarrow> bool" where
  "is_accepted r = (case r of Inl _ \<Rightarrow> False | Inr res \<Rightarrow> dr_status res = Accepted)"

inductive owner_step :: "prims \<Rightarrow> loaded_program \<Rightarrow> program_instance \<times> bool \<Rightarrow> unit list \<Rightarrow> program_instance \<times> bool \<Rightarrow> bool"
  for P lp where
  own_dispatch: "instance_dispatch P lp c i = (i', r) \<Longrightarrow> owner_step P lp (i, False) [] (i', is_accepted r)"
| own_commit: "instance_commit lp i = (i', Inr ()) \<Longrightarrow> owner_step P lp (i, True) [] (i', False)"
| own_restore: "restore_committed lp i = (i', Inr ()) \<Longrightarrow> owner_step P lp (i, b) [] (i', False)"
| own_install: "restore_payloads lp shared local i = (i', Inr ()) \<Longrightarrow> owner_step P lp (i, b) [] (i', False)"

definition fresh_owner :: "loaded_program \<Rightarrow> program_instance \<times> bool \<Rightarrow> bool" where
  "fresh_owner lp s \<longleftrightarrow> \<not> snd s \<and> (\<exists>shared local. resident lp shared local = Inr (fst s))"

abbreviation owner_run :: "prims \<Rightarrow> loaded_program \<Rightarrow> program_instance \<times> bool \<Rightarrow> bool" where
  "owner_run P lp s \<equiv> run (fresh_owner lp) (owner_step P lp) s []"

definition owner_ok :: "loaded_program \<Rightarrow> program_instance \<times> bool \<Rightarrow> bool" where
  "owner_ok lp s \<longleftrightarrow> sized lp (fst s) \<and> (\<not> snd s \<longrightarrow> settled lp (fst s))
     \<and> (snd s \<longrightarrow> (\<exists>shared local. resident_payloads lp (fst s) = Inr (shared, local)))
     \<and> (\<exists>shared local i0. resident lp shared local = Inr i0 \<and> pi_frame (fst s) = pi_frame i0)"

lemma custody_accepted:
  assumes "custody lp i (i', r)" "is_accepted r"
  shows "sized lp i'" "\<exists>shared local. resident_payloads lp i' = Inr (shared, local)"
  using assms by (auto simp: custody_def is_accepted_def resident_payloads_ok split: sum.splits option.splits)

lemma custody_refused: "custody lp i (i', r) \<Longrightarrow> \<not> is_accepted r \<Longrightarrow> settled lp i'"
  by (auto simp: custody_def is_accepted_def split: sum.splits option.splits)

lemma custody_kept: "custody lp i (i', r) \<Longrightarrow> kept i i'"
  by (simp add: custody_def)

lemma instance_commit_ok:
  assumes "sized lp i" "instance_commit lp i = (i', Inr u)"
  shows "settled lp i'" "pi_frame i' = pi_frame i" "resident_payloads lp i = Inr (pi_committed_shared i', pi_committed_local i')"
proof -
  from assms(2) obtain s l where r: "resident_payloads lp i = Inr (s, l)"
    and i': "i' = i\<lparr>pi_committed_shared := s, pi_committed_local := l\<rparr>"
    by (cases "resident_payloads lp i") (auto simp: instance_commit_def andthen_def)
  show "settled lp i'" "pi_frame i' = pi_frame i"
    using r recommitted(3) [OF assms(1)] unfolding i' settled_def by (auto simp: resident_payloads_ok recommitted)
  show "resident_payloads lp i = Inr (pi_committed_shared i', pi_committed_local i')" by (simp add: r i')
qed

lemma settled_sized: "settled lp i \<Longrightarrow> sized lp i"
  by (simp add: settled_def)

lemma owner_ok_settled: "owner_ok lp (i, b) \<Longrightarrow> settled lp i' \<Longrightarrow> pi_frame i' = pi_frame i \<Longrightarrow> owner_ok lp (i', False)"
  unfolding owner_ok_def by (simp add: settled_sized)

lemma owner_step_ok:
  assumes "wasm_limits (lp_guest lp)" "owner_step P lp s es s'" "owner_ok lp s"
  shows "owner_ok lp s'"
  using assms(2)
proof cases
  case (own_dispatch c i i' r)
  have "settled lp i" using assms(3) own_dispatch by (simp add: owner_ok_def)
  from dispatch_custody [OF assms(1) this, of P c] have c: "custody lp i (i', r)" by (simp add: own_dispatch)
  show ?thesis
  proof (cases "is_accepted r")
    case True
    then show ?thesis
      using assms(3) custody_accepted [OF c] custody_kept [OF c] by (simp add: own_dispatch owner_ok_def kept_def)
  next
    case False
    then show ?thesis
      using owner_ok_settled assms(3) custody_refused [OF c] custody_kept [OF c] by (simp add: own_dispatch kept_def)
  qed
next
  case (own_commit i i')
  have "sized lp i" using assms(3) own_commit by (simp add: owner_ok_def)
  from instance_commit_ok [OF this own_commit(4)] show ?thesis
    using owner_ok_settled assms(3) own_commit by blast
next
  case (own_restore i i' b)
  have "sized lp i" using assms(3) own_restore by (simp add: owner_ok_def)
  from restore_committed_ok [OF assms(1) this] restored_settled [OF this] show ?thesis
    using owner_ok_settled [of lp i b] assms(3) own_restore by simp
next
  case (own_install shared local i i' b)
  have "sized lp i" using assms(3) own_install by (simp add: owner_ok_def)
  from restore_payloads_settled [OF assms(1) this own_install(4)] show ?thesis
    using owner_ok_settled assms(3) own_install by blast
qed

interpretation owner: run_invariant "fresh_owner lp" "owner_step P lp" "\<lambda>s _. wasm_limits (lp_guest lp) \<longrightarrow> owner_ok lp s"
  for P lp
proof
  show "wasm_limits (lp_guest lp) \<longrightarrow> owner_ok lp s" if "fresh_owner lp s" for s
    using that resident_settled settled_sized by (fastforce simp: fresh_owner_def owner_ok_def)
  show "wasm_limits (lp_guest lp) \<longrightarrow> owner_ok lp s'"
    if "wasm_limits (lp_guest lp) \<longrightarrow> owner_ok lp s" "owner_step P lp s es s'" for s es s'
    using that owner_step_ok by blast
qed

lemma owner_settled:
  assumes "wasm_limits (lp_guest lp)" "owner_run P lp (i, False)"
  shows "settled lp i" "\<exists>shared local i0. resident lp shared local = Inr i0 \<and> pi_frame i = pi_frame i0"
  using owner.holds [OF assms(2)] assms(1) by (auto simp: owner_ok_def)

section \<open>A sample program\<close>

text \<open>A guest with one page of work memory that answers every event with one status and no effect: its
  output is the empty envelope at address 0.\<close>

definition sample_guest :: wasm_guest where
  "sample_guest = \<lparr>wg_alloc = \<lambda>n. pure 1, wg_dealloc = \<lambda>p n. pure (), wg_export = \<lambda>name p n. pure 0,
     wg_grow = \<lambda>n. throw (MemoryLimitExceeded n), wg_prepare = pure 1,
     wg_link = \<lambda>h. Inr \<lparr>m_host = h\<lparr>hs_work := replicate 65536 0, hs_shared := state_image [], hs_local := state_image []\<rparr>,
                         m_globals = [7], m_memory_limit = 65536\<rparr>,
     wg_set_fuel = \<lambda>n. modify (\<lambda>m. m\<lparr>m_host := (m_host m)\<lparr>hs_fuel := n\<rparr>\<rparr>),
     wg_set_global = \<lambda>i v. modify (\<lambda>m. m\<lparr>m_globals := (m_globals m)[i := v]\<rparr>)\<rparr>"

definition sample_program :: "call_status \<Rightarrow> loaded_program" where
  "sample_program st = \<lparr>lp_guest = sample_guest,
     lp_read_output = \<lambda>bs. Inr \<lparr>do_status = st, do_reason = None, do_callout = None\<rparr>,
     lp_callout_inputs = [], lp_profile = current_profile\<lparr>min_prepared_work_memory_bytes := 0\<rparr>,
     lp_state_max_bytes = 64\<rparr>"

lemma sample_limits: "wasm_limits (lp_guest (sample_program st))"
  by (simp add: wasm_limits_def sample_program_def sample_guest_def keeps_def same_shape_def)

definition sample_machine :: machine where
  "sample_machine = \<lparr>m_host = (host_new (current_profile\<lparr>min_prepared_work_memory_bytes := 0\<rparr>) CkDispatch LocalDispatch)\<lparr>
     hs_work := replicate 65536 0, hs_shared := state_image [], hs_local := state_image []\<rparr>,
     m_globals = [7], m_memory_limit = 65536\<rparr>"

lemma sample_prepared: "prepare_instance (sample_program st) CkDispatch LocalDispatch = Inr sample_machine"
  by (simp add: prepare_instance_def sample_program_def sample_guest_def bind_res_def sample_machine_def host_new_def
      host_reset_after_prepare_def scope_new_def)

lemma length_empty_image [simp]: "length (state_image []) = CANONICAL_STATE_MEMORY_BYTES"
  by (rule length_state_image) simp

lemma sample_bounds [simp]:
  "lp_shared_max (sample_program st) = 64" "pi_local_max (sample_program st) = MAX_LOCAL_STATE_BYTES"
  by (simp_all add: lp_shared_max_def sample_program_def current_profile_def MAX_SHARED_STATE_BYTES_def pi_local_max_def
      MAX_LOCAL_STATE_BYTES_def)

lemma sample_resident:
  assumes "length (shared_as_bytes sh) \<le> 64"
  shows "\<exists>i. resident (sample_program st) sh lo = Inr i"
proof -
  have v: "validate_payloads (sample_program st) 64 sh lo = Inr ()"
    using assms local_as_bytes [of lo] by (simp add: validate_payloads_def)
  have t: "sized (sample_program st) (template (sample_program st) sample_machine)"
    by (simp add: template_sized sample_machine_def)
  have "pi_shared_max (template (sample_program st) sample_machine) = 64" by (simp add: template_def)
  then have "\<exists>i. restore_payloads (sample_program st) sh lo
      (template (sample_program st) sample_machine) = (i, Inr ())"
    using restore_payloads_ok [OF sample_limits t] v by simp
  moreover have "length (m_work sample_machine) = 65536" by (simp add: sample_machine_def m_work_def)
  moreover have "unat (min_prepared_work_memory_bytes (lp_profile (sample_program st))) = 0"
    "unat (max_memory_bytes (lp_profile (sample_program st))) = 67108864"
    by (simp_all add: sample_program_def current_profile_def)
  ultimately show ?thesis using v sample_prepared unfolding resident_ok by auto
qed

definition sample_call :: dispatch_call where
  "sample_call = dispatch_call_new (PeerId 3) (Ensemble [PeerId 3, PeerId 9]) (InputReceived 0 [])"

lemma sample_call_bytes: "\<exists>bs. call_bytes sample_prims (sample_program st) sample_call = Inr (bs, LocalDispatch) \<and> length bs \<le> 1000"
  by (simp add: call_bytes_def into_input_def encode_envelope_def sample_call_def dispatch_call_new_def to_vec_def bind_res_def
      map_err_def ensemble_value_def MAX_PARTICIPANTS_def MAX_EFFECT_PAYLOAD_BYTES_def sample_prims_def peer_value_def
      dispatch_input_value_def MAX_SESSION_CONTEXT_BYTES_def MAX_CALL_PAYLOAD_BYTES_def sample_program_def current_profile_def)

lemma sample_guest_simps [simp]:
  "wg_alloc sample_guest n m = (m, Inr 1)" "wg_dealloc sample_guest p n m = (m, Inr ())"
  "wg_export sample_guest name p n m = (m, Inr 0)"
  by (simp_all add: sample_guest_def)

text \<open>A call of the sample guest touches only work memory and the ledger.\<close>

lemma saturating_add_zero [simp]: "saturating_add 0 w = w" "saturating_add w 0 = w"
proof -
  have "unat w < 2 ^ 64" using unsigned_less [of w] by simp
  then show "saturating_add 0 w = w" "saturating_add w 0 = w" by (simp_all add: saturating_add_def checked_add_def)
qed

lemma charge_copy_ok:
  assumes "saturating_add (host_bytes (sc_ledger (hs_scope (m_host m)))) (word_of_nat n) = w" "w \<le> limit"
  shows "charge_copy n limit m = (m\<lparr>m_host := (m_host m)\<lparr>hs_scope := (hs_scope (m_host m))\<lparr>sc_ledger :=
    (sc_ledger (hs_scope (m_host m)))\<lparr>host_bytes := w\<rparr>\<rparr>\<rparr>\<rparr>, Inr ())"
  using assms by (simp add: charge_copy_def Let_def not_less)

lemma sample_export:
  assumes "length (m_work m) = 65536" "hs_profile (m_host m) = lp_profile (sample_program st)"
    "host_bytes (sc_ledger (hs_scope (m_host m))) = 0" "length bs \<le> 1000" "rd [] = Inr out"
  shows "\<exists>m' fuel. call_export sample_guest rd (lp_profile (sample_program st)) name bs m = (m', Inr (out, fuel))
    \<and> hs_shared (m_host m') = hs_shared (m_host m) \<and> hs_local (m_host m') = hs_local (m_host m)"
proof -
  let ?n = "word_of_nat (length bs)" and ?prof = "lp_profile (sample_program st)"
  have lim: "max_host_bytes ?prof = 33554432" "unat (max_memory_bytes ?prof) = 67108864"
    by (simp_all add: sample_program_def current_profile_def)
  have n: "(word_of_nat (length bs) :: u64) \<le> 33554432" "unat (?n :: u32) = length bs"
    using assms(4) by (simp_all add: word_le_nat_alt unat_of_nat)
  let ?m1 = "m\<lparr>m_host := (m_host m)\<lparr>hs_scope := (hs_scope (m_host m))\<lparr>sc_ledger :=
    (sc_ledger (hs_scope (m_host m)))\<lparr>host_bytes := word_of_nat (length bs)\<rparr>\<rparr>\<rparr>\<rparr>"
  let ?m2 = "set_work (copy_at 1 bs (m_work m)) ?m1"
  have w: "write_mem_charged sample_guest 1 bs (max_host_bytes ?prof) m = (?m2, Inr ())"
    using assms(1-4) n(1) charge_copy_ok [of m "length bs" "word_of_nat (length bs)" "max_host_bytes ?prof"] lim
    by (simp add: write_mem_charged_def write_mem_def Let_def m_work_def)
  have d: "decode_output sample_guest rd 0 0 (max_call_envelope_bytes ?prof) (max_host_bytes ?prof) ?m2 = (?m2, Inr out)"
    using n(1) lim(1) assms(5) charge_copy_ok [of ?m2 0 "word_of_nat (length bs)" "max_host_bytes ?prof"]
    by (simp add: decode_output_def read_mem_charged_def read_mem_def zero_mem_def copy_at_def set_work_def m_work_def map_err_def)
  have work: "zero_mem 1 ?n ?m2 = (set_work (copy_at 1 (replicate (length bs) 0) (copy_at 1 bs (m_work m))) ?m2, Inr ())"
    using assms(1,4) n(2) by (simp add: zero_mem_def set_work_def m_work_def)
  have a: "guest_alloc sample_guest ?n m = (m, Inr 1)" by (simp add: guest_alloc_def)
  have c: "call_pair_return sample_guest name 1 ?n ?m2 = (?m2, Inr (0, 0))" by (simp add: call_pair_return_def unpack_i64_def)
  have "\<not> 2 ^ 32 \<le> length bs" using assms(4) by simp
  then show ?thesis
    using a w c d work by (simp add: call_export_def Let_def) (simp add: set_work_def)
qed

lemma sample_answers:
  assumes "settled (sample_program st) i" "pi_frame i = pi_frame (template (sample_program st) sample_machine)"
    "call_bytes P (sample_program st) c = Inr (bs, kind)" "length bs \<le> 1000"
  shows "\<exists>i' r. instance_dispatch P (sample_program st) c i = (i', Inr r) \<and> dr_status r = st
    \<and> (st = Accepted \<longrightarrow> dr_images r = Some (pi_committed_shared i, pi_committed_local i))"
proof -
  let ?lp = "sample_program st"
  note i = settled_sized [OF assms(1)]
  let ?e = "entered ?lp kind (dc_outgoing_len c) i"
  let ?j = "?e\<lparr>pi_machine := (pi_machine ?e)\<lparr>m_host := install_call c (pi_host ?e)\<rparr>\<rparr>"
  have j: "sized ?lp ?j" using quiet_sized(1) [OF entered_sized(1) [OF i] host_quiets(2)] .
  have m: "length (m_work (pi_machine ?j)) = 65536" "hs_profile (pi_host ?j) = lp_profile ?lp"
      "host_bytes (sc_ledger (hs_scope (pi_host ?j))) = 0"
    using assms(2) by (simp_all add: pi_frame_def template_def sample_machine_def entered_def reset_machine_def install_call_def
        host_reset_for_dispatch_def m_work_def host_new_def sample_program_def scope_new_def ledger_new_def)
  let ?out = "\<lparr>do_status = st, do_reason = None, do_callout = None\<rparr>"
  have rd: "read_dispatch_output (lp_read_output ?lp) [] = Inr ?out"
    by (simp add: read_dispatch_output_def sample_program_def bind_res_def)
  from sample_export [OF m assms(4), of "read_dispatch_output (lp_read_output ?lp)", OF rd] obtain m' fuel
    where x: "call_export sample_guest (read_dispatch_output (lp_read_output ?lp)) (lp_profile ?lp) ''arena0_dispatch'' bs (pi_machine ?j)
        = (m', Inr (?out, fuel))" "hs_shared (m_host m') = hs_shared (pi_host ?j)" "hs_local (m_host m') = hs_local (pi_host ?j)"
    by blast
  let ?k = "?j\<lparr>pi_machine := m'\<rparr>"
  have g: "lp_guest ?lp = sample_guest" by (simp add: sample_program_def)
  have d: "instance_dispatch P ?lp c i = finish_dispatch ?lp ?out fuel ?k"
    unfolding instance_dispatch_eq [OF sample_limits i] assms(3)
    using x(1) by (simp add: run_entered_def andthen_def or_rollback_def on_machine_def g check_callout_def split: call_status.split)
  have "same_shape (pi_machine ?j) m'"
    using call_export_keeps_shape [OF sample_limits [of st]] x(1) unfolding keeps_def g by (metis fst_conv)
  then have k: "sized ?lp ?k" using sized_shape(1) [OF j] j by (simp add: same_shape_def sized_def)
  have "holds_images ?j (pi_committed_shared i) (pi_committed_local i)"
    using assms(1) unfolding settled_def on_host_quiet(2) [OF host_quiets(2)]
    by (simp add: entered_def holds_images_def reset_machine_def host_reset_for_dispatch_def)
  then have "holds_images ?k (pi_committed_shared i) (pi_committed_local i)" using x(2,3) by (simp add: holds_images_def)
  then have "resident_payloads ?lp (take_observations ?k) = Inr (pi_committed_shared i, pi_committed_local i)"
    using k unfolding resident_payloads_ok scope_quiet(2) by (simp add: sized_def entered_def)
  then show ?thesis
    unfolding d using rollback_ok [OF sample_limits k]
    by (cases st) (simp_all add: finish_dispatch_def andthen_def or_rollback_def Let_def)
qed

lemma sample_owner:
  assumes "length (shared_as_bytes sh) \<le> 64"
  shows "\<exists>i. owner_run P (sample_program st) (i, False) \<and> settled (sample_program st) i
     \<and> pi_frame i = pi_frame (template (sample_program st) sample_machine)
     \<and> pi_committed_shared i = sh \<and> pi_committed_local i = lo"
proof -
  obtain i where i: "resident (sample_program st) sh lo = Inr i" using sample_resident [OF assms] by blast
  have "restore_payloads (sample_program st) sh lo (template (sample_program st) sample_machine) = (i, Inr ())"
    using i sample_prepared unfolding resident_ok by auto
  from restore_payloads_settled(2) [OF sample_limits restore_payloads_sizes [OF this] this]
  have "pi_frame i = pi_frame (template (sample_program st) sample_machine)" .
  moreover have "owner_run P (sample_program st) (i, False)"
    using i by (intro run_init) (auto simp: fresh_owner_def)
  ultimately show ?thesis using resident_settled [OF sample_limits i] by blast
qed

lemma sample_run_answers:
  "\<exists>i i' r. owner_run sample_prims (sample_program st) (i, False)
     \<and> instance_dispatch sample_prims (sample_program st) sample_call i = (i', Inr r) \<and> dr_status r = st"
proof -
  obtain i where i: "owner_run sample_prims (sample_program st) (i, False)" "settled (sample_program st) i"
      "pi_frame i = pi_frame (template (sample_program st) sample_machine)"
    using sample_owner [of "SharedStateBytes []" st sample_prims] by auto
  moreover obtain bs where "call_bytes sample_prims (sample_program st) sample_call = Inr (bs, LocalDispatch)" "length bs \<le> 1000"
    using sample_call_bytes by blast
  ultimately show ?thesis using sample_answers by blast
qed

section \<open>Properties\<close>

text \<open>C23: keeping the Wasm instance between calls cannot be observed.  Whatever an owner did with it
  (dispatches that were accepted, rejected or trapped, commits, discards, installed payloads), the
  next dispatch returns what it returns on a fresh instance of the program built from the committed
  payloads: no work memory, global, fuel or observation of an earlier call reaches a later one.\<close>

theorem resident_like_fresh:
  assumes "wasm_limits (lp_guest lp)" "owner_run P lp (i, False)"
  shows "\<exists>j. resident lp (pi_committed_shared i) (pi_committed_local i) = Inr j
    \<and> snd (instance_dispatch P lp c i) = snd (instance_dispatch P lp c j)"
proof -
  note i = owner_settled [OF assms]
  then obtain s0 l0 i0 where i0: "resident lp s0 l0 = Inr i0" "pi_frame i = pi_frame i0" by blast
  have "pi_shared_max i = lp_shared_max lp"
    using i0(2) resident_settled(4) [OF assms(1) i0(1)] by (simp add: pi_frame_def)
  then have "validate_payloads lp (lp_shared_max lp) (pi_committed_shared i) (pi_committed_local i) = Inr ()"
    using i(1) by (simp add: settled_def sized_def)
  from resident_again [OF assms(1) i0(1) this] obtain j
    where j: "resident lp (pi_committed_shared i) (pi_committed_local i) = Inr j" "pi_frame j = pi_frame i0" by blast
  note r = resident_settled [OF assms(1) j(1)]
  have "entered lp kind n i = entered lp kind n j" for kind n
    using i(1) r j(2) i0(2) by (intro entered_eq) (simp_all add: same_checkpoint_def)
  then have "snd (instance_dispatch P lp c i) = snd (instance_dispatch P lp c j)"
    unfolding instance_dispatch_eq [OF assms(1) settled_sized [OF i(1)]] instance_dispatch_eq [OF assms(1) settled_sized [OF r(1)]]
    by (simp split: sum.split prod.split)
  with j(1) show ?thesis by blast
qed

text \<open>C24: a dispatch that traps, fails a host check or is rejected leaves no trace.  Both memories read
  back as the committed payloads and the checkpoint is unchanged; a rejection returns no image,
  effect or blob change; the rollback itself never fails.\<close>

theorem failed_dispatch_restores:
  assumes "wasm_limits (lp_guest lp)" "owner_run P lp (i, False)" "instance_dispatch P lp c i = (i', r)"
    "\<not> is_accepted r"
  shows "resident_payloads lp i' = Inr (pi_committed_shared i, pi_committed_local i)
    \<and> pi_committed_shared i' = pi_committed_shared i \<and> pi_committed_local i' = pi_committed_local i
    \<and> (\<forall>res. r = Inr res \<longrightarrow> dr_images res = None)
    \<and> (\<exists>j. restore_committed lp i' = (j, Inr ()) \<and> resident_payloads lp j = resident_payloads lp i')"
proof -
  note i = owner_settled(1) [OF assms(1,2)]
  have c: "custody lp i (i', r)" using dispatch_custody [OF assms(1) i, of P c] assms(3) by simp
  note s = custody_refused [OF c assms(4)]
  have k: "pi_committed_shared i' = pi_committed_shared i" "pi_committed_local i' = pi_committed_local i"
    using custody_kept [OF c] by (simp_all add: kept_def)
  have rd: "resident_payloads lp i' = Inr (pi_committed_shared i, pi_committed_local i)"
    using s k unfolding resident_payloads_ok settled_def sized_def by simp
  let ?j = "restored i' (pi_committed_shared i') (pi_committed_local i')"
  have "resident_payloads lp ?j = Inr (pi_committed_shared i, pi_committed_local i)"
    using s k restored_images [of i'] unfolding resident_payloads_ok settled_def sized_def by simp
  moreover have "dr_images res = None" if "r = Inr res" for res
    using c assms(4) that by (auto simp: custody_def is_accepted_def split: option.splits)
  ultimately show ?thesis using rd k restore_committed_ok [OF assms(1) settled_sized [OF s]] by auto
qed

text \<open>C25: an accepted dispatch leaves a candidate the owner can settle either way.  Committing succeeds
  and makes exactly the returned images the checkpoint; discarding succeeds and brings both memories
  back to the checkpoint before the dispatch.\<close>

theorem accepted_dispatch_settles:
  assumes "wasm_limits (lp_guest lp)" "owner_run P lp (i, False)" "instance_dispatch P lp c i = (i', Inr res)"
    "dr_status res = Accepted"
  shows "\<exists>shared local. dr_images res = Some (shared, local)
    \<and> (\<exists>j. instance_commit lp i' = (j, Inr ()) \<and> pi_committed_shared j = shared \<and> pi_committed_local j = local)
    \<and> (\<exists>j. restore_committed lp i' = (j, Inr ()) \<and> resident_payloads lp j = Inr (pi_committed_shared i, pi_committed_local i))"
proof -
  note i = owner_settled(1) [OF assms(1,2)]
  have c: "custody lp i (i', Inr res)" using dispatch_custody [OF assms(1) i, of P c] assms(3) by simp
  then obtain s l where im: "dr_images res = Some (s, l)" "resident_payloads lp i' = Inr (s, l)" "sized lp i'"
    using assms(4) by (auto simp: custody_def resident_payloads_ok split: option.splits)
  have "instance_commit lp i' = (i'\<lparr>pi_committed_shared := s, pi_committed_local := l\<rparr>, Inr ())"
    using im(2) by (simp add: instance_commit_def andthen_def)
  moreover have "resident_payloads lp (restored i' (pi_committed_shared i') (pi_committed_local i'))
      = Inr (pi_committed_shared i, pi_committed_local i)"
    using im(3) custody_kept [OF c] restored_images [of i'] unfolding resident_payloads_ok kept_def sized_def by simp
  ultimately show ?thesis using im(1) restore_committed_ok [OF assms(1) im(3)] by auto
qed

theorem resident_like_fresh_witness:
  "\<exists>i j. owner_run sample_prims (sample_program Accepted) (i, False)
     \<and> resident (sample_program Accepted) (pi_committed_shared i) (pi_committed_local i) = Inr j
     \<and> snd (instance_dispatch sample_prims (sample_program Accepted) sample_call i)
       = snd (instance_dispatch sample_prims (sample_program Accepted) sample_call j)"
  using resident_like_fresh [OF sample_limits] sample_run_answers [of Accepted] by blast

theorem failed_dispatch_restores_witness:
  "\<exists>i i' r. owner_run sample_prims (sample_program Rejected) (i, False)
     \<and> instance_dispatch sample_prims (sample_program Rejected) sample_call i = (i', Inr r)
     \<and> resident_payloads (sample_program Rejected) i' = Inr (pi_committed_shared i, pi_committed_local i)"
proof -
  obtain i i' r where r: "owner_run sample_prims (sample_program Rejected) (i, False)"
      "instance_dispatch sample_prims (sample_program Rejected) sample_call i = (i', Inr r)" "dr_status r = Rejected"
    using sample_run_answers by blast
  have "\<not> is_accepted (Inr r)" using r(3) by (simp add: is_accepted_def)
  from failed_dispatch_restores [OF sample_limits r(1,2) this] show ?thesis using r by blast
qed

theorem accepted_dispatch_settles_witness:
  "\<exists>i i' j r. owner_run sample_prims (sample_program Accepted) (i, False)
     \<and> instance_dispatch sample_prims (sample_program Accepted) sample_call i = (i', Inr r)
     \<and> instance_commit (sample_program Accepted) i' = (j, Inr ())"
proof -
  obtain i i' r where r: "owner_run sample_prims (sample_program Accepted) (i, False)"
      "instance_dispatch sample_prims (sample_program Accepted) sample_call i = (i', Inr r)" "dr_status r = Accepted"
    using sample_run_answers by blast
  from accepted_dispatch_settles [OF sample_limits r] show ?thesis using r by blast
qed

end
