(* ===== verification/Dispatch_Acceptance.thy ===== *)
theory Dispatch_Acceptance
  imports Effect_Queue Resident_Custody
begin

text \<open>
  The sandbox and the execution state together: the imports of
  \<open>arena0-sandbox/src/engine/imports\<close> check every effect when the guest emits it, so that
  \<open>ExecutionState::apply_dispatch\<close> never has to refuse the queue of a local handler.
\<close>

section \<open>The queue while the guest runs\<close>

definition direct_queued :: "host_state \<Rightarrow> peer_id \<Rightarrow> nat" where
  "direct_queued h p = (case map_of (sc_direct_queued (hs_scope h)) p of None \<Rightarrow> 0 | Some n \<Rightarrow> n)"

definition queue_ok :: "prims \<Rightarrow> host_state \<Rightarrow> bool" where
  "queue_ok P h \<longleftrightarrow> (let es = sc_effects (hs_scope h) in
     check_effect_budget P es = Inr ()
     \<and> (hs_dispatch h = LocalDispatch \<longrightarrow> filter is_lifecycle es = []
         \<and> hs_outgoing_len h + length (filter is_broadcast es) \<le> max (hs_outgoing_len h) MAX_OUTGOING_MESSAGES)
     \<and> (hs_dispatch h = AgreedDispatch \<longrightarrow> length (filter is_lifecycle es) \<le> 1 \<and> filter is_send_direct es = []
         \<and> (filter is_lifecycle es \<noteq> [] \<longrightarrow> filter is_set_timer es = []))
     \<and> (\<forall>p. filter (sends_to p) es \<noteq> [] \<longrightarrow>
           (\<exists>session. sc_session (hs_scope h) = Some session \<and> p \<in> set session) \<and> sc_peer_id (hs_scope h) \<noteq> Some p
           \<and> direct_queued h p + length (filter (sends_to p) es) \<le> MAX_DIRECT_QUEUE))"

text \<open>What no guest step changes.\<close>

definition host_installed ::
  "host_state \<Rightarrow> call_kind \<times> dispatch_kind \<times> nat \<times> (peer_id \<times> nat) list \<times> peer_id option \<times> peer_id list option" where
  "host_installed h = (hs_call_kind h, hs_dispatch h, hs_outgoing_len h, sc_direct_queued (hs_scope h),
     sc_peer_id (hs_scope h), sc_session (hs_scope h))"

lemma record_effect_success:
  assumes "record_effect P h e = Inr h'"
  shows "host_installed h' = host_installed h" "sc_effects (hs_scope h') = sc_effects (hs_scope h) @ [e]"
    "is_send_direct e \<Longrightarrow> hs_dispatch h = LocalDispatch" "is_lifecycle e \<Longrightarrow> hs_dispatch h = AgreedDispatch"
    "is_lifecycle e \<Longrightarrow> filter is_lifecycle (sc_effects (hs_scope h)) = []"
    "is_lifecycle e \<Longrightarrow> filter is_set_timer (sc_effects (hs_scope h)) = []"
    "is_set_timer e \<Longrightarrow> filter is_lifecycle (sc_effects (hs_scope h)) = []"
    "check_effect_budget P (sc_effects (hs_scope h) @ [e]) = Inr ()"
proof -
  from assms obtain h1 f where u: "update_ledger h f = Inr h1"
    and h': "h' = h1\<lparr>hs_scope := (hs_scope h1)\<lparr>sc_effects := sc_effects (hs_scope h) @ [e]\<rparr>\<rparr>"
    by (auto simp: record_effect_def Let_def if_Inl_ok elim!: bind_resE)
  from obs_fields [OF update_ledger_quiet [OF u]]
  show "host_installed h' = host_installed h" "sc_effects (hs_scope h') = sc_effects (hs_scope h) @ [e]"
    by (simp_all add: h' host_installed_def)
  show "is_send_direct e \<Longrightarrow> hs_dispatch h = LocalDispatch" "is_lifecycle e \<Longrightarrow> hs_dispatch h = AgreedDispatch"
    "is_lifecycle e \<Longrightarrow> filter is_lifecycle (sc_effects (hs_scope h)) = []"
    "is_lifecycle e \<Longrightarrow> filter is_set_timer (sc_effects (hs_scope h)) = []"
    "is_set_timer e \<Longrightarrow> filter is_lifecycle (sc_effects (hs_scope h)) = []"
    "check_effect_budget P (sc_effects (hs_scope h) @ [e]) = Inr ()"
    using assms by (auto simp: record_effect_def Let_def if_Inl_ok map_err_ok list_ex_iff filter_empty_conv elim!: bind_resE)
qed

lemma installed_fields:
  assumes "host_installed h' = host_installed h"
  shows "hs_dispatch h' = hs_dispatch h" "hs_outgoing_len h' = hs_outgoing_len h" "sc_peer_id (hs_scope h') = sc_peer_id (hs_scope h)"
    "sc_session (hs_scope h') = sc_session (hs_scope h)" "direct_queued h' = direct_queued h"
  using assms by (auto simp: host_installed_def direct_queued_def)

lemma obs_installed: "host_obs h' = host_obs h \<Longrightarrow> host_installed h' = host_installed h"
  by (simp add: host_installed_def obs_fields [of h' h])

lemma queue_ok_cong:
  assumes "host_installed h' = host_installed h" "sc_effects (hs_scope h') = sc_effects (hs_scope h)"
  shows "queue_ok P h' = queue_ok P h"
  unfolding queue_ok_def Let_def assms(2) installed_fields [OF assms(1)] ..

lemma effect_kinds:
  "is_lifecycle e \<Longrightarrow> \<not> is_broadcast e \<and> \<not> is_send_direct e \<and> \<not> is_set_timer e \<and> \<not> sends_to p e"
  "is_broadcast e \<Longrightarrow> \<not> is_send_direct e \<and> \<not> is_set_timer e \<and> \<not> sends_to p e"
  "is_set_timer e \<Longrightarrow> \<not> is_send_direct e \<and> \<not> sends_to p e"
  by (cases e; simp add: is_broadcast_def is_send_direct_def is_set_timer_def sends_to_def)+

lemma queue_ok_push:
  assumes ok: "queue_ok P h" and r: "record_effect P h e = Inr h'" and g: "emit_guard h e"
  shows "queue_ok P h'"
proof -
  note i = installed_fields [OF record_effect_success(1) [OF r]] and q = record_effect_success [OF r]
  have d: "direct_queued h p + length (filter (sends_to p) (sc_effects (hs_scope h))) < MAX_DIRECT_QUEUE
      \<and> (\<exists>session. sc_session (hs_scope h) = Some session \<and> p \<in> set session) \<and> sc_peer_id (hs_scope h) \<noteq> Some p"
    if "sends_to p e" for p
    using g that by (cases e) (auto simp: sends_to_def direct_queued_def)
  have b: "is_broadcast e \<Longrightarrow> hs_dispatch h = LocalDispatch \<Longrightarrow>
      hs_outgoing_len h + length (filter is_broadcast (sc_effects (hs_scope h))) < MAX_OUTGOING_MESSAGES"
    using g by (cases e) (auto simp: is_broadcast_def)
  let ?es = "sc_effects (hs_scope h)"
  note k = ok [unfolded queue_ok_def Let_def]
  have "filter is_lifecycle (?es @ [e]) = [] \<and> hs_outgoing_len h + length (filter is_broadcast (?es @ [e]))
      \<le> max (hs_outgoing_len h) MAX_OUTGOING_MESSAGES" if l: "hs_dispatch h = LocalDispatch"
    using k l q(4) b [OF _ l] by (cases "is_broadcast e") (auto simp: le_max_iff_disj)
  moreover have "length (filter is_lifecycle (?es @ [e])) \<le> 1 \<and> filter is_send_direct (?es @ [e]) = []
      \<and> (filter is_lifecycle (?es @ [e]) \<noteq> [] \<longrightarrow> filter is_set_timer (?es @ [e]) = [])"
    if a: "hs_dispatch h = AgreedDispatch"
    using k a q(3,5,6,7) effect_kinds(1) [of e] by auto
  moreover have "(\<exists>session. sc_session (hs_scope h) = Some session \<and> p \<in> set session) \<and> sc_peer_id (hs_scope h) \<noteq> Some p
      \<and> direct_queued h p + length (filter (sends_to p) (?es @ [e])) \<le> MAX_DIRECT_QUEUE"
    if "filter (sends_to p) (?es @ [e]) \<noteq> []" for p
    using k d [of p] that by (cases "sends_to p e") auto
  ultimately show ?thesis unfolding queue_ok_def Let_def i q(2) using q(8) by blast
qed

lemma stage_blob_fields [simp]:
  "host_installed (stage_blob h c) = host_installed h" "sc_effects (hs_scope (stage_blob h c)) = sc_effects (hs_scope h)"
  by (simp_all add: stage_blob_def host_installed_def)

lemma stages_fields:
  assumes "stages E h h'"
  shows "host_installed h' = host_installed h" "sc_effects (hs_scope h') = sc_effects (hs_scope h)"
  using assms by (auto elim!: stages.cases dest: obs_installed obs_fields(5))

lemma guest_step_queue:
  assumes "guest_step E h h'" "queue_ok (env_prims E) h"
  shows "queue_ok (env_prims E) h' \<and> host_installed h' = host_installed h"
  using guest_step_cases [OF assms(1)]
proof (elim disjE)
  assume o: "host_obs h' = host_obs h"
  show ?thesis using assms(2) unfolding queue_ok_cong [OF obs_installed [OF o] obs_fields(5) [OF o]] obs_installed [OF o] by simp
next
  assume "emits E h h'"
  then obtain h1 e where e: "host_obs h1 = host_obs h" "record_effect (env_prims E) h1 e = Inr h'" "emit_guard h e"
    unfolding emits_def by blast
  have "queue_ok (env_prims E) h1"
    using assms(2) unfolding queue_ok_cong [OF obs_installed [OF e(1)] obs_fields(5) [OF e(1)]] .
  moreover have "emit_guard h1 e" using e(3) unfolding emit_guard_obs [OF e(1)] .
  ultimately have "queue_ok (env_prims E) h'" using queue_ok_push e(2) by blast
  then show ?thesis using record_effect_success(1) [OF e(2)] unfolding obs_installed [OF e(1)] by simp
next
  assume s: "stages E h h'"
  show ?thesis using assms(2) unfolding queue_ok_cong [OF stages_fields [OF s]] stages_fields(1) [OF s] by simp
qed

text \<open>The runs of a handler, as an instance of the labelled runs.\<close>

abbreviation guest_run :: "host_env \<Rightarrow> host_state \<Rightarrow> host_state \<Rightarrow> bool" where
  "guest_run E h0 h \<equiv> run (\<lambda>h. h = h0) (\<lambda>h es h'. es = ([] :: unit list) \<and> guest_step E h h') h []"

definition queue_kept :: "host_env \<Rightarrow> host_state \<Rightarrow> host_state \<Rightarrow> bool" where
  "queue_kept E h h' \<longleftrightarrow> (queue_ok (env_prims E) h \<longrightarrow> queue_ok (env_prims E) h' \<and> host_installed h' = host_installed h)"

lemma queue_kept_order: "queue_kept E h h" "queue_kept E h h' \<Longrightarrow> queue_kept E h' h'' \<Longrightarrow> queue_kept E h h''"
  by (simp_all add: queue_kept_def)

interpretation guest: run_invariant "\<lambda>h. h = h0" "\<lambda>h es h'. es = ([] :: unit list) \<and> guest_step E h h'"
  "\<lambda>h _. queue_kept E h0 h" for E h0
proof
  show "queue_kept E h0 h" if "h = h0" for h using that by (simp add: queue_kept_order)
  show "queue_kept E h0 h'" if "queue_kept E h0 h" "es = [] \<and> guest_step E h h'" for h es h'
    using that guest_step_queue by (auto simp: queue_kept_def)
qed

lemma guest_run_queue: "guest_run E h h' \<Longrightarrow> queue_kept E h h'"
  by (rule guest.holds)

section \<open>A whole call\<close>

text \<open>The guest reaches the host only through its imports.\<close>

definition imports_only :: "host_env \<Rightarrow> wasm_guest \<Rightarrow> bool" where
  "imports_only E w \<longleftrightarrow>
     (\<forall>n m m' r. wg_alloc w n m = (m', Inr r) \<longrightarrow> guest_run E (m_host m) (m_host m'))
     \<and> (\<forall>p n m m' r. wg_dealloc w p n m = (m', Inr r) \<longrightarrow> guest_run E (m_host m) (m_host m'))
     \<and> (\<forall>name p n m m' r. wg_export w name p n m = (m', Inr r) \<longrightarrow> guest_run E (m_host m) (m_host m'))
     \<and> (\<forall>n m m' r. wg_grow w n m = (m', Inr r) \<longrightarrow> guest_run E (m_host m) (m_host m'))"

text \<open>A successful action leaves the queue well formed.\<close>

definition queues :: "host_env \<Rightarrow> (machine, sandbox_error, 'a) action \<Rightarrow> bool" where
  "queues E f \<longleftrightarrow> (\<forall>m m' x. f m = (m', Inr x) \<longrightarrow> queue_kept E (m_host m) (m_host m'))"

lemma queues_andthen: "queues E f \<Longrightarrow> (\<And>x. queues E (g x)) \<Longrightarrow> queues E (andthen f g)"
  unfolding queues_def by (blast elim: andthen_cases intro: queue_kept_order(2))

lemma queues_results: "queues E (pure x)" "queues E (throw e)" "queues E (lift_res r)"
  by (simp_all add: queues_def queue_kept_order)

lemma queues_obs: "(\<And>m m' x. f m = (m', Inr x) \<Longrightarrow> host_obs (m_host m') = host_obs (m_host m)) \<Longrightarrow> queues E f"
  unfolding queues_def queue_kept_def using queue_ok_cong [OF obs_installed obs_fields(5)] obs_installed by blast

lemma queues_memory: "queues E (read_mem p n)" "queues E (charge_copy k limit)" "queues E (zero_mem p n)"
  by (auto intro!: queues_obs simp: read_mem_def charge_copy_def zero_mem_def Let_def set_work_def host_obs_def split: if_splits)

lemma queues_guest:
  assumes "imports_only E w"
  shows "queues E (wg_alloc w n)" "queues E (wg_dealloc w p n)" "queues E (wg_export w name p n)" "queues E (wg_grow w k)"
  using assms unfolding queues_def imports_only_def by (fast intro: guest_run_queue)+

lemma queues_write:
  assumes "imports_only E w"
  shows "queues E (write_mem w offset bs)"
  unfolding queues_def
proof (intro allI impI)
  fix m m' and x :: unit
  assume w: "write_mem w offset bs m = (m', Inr x)"
  let ?n = "(unat offset + length bs - length (m_work m) + 65535) div 65536"
  have grow: "queues E (\<lambda>m. case wg_grow w ?n m of (m, Inl _) \<Rightarrow> (m, Inl (MemoryLimitExceeded (unat offset + length bs)))
      | (m, Inr _) \<Rightarrow> (m, Inr ()))"
    using queues_guest(4) [OF assms, of ?n] by (auto simp: queues_def split: prod.splits sum.splits)
  have set: "queues E (\<lambda>m. (set_work (copy_at (unat offset) bs (m_work m)) m, Inr ()))"
    by (rule queues_obs) (auto simp: set_work_def host_obs_def)
  have "queues E (andthen (if b then (\<lambda>m. case wg_grow w ?n m of (m, Inl _) \<Rightarrow> (m, Inl (MemoryLimitExceeded (unat offset + length bs)))
      | (m, Inr _) \<Rightarrow> (m, Inr ())) else pure ()) (\<lambda>_ m. (set_work (copy_at (unat offset) bs (m_work m)) m, Inr ())))" for b
    by (cases b) (simp_all add: queues_andthen grow set queues_results)
  then show "queue_kept E (m_host m) (m_host m')"
    using w unfolding write_mem_def Let_def queues_def by (auto split: if_split_asm)
qed

lemma call_export_queues:
  assumes "imports_only E w"
  shows "queues E (call_export w rd profile name bs)"
proof -
  have last: "queues E (\<lambda>m. (m, Inr (x m)))" for x :: "machine \<Rightarrow> 'a \<times> u64" by (auto simp: queues_def queue_kept_order)
  have alloc: "queues E (guest_alloc w n)" for n
    unfolding guest_alloc_def by (intro queues_andthen queues_guest assms) (simp add: queues_results)
  have wr: "queues E (write_mem_charged w p b n)" for p b n
    unfolding write_mem_charged_def by (intro queues_andthen queues_memory queues_write assms)
  have call: "queues E (call_pair_return w nm p n)" for nm p n
    unfolding call_pair_return_def by (intro queues_andthen queues_guest queues_results assms)
  have decode: "queues E (decode_output w rd p n a b)" for p n a b
    unfolding decode_output_def read_mem_charged_def
    by (cases "unat a < unat n") (auto intro!: queues_andthen queues_guest queues_results queues_memory assms)
  show ?thesis
  proof (cases "2 ^ 32 \<le> length bs")
    case False
    then show ?thesis unfolding call_export_def Let_def split_beta if_not_P [OF False]
      by (intro queues_andthen alloc wr call decode queues_memory queues_guest last assms)
  qed (simp add: call_export_def queues_results)
qed

section \<open>What an accepted call hands over\<close>

text \<open>The call \<open>dispatch_inner\<close> of \<open>arena0-node/src/execution/guest.rs\<close> builds for an event; only the events of
  local handlers come with blobs, the queue lengths and a signer.\<close>

definition dispatch_call_for ::
  "execution_state \<Rightarrow> ensemble \<Rightarrow> event \<Rightarrow> nat \<Rightarrow> guest_verifier \<Rightarrow> blob_view \<Rightarrow> guest_signer \<Rightarrow> bytes option \<Rightarrow> dispatch_call" where
  "dispatch_call_for s ens ev outgoing_len verifier blobs signer attachment =
     (let c = (dispatch_call_new (es_producer s) ens ev)\<lparr>dc_outgoing_len := outgoing_len, dc_verifier := Some verifier\<rparr>;
          c = (case ev of
                 InputReceived _ _ \<Rightarrow> c\<lparr>dc_blobs := Some blobs, dc_direct_queued := direct_queue_lens s, dc_signer := Some signer\<rparr>
               | TimerFired _ \<Rightarrow> c\<lparr>dc_blobs := Some blobs, dc_direct_queued := direct_queue_lens s, dc_signer := Some signer\<rparr>
               | DirectReceived _ _ _ \<Rightarrow> c\<lparr>dc_blobs := Some blobs, dc_direct_queued := direct_queue_lens s, dc_signer := Some signer\<rparr>
               | _ \<Rightarrow> c) in
      c\<lparr>dc_attachment := attachment\<rparr>)"

lemma queue_ok_fresh: "sc_effects (hs_scope h) = [] \<Longrightarrow> queue_ok P h"
  by (simp add: queue_ok_def check_effect_budget_ok effects_size_def MAX_EFFECTS_def MAX_EFFECT_BYTES_def)

lemma call_bytes_kind:
  "call_bytes P lp c = Inr (bs, kind) \<Longrightarrow> kind = (if is_agreed_event (dc_event c) then AgreedDispatch else LocalDispatch)"
  by (cases "dc_event c") (auto simp: call_bytes_def into_input_def if_Inl_ok is_agreed_event_def elim!: bind_resE)

lemma finish_effects:
  assumes "finish_dispatch lp out fuel k = (i', Inr res)" "dr_status res = Accepted"
  shows "dr_effects res = sc_effects (hs_scope (pi_host k))"
  using assms by (auto simp: finish_dispatch_def Let_def or_rollback_def elim!: andthen_cases split: if_splits prod.splits sum.splits)

lemma accepted_queue:
  assumes "wasm_limits (lp_guest lp)" "imports_only E (lp_guest lp)" "settled lp i"
    "instance_dispatch P lp c i = (i', Inr res)" "dr_status res = Accepted"
  shows "\<exists>h. queue_ok (env_prims E) h \<and> sc_effects (hs_scope h) = dr_effects res
    \<and> hs_dispatch h = (if is_agreed_event (dc_event c) then AgreedDispatch else LocalDispatch)
    \<and> hs_outgoing_len h = dc_outgoing_len c \<and> sc_direct_queued (hs_scope h) = dc_direct_queued c
    \<and> sc_peer_id (hs_scope h) = Some (dc_peer_id c) \<and> sc_session (hs_scope h) = Some (peers (dc_session c))"
proof -
  note i = settled_sized [OF assms(3)]
  obtain bs kind where bs: "call_bytes P lp c = Inr (bs, kind)"
    and run: "run_entered lp c bs (entered lp kind (dc_outgoing_len c) i) = (i', Inr res)"
    using assms(4) unfolding instance_dispatch_eq [OF assms(1) i] by (auto split: sum.splits)
  let ?e = "entered lp kind (dc_outgoing_len c) i"
  let ?h = "install_call c (pi_host ?e)"
  from run obtain m out fuel where call: "call_export (lp_guest lp) (read_dispatch_output (lp_read_output lp)) (lp_profile lp)
        ''arena0_dispatch'' bs ((pi_machine ?e)\<lparr>m_host := ?h\<rparr>) = (m, Inr (out, fuel))"
      "finish_dispatch lp out fuel (?e\<lparr>pi_machine := m\<rparr>) = (i', Inr res)"
    unfolding run_entered_def
    by (auto elim!: andthen_cases simp: or_rollback_def on_machine_def split: prod.splits sum.splits)
  have h: "hs_dispatch ?h = kind" "hs_outgoing_len ?h = dc_outgoing_len c" "sc_effects (hs_scope ?h) = []"
    "sc_direct_queued (hs_scope ?h) = dc_direct_queued c" "sc_peer_id (hs_scope ?h) = Some (dc_peer_id c)"
    "sc_session (hs_scope ?h) = Some (peers (dc_session c))"
    by (simp_all add: install_call_def entered_def reset_machine_def host_reset_for_dispatch_def scope_new_def)
  have "queue_kept E ?h (m_host m)"
    using call_export_queues [OF assms(2)] call(1) unfolding queues_def by fastforce
  then have q: "queue_ok (env_prims E) (m_host m)" "host_installed (m_host m) = host_installed ?h"
    using queue_ok_fresh [OF h(3)] by (auto simp: queue_kept_def)
  have "sc_effects (hs_scope (m_host m)) = dr_effects res" using finish_effects [OF call(2) assms(5)] by simp
  then show ?thesis
    using q h call_bytes_kind [OF bs] by (intro exI [of _ "m_host m"]) (auto simp: host_installed_def)
qed

section \<open>The execution state takes the queue\<close>

lemma append_broadcasts_total:
  assumes "length out + length (filter is_broadcast es) \<le> MAX_OUTGOING_MESSAGES"
  shows "\<exists>out'. append_broadcasts out es = Inr out' \<and> length out' \<le> MAX_OUTGOING_MESSAGES
    \<and> set out' \<subseteq> set out \<union> {m. Broadcast m \<in> set es}"
  using assms
proof (induction es arbitrary: out)
  case (Cons e es)
  show ?case
  proof (cases e)
    case (Broadcast m)
    then show ?thesis using Cons.prems Cons.IH [of "out @ [m]"] by (auto simp: is_broadcast_def)
  qed (use Cons in \<open>auto simp: is_broadcast_def\<close>)
qed simp

definition lane_in :: "(peer_id \<times> direct_lane) list \<Rightarrow> peer_id \<Rightarrow> direct_lane" where
  "lane_in d p = (case map_of d p of None \<Rightarrow> default_lane | Some lane \<Rightarrow> lane)"

lemma queue_directs_total:
  assumes "bmap_ok d"
    "\<And>p. filter (sends_to p) es \<noteq> [] \<Longrightarrow> p \<noteq> es_producer s \<and> is_participant (es_binding s) p"
    "\<And>p. filter (sends_to p) es \<noteq> [] \<Longrightarrow> length (lane_queue (lane_in d p)) + length (filter (sends_to p) es) \<le> MAX_DIRECT_QUEUE"
    "\<And>p. unat (last_queued (lane_in d p)) + length (filter (sends_to p) es) < 2 ^ 64"
  shows "\<exists>d'. queue_directs s d es = Inr d'"
  using assms
proof (induction es arbitrary: d)
  case (Cons e es)
  show ?case
  proof (cases e)
    case (SendDirect to msg rng)
    have to: "sends_to to e" by (simp add: SendDirect sends_to_def)
    let ?lane = "lane_in d to"
    obtain seq where seq: "checked_add (last_queued ?lane) 1 = Some seq" "unat seq = unat (last_queued ?lane) + 1"
      using Cons.prems(4) [of to] to
      by (cases "checked_add (last_queued ?lane) 1") (auto simp: checked_add_None dest: checked_add_unat)
    let ?new = "?lane\<lparr>last_queued := seq, lane_queue := lane_queue ?lane @ [\<lparr>de_seq = seq, de_msg = msg, de_range = rng\<rparr>]\<rparr>"
    let ?d = "bmap_insert to ?new d"
    have q: "queue_direct s to msg rng d = Inr ?d"
      using Cons.prems(2,3) [of to] to seq(1)
      by (auto simp: queue_direct_def Let_def lane_in_def bind_res_def ok_or_def)
    have lane: "lane_in ?d p = (if p = to then ?new else lane_in d p)" for p
      by (simp add: lane_in_def bmap_lookup_insert [OF Cons.prems(1)])
    have "\<exists>d'. queue_directs s ?d es = Inr d'"
    proof (rule Cons.IH)
      show "bmap_ok ?d" using Cons.prems(1) by (rule bmap_insert_sorted)
      fix p
      show "unat (last_queued (lane_in ?d p)) + length (filter (sends_to p) es) < 2 ^ 64"
        using Cons.prems(4) [of p] to seq(2) by (auto simp: lane split: if_splits)
      assume "filter (sends_to p) es \<noteq> []"
      then have ne: "filter (sends_to p) (e # es) \<noteq> []" by auto
      from Cons.prems(2) [OF this] show "p \<noteq> es_producer s \<and> is_participant (es_binding s) p" .
      from Cons.prems(3) [OF ne] show "length (lane_queue (lane_in ?d p)) + length (filter (sends_to p) es) \<le> MAX_DIRECT_QUEUE"
        using to by (auto simp: lane split: if_splits)
    qed
    then show ?thesis using q by (auto simp: SendDirect bind_res_def)
  qed (use Cons in \<open>auto simp: sends_to_def\<close>)
qed simp

lemma direct_queue_lens_lookup:
  assumes "bmap_ok (es_direct s)"
  shows "(case map_of (direct_queue_lens s) p of None \<Rightarrow> 0 | Some n \<Rightarrow> n) = length (lane_queue (lane_in (es_direct s) p))"
proof -
  have "distinct (map fst d) \<Longrightarrow>
      (case map_of (map (\<lambda>(p, lane). (p, length (lane_queue lane))) (filter (\<lambda>(_, lane). lane_queue lane \<noteq> []) d)) p of
         None \<Rightarrow> 0 | Some n \<Rightarrow> n) = length (lane_queue (lane_in d p))" for d
  proof (induction d)
    case (Cons x d)
    obtain q lane where x: "x = (q, lane)" by (cases x)
    have "map_of d q = None" using Cons.prems by (simp add: x map_of_eq_None_iff)
    then have "lane_queue (lane_in d q) = []" by (simp add: lane_in_def default_lane_def)
    with Cons show ?case by (auto simp: x lane_in_def)
  qed (simp add: lane_in_def default_lane_def)
  moreover have "distinct (map fst (es_direct s))" using assms by (rule bmap.entries_distinct)
  ultimately show ?thesis unfolding direct_queue_lens_def by blast
qed

text \<open>No counter of the state is about to overflow.\<close>

definition counters_free :: "execution_state \<Rightarrow> bool" where
  "counters_free s \<longleftrightarrow> unat (version_get (es_version s)) + 1 < 2 ^ 64 \<and> unat (es_event_position s) + 1 < 2 ^ 64
     \<and> (\<forall>p. unat (last_queued (lane_in (es_direct s) p)) + MAX_DIRECT_QUEUE < 2 ^ 64)"

lemma checked_succ: "unat w + 1 < 2 ^ 64 \<Longrightarrow> \<exists>v. checked_add w 1 = Some v" for w :: u64
  by (simp add: checked_add_def)

lemma indexed_total: "length es \<le> MAX_EFFECTS \<Longrightarrow> \<exists>ix. indexed_dispatch_effects es = Inr ix"
proof -
  have total: "(\<And>x. x \<in> set xs \<Longrightarrow> \<exists>y. f x = Inr y) \<Longrightarrow> \<exists>ys. collect_res f xs = Inr ys" for f :: "'a \<Rightarrow> 'e + 'b" and xs
    by (induction xs) (auto simp: bind_res_def, metis old.sum.simps(6))
  assume "length es \<le> MAX_EFFECTS"
  then have "i < 2 ^ 32" if "(i, e) \<in> set (enumerate 0 es)" for i e
    using that by (simp add: in_set_enumerate_eq MAX_EFFECTS_def)
  then show ?thesis unfolding indexed_dispatch_effects_def by (intro total) auto
qed

lemma apply_dispatch_local_total:
  assumes "state_ok P s" "es_status s = Active" "es_proposal s = None" "counters_free s" "\<not> is_agreed_event ev"
    "validate_callout_dispatch s ev pending = Inr ()" "of_shared P shared = es_agreed_state s"
    "check_effect_budget P es = Inr ()" "filter is_lifecycle es = []"
    "length (es_outgoing s) + length (filter is_broadcast es) \<le> MAX_OUTGOING_MESSAGES"
    "\<And>p. filter (sends_to p) es \<noteq> [] \<Longrightarrow> p \<noteq> es_producer s \<and> is_participant (es_binding s) p
       \<and> length (lane_queue (lane_in (es_direct s) p)) + length (filter (sends_to p) es) \<le> MAX_DIRECT_QUEUE"
  shows "\<exists>s'. apply_dispatch P s ev shared local es None pending callout = Inr (s', None)"
proof -
  obtain ix where ix: "indexed_dispatch_effects es = Inr ix"
    using indexed_total assms(8) by (auto simp: check_effect_budget_ok)
  obtain out where out: "append_broadcasts (es_outgoing s) es = Inr out" "length out \<le> MAX_OUTGOING_MESSAGES"
      "set out \<subseteq> set (es_outgoing s) \<union> {m. Broadcast m \<in> set es}"
    using append_broadcasts_total [OF assms(10)] by blast
  have "length m \<le> MAX_EFFECT_PAYLOAD_BYTES" if "Broadcast m \<in> set es" for m
    using assms(8) that by (force simp: check_effect_budget_ok effect_ok_def)
  then have vo: "validate_outgoing out = Inr ()"
    using out assms(1) by (auto simp: validate_outgoing_ok state_ok_def)
  have "\<exists>d'. queue_directs s (es_direct s) es = Inr d'"
  proof (rule queue_directs_total)
    show "bmap_ok (es_direct s)" using assms(1) by (simp add: state_ok_def lanes_ok_def)
    fix p
    have "length (filter (sends_to p) es) \<le> MAX_DIRECT_QUEUE"
      using assms(11) [of p] by (cases "filter (sends_to p) es = []") auto
    then show "unat (last_queued (lane_in (es_direct s) p)) + length (filter (sends_to p) es) < 2 ^ 64"
      using assms(4) unfolding counters_free_def by (meson add_left_mono le_less_trans)
  qed (use assms(11) in auto)
  then obtain d where d: "queue_directs s (es_direct s) es = Inr d" by blast
  obtain v n where vn: "checked_add (version_get (es_version s)) 1 = Some v" "checked_add (es_event_position s) 1 = Some n"
    using assms(4) checked_succ unfolding counters_free_def by blast
  have "single_lifecycle_effect es = Inr None" by (simp add: single_lifecycle_effect_def assms(9))
  then show ?thesis
    using assms(2,3,5-8) ix out(1) vo d vn
    by (simp add: apply_dispatch_def apply_local_def Let_def install_dispatch_def bump_version_def next_version_def
        version_next_def bind_res_def ok_or_def)
qed

section \<open>Properties\<close>


text \<open>A timer of the sample session, handled by the sample program.\<close>

definition sample_env :: host_env where
  "sample_env = \<lparr>env_prims = sample_prims, env_max_subtree_len = \<lambda>_. None, env_subtree_cv = \<lambda>_ _. [],
     env_merge_cv = \<lambda>_ _ _. [], env_chacha = \<lambda>_ _. 0, env_read_range = \<lambda>_. Inl ''no range''\<rparr>"

lemma sample_imports: "imports_only sample_env (lp_guest (sample_program st))"
proof -
  have r: "guest_run sample_env h h" for h by (rule run_init) simp
  show ?thesis unfolding imports_only_def sample_program_def by (auto simp: sample_guest_def intro: r)
qed

definition sample_timer :: event where
  "sample_timer = TimerFired \<lparr>type_name = [], timer_data = []\<rparr>"

lemma sample_timer_bytes:
  assumes "length (peers ens) = 2"
  shows "\<exists>bs. call_bytes sample_prims (sample_program st) (dispatch_call_for s ens sample_timer n v b sg att) = Inr (bs, LocalDispatch)
    \<and> length bs \<le> 1000"
proof -
  obtain p q where "peers ens = [p, q]" using assms by (auto simp: numeral_2_eq_2 length_Suc_conv)
  then show ?thesis
    by (simp add: call_bytes_def into_input_def encode_envelope_def dispatch_call_for_def dispatch_call_new_def to_vec_def
        ensemble_value_def MAX_PARTICIPANTS_def sample_prims_def peer_value_def sample_timer_def timer_value_def
        map_err_def dispatch_input_value_def MAX_SESSION_CONTEXT_BYTES_def MAX_CALL_PAYLOAD_BYTES_def sample_program_def
        current_profile_def)
qed

lemma sample_active:
  "\<exists>s. reachable sample_prims s [] \<and> sample_fresh (PeerId 9) s \<and> es_status s = Active \<and> counters_free s"
proof -
  obtain s0 where s0: "state_new sample_prims (ExecId 1) sample_activation (PeerId 9) sample_shared sample_local = Inr s0"
      "sample_fresh (PeerId 9) s0" "es_status s0 = Activating" "es_version s0 = ExecutionVersion 0"
    using sample_new by blast
  obtain s where s: "activate s0 = Inr s" "sample_fresh (PeerId 9) s" "es_status s = Active" "es_version s = ExecutionVersion 1"
    using sample_activate [OF s0(2-4)] by blast
  have "es_direct s0 = []" using s0(1) by (auto simp: state_new_def genesis_def Let_def if_Inl_ok elim!: bind_resE)
  then have "es_direct s = []" using s(1) by (auto simp: activate_def bump_version_ok split: if_splits)
  then have "counters_free s"
    using s(2,4) by (simp add: counters_free_def sample_fresh_def lane_in_def default_lane_def MAX_DIRECT_QUEUE_def)
  moreover have "initial sample_prims s0" using s0(1) unfolding initial_def by blast
  then have "reachable sample_prims s0 []" by (rule run_init)
  from run_step [OF this step_activate [OF s(1)]] have "reachable sample_prims s []" by simp
  ultimately show ?thesis using s by blast
qed


end
