(* ===== verification/Spec2Isabelle.thy ===== *)
theory Spec2Isabelle
  imports Agreement Durable_Size Change_Log Store_Codec Dispatch_Acceptance
begin

text \<open>
  Verification library for arena0, a system in which several agents co-execute one
  deterministic program and agree, N-of-N, on every shared step.

  \<^item> \<open>Prelude\<close>: machine types, fallible results, little-endian integers, lists.
  \<^item> \<open>Session\<close>: \<open>arena0-protocol/src/session.rs\<close>, participant indices and ensembles.
\<close>

end
